(* ===== verification/PGCon_Prelude.thy ===== *)
theory PGCon_Prelude
  imports Main "HOL-Library.Word" "HOL-Library.Monad_Syntax"
begin

text \<open>
  Shared vocabulary of the development: the C integer types, single-bit masks
  (\<open>1 << n\<close>), little-endian encodings, and the generic lemmas on words, lists and
  option-valued loops that the component theories use.  The collection
  \<open>c_defs\<close> gathers the definitions that a component wants unfolded when a concrete
  input is evaluated; \<open>bits\<close> gathers the single-bit lemmas.
\<close>

unbundle bit_operations_syntax

named_theorems c_defs \<open>definitions to unfold when evaluating the model on a concrete input\<close>
named_theorems bits \<open>lemmas on testing, setting and clearing one bit of a register\<close>

type_synonym u8 = "8 word"
type_synonym u16 = "16 word"
type_synonym u32 = "32 word"
type_synonym s16 = int

text \<open>Threading a state through pairs: \<open>let (x, s') = f s in ...\<close> in terms of \<open>fst\<close> and \<open>snd\<close>.\<close>

lemmas pair_simps = Let_def case_prod_beta'

section \<open>Single-bit masks\<close>

text \<open>\<open>bv n\<close> is the C expression \<open>1 << n\<close> at the width of its context.\<close>

definition bv :: "nat \<Rightarrow> 'a::len word" where
  "bv n = push_bit n 1"

lemma bit_bv [bits]: "bit (bv n :: 'a::len word) m \<longleftrightarrow> m = n \<and> n < LENGTH('a)"
  by (auto simp: bv_def bit_exp_iff possible_bit_def)

text \<open>The C test \<open>(w & (1 << n)) ? true : false\<close>.\<close>

definition tst :: "'a::len word \<Rightarrow> nat \<Rightarrow> bool" where
  "tst w n \<longleftrightarrow> w AND bv n \<noteq> 0"

lemma tst_bit [bits]: "tst w n \<longleftrightarrow> bit w n"
proof
  assume "tst w n"
  then obtain m where "bit (w AND bv n) m"
    unfolding tst_def using bit_eqI [of "w AND bv n" 0] by auto
  then show "bit w n" by (auto simp: bit_and_iff bit_bv)
next
  assume "bit w n"
  then have "bit (w AND bv n) n"
    by (auto simp: bit_and_iff bit_bv dest: bit_imp_le_length)
  then show "tst w n" unfolding tst_def by auto
qed

lemma and_bv_0 [bits]: "w AND bv n = 0 \<longleftrightarrow> \<not> bit w n"
  using tst_bit [of w n] by (auto simp: tst_def)

lemma bit_set_bv [bits]:
  "bit (w OR bv n :: 'a::len word) m \<longleftrightarrow> bit w m \<or> (m = n \<and> n < LENGTH('a))"
  by (simp add: bit_or_iff bit_bv)

lemma bit_clear_bv [bits]:
  "bit (w AND NOT (bv n) :: 'a::len word) m \<longleftrightarrow> bit w m \<and> m \<noteq> n"
  by (auto simp: bit_and_iff bit_not_iff bit_bv dest: bit_imp_le_length)

lemma bit_clear_bv2 [bits]:
  "bit (w AND NOT (bv n OR bv k) :: 'a::len word) m \<longleftrightarrow> bit w m \<and> m \<noteq> n \<and> m \<noteq> k"
  by (auto simp: bit_and_iff bit_not_iff bit_or_iff bit_bv dest: bit_imp_le_length)

lemma bv_0 [c_defs]: "bv 0 = (1 :: 'a::len word)"
  by (simp add: bv_def)

lemma bv_Suc_0 [c_defs]: "bv (Suc 0) = (2 :: 'a::len word)"
  by (simp add: bv_def)

lemma bv_numeral [c_defs]: "bv (numeral k) = (2 ^ numeral k :: 'a::len word)"
  by (simp add: bv_def)

lemmas bv_eval = bv_0 bv_Suc_0 bv_numeral

lemma unat_of_nat_small: "n < 2 ^ LENGTH('a) \<Longrightarrow> unat (of_nat n :: 'a::len word) = n"
  by (simp add: unsigned_of_nat take_bit_nat_eq_self)

section \<open>Counting up to a bound\<close>

text \<open>A \<open>for\<close> loop over an unsigned counter makes progress as long as the bound is not passed.\<close>

lemma unat_Suc_less: "(n :: 'a::len word) < m \<Longrightarrow> unat (n + 1) = Suc (unat n)"
proof -
  assume "n < m"
  then have "unat n < unat m" by (simp add: word_less_nat_alt)
  moreover have "unat m < 2 ^ LENGTH('a)" by (rule unsigned_less)
  ultimately have "unat n + 1 < 2 ^ LENGTH('a)" by linarith
  then show ?thesis by (simp add: unat_word_ariths(1))
qed

lemma count_up_measure: "(n :: 'a::len word) < m \<Longrightarrow> unat m - unat (n + 1) < unat m - unat n"
  by (simp add: unat_Suc_less word_less_nat_alt)

section \<open>Little-endian encodings\<close>

text \<open>
  The AVR is little endian: the bytes of a \<open>uint16_t\<close> or \<open>uint32_t\<close> in memory, and the
  value that a byte sequence denotes.
\<close>

definition le16 :: "u16 \<Rightarrow> u8 list" where
  "le16 w = [ucast w, ucast (drop_bit 8 w)]"

definition le32 :: "u32 \<Rightarrow> u8 list" where
  "le32 w = [ucast w, ucast (drop_bit 8 w), ucast (drop_bit 16 w), ucast (drop_bit 24 w)]"

definition u16_of :: "u8 \<Rightarrow> u8 \<Rightarrow> u16" where
  "u16_of lo hi = push_bit 8 (ucast hi) OR ucast lo"

definition u32_of :: "u8 \<Rightarrow> u8 \<Rightarrow> u8 \<Rightarrow> u8 \<Rightarrow> u32" where
  "u32_of b0 b1 b2 b3 =
     push_bit 24 (ucast b3) OR push_bit 16 (ucast b2) OR push_bit 8 (ucast b1) OR ucast b0"

lemma length_le16 [simp]: "length (le16 w) = 2"
  by (simp add: le16_def)

lemma length_le32 [simp]: "length (le32 w) = 4"
  by (simp add: le32_def)

lemma u16_of_le16: "u16_of (ucast w) (ucast (drop_bit 8 w)) = w"
  by (rule bit_word_eqI)
    (auto simp: u16_of_def bit_or_iff bit_push_bit_iff bit_ucast_iff bit_drop_bit_eq)

lemma le16_u16_of: "le16 (u16_of lo hi) = [lo, hi]"
proof -
  have "ucast (u16_of lo hi) = lo"
    by (rule bit_word_eqI)
      (auto simp: u16_of_def bit_or_iff bit_push_bit_iff bit_ucast_iff)
  moreover have "ucast (drop_bit 8 (u16_of lo hi)) = hi"
    by (rule bit_word_eqI)
      (auto simp: u16_of_def bit_or_iff bit_push_bit_iff bit_ucast_iff bit_drop_bit_eq
            dest: bit_imp_le_length)
  ultimately show ?thesis by (simp add: le16_def)
qed

lemma u32_of_le32:
  "u32_of (ucast w) (ucast (drop_bit 8 w)) (ucast (drop_bit 16 w)) (ucast (drop_bit 24 w)) = w"
proof (rule bit_word_eqI)
  fix n
  assume "n < LENGTH(32)"
  then have "n < 8 \<or> (8 \<le> n \<and> n < 16) \<or> (16 \<le> n \<and> n < 24) \<or> (24 \<le> n \<and> n < 32)"
    by auto
  then show "bit (u32_of (ucast w) (ucast (drop_bit 8 w)) (ucast (drop_bit 16 w))
      (ucast (drop_bit 24 w))) n = bit w n"
    by (elim disjE) (simp_all add: u32_of_def bit_or_iff bit_push_bit_iff bit_ucast_iff bit_drop_bit_eq, auto)
qed

section \<open>Partial correctness\<close>

text \<open>
  \<open>returns x P\<close>: whatever the option-valued computation \<open>x\<close> returns satisfies \<open>P\<close>.  The
  rules follow the structure of a \<open>do\<close> block.
\<close>

definition returns :: "'a option \<Rightarrow> ('a \<Rightarrow> bool) \<Rightarrow> bool" where
  "returns x P \<longleftrightarrow> (\<forall>y. x = Some y \<longrightarrow> P y)"

lemma returns_Some [simp]: "returns (Some y) P \<longleftrightarrow> P y"
  by (simp add: returns_def)

lemma returns_None [simp]: "returns None P"
  by (simp add: returns_def)

lemma returns_bind:
  "returns x Q \<Longrightarrow> (\<And>y. Q y \<Longrightarrow> returns (f y) P) \<Longrightarrow> returns (x \<bind> f) P"
  by (cases x) simp_all

lemma returns_if:
  "(b \<Longrightarrow> returns x P) \<Longrightarrow> (\<not> b \<Longrightarrow> returns y P) \<Longrightarrow> returns (if b then x else y) P"
  by simp

lemma returns_map_option [simp]: "returns (map_option f x) P \<longleftrightarrow> returns x (\<lambda>y. P (f y))"
  by (cases x) simp_all

lemma returns_mono: "returns x Q \<Longrightarrow> (\<And>y. Q y \<Longrightarrow> P y) \<Longrightarrow> returns x P"
  by (simp add: returns_def)

lemma returnsI: "(\<And>y. x = Some y \<Longrightarrow> P y) \<Longrightarrow> returns x P"
  by (simp add: returns_def)

lemma returnsD: "returns x P \<Longrightarrow> x = Some y \<Longrightarrow> P y"
  by (simp add: returns_def)

section \<open>Loops\<close>

text \<open>
  A C loop that may not terminate: the body gets the loop variables and either goes on to
  the next iteration with new values (\<open>continue\<close>) or leaves the loop with a result
  (\<open>leave\<close>).  A loop that never leaves is \<open>None\<close>.
\<close>

abbreviation continue :: "'s \<Rightarrow> ('s + 'r) option" where
  "continue s \<equiv> Some (Inl s)"

abbreviation leave :: "'r \<Rightarrow> ('s + 'r) option" where
  "leave r \<equiv> Some (Inr r)"

partial_function (option) loop :: "('s \<Rightarrow> ('s + 'r) option) \<Rightarrow> 's \<Rightarrow> 'r option" where
  "loop body s = do { x \<leftarrow> body s; case x of Inl s' \<Rightarrow> loop body s' | Inr r \<Rightarrow> Some r }"

declare loop.simps [code]

lemma loop_leave: "body s = leave r \<Longrightarrow> loop body s = Some r"
  by (subst loop.simps) simp

lemma loop_continue: "body s = continue s' \<Longrightarrow> loop body s = loop body s'"
  by (subst loop.simps) simp

lemma loop_stuck: "body s = None \<Longrightarrow> loop body s = None"
  by (subst loop.simps) simp

lemmas loop_step = loop_leave loop_continue loop_stuck

text \<open>
  Partial correctness: an invariant that the body keeps, and that gives \<open>Q\<close> where the body
  leaves, gives \<open>Q\<close> of the result.
\<close>

lemma loop_inv:
  assumes "I s"
    and body: "\<And>s. I s \<Longrightarrow> returns (body s) (\<lambda>x. case x of Inl s' \<Rightarrow> I s' | Inr r \<Rightarrow> Q r)"
  shows "returns (loop body s) Q"
proof (rule returnsI)
  fix r assume ret: "loop body s = Some r"
  have "body = body \<longrightarrow> I s \<longrightarrow> Q r"
  proof (rule loop.raw_induct [where P = "\<lambda>b a r. b = body \<longrightarrow> I a \<longrightarrow> Q r", OF _ ret], intro impI)
    fix f b a r
    assume IH: "\<And>b a r. f b a = Some r \<Longrightarrow> b = body \<longrightarrow> I a \<longrightarrow> Q r"
      and eq: "b a \<bind> (\<lambda>x. case x of Inl s' \<Rightarrow> f b s' | Inr r \<Rightarrow> Some r) = Some r"
      and "b = body" and "I a"
    then obtain x where "body a = Some x" and x: "(case x of Inl s' \<Rightarrow> f body s' | Inr r \<Rightarrow> Some r) = Some r"
      by (auto simp: bind_eq_Some_conv)
    with body [OF \<open>I a\<close>] have "case x of Inl s' \<Rightarrow> I s' | Inr r \<Rightarrow> Q r" by simp
    with x show "Q r" by (auto split: sum.splits dest: IH)
  qed
  with assms(1) show "Q r" by simp
qed

text \<open>Total correctness: in addition every further iteration goes down in a well-founded order.\<close>

lemma loop_wf:
  assumes "wf R" and "I s"
    and body: "\<And>s. I s \<Longrightarrow> \<exists>x. body s = Some x \<and>
      (case x of Inl s' \<Rightarrow> I s' \<and> (s', s) \<in> R | Inr r \<Rightarrow> Q r)"
  shows "\<exists>r. loop body s = Some r \<and> Q r"
  using assms(1,2)
proof (induction s)
  case (less s)
  from body [OF less.prems] obtain x where x: "body s = Some x"
    "case x of Inl s' \<Rightarrow> I s' \<and> (s', s) \<in> R | Inr r \<Rightarrow> Q r" by blast
  then show ?case
    by (cases x) (auto simp: loop_step less.IH)
qed

lemma loop_total:
  assumes "I s"
    and "\<And>s. I s \<Longrightarrow> \<exists>x. body s = Some x \<and>
      (case x of Inl s' \<Rightarrow> I s' \<and> m s' < (m s :: nat) | Inr r \<Rightarrow> Q r)"
  shows "\<exists>r. loop body s = Some r \<and> Q r"
  by (rule loop_wf [where R = "measure m" and I = I, unfolded in_measure, OF wf_measure]) (use assms in blast)+

text \<open>A loop that can never leave does not return.\<close>

lemma loop_diverges:
  assumes "I s" and "\<And>s. I s \<Longrightarrow> \<exists>s'. body s = continue s' \<and> I s'"
  shows "loop body s = None"
proof -
  have "returns (loop body s) (\<lambda>_. False)"
  proof (rule loop_inv [where I = I])
    fix s assume "I s"
    with assms(2) obtain s' where "body s = continue s'" "I s'" by blast
    then show "returns (body s) (\<lambda>x. case x of Inl s' \<Rightarrow> I s' | Inr r \<Rightarrow> False)" by simp
  qed (fact assms(1))
  then show ?thesis by (cases "loop body s") simp_all
qed

end
