(* ===== verification/Avr_Hw.thy ===== *)
theory Avr_Hw
  imports PGCon_Prelude
begin

text \<open>
  The boundary between the firmware and the ATmega32U4.  The firmware touches the
  hardware through memory-mapped I/O registers only; the registers are C volatile
  variables declared by \<open>avr/io.h\<close>, so a register is a storage cell that the hardware may
  change before the program reads it and may react to after the program has written it.
  The hardware itself is not part of the repository: it is the parameter \<open>H\<close> of every
  definition that touches a register, with one function for each of the two moments and
  the interrupt request line.  The extensible record \<open>ctl\<close> lets a hardware carry
  whatever hidden state it wants (FIFO memory, a host script).

  The endpoint registers are banked: \<open>UENUM\<close> selects the endpoint they refer to (the
  comment of \<open>Endpoint_SelectEndpoint\<close> in \<open>Endpoint_AVR8.h\<close>).
\<close>

section \<open>Registers\<close>

datatype reg =
  UDCON | UDINT | UDIEN | UDADDR | UDFNUML | UDFNUMH | UENUM | UERST | UEINT
| USBCON | USBSTA | USBINT | UHWCON | PLLCSR | PLLFRQ
| SREG | MCUSR | UBRR1L | UBRR1H | UCSR1A | UCSR1B | UCSR1C | UDR1 | DDRD | PORTD

datatype epreg =
  UECFG0X | UECFG1X | UECONX | UEIENX | UEINTX | UESTA0X | UEDATX | UEBCLX | UEBCHX

datatype port = G reg | E epreg

text \<open>Bit numbers within the registers (\<open>avr/io.h\<close> for the ATmega32U4).\<close>

abbreviation (input) "TXINI \<equiv> 0 :: nat"
abbreviation (input) "RXOUTI \<equiv> 2 :: nat"
abbreviation (input) "RXSTPI \<equiv> 3 :: nat"
abbreviation (input) "RWAL \<equiv> 5 :: nat"
abbreviation (input) "FIFOCON \<equiv> 7 :: nat"
abbreviation (input) "EPEN \<equiv> 0 :: nat"
abbreviation (input) "RSTDT \<equiv> 3 :: nat"
abbreviation (input) "STALLRQC \<equiv> 4 :: nat"
abbreviation (input) "STALLRQ \<equiv> 5 :: nat"
abbreviation (input) "EPDIR \<equiv> 0 :: nat"
abbreviation (input) "EPTYPE0 \<equiv> 6 :: nat"
abbreviation (input) "ALLOC \<equiv> 1 :: nat"
abbreviation (input) "EPBK0 \<equiv> 2 :: nat"
abbreviation (input) "EPSIZE0 \<equiv> 4 :: nat"
abbreviation (input) "NBUSYBK0 \<equiv> 0 :: nat"
abbreviation (input) "CFGOK \<equiv> 7 :: nat"
abbreviation (input) "RXSTPE \<equiv> 3 :: nat"
abbreviation (input) "SUSPI \<equiv> 0 :: nat"
abbreviation (input) "SOFI \<equiv> 2 :: nat"
abbreviation (input) "EORSTI \<equiv> 3 :: nat"
abbreviation (input) "WAKEUPI \<equiv> 4 :: nat"
abbreviation (input) "SUSPE \<equiv> 0 :: nat"
abbreviation (input) "SOFE \<equiv> 2 :: nat"
abbreviation (input) "EORSTE \<equiv> 3 :: nat"
abbreviation (input) "WAKEUPE \<equiv> 4 :: nat"
abbreviation (input) "DETACH \<equiv> 0 :: nat"
abbreviation (input) "RMWKUP \<equiv> 1 :: nat"
abbreviation (input) "LSM \<equiv> 2 :: nat"
abbreviation (input) "VBUSTE \<equiv> 0 :: nat"
abbreviation (input) "OTGPADE \<equiv> 4 :: nat"
abbreviation (input) "FRZCLK \<equiv> 5 :: nat"
abbreviation (input) "USBE \<equiv> 7 :: nat"
abbreviation (input) "VBUS \<equiv> 0 :: nat"
abbreviation (input) "VBUSTI \<equiv> 0 :: nat"
abbreviation (input) "UVREGE \<equiv> 0 :: nat"
abbreviation (input) "PLOCK \<equiv> 0 :: nat"
abbreviation (input) "PLLE \<equiv> 1 :: nat"
abbreviation (input) "PINDIV \<equiv> 4 :: nat"
abbreviation (input) "PDIV2 \<equiv> 2 :: nat"
abbreviation (input) "ADDEN \<equiv> 7 :: nat"
abbreviation (input) "SREG_I \<equiv> 7 :: nat"
abbreviation (input) "WDRF \<equiv> 3 :: nat"
abbreviation (input) "RXC1 \<equiv> 7 :: nat"
abbreviation (input) "TXC1 \<equiv> 6 :: nat"
abbreviation (input) "UDRE1 \<equiv> 5 :: nat"
abbreviation (input) "U2X1 \<equiv> 1 :: nat"
abbreviation (input) "TXEN1 \<equiv> 3 :: nat"
abbreviation (input) "RXEN1 \<equiv> 4 :: nat"
abbreviation (input) "UCSZ10 \<equiv> 1 :: nat"
abbreviation (input) "UCSZ11 \<equiv> 2 :: nat"

section \<open>The register file and the hardware parameter\<close>

record ctl =
  gregs :: "reg \<Rightarrow> u8"
  eregs :: "u8 \<Rightarrow> epreg \<Rightarrow> u8"

text \<open>
  \<open>pre_rd H p\<close> is what the hardware has done by the time the program reads port \<open>p\<close>;
  \<open>post_wr H p\<close> is how it reacts once the program has stored a value in port \<open>p\<close>;
  \<open>irq H\<close> says whether the USB general interrupt is requested;
  \<open>boot_signature_byte_get H\<close> reads the factory signature row (\<open>avr/boot.h\<close>);
  \<open>wdt_disable\<close> (\<open>avr/wdt.h\<close>) and \<open>clock_prescale_set\<close> (\<open>avr/power.h\<close>) are library routines
  that act on the hardware alone.
\<close>

record 'e hw =
  pre_rd :: "port \<Rightarrow> 'e ctl_scheme \<Rightarrow> 'e ctl_scheme"
  post_wr :: "port \<Rightarrow> 'e ctl_scheme \<Rightarrow> 'e ctl_scheme"
  irq :: "'e ctl_scheme \<Rightarrow> bool"
  boot_signature_byte_get :: "u8 \<Rightarrow> u8"
  wdt_disable :: "'e ctl_scheme \<Rightarrow> 'e ctl_scheme"
  clock_prescale_set :: "u8 \<Rightarrow> 'e ctl_scheme \<Rightarrow> 'e ctl_scheme"

section \<open>The state of the USB library\<close>

text \<open>\<open>USB_Request_Header_t\<close>: the SETUP packet of the current control request.\<close>

record USB_Request_Header_t =
  bmRequestType :: u8
  bRequest :: u8
  wValue :: u16
  wIndex :: u16
  wLength :: u16

text \<open>
  The global variables of the library (\<open>USBTask.c\<close>, \<open>DeviceStandardReq.c\<close>) beside the
  register file.  Applications extend the record with their own globals.
\<close>

record 'e usb =
  ctl :: "'e ctl_scheme"
  USB_IsInitialized :: bool
  USB_ControlRequest :: USB_Request_Header_t
  USB_DeviceState :: u8
  USB_Device_ConfigurationNumber :: u8
  USB_Device_CurrentlySelfPowered :: bool
  USB_Device_RemoteWakeupEnabled :: bool

section \<open>Register accesses\<close>

definition rd :: "'e hw \<Rightarrow> reg \<Rightarrow> ('e, 'p) usb_scheme \<Rightarrow> u8 \<times> ('e, 'p) usb_scheme" where
  "rd H r s = (let c = pre_rd H (G r) (ctl s) in (gregs c r, s\<lparr>ctl := c\<rparr>))"

definition wr :: "'e hw \<Rightarrow> reg \<Rightarrow> u8 \<Rightarrow> ('e, 'p) usb_scheme \<Rightarrow> ('e, 'p) usb_scheme" where
  "wr H r v s = s\<lparr>ctl := post_wr H (G r) ((ctl s)\<lparr>gregs := (gregs (ctl s))(r := v)\<rparr>)\<rparr>"

definition erd :: "'e hw \<Rightarrow> epreg \<Rightarrow> ('e, 'p) usb_scheme \<Rightarrow> u8 \<times> ('e, 'p) usb_scheme" where
  "erd H r s = (let c = pre_rd H (E r) (ctl s) in (eregs c (gregs c UENUM) r, s\<lparr>ctl := c\<rparr>))"

definition ewr :: "'e hw \<Rightarrow> epreg \<Rightarrow> u8 \<Rightarrow> ('e, 'p) usb_scheme \<Rightarrow> ('e, 'p) usb_scheme" where
  "ewr H r v s =
     (let c = ctl s; n = gregs c UENUM
      in s\<lparr>ctl := post_wr H (E r) (c\<lparr>eregs := (eregs c)(n := (eregs c n)(r := v))\<rparr>)\<rparr>)"

text \<open>A compound assignment (\<open>R |= m\<close>, \<open>R &= ~m\<close>) reads the register and writes it back.\<close>

definition rmw :: "'e hw \<Rightarrow> reg \<Rightarrow> (u8 \<Rightarrow> u8) \<Rightarrow> ('e, 'p) usb_scheme \<Rightarrow> ('e, 'p) usb_scheme" where
  "rmw H r f s = (let (v, s') = rd H r s in wr H r (f v) s')"

definition ermw :: "'e hw \<Rightarrow> epreg \<Rightarrow> (u8 \<Rightarrow> u8) \<Rightarrow> ('e, 'p) usb_scheme \<Rightarrow> ('e, 'p) usb_scheme" where
  "ermw H r f s = (let (v, s') = erd H r s in ewr H r (f v) s')"

lemmas reg_access_defs = rd_def wr_def erd_def ewr_def rmw_def ermw_def

text \<open>Register accesses leave the variables of the program alone.\<close>

definition vars :: "('e, 'p) usb_scheme \<Rightarrow> bool \<times> USB_Request_Header_t \<times> u8 \<times> u8 \<times> bool \<times> bool \<times> 'p" where
  "vars s = (USB_IsInitialized s, USB_ControlRequest s, USB_DeviceState s,
     USB_Device_ConfigurationNumber s, USB_Device_CurrentlySelfPowered s,
     USB_Device_RemoteWakeupEnabled s, usb.more s)"

lemma vars_access [simp]:
  "vars (snd (rd H r s)) = vars s"
  "vars (wr H r v s) = vars s"
  "vars (snd (erd H q s)) = vars s"
  "vars (ewr H q v s) = vars s"
  "vars (rmw H r f s) = vars s"
  "vars (ermw H q f s) = vars s"
  by (simp_all add: vars_def reg_access_defs Let_def)

section \<open>Registers that behave as memory\<close>

text \<open>
  \<open>plain H p\<close>: the hardware neither changes port \<open>p\<close> behind the program's back nor
  reacts to it, as documented for the configuration registers.
\<close>

definition plain :: "'e hw \<Rightarrow> port \<Rightarrow> bool" where
  "plain H p \<longleftrightarrow> pre_rd H p = id \<and> post_wr H p = id"

lemma plain_rd: "plain H (G r) \<Longrightarrow> rd H r s = (gregs (ctl s) r, s)"
  by (simp add: plain_def rd_def)

lemma plain_wr:
  "plain H (G r) \<Longrightarrow> wr H r v s = s\<lparr>ctl := (ctl s)\<lparr>gregs := (gregs (ctl s))(r := v)\<rparr>\<rparr>"
  by (simp add: plain_def wr_def)

lemma plain_rmw:
  "plain H (G r) \<Longrightarrow>
     rmw H r f s = s\<lparr>ctl := (ctl s)\<lparr>gregs := (gregs (ctl s))(r := f (gregs (ctl s) r))\<rparr>\<rparr>"
  by (simp add: rmw_def plain_rd plain_wr)

lemma plain_erd: "plain H (E r) \<Longrightarrow> erd H r s = (eregs (ctl s) (gregs (ctl s) UENUM) r, s)"
  by (simp add: plain_def erd_def Let_def)

lemma plain_ewr:
  "plain H (E r) \<Longrightarrow> ewr H r v s = s\<lparr>ctl := (ctl s)\<lparr>eregs :=
     (eregs (ctl s))(gregs (ctl s) UENUM := (eregs (ctl s) (gregs (ctl s) UENUM))(r := v))\<rparr>\<rparr>"
  by (simp add: plain_def ewr_def Let_def)

lemma plain_ermw:
  "plain H (E r) \<Longrightarrow> ermw H r f s = s\<lparr>ctl := (ctl s)\<lparr>eregs :=
     (eregs (ctl s))(gregs (ctl s) UENUM := (eregs (ctl s) (gregs (ctl s) UENUM))
       (r := f (eregs (ctl s) (gregs (ctl s) UENUM) r)))\<rparr>\<rparr>"
  by (simp add: ermw_def plain_erd plain_ewr)

lemmas plain_access = plain_rd plain_wr plain_rmw plain_erd plain_ewr plain_ermw

text \<open>
  The simplest hardware: every register is memory, nothing is ever requested.  It shows
  that hypotheses about the hardware can be met.
\<close>

definition memory_hw :: "unit hw" where
  "memory_hw = \<lparr>pre_rd = \<lambda>_. id, post_wr = \<lambda>_. id, irq = \<lambda>_. False,
     boot_signature_byte_get = \<lambda>_. 0, wdt_disable = id, clock_prescale_set = \<lambda>_. id\<rparr>"

lemma memory_hw_plain [simp]: "plain memory_hw p"
  by (simp add: plain_def memory_hw_def)

definition usb_with :: "(reg \<Rightarrow> u8) \<Rightarrow> (u8 \<Rightarrow> epreg \<Rightarrow> u8) \<Rightarrow> unit usb" where
  "usb_with g e =
     \<lparr>ctl = \<lparr>gregs = g, eregs = e\<rparr>, USB_IsInitialized = False,
      USB_ControlRequest = \<lparr>bmRequestType = 0, bRequest = 0, wValue = 0, wIndex = 0, wLength = 0\<rparr>,
      USB_DeviceState = 0, USB_Device_ConfigurationNumber = 0,
      USB_Device_CurrentlySelfPowered = False, USB_Device_RemoteWakeupEnabled = False\<rparr>"

section \<open>Busy waiting\<close>

text \<open>\<open>spin test s\<close> is the C loop \<open>while (!test());\<close>.\<close>

definition spin :: "('s \<Rightarrow> bool \<times> 's) \<Rightarrow> 's \<Rightarrow> 's option" where
  "spin test = loop (\<lambda>s. let (b, s') = test s in if b then leave s' else continue s')"

lemma spin_now: "test s = (True, s') \<Longrightarrow> spin test s = Some s'"
  by (simp add: spin_def loop_leave)

lemma spin_later: "test s = (False, s') \<Longrightarrow> spin test s = spin test s'"
  by (simp add: spin_def loop_continue)

text \<open>Any property that every poll keeps holds when the loop returns.\<close>

lemma spin_inv:
  assumes "I s" and "\<And>t. I t \<Longrightarrow> I (snd (test t))"
  shows "returns (spin test s) I"
  unfolding spin_def by (rule loop_inv [where I = I]) (use assms in \<open>simp_all add: pair_simps\<close>)

end
