(* ===== verification/Usb_Controller.thy ===== *)
theory Usb_Controller
  imports Avr_Hw
begin

text \<open>
  The USB controller driver of the AVR8 port: interrupt masks and flags
  (\<open>USBInterrupt_AVR8.h/.c\<close>), clock, PLL, pad and regulator control
  (\<open>USBController_AVR8.h\<close>), the device address and frame number (\<open>Device_AVR8.h\<close>), and
  the global interrupt flag (\<open>Common.h\<close>).  The preprocessor conditions are resolved for
  the build of \<open>firmware/makefile\<close> and \<open>Config/LUFAConfig.h\<close>: ATmega32U4
  (\<open>USB_SERIES_4_AVR\<close>), \<open>USB_DEVICE_ONLY\<close>, \<open>F_USB\<close> 16 MHz, static options.
\<close>

section \<open>Interrupts\<close>

definition USB_INT_VBUSTI :: u8 where "USB_INT_VBUSTI = 0"
definition USB_INT_WAKEUPI :: u8 where "USB_INT_WAKEUPI = 2"
definition USB_INT_SUSPI :: u8 where "USB_INT_SUSPI = 3"
definition USB_INT_EORSTI :: u8 where "USB_INT_EORSTI = 4"
definition USB_INT_SOFI :: u8 where "USB_INT_SOFI = 5"
definition USB_INT_RXSTPI :: u8 where "USB_INT_RXSTPI = 6"

lemmas USB_INT_num = USB_INT_VBUSTI_def USB_INT_WAKEUPI_def USB_INT_SUSPI_def
  USB_INT_EORSTI_def USB_INT_SOFI_def USB_INT_RXSTPI_def

definition USB_INT_Enable :: "'e hw \<Rightarrow> u8 \<Rightarrow> ('e, 'p) usb_scheme \<Rightarrow> ('e, 'p) usb_scheme" where
  "USB_INT_Enable H Interrupt s =
     (if Interrupt = USB_INT_VBUSTI then rmw H USBCON (\<lambda>v. v OR bv VBUSTE) s
      else if Interrupt = USB_INT_WAKEUPI then rmw H UDIEN (\<lambda>v. v OR bv WAKEUPE) s
      else if Interrupt = USB_INT_SUSPI then rmw H UDIEN (\<lambda>v. v OR bv SUSPE) s
      else if Interrupt = USB_INT_EORSTI then rmw H UDIEN (\<lambda>v. v OR bv EORSTE) s
      else if Interrupt = USB_INT_SOFI then rmw H UDIEN (\<lambda>v. v OR bv SOFE) s
      else if Interrupt = USB_INT_RXSTPI then ermw H UEIENX (\<lambda>v. v OR bv RXSTPE) s
      else s)"

definition USB_INT_Disable :: "'e hw \<Rightarrow> u8 \<Rightarrow> ('e, 'p) usb_scheme \<Rightarrow> ('e, 'p) usb_scheme" where
  "USB_INT_Disable H Interrupt s =
     (if Interrupt = USB_INT_VBUSTI then rmw H USBCON (\<lambda>v. v AND NOT (bv VBUSTE)) s
      else if Interrupt = USB_INT_WAKEUPI then rmw H UDIEN (\<lambda>v. v AND NOT (bv WAKEUPE)) s
      else if Interrupt = USB_INT_SUSPI then rmw H UDIEN (\<lambda>v. v AND NOT (bv SUSPE)) s
      else if Interrupt = USB_INT_EORSTI then rmw H UDIEN (\<lambda>v. v AND NOT (bv EORSTE)) s
      else if Interrupt = USB_INT_SOFI then rmw H UDIEN (\<lambda>v. v AND NOT (bv SOFE)) s
      else if Interrupt = USB_INT_RXSTPI then ermw H UEIENX (\<lambda>v. v AND NOT (bv RXSTPE)) s
      else s)"

definition USB_INT_Clear :: "'e hw \<Rightarrow> u8 \<Rightarrow> ('e, 'p) usb_scheme \<Rightarrow> ('e, 'p) usb_scheme" where
  "USB_INT_Clear H Interrupt s =
     (if Interrupt = USB_INT_VBUSTI then rmw H USBINT (\<lambda>v. v AND NOT (bv VBUSTI)) s
      else if Interrupt = USB_INT_WAKEUPI then rmw H UDINT (\<lambda>v. v AND NOT (bv WAKEUPI)) s
      else if Interrupt = USB_INT_SUSPI then rmw H UDINT (\<lambda>v. v AND NOT (bv SUSPI)) s
      else if Interrupt = USB_INT_EORSTI then rmw H UDINT (\<lambda>v. v AND NOT (bv EORSTI)) s
      else if Interrupt = USB_INT_SOFI then rmw H UDINT (\<lambda>v. v AND NOT (bv SOFI)) s
      else if Interrupt = USB_INT_RXSTPI then ermw H UEINTX (\<lambda>v. v AND NOT (bv RXSTPI)) s
      else s)"

text \<open>Testing one bit of a register: the value is converted to \<open>bool\<close>.\<close>

definition rd_bit :: "'e hw \<Rightarrow> reg \<Rightarrow> nat \<Rightarrow> ('e, 'p) usb_scheme \<Rightarrow> bool \<times> ('e, 'p) usb_scheme" where
  "rd_bit H r n s = (let (v, s') = rd H r s in (tst v n, s'))"

definition erd_bit :: "'e hw \<Rightarrow> epreg \<Rightarrow> nat \<Rightarrow> ('e, 'p) usb_scheme \<Rightarrow> bool \<times> ('e, 'p) usb_scheme" where
  "erd_bit H r n s = (let (v, s') = erd H r s in (tst v n, s'))"

definition USB_INT_IsEnabled :: "'e hw \<Rightarrow> u8 \<Rightarrow> ('e, 'p) usb_scheme \<Rightarrow> bool \<times> ('e, 'p) usb_scheme" where
  "USB_INT_IsEnabled H Interrupt s =
     (if Interrupt = USB_INT_VBUSTI then rd_bit H USBCON VBUSTE s
      else if Interrupt = USB_INT_WAKEUPI then rd_bit H UDIEN WAKEUPE s
      else if Interrupt = USB_INT_SUSPI then rd_bit H UDIEN SUSPE s
      else if Interrupt = USB_INT_EORSTI then rd_bit H UDIEN EORSTE s
      else if Interrupt = USB_INT_SOFI then rd_bit H UDIEN SOFE s
      else if Interrupt = USB_INT_RXSTPI then erd_bit H UEIENX RXSTPE s
      else (False, s))"

definition USB_INT_HasOccurred :: "'e hw \<Rightarrow> u8 \<Rightarrow> ('e, 'p) usb_scheme \<Rightarrow> bool \<times> ('e, 'p) usb_scheme" where
  "USB_INT_HasOccurred H Interrupt s =
     (if Interrupt = USB_INT_VBUSTI then rd_bit H USBINT VBUSTI s
      else if Interrupt = USB_INT_WAKEUPI then rd_bit H UDINT WAKEUPI s
      else if Interrupt = USB_INT_SUSPI then rd_bit H UDINT SUSPI s
      else if Interrupt = USB_INT_EORSTI then rd_bit H UDINT EORSTI s
      else if Interrupt = USB_INT_SOFI then rd_bit H UDINT SOFI s
      else if Interrupt = USB_INT_RXSTPI then erd_bit H UEINTX RXSTPI s
      else (False, s))"

definition USB_INT_DisableAllInterrupts :: "'e hw \<Rightarrow> ('e, 'p) usb_scheme \<Rightarrow> ('e, 'p) usb_scheme" where
  "USB_INT_DisableAllInterrupts H s =
     wr H UDIEN 0 (rmw H USBCON (\<lambda>v. v AND NOT (bv VBUSTE)) s)"

definition USB_INT_ClearAllInterrupts :: "'e hw \<Rightarrow> ('e, 'p) usb_scheme \<Rightarrow> ('e, 'p) usb_scheme" where
  "USB_INT_ClearAllInterrupts H s = wr H UDINT 0 (wr H USBINT 0 s)"

section \<open>Global interrupt flag\<close>

definition GetGlobalInterruptMask :: "'e hw \<Rightarrow> ('e, 'p) usb_scheme \<Rightarrow> u8 \<times> ('e, 'p) usb_scheme" where
  "GetGlobalInterruptMask H s = rd H SREG s"

definition SetGlobalInterruptMask :: "'e hw \<Rightarrow> u8 \<Rightarrow> ('e, 'p) usb_scheme \<Rightarrow> ('e, 'p) usb_scheme" where
  "SetGlobalInterruptMask H GlobalIntState s = wr H SREG GlobalIntState s"

definition GlobalInterruptEnable :: "'e hw \<Rightarrow> ('e, 'p) usb_scheme \<Rightarrow> ('e, 'p) usb_scheme" where
  "GlobalInterruptEnable H s = rmw H SREG (\<lambda>v. v OR bv SREG_I) s"

definition GlobalInterruptDisable :: "'e hw \<Rightarrow> ('e, 'p) usb_scheme \<Rightarrow> ('e, 'p) usb_scheme" where
  "GlobalInterruptDisable H s = rmw H SREG (\<lambda>v. v AND NOT (bv SREG_I)) s"

section \<open>Clock, PLL, pad, regulator\<close>

text \<open>\<open>USE_STATIC_OPTIONS\<close>: full speed, regulator enabled, automatic PLL; all three masks are 0.\<close>

definition USB_OPT_REG_DISABLED :: u8 where "USB_OPT_REG_DISABLED = bv 1"
definition USB_OPT_REG_KEEP_ENABLED :: u8 where "USB_OPT_REG_KEEP_ENABLED = bv 3"
definition USB_OPT_MANUAL_PLL :: u8 where "USB_OPT_MANUAL_PLL = bv 2"
definition USB_DEVICE_OPT_LOWSPEED :: u8 where "USB_DEVICE_OPT_LOWSPEED = bv 0"
definition USB_Options :: u8 where "USB_Options = 0 OR 0 OR 0"
definition USB_PLL_PSC :: u8 where "USB_PLL_PSC = bv PINDIV"

definition USB_VBUS_GetStatus :: "'e hw \<Rightarrow> ('e, 'p) usb_scheme \<Rightarrow> bool \<times> ('e, 'p) usb_scheme" where
  "USB_VBUS_GetStatus H s = rd_bit H USBSTA VBUS s"

definition USB_Detach :: "'e hw \<Rightarrow> ('e, 'p) usb_scheme \<Rightarrow> ('e, 'p) usb_scheme" where
  "USB_Detach H s = rmw H UDCON (\<lambda>v. v OR bv DETACH) s"

definition USB_Attach :: "'e hw \<Rightarrow> ('e, 'p) usb_scheme \<Rightarrow> ('e, 'p) usb_scheme" where
  "USB_Attach H s = rmw H UDCON (\<lambda>v. v AND NOT (bv DETACH)) s"

definition USB_PLL_On :: "'e hw \<Rightarrow> ('e, 'p) usb_scheme \<Rightarrow> ('e, 'p) usb_scheme" where
  "USB_PLL_On H s = wr H PLLCSR (USB_PLL_PSC OR bv PLLE) (wr H PLLCSR USB_PLL_PSC s)"

definition USB_PLL_Off :: "'e hw \<Rightarrow> ('e, 'p) usb_scheme \<Rightarrow> ('e, 'p) usb_scheme" where
  "USB_PLL_Off H s = wr H PLLCSR 0 s"

definition USB_PLL_IsReady :: "'e hw \<Rightarrow> ('e, 'p) usb_scheme \<Rightarrow> bool \<times> ('e, 'p) usb_scheme" where
  "USB_PLL_IsReady H s = rd_bit H PLLCSR PLOCK s"

definition USB_REG_On :: "'e hw \<Rightarrow> ('e, 'p) usb_scheme \<Rightarrow> ('e, 'p) usb_scheme" where
  "USB_REG_On H s = rmw H UHWCON (\<lambda>v. v OR bv UVREGE) s"

definition USB_REG_Off :: "'e hw \<Rightarrow> ('e, 'p) usb_scheme \<Rightarrow> ('e, 'p) usb_scheme" where
  "USB_REG_Off H s = rmw H UHWCON (\<lambda>v. v AND NOT (bv UVREGE)) s"

definition USB_OTGPAD_On :: "'e hw \<Rightarrow> ('e, 'p) usb_scheme \<Rightarrow> ('e, 'p) usb_scheme" where
  "USB_OTGPAD_On H s = rmw H USBCON (\<lambda>v. v OR bv OTGPADE) s"

definition USB_OTGPAD_Off :: "'e hw \<Rightarrow> ('e, 'p) usb_scheme \<Rightarrow> ('e, 'p) usb_scheme" where
  "USB_OTGPAD_Off H s = rmw H USBCON (\<lambda>v. v AND NOT (bv OTGPADE)) s"

definition USB_CLK_Freeze :: "'e hw \<Rightarrow> ('e, 'p) usb_scheme \<Rightarrow> ('e, 'p) usb_scheme" where
  "USB_CLK_Freeze H s = rmw H USBCON (\<lambda>v. v OR bv FRZCLK) s"

definition USB_CLK_Unfreeze :: "'e hw \<Rightarrow> ('e, 'p) usb_scheme \<Rightarrow> ('e, 'p) usb_scheme" where
  "USB_CLK_Unfreeze H s = rmw H USBCON (\<lambda>v. v AND NOT (bv FRZCLK)) s"

definition USB_Controller_Enable :: "'e hw \<Rightarrow> ('e, 'p) usb_scheme \<Rightarrow> ('e, 'p) usb_scheme" where
  "USB_Controller_Enable H s = rmw H USBCON (\<lambda>v. v OR bv USBE) s"

definition USB_Controller_Disable :: "'e hw \<Rightarrow> ('e, 'p) usb_scheme \<Rightarrow> ('e, 'p) usb_scheme" where
  "USB_Controller_Disable H s = rmw H USBCON (\<lambda>v. v AND NOT (bv USBE)) s"

definition USB_Controller_Reset :: "'e hw \<Rightarrow> ('e, 'p) usb_scheme \<Rightarrow> ('e, 'p) usb_scheme" where
  "USB_Controller_Reset H s =
     rmw H USBCON (\<lambda>v. v OR bv USBE) (rmw H USBCON (\<lambda>v. v AND NOT (bv USBE)) s)"

section \<open>Device address, speed and frame number\<close>

definition USB_Device_GetFrameNumber :: "'e hw \<Rightarrow> ('e, 'p) usb_scheme \<Rightarrow> u16 \<times> ('e, 'p) usb_scheme" where
  "USB_Device_GetFrameNumber H s =
     (let (lo, s1) = rd H UDFNUML s; (hi, s2) = rd H UDFNUMH s1 in (u16_of lo hi, s2))"

definition USB_Device_EnableSOFEvents :: "'e hw \<Rightarrow> ('e, 'p) usb_scheme \<Rightarrow> ('e, 'p) usb_scheme" where
  "USB_Device_EnableSOFEvents H s = USB_INT_Enable H USB_INT_SOFI s"

definition USB_Device_DisableSOFEvents :: "'e hw \<Rightarrow> ('e, 'p) usb_scheme \<Rightarrow> ('e, 'p) usb_scheme" where
  "USB_Device_DisableSOFEvents H s = USB_INT_Disable H USB_INT_SOFI s"

definition USB_Device_SetLowSpeed :: "'e hw \<Rightarrow> ('e, 'p) usb_scheme \<Rightarrow> ('e, 'p) usb_scheme" where
  "USB_Device_SetLowSpeed H s = rmw H UDCON (\<lambda>v. v OR bv LSM) s"

definition USB_Device_SetFullSpeed :: "'e hw \<Rightarrow> ('e, 'p) usb_scheme \<Rightarrow> ('e, 'p) usb_scheme" where
  "USB_Device_SetFullSpeed H s = rmw H UDCON (\<lambda>v. v AND NOT (bv LSM)) s"

definition USB_Device_SetDeviceAddress :: "'e hw \<Rightarrow> u8 \<Rightarrow> ('e, 'p) usb_scheme \<Rightarrow> ('e, 'p) usb_scheme" where
  "USB_Device_SetDeviceAddress H Address s =
     rmw H UDADDR (\<lambda>v. (v AND bv ADDEN) OR (Address AND 0x7F)) s"

definition USB_Device_EnableDeviceAddress :: "'e hw \<Rightarrow> u8 \<Rightarrow> ('e, 'p) usb_scheme \<Rightarrow> ('e, 'p) usb_scheme" where
  "USB_Device_EnableDeviceAddress H Address s = rmw H UDADDR (\<lambda>v. v OR bv ADDEN) s"

definition USB_Device_IsAddressSet :: "'e hw \<Rightarrow> ('e, 'p) usb_scheme \<Rightarrow> bool \<times> ('e, 'p) usb_scheme" where
  "USB_Device_IsAddressSet H s = rd_bit H UDADDR ADDEN s"

text \<open>Waiting for the PLL to lock: \<open>USB_PLL_On(); while (!(USB_PLL_IsReady()));\<close>.\<close>

definition USB_PLL_On_wait :: "'e hw \<Rightarrow> ('e, 'p) usb_scheme \<Rightarrow> ('e, 'p) usb_scheme option" where
  "USB_PLL_On_wait H s = spin (USB_PLL_IsReady H) (USB_PLL_On H s)"

definition USB_Device_SendRemoteWakeup :: "'e hw \<Rightarrow> ('e, 'p) usb_scheme \<Rightarrow> ('e, 'p) usb_scheme option" where
  "USB_Device_SendRemoteWakeup H s =
     do {
       s1 \<leftarrow> (if USB_Options AND USB_OPT_MANUAL_PLL = 0 then USB_PLL_On_wait H s else Some s);
       let s2 = rmw H UDCON (\<lambda>v. v OR bv RMWKUP) (USB_CLK_Unfreeze H s1);
       spin (\<lambda>t. let (b, t') = rd_bit H UDCON RMWKUP t in (\<not> b, t')) s2
     }"

section \<open>Invariants of register accesses\<close>

text \<open>
  The contract between the driver and a property \<open>I\<close> of the state: \<open>I\<close> survives every
  single register access, those to the FIFO data register \<open>UEDATX\<close> and the writes to the
  interrupt mask \<open>UDIEN\<close> apart.  Every driver operation
  then preserves \<open>I\<close>.  The locale is extended below as the operations get more powerful,
  and interpreted for the properties that the development is about.
\<close>

lemma USB_Options_auto_pll [simp]:
  "USB_Options AND USB_OPT_MANUAL_PLL = 0"
  "USB_Options AND USB_OPT_REG_DISABLED = 0"
  "USB_Options AND USB_OPT_REG_KEEP_ENABLED = 0"
  "USB_Options AND USB_DEVICE_OPT_LOWSPEED = 0"
  by (simp_all add: USB_Options_def)

locale reg_invariant =
  fixes H :: "'e hw" and I :: "('e, 'p) usb_scheme \<Rightarrow> bool"
  assumes I_rd [simp]: "I s \<Longrightarrow> I (snd (rd H r s))"
    and I_wr [simp]: "I s \<Longrightarrow> r \<noteq> UDIEN \<Longrightarrow> I (wr H r v s)"
    and I_erd [simp]: "I s \<Longrightarrow> q \<noteq> UEDATX \<Longrightarrow> I (snd (erd H q s))"
    and I_ewr [simp]: "I s \<Longrightarrow> q \<noteq> UEDATX \<Longrightarrow> I (ewr H q v s)"
begin

lemma I_rmw [simp]: "I s \<Longrightarrow> r \<noteq> UDIEN \<Longrightarrow> I (rmw H r f s)"
  by (simp add: rmw_def pair_simps)

lemma I_ermw [simp]: "I s \<Longrightarrow> q \<noteq> UEDATX \<Longrightarrow> I (ermw H q f s)"
  by (simp add: ermw_def pair_simps)

lemma I_bits [simp]:
  "I s \<Longrightarrow> I (snd (rd_bit H r n s))"
  "I s \<Longrightarrow> q \<noteq> UEDATX \<Longrightarrow> I (snd (erd_bit H q n s))"
  by (simp_all add: rd_bit_def erd_bit_def pair_simps)

lemma I_INT [simp]:
  assumes "I s"
  shows "I (USB_INT_Clear H i s)" "I (snd (USB_INT_IsEnabled H i s))" "I (snd (USB_INT_HasOccurred H i s))"
    "I (USB_INT_ClearAllInterrupts H s)" "I (USB_INT_Enable H USB_INT_VBUSTI s)"
  using assms by (simp_all add: USB_INT_Enable_def USB_INT_Clear_def
      USB_INT_IsEnabled_def USB_INT_HasOccurred_def USB_INT_ClearAllInterrupts_def)

lemma I_global_int [simp]:
  assumes "I s"
  shows "I (snd (GetGlobalInterruptMask H s))" "I (SetGlobalInterruptMask H m s)"
    "I (GlobalInterruptEnable H s)" "I (GlobalInterruptDisable H s)"
  using assms by (simp_all add: GetGlobalInterruptMask_def SetGlobalInterruptMask_def
      GlobalInterruptEnable_def GlobalInterruptDisable_def)

lemma I_power [simp]:
  assumes "I s"
  shows "I (snd (USB_VBUS_GetStatus H s))" "I (USB_Detach H s)" "I (USB_Attach H s)"
    "I (USB_PLL_On H s)" "I (USB_PLL_Off H s)" "I (snd (USB_PLL_IsReady H s))"
    "I (USB_REG_On H s)" "I (USB_REG_Off H s)" "I (USB_OTGPAD_On H s)" "I (USB_OTGPAD_Off H s)"
    "I (USB_CLK_Freeze H s)" "I (USB_CLK_Unfreeze H s)"
    "I (USB_Controller_Enable H s)" "I (USB_Controller_Disable H s)" "I (USB_Controller_Reset H s)"
  using assms by (simp_all add: USB_VBUS_GetStatus_def USB_Detach_def USB_Attach_def USB_PLL_On_def
      USB_PLL_Off_def USB_PLL_IsReady_def USB_REG_On_def USB_REG_Off_def USB_OTGPAD_On_def
      USB_OTGPAD_Off_def USB_CLK_Freeze_def USB_CLK_Unfreeze_def USB_Controller_Enable_def
      USB_Controller_Disable_def USB_Controller_Reset_def)

lemma I_address [simp]:
  assumes "I s"
  shows "I (USB_Device_SetFullSpeed H s)" "I (USB_Device_SetLowSpeed H s)"
    "I (USB_Device_SetDeviceAddress H a s)" "I (USB_Device_EnableDeviceAddress H a s)"
    "I (snd (USB_Device_IsAddressSet H s))" "I (snd (USB_Device_GetFrameNumber H s))"
  using assms by (simp_all add: USB_Device_SetFullSpeed_def USB_Device_SetLowSpeed_def
      USB_Device_SetDeviceAddress_def USB_Device_EnableDeviceAddress_def USB_Device_IsAddressSet_def
      USB_Device_GetFrameNumber_def pair_simps)

lemmas I_spin = spin_inv [where I = I]

lemma I_PLL_wait: "I s \<Longrightarrow> returns (USB_PLL_On_wait H s) I"
  unfolding USB_PLL_On_wait_def by (rule I_spin) simp_all

lemma I_RemoteWakeup: "I s \<Longrightarrow> returns (USB_Device_SendRemoteWakeup H s) I"
  by (auto simp: USB_Device_SendRemoteWakeup_def pair_simps
      intro!: returns_bind [where Q = I] I_PLL_wait I_spin)

end

text \<open>The variables of the program are such a property: register accesses leave them alone.\<close>

interpretation vars_reg: reg_invariant H "\<lambda>t. vars t = v" for H v
  by unfold_locales simp_all

end
