(* ===== verification/Endpoint.thy ===== *)
theory Endpoint
  imports Usb_Controller
begin

text \<open>
  Endpoint management (\<open>Endpoint_AVR8.h\<close>, \<open>Endpoint_AVR8.c\<close>): selection, status and
  control bits, the bank data register, and the configuration of an endpoint together
  with the re-allocation of the endpoints behind it.
\<close>

definition ENDPOINT_TOTAL_ENDPOINTS :: u8 where "ENDPOINT_TOTAL_ENDPOINTS = 7"
definition ENDPOINT_EPNUM_MASK :: u8 where "ENDPOINT_EPNUM_MASK = 0x0F"
definition ENDPOINT_CONTROLEP :: u8 where "ENDPOINT_CONTROLEP = 0"
definition ENDPOINT_DIR_OUT :: u8 where "ENDPOINT_DIR_OUT = 0x00"
definition ENDPOINT_DIR_IN :: u8 where "ENDPOINT_DIR_IN = 0x80"
definition EP_TYPE_CONTROL :: u8 where "EP_TYPE_CONTROL = 0x00"
definition EP_TYPE_INTERRUPT :: u8 where "EP_TYPE_INTERRUPT = 0x03"
definition USB_Device_ControlEndpointSize :: u16 where "USB_Device_ControlEndpointSize = 64"

lemmas ep_consts [c_defs] = ENDPOINT_TOTAL_ENDPOINTS_def ENDPOINT_EPNUM_MASK_def
  ENDPOINT_CONTROLEP_def ENDPOINT_DIR_OUT_def ENDPOINT_DIR_IN_def EP_TYPE_CONTROL_def
  EP_TYPE_INTERRUPT_def USB_Device_ControlEndpointSize_def

section \<open>Bank size encoding\<close>

text \<open>
  The loop doubles a 16-bit counter, so a size above 32768 makes it wrap to 0 and never
  return: the model is \<open>None\<close> there.
\<close>

definition EPSize_loop :: "u16 \<Rightarrow> u8 \<times> u16 \<Rightarrow> u8 option" where
  "EPSize_loop Bytes = loop (\<lambda>(MaskVal, CheckBytes).
     if CheckBytes < Bytes then continue (MaskVal + 1, push_bit 1 CheckBytes) else leave MaskVal)"

definition Endpoint_BytesToEPSizeMask :: "u16 \<Rightarrow> u8 option" where
  "Endpoint_BytesToEPSizeMask Bytes =
     map_option (push_bit EPSIZE0) (EPSize_loop Bytes (0, 8))"

section \<open>Selection and status\<close>

definition Endpoint_SelectEndpoint :: "'e hw \<Rightarrow> u8 \<Rightarrow> ('e, 'p) usb_scheme \<Rightarrow> ('e, 'p) usb_scheme" where
  "Endpoint_SelectEndpoint H Address s = wr H UENUM (Address AND ENDPOINT_EPNUM_MASK) s"

definition Endpoint_BytesInEndpoint :: "'e hw \<Rightarrow> ('e, 'p) usb_scheme \<Rightarrow> u16 \<times> ('e, 'p) usb_scheme" where
  "Endpoint_BytesInEndpoint H s =
     (let (hi, s1) = erd H UEBCHX s; (lo, s2) = erd H UEBCLX s1
      in (push_bit 8 (ucast hi) OR ucast lo, s2))"

definition Endpoint_GetEndpointDirection :: "'e hw \<Rightarrow> ('e, 'p) usb_scheme \<Rightarrow> u8 \<times> ('e, 'p) usb_scheme" where
  "Endpoint_GetEndpointDirection H s =
     (let (b, s') = erd_bit H UECFG0X EPDIR s
      in (if b then ENDPOINT_DIR_IN else ENDPOINT_DIR_OUT, s'))"

definition Endpoint_GetCurrentEndpoint :: "'e hw \<Rightarrow> ('e, 'p) usb_scheme \<Rightarrow> u8 \<times> ('e, 'p) usb_scheme" where
  "Endpoint_GetCurrentEndpoint H s =
     (let (n, s1) = rd H UENUM s; (d, s2) = Endpoint_GetEndpointDirection H s1
      in ((n AND ENDPOINT_EPNUM_MASK) OR d, s2))"

definition Endpoint_ResetEndpoint :: "'e hw \<Rightarrow> u8 \<Rightarrow> ('e, 'p) usb_scheme \<Rightarrow> ('e, 'p) usb_scheme" where
  "Endpoint_ResetEndpoint H Address s =
     wr H UERST 0 (wr H UERST (bv (unat (Address AND ENDPOINT_EPNUM_MASK))) s)"

definition Endpoint_EnableEndpoint :: "'e hw \<Rightarrow> ('e, 'p) usb_scheme \<Rightarrow> ('e, 'p) usb_scheme" where
  "Endpoint_EnableEndpoint H s = ermw H UECONX (\<lambda>v. v OR bv EPEN) s"

definition Endpoint_DisableEndpoint :: "'e hw \<Rightarrow> ('e, 'p) usb_scheme \<Rightarrow> ('e, 'p) usb_scheme" where
  "Endpoint_DisableEndpoint H s = ermw H UECONX (\<lambda>v. v AND NOT (bv EPEN)) s"

definition Endpoint_IsEnabled :: "'e hw \<Rightarrow> ('e, 'p) usb_scheme \<Rightarrow> bool \<times> ('e, 'p) usb_scheme" where
  "Endpoint_IsEnabled H s = erd_bit H UECONX EPEN s"

definition Endpoint_GetBusyBanks :: "'e hw \<Rightarrow> ('e, 'p) usb_scheme \<Rightarrow> u8 \<times> ('e, 'p) usb_scheme" where
  "Endpoint_GetBusyBanks H s =
     (let (v, s') = erd H UESTA0X s in (v AND push_bit NBUSYBK0 0x03, s'))"

definition Endpoint_AbortPendingIN :: "'e hw \<Rightarrow> ('e, 'p) usb_scheme \<Rightarrow> ('e, 'p) usb_scheme option" where
  "Endpoint_AbortPendingIN H = loop (\<lambda>s.
     let (n, s1) = Endpoint_GetBusyBanks H s
     in if n \<noteq> 0
        then do {
          s2 \<leftarrow> spin (\<lambda>t. let (b, t') = erd_bit H UEINTX RXOUTI t in (\<not> b, t'))
                  (ermw H UEINTX (\<lambda>v. v OR bv RXOUTI) s1);
          continue s2
        }
        else leave s1)"

definition Endpoint_IsReadWriteAllowed :: "'e hw \<Rightarrow> ('e, 'p) usb_scheme \<Rightarrow> bool \<times> ('e, 'p) usb_scheme" where
  "Endpoint_IsReadWriteAllowed H s = erd_bit H UEINTX RWAL s"

definition Endpoint_IsConfigured :: "'e hw \<Rightarrow> ('e, 'p) usb_scheme \<Rightarrow> bool \<times> ('e, 'p) usb_scheme" where
  "Endpoint_IsConfigured H s = erd_bit H UESTA0X CFGOK s"

definition Endpoint_GetEndpointInterrupts :: "'e hw \<Rightarrow> ('e, 'p) usb_scheme \<Rightarrow> u8 \<times> ('e, 'p) usb_scheme" where
  "Endpoint_GetEndpointInterrupts H s = rd H UEINT s"

definition Endpoint_HasEndpointInterrupted :: "'e hw \<Rightarrow> u8 \<Rightarrow> ('e, 'p) usb_scheme \<Rightarrow> bool \<times> ('e, 'p) usb_scheme" where
  "Endpoint_HasEndpointInterrupted H Address s =
     (let (v, s') = Endpoint_GetEndpointInterrupts H s
      in (tst v (unat (Address AND ENDPOINT_EPNUM_MASK)), s'))"

definition Endpoint_IsINReady :: "'e hw \<Rightarrow> ('e, 'p) usb_scheme \<Rightarrow> bool \<times> ('e, 'p) usb_scheme" where
  "Endpoint_IsINReady H s = erd_bit H UEINTX TXINI s"

definition Endpoint_IsOUTReceived :: "'e hw \<Rightarrow> ('e, 'p) usb_scheme \<Rightarrow> bool \<times> ('e, 'p) usb_scheme" where
  "Endpoint_IsOUTReceived H s = erd_bit H UEINTX RXOUTI s"

definition Endpoint_IsSETUPReceived :: "'e hw \<Rightarrow> ('e, 'p) usb_scheme \<Rightarrow> bool \<times> ('e, 'p) usb_scheme" where
  "Endpoint_IsSETUPReceived H s = erd_bit H UEINTX RXSTPI s"

definition Endpoint_ClearSETUP :: "'e hw \<Rightarrow> ('e, 'p) usb_scheme \<Rightarrow> ('e, 'p) usb_scheme" where
  "Endpoint_ClearSETUP H s = ermw H UEINTX (\<lambda>v. v AND NOT (bv RXSTPI)) s"

definition Endpoint_ClearIN :: "'e hw \<Rightarrow> ('e, 'p) usb_scheme \<Rightarrow> ('e, 'p) usb_scheme" where
  "Endpoint_ClearIN H s = ermw H UEINTX (\<lambda>v. v AND NOT (bv TXINI OR bv FIFOCON)) s"

definition Endpoint_ClearOUT :: "'e hw \<Rightarrow> ('e, 'p) usb_scheme \<Rightarrow> ('e, 'p) usb_scheme" where
  "Endpoint_ClearOUT H s = ermw H UEINTX (\<lambda>v. v AND NOT (bv RXOUTI OR bv FIFOCON)) s"

definition Endpoint_StallTransaction :: "'e hw \<Rightarrow> ('e, 'p) usb_scheme \<Rightarrow> ('e, 'p) usb_scheme" where
  "Endpoint_StallTransaction H s = ermw H UECONX (\<lambda>v. v OR bv STALLRQ) s"

definition Endpoint_ClearStall :: "'e hw \<Rightarrow> ('e, 'p) usb_scheme \<Rightarrow> ('e, 'p) usb_scheme" where
  "Endpoint_ClearStall H s = ermw H UECONX (\<lambda>v. v OR bv STALLRQC) s"

definition Endpoint_IsStalled :: "'e hw \<Rightarrow> ('e, 'p) usb_scheme \<Rightarrow> bool \<times> ('e, 'p) usb_scheme" where
  "Endpoint_IsStalled H s = erd_bit H UECONX STALLRQ s"

definition Endpoint_ResetDataToggle :: "'e hw \<Rightarrow> ('e, 'p) usb_scheme \<Rightarrow> ('e, 'p) usb_scheme" where
  "Endpoint_ResetDataToggle H s = ermw H UECONX (\<lambda>v. v OR bv RSTDT) s"

definition Endpoint_SetEndpointDirection :: "'e hw \<Rightarrow> u8 \<Rightarrow> ('e, 'p) usb_scheme \<Rightarrow> ('e, 'p) usb_scheme" where
  "Endpoint_SetEndpointDirection H DirectionMask s =
     ermw H UECFG0X (\<lambda>v. (v AND NOT (bv EPDIR)) OR (if DirectionMask \<noteq> 0 then bv EPDIR else 0)) s"

section \<open>Bank data\<close>

definition Endpoint_Read_8 :: "'e hw \<Rightarrow> ('e, 'p) usb_scheme \<Rightarrow> u8 \<times> ('e, 'p) usb_scheme" where
  "Endpoint_Read_8 H s = erd H UEDATX s"

definition Endpoint_Write_8 :: "'e hw \<Rightarrow> u8 \<Rightarrow> ('e, 'p) usb_scheme \<Rightarrow> ('e, 'p) usb_scheme" where
  "Endpoint_Write_8 H Data s = ewr H UEDATX Data s"

definition Endpoint_Discard_8 :: "'e hw \<Rightarrow> ('e, 'p) usb_scheme \<Rightarrow> ('e, 'p) usb_scheme" where
  "Endpoint_Discard_8 H s = snd (erd H UEDATX s)"

definition Endpoint_Read_16_LE :: "'e hw \<Rightarrow> ('e, 'p) usb_scheme \<Rightarrow> u16 \<times> ('e, 'p) usb_scheme" where
  "Endpoint_Read_16_LE H s =
     (let (b0, s1) = erd H UEDATX s; (b1, s2) = erd H UEDATX s1 in (u16_of b0 b1, s2))"

definition Endpoint_Read_16_BE :: "'e hw \<Rightarrow> ('e, 'p) usb_scheme \<Rightarrow> u16 \<times> ('e, 'p) usb_scheme" where
  "Endpoint_Read_16_BE H s =
     (let (b1, s1) = erd H UEDATX s; (b0, s2) = erd H UEDATX s1 in (u16_of b0 b1, s2))"

definition Endpoint_Write_16_LE :: "'e hw \<Rightarrow> u16 \<Rightarrow> ('e, 'p) usb_scheme \<Rightarrow> ('e, 'p) usb_scheme" where
  "Endpoint_Write_16_LE H Data s =
     ewr H UEDATX (ucast (drop_bit 8 Data)) (ewr H UEDATX (ucast (Data AND 0xFF)) s)"

definition Endpoint_Write_16_BE :: "'e hw \<Rightarrow> u16 \<Rightarrow> ('e, 'p) usb_scheme \<Rightarrow> ('e, 'p) usb_scheme" where
  "Endpoint_Write_16_BE H Data s =
     ewr H UEDATX (ucast (Data AND 0xFF)) (ewr H UEDATX (ucast (drop_bit 8 Data)) s)"

definition Endpoint_Discard_16 :: "'e hw \<Rightarrow> ('e, 'p) usb_scheme \<Rightarrow> ('e, 'p) usb_scheme" where
  "Endpoint_Discard_16 H s = snd (erd H UEDATX (snd (erd H UEDATX s)))"

definition Endpoint_Read_32_LE :: "'e hw \<Rightarrow> ('e, 'p) usb_scheme \<Rightarrow> u32 \<times> ('e, 'p) usb_scheme" where
  "Endpoint_Read_32_LE H s =
     (let (b0, s1) = erd H UEDATX s; (b1, s2) = erd H UEDATX s1;
          (b2, s3) = erd H UEDATX s2; (b3, s4) = erd H UEDATX s3
      in (u32_of b0 b1 b2 b3, s4))"

definition Endpoint_Read_32_BE :: "'e hw \<Rightarrow> ('e, 'p) usb_scheme \<Rightarrow> u32 \<times> ('e, 'p) usb_scheme" where
  "Endpoint_Read_32_BE H s =
     (let (b3, s1) = erd H UEDATX s; (b2, s2) = erd H UEDATX s1;
          (b1, s3) = erd H UEDATX s2; (b0, s4) = erd H UEDATX s3
      in (u32_of b0 b1 b2 b3, s4))"

definition Endpoint_Write_32_LE :: "'e hw \<Rightarrow> u32 \<Rightarrow> ('e, 'p) usb_scheme \<Rightarrow> ('e, 'p) usb_scheme" where
  "Endpoint_Write_32_LE H Data s =
     ewr H UEDATX (ucast (drop_bit 24 Data)) (ewr H UEDATX (ucast (drop_bit 16 Data))
       (ewr H UEDATX (ucast (drop_bit 8 Data)) (ewr H UEDATX (ucast (Data AND 0xFF)) s)))"

definition Endpoint_Write_32_BE :: "'e hw \<Rightarrow> u32 \<Rightarrow> ('e, 'p) usb_scheme \<Rightarrow> ('e, 'p) usb_scheme" where
  "Endpoint_Write_32_BE H Data s =
     ewr H UEDATX (ucast (Data AND 0xFF)) (ewr H UEDATX (ucast (drop_bit 8 Data))
       (ewr H UEDATX (ucast (drop_bit 16 Data)) (ewr H UEDATX (ucast (drop_bit 24 Data)) s)))"

definition Endpoint_Discard_32 :: "'e hw \<Rightarrow> ('e, 'p) usb_scheme \<Rightarrow> ('e, 'p) usb_scheme" where
  "Endpoint_Discard_32 H s =
     snd (erd H UEDATX (snd (erd H UEDATX (snd (erd H UEDATX (snd (erd H UEDATX s)))))))"

section \<open>Configuration\<close>

text \<open>
  The loop of \<open>Endpoint_ConfigureEndpoint_Prv\<close>: configuring endpoint \<open>Number\<close> re-writes the
  configuration of every allocated endpoint behind it, because the bank memory is
  allocated in endpoint order.  The body answers \<open>False\<close> where the code returns \<open>false\<close>;
  \<open>continue\<close> is the answer \<open>True\<close>.
\<close>

definition EPConfig_body :: "'e hw \<Rightarrow> u8 \<Rightarrow> u8 \<Rightarrow> u8 \<Rightarrow> u8 \<Rightarrow> ('e, 'p) usb_scheme \<Rightarrow> bool \<times> ('e, 'p) usb_scheme" where
  "EPConfig_body H Number UECFG0XData UECFG1XData EPNum s =
     (let s1 = Endpoint_SelectEndpoint H EPNum s;
          (UECFG0XTemp, UECFG1XTemp, UEIENXTemp, s2) =
            (if EPNum = Number then (UECFG0XData, UECFG1XData, 0, s1)
             else (let (a, t1) = erd H UECFG0X s1; (b, t2) = erd H UECFG1X t1;
                       (c, t3) = erd H UEIENX t2 in (a, b, c, t3)))
      in if UECFG1XTemp AND bv ALLOC = 0 then (True, s2)
         else
           (let s3 = Endpoint_DisableEndpoint H s2;
                s4 = ermw H UECFG1X (\<lambda>v. v AND NOT (bv ALLOC)) s3;
                s5 = Endpoint_EnableEndpoint H s4;
                s6 = ewr H UECFG0X UECFG0XTemp s5;
                s7 = ewr H UECFG1X UECFG1XTemp s6;
                s8 = ewr H UEIENX UEIENXTemp s7
            in Endpoint_IsConfigured H s8))"

function EPConfig_loop :: "'e hw \<Rightarrow> u8 \<Rightarrow> u8 \<Rightarrow> u8 \<Rightarrow> u8 \<Rightarrow> ('e, 'p) usb_scheme \<Rightarrow> bool \<times> ('e, 'p) usb_scheme" where
  "EPConfig_loop H Number UECFG0XData UECFG1XData EPNum s =
     (if EPNum < ENDPOINT_TOTAL_ENDPOINTS then
        (let (ok, s1) = EPConfig_body H Number UECFG0XData UECFG1XData EPNum s
         in if \<not> ok then (False, s1)
            else EPConfig_loop H Number UECFG0XData UECFG1XData (EPNum + 1) s1)
      else (True, s))"
  by pat_completeness auto
termination
  by (relation "measure (\<lambda>(H, N, a, b, EPNum, s). unat ENDPOINT_TOTAL_ENDPOINTS - unat EPNum)")
    (simp_all add: count_up_measure)

declare EPConfig_loop.simps [simp del]

definition Endpoint_ConfigureEndpoint_Prv ::
  "'e hw \<Rightarrow> u8 \<Rightarrow> u8 \<Rightarrow> u8 \<Rightarrow> ('e, 'p) usb_scheme \<Rightarrow> bool \<times> ('e, 'p) usb_scheme" where
  "Endpoint_ConfigureEndpoint_Prv H Number UECFG0XData UECFG1XData s =
     (let (ok, s1) = EPConfig_loop H Number UECFG0XData UECFG1XData Number s
      in if ok then (True, Endpoint_SelectEndpoint H Number s1) else (False, s1))"

definition Endpoint_ConfigureEndpoint ::
  "'e hw \<Rightarrow> u8 \<Rightarrow> u8 \<Rightarrow> u16 \<Rightarrow> u8 \<Rightarrow> ('e, 'p) usb_scheme \<Rightarrow> (bool \<times> ('e, 'p) usb_scheme) option" where
  "Endpoint_ConfigureEndpoint H Address Type Size Banks s =
     (let Number = Address AND ENDPOINT_EPNUM_MASK
      in if Number \<ge> ENDPOINT_TOTAL_ENDPOINTS then Some (False, s)
         else do {
           m \<leftarrow> Endpoint_BytesToEPSizeMask Size;
           Some (Endpoint_ConfigureEndpoint_Prv H Number
             (push_bit EPTYPE0 Type OR (if Address AND ENDPOINT_DIR_IN \<noteq> 0 then bv EPDIR else 0))
             (bv ALLOC OR (if Banks > 1 then bv EPBK0 else 0) OR m) s)
         })"

record USB_Endpoint_Table_t =
  Address_tbl :: u8
  Size_tbl :: u16
  Type_tbl :: u8
  Banks_tbl :: u8

text \<open>\<open>Endpoint_ConfigureEndpointTable\<close>; the table is a list, \<open>Entries\<close> of it are used.\<close>

fun Endpoint_ConfigureEndpointTable ::
  "'e hw \<Rightarrow> USB_Endpoint_Table_t list \<Rightarrow> ('e, 'p) usb_scheme \<Rightarrow> (bool \<times> ('e, 'p) usb_scheme) option" where
  "Endpoint_ConfigureEndpointTable H [] s = Some (True, s)"
| "Endpoint_ConfigureEndpointTable H (e # Table) s =
     (if Address_tbl e = 0 then Endpoint_ConfigureEndpointTable H Table s
      else do {
        (ok, s1) \<leftarrow> Endpoint_ConfigureEndpoint H (Address_tbl e) (Type_tbl e) (Size_tbl e) (Banks_tbl e) s;
        if \<not> ok then Some (False, s1) else Endpoint_ConfigureEndpointTable H Table s1
      })"

text \<open>\<open>Endpoint_ClearEndpoints\<close>: every endpoint is disabled and de-allocated.\<close>

definition ClearEndpoints_body :: "'e hw \<Rightarrow> u8 \<Rightarrow> ('e, 'p) usb_scheme \<Rightarrow> ('e, 'p) usb_scheme" where
  "ClearEndpoints_body H EPNum s =
     Endpoint_DisableEndpoint H (ewr H UECFG1X 0 (ewr H UEINTX 0 (ewr H UEIENX 0
       (Endpoint_SelectEndpoint H EPNum s))))"

definition Endpoint_ClearEndpoints :: "'e hw \<Rightarrow> ('e, 'p) usb_scheme \<Rightarrow> ('e, 'p) usb_scheme" where
  "Endpoint_ClearEndpoints H s =
     fold (ClearEndpoints_body H) (map of_nat [0..<unat ENDPOINT_TOTAL_ENDPOINTS]) (wr H UEINT 0 s)"

section \<open>Invariants\<close>

context reg_invariant
begin

lemma I_select [simp]: "I s \<Longrightarrow> I (Endpoint_SelectEndpoint H a s)"
  by (simp add: Endpoint_SelectEndpoint_def)

lemma I_ep_get [simp]:
  assumes "I s"
  shows "I (snd (Endpoint_BytesInEndpoint H s))" "I (snd (Endpoint_GetEndpointDirection H s))"
    "I (snd (Endpoint_IsEnabled H s))" "I (snd (Endpoint_GetBusyBanks H s))"
    "I (snd (Endpoint_IsReadWriteAllowed H s))" "I (snd (Endpoint_IsConfigured H s))"
    "I (snd (Endpoint_IsINReady H s))" "I (snd (Endpoint_IsOUTReceived H s))"
    "I (snd (Endpoint_IsSETUPReceived H s))" "I (snd (Endpoint_IsStalled H s))"
    "I (snd (Endpoint_GetEndpointInterrupts H s))" "I (snd (Endpoint_HasEndpointInterrupted H a s))"
  using assms by (simp_all add: Endpoint_BytesInEndpoint_def Endpoint_GetEndpointDirection_def
      Endpoint_IsEnabled_def Endpoint_GetBusyBanks_def Endpoint_IsReadWriteAllowed_def
      Endpoint_IsConfigured_def Endpoint_IsINReady_def Endpoint_IsOUTReceived_def
      Endpoint_IsSETUPReceived_def Endpoint_IsStalled_def Endpoint_GetEndpointInterrupts_def
      Endpoint_HasEndpointInterrupted_def pair_simps)

lemma I_ep_current [simp]: "I s \<Longrightarrow> I (snd (Endpoint_GetCurrentEndpoint H s))"
  by (simp add: Endpoint_GetCurrentEndpoint_def pair_simps)

lemma I_ep_set [simp]:
  assumes "I s"
  shows "I (Endpoint_ResetEndpoint H a s)" "I (Endpoint_EnableEndpoint H s)"
    "I (Endpoint_DisableEndpoint H s)" "I (Endpoint_ClearSETUP H s)" "I (Endpoint_ClearIN H s)"
    "I (Endpoint_ClearOUT H s)" "I (Endpoint_StallTransaction H s)" "I (Endpoint_ClearStall H s)"
    "I (Endpoint_ResetDataToggle H s)" "I (Endpoint_SetEndpointDirection H d s)"
  using assms by (simp_all add: Endpoint_ResetEndpoint_def Endpoint_EnableEndpoint_def
      Endpoint_DisableEndpoint_def Endpoint_ClearSETUP_def Endpoint_ClearIN_def Endpoint_ClearOUT_def
      Endpoint_StallTransaction_def Endpoint_ClearStall_def Endpoint_ResetDataToggle_def
      Endpoint_SetEndpointDirection_def)

lemma I_EPConfig_body [simp]: "I s \<Longrightarrow> I (snd (EPConfig_body H N a b n s))"
  by (simp add: EPConfig_body_def pair_simps)

lemma I_EPConfig_loop: "I s \<Longrightarrow> I (snd (EPConfig_loop H N a b n s))"
proof (induction "unat ENDPOINT_TOTAL_ENDPOINTS - unat n" arbitrary: n s rule: less_induct)
  case less
  then show ?case
    by (subst EPConfig_loop.simps) (simp add: pair_simps count_up_measure)
qed

lemma I_ConfigureEndpoint_Prv: "I s \<Longrightarrow> I (snd (Endpoint_ConfigureEndpoint_Prv H N a b s))"
  by (simp add: Endpoint_ConfigureEndpoint_Prv_def pair_simps I_EPConfig_loop)

lemma I_ConfigureEndpoint: "I s \<Longrightarrow> returns (Endpoint_ConfigureEndpoint H a t z b s) (\<lambda>r. I (snd r))"
  by (cases "Endpoint_BytesToEPSizeMask z")
    (simp_all add: Endpoint_ConfigureEndpoint_def Let_def I_ConfigureEndpoint_Prv)

lemma I_ClearEndpoints [simp]: "I s \<Longrightarrow> I (Endpoint_ClearEndpoints H s)"
proof -
  have "I s \<Longrightarrow> I (fold (ClearEndpoints_body H) ns s)" for ns s
    by (induction ns arbitrary: s) (simp_all add: ClearEndpoints_body_def)
  then show "I s \<Longrightarrow> I (Endpoint_ClearEndpoints H s)" by (simp add: Endpoint_ClearEndpoints_def)
qed

end

section \<open>The bank size encoding\<close>

lemma EPSize_loop_run:
  assumes "unat Bytes \<le> 8 * 2 ^ m" "m \<le> 12" "\<And>k. k < m \<Longrightarrow> 8 * 2 ^ k < unat Bytes" "j \<le> m"
  shows "EPSize_loop Bytes (of_nat j, of_nat (8 * 2 ^ j)) = Some (of_nat m)"
  using assms(4)
proof (induction "m - j" arbitrary: j)
  case 0
  then have "j = m" by simp
  moreover have "\<not> (of_nat (8 * 2 ^ m) :: u16) < Bytes"
  proof -
    have "(8 * 2 ^ m :: nat) \<le> 8 * 2 ^ 12" using assms(2) by (intro mult_left_mono power_increasing) simp_all
    then have "unat (of_nat (8 * 2 ^ m) :: u16) = 8 * 2 ^ m" by (intro unat_of_nat_small) simp
    with assms(1) show ?thesis by (simp add: word_less_nat_alt)
  qed
  ultimately show ?case by (simp add: EPSize_loop_def loop_leave)
next
  case (Suc d)
  then have j: "j < m" by simp
  then have "(8 * 2 ^ j :: nat) \<le> 8 * 2 ^ 11" using assms(2) by (intro mult_left_mono power_increasing) simp_all
  then have u: "unat (of_nat (8 * 2 ^ j) :: u16) = 8 * 2 ^ j" by (intro unat_of_nat_small) simp
  with assms(3) [OF j] have "(of_nat (8 * 2 ^ j) :: u16) < Bytes" by (simp add: word_less_nat_alt)
  then have "EPSize_loop Bytes (of_nat j, of_nat (8 * 2 ^ j)) =
      EPSize_loop Bytes (of_nat (Suc j), of_nat (8 * 2 ^ Suc j))"
    by (simp add: EPSize_loop_def loop_continue push_bit_eq_mult add.commute mult.commute)
  also have "\<dots> = Some (of_nat m)" using Suc.hyps(2) j by (intro Suc.hyps(1)) simp_all
  finally show ?case .
qed

lemma power_of_two_above:
  assumes "(n :: nat) \<le> 8 * 2 ^ b"
  obtains m where "n \<le> 8 * 2 ^ m" "m \<le> b" "\<And>k. k < m \<Longrightarrow> 8 * 2 ^ k < n"
proof
  let ?m = "LEAST m. n \<le> 8 * 2 ^ m"
  show "n \<le> 8 * 2 ^ ?m" using assms by (rule LeastI)
  show "?m \<le> b" using assms by (rule Least_le)
  show "8 * 2 ^ k < n" if "k < ?m" for k using not_less_Least [OF that] by simp
qed

lemma EPSizeMask_64 [simp]: "Endpoint_BytesToEPSizeMask 64 = Some 0x30"
proof -
  have "EPSize_loop 64 (of_nat 0, of_nat (8 * 2 ^ 0)) = Some (of_nat 3)"
  proof (rule EPSize_loop_run)
    fix k :: nat assume "k < 3"
    then have "k = 0 \<or> k = 1 \<or> k = 2" by linarith
    then show "8 * 2 ^ k < unat (64 :: u16)" by auto
  qed simp_all
  then show ?thesis by (simp add: Endpoint_BytesToEPSizeMask_def)
qed

lemma ConfigureEndpoint_total:
  "Endpoint_BytesToEPSizeMask z = Some m \<Longrightarrow> \<exists>r. Endpoint_ConfigureEndpoint H a t z b s = Some r"
  by (cases "a AND ENDPOINT_EPNUM_MASK \<ge> ENDPOINT_TOTAL_ENDPOINTS")
    (auto simp: Endpoint_ConfigureEndpoint_def Let_def)

text \<open>
  C30: for every size up to 32768 bytes \<open>Endpoint_BytesToEPSizeMask\<close> returns, and its result
  encodes (from bit 4 on) the smallest bank of \<open>8 * 2 ^ m\<close> bytes that the size fits in.
\<close>

theorem EPSizeMask_smallest_bank:
  assumes "Bytes \<le> 32768"
  shows "\<exists>m \<le> 12. Endpoint_BytesToEPSizeMask Bytes = Some (push_bit 4 (of_nat m)) \<and>
    unat Bytes \<le> 8 * 2 ^ m \<and> (\<forall>k < m. 8 * 2 ^ k < unat Bytes)"
proof -
  from assms have "unat Bytes \<le> 8 * 2 ^ 12" by (simp add: word_le_nat_alt)
  then obtain m where m: "unat Bytes \<le> 8 * 2 ^ m" "m \<le> 12" "\<And>k. k < m \<Longrightarrow> 8 * 2 ^ k < unat Bytes"
    using power_of_two_above by blast
  from EPSize_loop_run [OF m, of 0] m show ?thesis
    by (auto simp: Endpoint_BytesToEPSizeMask_def)
qed

theorem EPSizeMask_smallest_bank_witness:
  "\<exists>m \<le> 12. Endpoint_BytesToEPSizeMask 100 = Some (push_bit 4 (of_nat m)) \<and>
    unat (100 :: u16) \<le> 8 * 2 ^ m \<and> (\<forall>k < m. 8 * 2 ^ k < unat (100 :: u16))"
  using EPSizeMask_smallest_bank [of 100] by simp

text \<open>
  For a size above 32768 bytes the doubling 16-bit counter wraps to zero and
  \<open>Endpoint_BytesToEPSizeMask\<close> never returns.
\<close>

theorem EPSizeMask_diverges:
  assumes "Bytes > 32768"
  shows "Endpoint_BytesToEPSizeMask Bytes = None"
proof -
  let ?I = "\<lambda>(M :: u8, C :: u16). C \<in> set [0, 8, 16, 32, 64, 128, 256, 512, 1024, 2048, 4096, 8192, 16384, 32768]"
  have "EPSize_loop Bytes (0, 8) = None"
    unfolding EPSize_loop_def
  proof (rule loop_diverges [where I = ?I], simp, clarify)
    fix M :: u8 and C :: u16
    assume C: "C \<in> set [0, 8, 16, 32, 64, 128, 256, 512, 1024, 2048, 4096, 8192, 16384, 32768]"
    then have "C \<le> 32768" by auto
    with assms have "C < Bytes" by simp
    moreover have "?I (M + 1, push_bit 1 C)" using C by (auto simp: push_bit_eq_mult)
    ultimately show "\<exists>s'. (if C < Bytes then continue (M + 1, push_bit 1 C) else leave M) = continue s' \<and> ?I s'"
      by auto
  qed
  then show ?thesis by (simp add: Endpoint_BytesToEPSizeMask_def)
qed

theorem EPSizeMask_diverges_witness:
  "(40000 :: u16) > 32768 \<and> Endpoint_BytesToEPSizeMask 40000 = None"
  using EPSizeMask_diverges [of 40000] by simp

section \<open>What configuring an endpoint does\<close>

text \<open>
  The documented behaviour of the configuration registers.  They are memory, and when \<open>UECFG1X\<close> is written with the
  \<open>ALLOC\<close> bit the controller tries to allocate the banks of the selected endpoint and reports in the \<open>CFGOK\<close> bit of \<open>UESTA0X\<close>
  whether it could: \<open>fits n v\<close> says for which values \<open>v\<close> endpoint \<open>n\<close> can have its banks.  Without \<open>ALLOC\<close>
  nothing is known of \<open>UESTA0X\<close> after the write.
\<close>

definition alloc_config :: "'e hw \<Rightarrow> (u8 \<Rightarrow> u8 \<Rightarrow> bool) \<Rightarrow> bool" where
  "alloc_config H fits \<longleftrightarrow> plain H (G UENUM) \<and> (\<forall>r \<in> {UECFG0X, UECONX, UEIENX}. plain H (E r)) \<and>
     pre_rd H (E UECFG1X) = id \<and> pre_rd H (E UESTA0X) = id \<and>
     (\<forall>c. \<exists>u. let n = gregs c UENUM; v = eregs c n UECFG1X in
        post_wr H (E UECFG1X) c = c\<lparr>eregs := (eregs c)(n := (eregs c n)(UESTA0X := u))\<rparr> \<and>
        (tst v ALLOC \<longrightarrow> (tst u CFGOK \<longleftrightarrow> fits n v)))"

text \<open>A controller that has these registers, for any \<open>fits\<close>.\<close>

definition alloc_hw :: "(u8 \<Rightarrow> u8 \<Rightarrow> bool) \<Rightarrow> unit hw" where
  "alloc_hw fits = memory_hw\<lparr>post_wr := \<lambda>p c.
     if p = E UECFG1X then
       let n = gregs c UENUM; v = eregs c n UECFG1X
       in c\<lparr>eregs := (eregs c)(n := (eregs c n)(UESTA0X := if tst v ALLOC \<and> fits n v then bv CFGOK else 0))\<rparr>
     else c\<rparr>"

lemma alloc_hw_config: "alloc_config (alloc_hw fits) fits"
  by (auto simp: alloc_config_def alloc_hw_def memory_hw_def plain_def fun_eq_iff Let_def bits)

lemma alloc_ewr:
  assumes "alloc_config H fits"
  obtains u where "ewr H UECFG1X v s = s\<lparr>ctl := (ctl s)\<lparr>eregs := (eregs (ctl s))(gregs (ctl s) UENUM :=
      (eregs (ctl s) (gregs (ctl s) UENUM))(UECFG1X := v, UESTA0X := u))\<rparr>\<rparr>"
    "tst v ALLOC \<Longrightarrow> tst u CFGOK \<longleftrightarrow> fits (gregs (ctl s) UENUM) v"
proof -
  let ?n = "gregs (ctl s) UENUM"
  let ?c = "(ctl s)\<lparr>eregs := (eregs (ctl s))(?n := (eregs (ctl s) ?n)(UECFG1X := v))\<rparr>"
  obtain u where "post_wr H (E UECFG1X) ?c = ?c\<lparr>eregs := (eregs ?c)(?n := (eregs ?c ?n)(UESTA0X := u))\<rparr>"
    "tst v ALLOC \<longrightarrow> (tst u CFGOK \<longleftrightarrow> fits ?n v)"
    using assms unfolding alloc_config_def by (auto simp: Let_def dest!: spec [of _ ?c])
  then show thesis by (intro that [of u]) (simp_all add: ewr_def Let_def)
qed

lemma alloc_erd:
  "alloc_config H fits \<Longrightarrow> r \<in> {UECFG1X, UESTA0X} \<Longrightarrow> erd H r s = (eregs (ctl s) (gregs (ctl s) UENUM) r, s)"
  by (auto simp: alloc_config_def erd_def Let_def)

lemma epnum_mask: "n < ENDPOINT_TOTAL_ENDPOINTS \<Longrightarrow> n AND ENDPOINT_EPNUM_MASK = n"
proof -
  assume "n < ENDPOINT_TOTAL_ENDPOINTS"
  then have "unat n < 16" by (simp add: ENDPOINT_TOTAL_ENDPOINTS_def word_less_nat_alt)
  then have "take_bit 4 n = n" 
    by (simp add: word_unat_eq_iff unsigned_take_bit_eq take_bit_nat_eq_self)
  then show ?thesis
    by (simp add: ENDPOINT_EPNUM_MASK_def take_bit_eq_mask mask_eq_exp_minus_1)
qed

text \<open>
  What the re-configuration loop does to the registers of endpoint \<open>k\<close> when it runs from
  endpoint \<open>n\<close> on: nothing below \<open>n\<close>; endpoint \<open>Number\<close> gets the new configuration and is
  enabled; the others keep their configuration and are enabled again where they have a bank.  \<open>accepted\<close> says
  whether the controller can allocate the banks of endpoint \<open>k\<close> then.
\<close>

definition reconf_ep :: "u8 \<Rightarrow> u8 \<Rightarrow> u8 \<Rightarrow> u8 \<Rightarrow> u8 \<Rightarrow> (epreg \<Rightarrow> u8) \<Rightarrow> (epreg \<Rightarrow> u8) \<Rightarrow> bool" where
  "reconf_ep Number a b n k old new \<longleftrightarrow>
     (if k < n then new = old
      else if k = Number
      then new UECFG0X = a \<and> new UECFG1X = b \<and> new UEIENX = 0 \<and> tst (new UECONX) EPEN \<and> tst (new UESTA0X) CFGOK
      else new UECFG0X = old UECFG0X \<and> new UECFG1X = old UECFG1X \<and> new UEIENX = old UEIENX \<and>
        (if tst (old UECFG1X) ALLOC then tst (new UECONX) EPEN \<and> tst (new UESTA0X) CFGOK
         else new UECONX = old UECONX \<and> new UESTA0X = old UESTA0X))"

definition accepted :: "(u8 \<Rightarrow> u8 \<Rightarrow> bool) \<Rightarrow> u8 \<Rightarrow> u8 \<Rightarrow> u8 \<Rightarrow> (epreg \<Rightarrow> u8) \<Rightarrow> bool" where
  "accepted fits Number b k old \<longleftrightarrow> (if k = Number then fits k b else tst (old UECFG1X) ALLOC \<longrightarrow> fits k (old UECFG1X))"

lemma reconf_ep_other:
  "reconf_ep Number a b n k old new \<Longrightarrow> k \<noteq> Number \<Longrightarrow> r \<in> {UECFG0X, UECFG1X, UEIENX} \<Longrightarrow> new r = old r"
  by (auto simp: reconf_ep_def split: if_splits)

lemma reconf_ep_self:
  "reconf_ep Number a b Number Number old new \<Longrightarrow>
     new UECFG0X = a \<and> new UECFG1X = b \<and> tst (new UECONX) EPEN \<and> tst (new UESTA0X) CFGOK"
  by (simp add: reconf_ep_def)

lemma EPConfig_body_alloc:
  assumes H: "alloc_config H fits" and n: "n < ENDPOINT_TOTAL_ENDPOINTS" and b: "tst b ALLOC"
  obtains s' where "EPConfig_body H N a b n s = (accepted fits N b n (eregs (ctl s) n), s')" "vars s' = vars s"
    "\<And>r. r \<noteq> UENUM \<Longrightarrow> gregs (ctl s') r = gregs (ctl s) r"
    "\<And>k. k \<noteq> n \<Longrightarrow> eregs (ctl s') k = eregs (ctl s) k"
    "accepted fits N b n (eregs (ctl s) n) \<Longrightarrow> reconf_ep N a b n n (eregs (ctl s) n) (eregs (ctl s') n)"
proof -
  have [simp]: "plain H (G UENUM)" "plain H (E UECFG0X)" "plain H (E UECONX)" "plain H (E UEIENX)"
    using H by (auto simp: alloc_config_def)
  note [simp] = epnum_mask [OF n] plain_access alloc_erd [OF H]
  let ?e = "eregs (ctl s) n" and ?s1 = "Endpoint_SelectEndpoint H n s"
  let ?a = "if n = N then a else ?e UECFG0X" and ?b = "if n = N then b else ?e UECFG1X"
  let ?i = "if n = N then 0 else ?e UEIENX"
  have s1: "gregs (ctl ?s1) = (gregs (ctl s))(UENUM := n)" "eregs (ctl ?s1) = eregs (ctl s)" "vars ?s1 = vars s"
    by (simp_all add: Endpoint_SelectEndpoint_def vars_def)
  show thesis
  proof (cases "tst ?b ALLOC")
    case False
    then have "EPConfig_body H N a b n s = (True, ?s1)" using b s1
      by (auto simp: EPConfig_body_def Let_def bits)
    then show thesis using False s1 b by (intro that [of ?s1]) (auto simp: accepted_def reconf_ep_def)
  next
    case True
    define s3 where "s3 = Endpoint_DisableEndpoint H ?s1"
    have s3: "ctl s3 = (ctl ?s1)\<lparr>eregs := (eregs (ctl s))(n := ?e(UECONX := ?e UECONX AND NOT (bv EPEN)))\<rparr>" "vars s3 = vars s"
      using s1 by (simp_all add: s3_def Endpoint_DisableEndpoint_def vars_def)
    obtain u where u: "ewr H UECFG1X (?e UECFG1X AND NOT (bv ALLOC)) s3 = s3\<lparr>ctl := (ctl s3)\<lparr>eregs := (eregs (ctl s3))(n :=
        (eregs (ctl s3) n)(UECFG1X := ?e UECFG1X AND NOT (bv ALLOC), UESTA0X := u))\<rparr>\<rparr>"
      using alloc_ewr [OF H, of "?e UECFG1X AND NOT (bv ALLOC)" s3] s1 s3 by auto
    define s6 where "s6 = ewr H UECFG0X ?a (Endpoint_EnableEndpoint H (ermw H UECFG1X (\<lambda>v. v AND NOT (bv ALLOC)) s3))"
    have s6: "gregs (ctl s6) = (gregs (ctl s))(UENUM := n)" "vars s6 = vars s" "eregs (ctl s6) = (eregs (ctl s))(n :=
        ?e(UECONX := (?e UECONX AND NOT (bv EPEN)) OR bv EPEN, UECFG1X := ?e UECFG1X AND NOT (bv ALLOC), UESTA0X := u, UECFG0X := ?a))"
      using s1 s3 u by (auto simp: s6_def Endpoint_EnableEndpoint_def ermw_def vars_def fun_eq_iff)
    obtain u' where u': "ewr H UECFG1X ?b s6 = s6\<lparr>ctl := (ctl s6)\<lparr>eregs := (eregs (ctl s6))(n :=
        (eregs (ctl s6) n)(UECFG1X := ?b, UESTA0X := u'))\<rparr>\<rparr>" "tst u' CFGOK \<longleftrightarrow> fits n ?b"
      using alloc_ewr [OF H, of ?b s6] s6 True by auto
    define s8 where "s8 = ewr H UEIENX ?i (ewr H UECFG1X ?b s6)"
    have s8: "gregs (ctl s8) = (gregs (ctl s))(UENUM := n)" "vars s8 = vars s" "\<And>k. k \<noteq> n \<Longrightarrow> eregs (ctl s8) k = eregs (ctl s) k"
      "eregs (ctl s8) n UECFG0X = ?a" "eregs (ctl s8) n UECFG1X = ?b" "eregs (ctl s8) n UEIENX = ?i"
      "eregs (ctl s8) n UECONX = (?e UECONX AND NOT (bv EPEN)) OR bv EPEN" "eregs (ctl s8) n UESTA0X = u'"
      using s6 u' by (auto simp: s8_def vars_def)
    have "EPConfig_body H N a b n s = Endpoint_IsConfigured H s8"
      using True s1 by (auto simp: EPConfig_body_def Let_def bits s8_def s6_def s3_def)
    then have "EPConfig_body H N a b n s = (fits n ?b, s8)"
      using s8 u'(2) by (simp add: Endpoint_IsConfigured_def erd_bit_def)
    then show thesis using True s8 u'(2)
      by (intro that [of s8]) (auto simp: accepted_def reconf_ep_def bits bit_or_iff split: if_splits)
  qed
qed

lemma EPConfig_loop_alloc:
  assumes H: "alloc_config H fits" and b: "tst b ALLOC"
  shows "n \<le> ENDPOINT_TOTAL_ENDPOINTS \<Longrightarrow>
    \<exists>ok s'. EPConfig_loop H N a b n s = (ok, s') \<and> vars s' = vars s \<and>
      (ok \<longleftrightarrow> (\<forall>k < ENDPOINT_TOTAL_ENDPOINTS. n \<le> k \<longrightarrow> accepted fits N b k (eregs (ctl s) k))) \<and>
      (\<forall>r. r \<noteq> UENUM \<longrightarrow> gregs (ctl s') r = gregs (ctl s) r) \<and>
      (ok \<longrightarrow> (\<forall>k < ENDPOINT_TOTAL_ENDPOINTS. reconf_ep N a b n k (eregs (ctl s) k) (eregs (ctl s') k)))"
proof (induction "unat ENDPOINT_TOTAL_ENDPOINTS - unat n" arbitrary: n s rule: less_induct)
  case less
  show ?case
  proof (cases "n < ENDPOINT_TOTAL_ENDPOINTS")
    case False
    then have "EPConfig_loop H N a b n s = (True, s)" by (simp add: EPConfig_loop.simps)
    then show ?thesis using False by (auto simp: reconf_ep_def)
  next
    case True
    let ?acc = "\<lambda>s k. accepted fits N b k (eregs (ctl s) k)"
    obtain s1 where s1: "EPConfig_body H N a b n s = (?acc s n, s1)" "vars s1 = vars s"
        "\<And>r. r \<noteq> UENUM \<Longrightarrow> gregs (ctl s1) r = gregs (ctl s) r"
        "\<And>k. k \<noteq> n \<Longrightarrow> eregs (ctl s1) k = eregs (ctl s) k"
        "?acc s n \<Longrightarrow> reconf_ep N a b n n (eregs (ctl s) n) (eregs (ctl s1) n)"
      using EPConfig_body_alloc [OF H True b, where N = N and s = s and a = a] by blast
    have step: "k < n + 1 \<longleftrightarrow> k \<le> n" "n + 1 \<le> k \<longleftrightarrow> n < k" for k
      using unat_Suc_less [OF True] by (auto simp: word_less_nat_alt word_le_nat_alt)
    show ?thesis
    proof (cases "?acc s n")
      case False
      then show ?thesis using s1(1-3) True by (subst EPConfig_loop.simps) auto
    next
      case acc: True
      obtain ok s' where s': "EPConfig_loop H N a b (n + 1) s1 = (ok, s')" "vars s' = vars s1"
          "ok \<longleftrightarrow> (\<forall>k < ENDPOINT_TOTAL_ENDPOINTS. n + 1 \<le> k \<longrightarrow> ?acc s1 k)"
          "\<forall>r. r \<noteq> UENUM \<longrightarrow> gregs (ctl s') r = gregs (ctl s1) r"
          "ok \<longrightarrow> (\<forall>k < ENDPOINT_TOTAL_ENDPOINTS. reconf_ep N a b (n + 1) k (eregs (ctl s1) k) (eregs (ctl s') k))"
        using less.hyps [of "n + 1" s1] True step by (auto simp: count_up_measure)
      have le: "n \<le> k \<longleftrightarrow> k = n \<or> n < k" for k by auto
      have "?acc s1 k = ?acc s k" if "n < k" for k using that s1(4) [of k] by simp
      then have "ok \<longleftrightarrow> (\<forall>k < ENDPOINT_TOTAL_ENDPOINTS. n \<le> k \<longrightarrow> ?acc s k)"
        using acc unfolding s'(3) step by (auto simp: le)
      moreover have "reconf_ep N a b n k (eregs (ctl s) k) (eregs (ctl s') k)" if ok "k < ENDPOINT_TOTAL_ENDPOINTS" for k
        using s'(5) that s1(4) [of k] s1(5) [OF acc] by (cases "k = n") (auto simp: reconf_ep_def step split: if_splits)
      ultimately show ?thesis using s' s1 True acc by (subst EPConfig_loop.simps) auto
    qed
  qed
qed

lemma ConfigureEndpoint_alloc:
  fixes Address Type Banks :: u8
  defines "Number \<equiv> Address AND ENDPOINT_EPNUM_MASK"
  assumes H: "alloc_config H fits" and N: "Number < ENDPOINT_TOTAL_ENDPOINTS" and m: "Endpoint_BytesToEPSizeMask Size = Some m"
  defines "a \<equiv> push_bit EPTYPE0 Type OR (if Address AND ENDPOINT_DIR_IN \<noteq> 0 then bv EPDIR else 0)"
    and "b \<equiv> bv ALLOC OR (if Banks > 1 then bv EPBK0 else 0) OR m"
  shows "\<exists>ok s'. Endpoint_ConfigureEndpoint H Address Type Size Banks s = Some (ok, s') \<and> vars s' = vars s \<and>
    (ok \<longleftrightarrow> (\<forall>k < ENDPOINT_TOTAL_ENDPOINTS. Number \<le> k \<longrightarrow> accepted fits Number b k (eregs (ctl s) k))) \<and>
    (ok \<longrightarrow> gregs (ctl s') = (gregs (ctl s))(UENUM := Number) \<and>
      (\<forall>k < ENDPOINT_TOTAL_ENDPOINTS. reconf_ep Number a b Number k (eregs (ctl s) k) (eregs (ctl s') k)))"
proof -
  have "tst b ALLOC" by (simp add: b_def bits bit_or_iff)
  from EPConfig_loop_alloc [OF H this less_imp_le [OF N], where N = Number and a = a and s = s] obtain ok s1 where
    s1: "EPConfig_loop H Number a b Number s = (ok, s1)" "vars s1 = vars s"
      "ok \<longleftrightarrow> (\<forall>k < ENDPOINT_TOTAL_ENDPOINTS. Number \<le> k \<longrightarrow> accepted fits Number b k (eregs (ctl s) k))"
      "\<forall>r. r \<noteq> UENUM \<longrightarrow> gregs (ctl s1) r = gregs (ctl s) r"
      "ok \<longrightarrow> (\<forall>k < ENDPOINT_TOTAL_ENDPOINTS. reconf_ep Number a b Number k (eregs (ctl s) k) (eregs (ctl s1) k))"
    by (elim exE conjE) (erule (4) that)
  have "plain H (G UENUM)" using H by (simp add: alloc_config_def)
  then have eq: "Endpoint_SelectEndpoint H Number s1 = s1\<lparr>ctl := (ctl s1)\<lparr>gregs := (gregs (ctl s1))(UENUM := Number)\<rparr>\<rparr>"
    by (simp add: Endpoint_SelectEndpoint_def plain_wr epnum_mask [OF N])
  have sel: "gregs (ctl (Endpoint_SelectEndpoint H Number s1)) = (gregs (ctl s))(UENUM := Number)"
    "eregs (ctl (Endpoint_SelectEndpoint H Number s1)) = eregs (ctl s1)" "vars (Endpoint_SelectEndpoint H Number s1) = vars s"
    unfolding eq using s1(2,4) by (simp_all add: fun_eq_iff vars_def)
  have "Endpoint_ConfigureEndpoint H Address Type Size Banks s = Some (Endpoint_ConfigureEndpoint_Prv H Number a b s)"
    using N m unfolding not_le [symmetric] Number_def by (simp add: Endpoint_ConfigureEndpoint_def a_def b_def)
  then have cfg: "Endpoint_ConfigureEndpoint H Address Type Size Banks s = Some (ok, if ok then Endpoint_SelectEndpoint H Number s1 else s1)"
    by (simp add: Endpoint_ConfigureEndpoint_Prv_def s1(1))
  show ?thesis
  proof (intro exI conjI impI)
    show "vars (if ok then Endpoint_SelectEndpoint H Number s1 else s1) = vars s" using sel(3) s1(2) by simp
  next
    assume ok
    then show "gregs (ctl (if ok then Endpoint_SelectEndpoint H Number s1 else s1)) = (gregs (ctl s))(UENUM := Number)"
      "\<forall>k < ENDPOINT_TOTAL_ENDPOINTS. reconf_ep Number a b Number k (eregs (ctl s) k)
        (eregs (ctl (if ok then Endpoint_SelectEndpoint H Number s1 else s1)) k)"
      using sel(1,2) s1(5) by (simp_all only: if_True simp_thms)
  qed (rule cfg s1(3))+
qed

text \<open>
  C24: on a controller whose configuration registers behave as documented, \<open>Endpoint_ConfigureEndpoint\<close> of a valid
  address returns, and it reports success exactly when the controller can allocate the banks of the endpoint and, again, those of every
  allocated endpoint behind it.  After a success the endpoint is selected and enabled, its type, direction, bank and size are written, the
  controller reports it as configured, and every other endpoint has the configuration that it had, although those behind it
  are written again.  The variables are unchanged in both cases.
\<close>

theorem Endpoint_ConfigureEndpoint_correct:
  assumes "alloc_config H fits" and "Address AND ENDPOINT_EPNUM_MASK = Number" and "Number < ENDPOINT_TOTAL_ENDPOINTS"
    and "Endpoint_BytesToEPSizeMask Size = Some m" and "b = (bv ALLOC OR (if Banks > 1 then bv EPBK0 else 0) OR m)"
  shows "\<exists>ok s'. Endpoint_ConfigureEndpoint H Address Type Size Banks s = Some (ok, s') \<and> vars s' = vars s \<and>
    (ok \<longleftrightarrow> fits Number b \<and> (\<forall>k < ENDPOINT_TOTAL_ENDPOINTS. Number < k \<longrightarrow>
       tst (eregs (ctl s) k UECFG1X) ALLOC \<longrightarrow> fits k (eregs (ctl s) k UECFG1X))) \<and>
    (ok \<longrightarrow> gregs (ctl s') = (gregs (ctl s))(UENUM := Number) \<and>
      eregs (ctl s') Number UECFG0X =
        (push_bit EPTYPE0 Type OR (if Address AND ENDPOINT_DIR_IN \<noteq> 0 then bv EPDIR else 0)) \<and>
      eregs (ctl s') Number UECFG1X = b \<and>
      tst (eregs (ctl s') Number UECONX) EPEN \<and> tst (eregs (ctl s') Number UESTA0X) CFGOK \<and>
      (\<forall>k < ENDPOINT_TOTAL_ENDPOINTS. k \<noteq> Number \<longrightarrow>
         (\<forall>r \<in> {UECFG0X, UECFG1X, UEIENX}. eregs (ctl s') k r = eregs (ctl s) k r)))"
proof -
  from ConfigureEndpoint_alloc [OF assms(1) _ assms(4), where Address = Address and Type = Type and Banks = Banks and s = s] assms(2,3,5)
  obtain ok s' where s': "Endpoint_ConfigureEndpoint H Address Type Size Banks s = Some (ok, s')" "vars s' = vars s"
      "ok \<longleftrightarrow> (\<forall>k < ENDPOINT_TOTAL_ENDPOINTS. Number \<le> k \<longrightarrow> accepted fits Number b k (eregs (ctl s) k))"
      "ok \<longrightarrow> gregs (ctl s') = (gregs (ctl s))(UENUM := Number)"
    and ep: "ok \<longrightarrow> (\<forall>k < ENDPOINT_TOTAL_ENDPOINTS. reconf_ep Number
       (push_bit EPTYPE0 Type OR (if Address AND ENDPOINT_DIR_IN \<noteq> 0 then bv EPDIR else 0))
       b Number k (eregs (ctl s) k) (eregs (ctl s') k))"
    by auto
  have "ok \<longleftrightarrow> fits Number b \<and> (\<forall>k < ENDPOINT_TOTAL_ENDPOINTS. Number < k \<longrightarrow>
      tst (eregs (ctl s) k UECFG1X) ALLOC \<longrightarrow> fits k (eregs (ctl s) k UECFG1X))"
    using assms(3) unfolding s'(3) by (auto simp: accepted_def order.order_iff_strict)
  moreover have "k \<noteq> Number \<Longrightarrow> \<forall>r \<in> {UECFG0X, UECFG1X, UEIENX}. eregs (ctl s') k r = eregs (ctl s) k r"
    if ok "k < ENDPOINT_TOTAL_ENDPOINTS" for k using ep that reconf_ep_other by blast
  moreover have "ok \<Longrightarrow> eregs (ctl s') Number UECFG0X =
        (push_bit EPTYPE0 Type OR (if Address AND ENDPOINT_DIR_IN \<noteq> 0 then bv EPDIR else 0)) \<and>
      eregs (ctl s') Number UECFG1X = b \<and> tst (eregs (ctl s') Number UECONX) EPEN \<and> tst (eregs (ctl s') Number UESTA0X) CFGOK"
    using ep assms(3) reconf_ep_self by blast
  ultimately show ?thesis using s'(1,2,4) by (intro exI [of _ ok] exI [of _ s']) blast
qed

text \<open>
  The banks of the ATmega32U4: up to 256 bytes for endpoint 1 and 64 bytes for the others.
\<close>

definition atmega32u4_fits :: "u8 \<Rightarrow> u8 \<Rightarrow> bool" where
  "atmega32u4_fits n v \<longleftrightarrow> drop_bit EPSIZE0 (v AND 0x70) \<le> (if n = 1 then 5 else 3)"

theorem Endpoint_ConfigureEndpoint_correct_witness:
  "\<exists>s'. Endpoint_ConfigureEndpoint (alloc_hw atmega32u4_fits) 0x81 EP_TYPE_INTERRUPT 64 1
          (usb_with (\<lambda>_. 0) (\<lambda>_ _. 0)) = Some (True, s') \<and>
    eregs (ctl s') 1 UECFG0X = 0xC1 \<and> eregs (ctl s') 1 UECFG1X = 0x32 \<and> tst (eregs (ctl s') 1 UESTA0X) CFGOK"
  using Endpoint_ConfigureEndpoint_correct [OF alloc_hw_config, where Address = "0x81" and Number = 1 and Size = 64 and m = "0x30" and b = "0x32" and
      Banks = 1 and Type = EP_TYPE_INTERRUPT and fits = atmega32u4_fits and s = "usb_with (\<lambda>_. 0) (\<lambda>_ _. 0)"]
  by (auto simp: usb_with_def c_defs bits atmega32u4_fits_def)

end
