(* ===== verification/Usb_Device.thy ===== *)
theory Usb_Device
  imports Endpoint
begin

text \<open>
  The device-mode state machine of the library: initialisation and reset of the
  interface (\<open>USBController_AVR8.c\<close>), the USB general interrupt service routine
  (\<open>USBInterrupt_AVR8.c\<close>), the delivery of interrupts to the main program, and the two
  wait loops of \<open>Endpoint_AVR8.c\<close>.

  The main program is modelled as sequential code; a pending interrupt is taken at the
  head of every iteration of a polling loop (\<open>irq_poll\<close>) and between the calls of the
  main loop.
\<close>

section \<open>Device states and events\<close>

definition DEVICE_STATE_Unattached :: u8 where "DEVICE_STATE_Unattached = 0"
definition DEVICE_STATE_Powered :: u8 where "DEVICE_STATE_Powered = 1"
definition DEVICE_STATE_Default :: u8 where "DEVICE_STATE_Default = 2"
definition DEVICE_STATE_Addressed :: u8 where "DEVICE_STATE_Addressed = 3"
definition DEVICE_STATE_Configured :: u8 where "DEVICE_STATE_Configured = 4"
definition DEVICE_STATE_Suspended :: u8 where "DEVICE_STATE_Suspended = 5"

lemmas device_states [c_defs] = DEVICE_STATE_Unattached_def DEVICE_STATE_Powered_def
  DEVICE_STATE_Default_def DEVICE_STATE_Addressed_def DEVICE_STATE_Configured_def
  DEVICE_STATE_Suspended_def

text \<open>
  \<open>Events.c\<close> defines one empty stub; the events the application does not define are weak
  aliases of it.  The application defines \<open>Connect\<close> and \<open>Disconnect\<close> with empty bodies.
\<close>

definition USB_Event_Stub :: "('e, 'p) usb_scheme \<Rightarrow> ('e, 'p) usb_scheme" where
  "USB_Event_Stub s = s"

definition EVENT_USB_Device_Connect :: "('e, 'p) usb_scheme \<Rightarrow> ('e, 'p) usb_scheme" where
  "EVENT_USB_Device_Connect s = s"

definition EVENT_USB_Device_Disconnect :: "('e, 'p) usb_scheme \<Rightarrow> ('e, 'p) usb_scheme" where
  "EVENT_USB_Device_Disconnect s = s"

lemmas events [simp] = USB_Event_Stub_def EVENT_USB_Device_Connect_def EVENT_USB_Device_Disconnect_def

section \<open>Initialisation\<close>

definition USB_Init_Device :: "'e hw \<Rightarrow> ('e, 'p) usb_scheme \<Rightarrow> ('e, 'p) usb_scheme option" where
  "USB_Init_Device H s =
     do {
       let s1 = s\<lparr>USB_DeviceState := DEVICE_STATE_Unattached,
                  USB_Device_ConfigurationNumber := 0,
                  USB_Device_RemoteWakeupEnabled := False,
                  USB_Device_CurrentlySelfPowered := False\<rparr>;
       let s2 = (if USB_Options AND USB_DEVICE_OPT_LOWSPEED \<noteq> 0
                 then USB_Device_SetLowSpeed H s1 else USB_Device_SetFullSpeed H s1);
       let s3 = USB_INT_Enable H USB_INT_VBUSTI s2;
       (_, s4) \<leftarrow> Endpoint_ConfigureEndpoint H ENDPOINT_CONTROLEP EP_TYPE_CONTROL
                    USB_Device_ControlEndpointSize 1 s3;
       let s5 = USB_INT_Clear H USB_INT_SUSPI s4;
       let s6 = USB_INT_Enable H USB_INT_SUSPI s5;
       let s7 = USB_INT_Enable H USB_INT_EORSTI s6;
       Some (USB_Attach H s7)
     }"

text \<open>
  \<open>USB_ResetInterface\<close>, device branch: \<open>USB_CurrentMode\<close> is the constant
  \<open>USB_MODE_Device\<close> in a device-only build.
\<close>

definition USB_ResetInterface :: "'e hw \<Rightarrow> ('e, 'p) usb_scheme \<Rightarrow> ('e, 'p) usb_scheme option" where
  "USB_ResetInterface H s =
     do {
       let s1 = USB_INT_ClearAllInterrupts H (USB_INT_DisableAllInterrupts H s);
       let s2 = USB_CLK_Unfreeze H (USB_Controller_Reset H s1);
       let s3 = (if USB_Options AND USB_OPT_MANUAL_PLL = 0 then USB_PLL_Off H s2 else s2);
       s4 \<leftarrow> USB_Init_Device H s3;
       Some (USB_OTGPAD_On H s4)
     }"

definition USB_Init :: "'e hw \<Rightarrow> ('e, 'p) usb_scheme \<Rightarrow> ('e, 'p) usb_scheme option" where
  "USB_Init H s =
     do {
       let s1 = USB_OTGPAD_Off H s;
       let s2 = (if USB_Options AND USB_OPT_REG_DISABLED = 0 then USB_REG_On H s1 else USB_REG_Off H s1);
       let s3 = (if USB_Options AND USB_OPT_MANUAL_PLL = 0 then wr H PLLFRQ (bv PDIV2) s2 else s2);
       USB_ResetInterface H (s3\<lparr>USB_IsInitialized := True\<rparr>)
     }"

definition USB_Disable :: "'e hw \<Rightarrow> ('e, 'p) usb_scheme \<Rightarrow> ('e, 'p) usb_scheme" where
  "USB_Disable H s =
     (let s1 = USB_INT_ClearAllInterrupts H (USB_INT_DisableAllInterrupts H s);
          s2 = USB_Controller_Disable H (USB_Detach H s1);
          s3 = (if USB_Options AND USB_OPT_MANUAL_PLL = 0 then USB_PLL_Off H s2 else s2);
          s4 = (if USB_Options AND USB_OPT_REG_KEEP_ENABLED = 0 then USB_REG_Off H s3 else s3)
      in (USB_OTGPAD_Off H s4)\<lparr>USB_IsInitialized := False\<rparr>)"

section \<open>The interrupt service routine\<close>

text \<open>\<open>USB_INT_HasOccurred(i) && USB_INT_IsEnabled(i)\<close>.\<close>

definition int_fires :: "'e hw \<Rightarrow> u8 \<Rightarrow> ('e, 'p) usb_scheme \<Rightarrow> bool \<times> ('e, 'p) usb_scheme" where
  "int_fires H i s =
     (let (oc, s1) = USB_INT_HasOccurred H i s
      in if oc then USB_INT_IsEnabled H i s1 else (False, s1))"

definition ISR_SOFI :: "'e hw \<Rightarrow> ('e, 'p) usb_scheme \<Rightarrow> ('e, 'p) usb_scheme option" where
  "ISR_SOFI H s =
     (let (f, s1) = int_fires H USB_INT_SOFI s
      in Some (if f then USB_Event_Stub (USB_INT_Clear H USB_INT_SOFI s1) else s1))"

definition ISR_VBUSTI :: "'e hw \<Rightarrow> ('e, 'p) usb_scheme \<Rightarrow> ('e, 'p) usb_scheme option" where
  "ISR_VBUSTI H s =
     (let (f, s1) = int_fires H USB_INT_VBUSTI s
      in if \<not> f then Some s1
         else (let (v, s2) = USB_VBUS_GetStatus H (USB_INT_Clear H USB_INT_VBUSTI s1)
               in if v then do {
                    s3 \<leftarrow> (if USB_Options AND USB_OPT_MANUAL_PLL = 0 then USB_PLL_On_wait H s2 else Some s2);
                    Some (EVENT_USB_Device_Connect (s3\<lparr>USB_DeviceState := DEVICE_STATE_Powered\<rparr>))
                  }
                  else (let s3 = (if USB_Options AND USB_OPT_MANUAL_PLL = 0 then USB_PLL_Off H s2 else s2)
                        in Some (EVENT_USB_Device_Disconnect
                             (s3\<lparr>USB_DeviceState := DEVICE_STATE_Unattached\<rparr>)))))"

definition ISR_SUSPI :: "'e hw \<Rightarrow> ('e, 'p) usb_scheme \<Rightarrow> ('e, 'p) usb_scheme option" where
  "ISR_SUSPI H s =
     (let (f, s1) = int_fires H USB_INT_SUSPI s
      in if \<not> f then Some s1
         else (let s2 = USB_INT_Enable H USB_INT_WAKEUPI (USB_INT_Disable H USB_INT_SUSPI s1);
                   s3 = USB_CLK_Freeze H s2;
                   s4 = (if USB_Options AND USB_OPT_MANUAL_PLL = 0 then USB_PLL_Off H s3 else s3)
               in Some (USB_Event_Stub (s4\<lparr>USB_DeviceState := DEVICE_STATE_Suspended\<rparr>))))"

definition ISR_WAKEUPI :: "'e hw \<Rightarrow> ('e, 'p) usb_scheme \<Rightarrow> ('e, 'p) usb_scheme option" where
  "ISR_WAKEUPI H s =
     (let (f, s1) = int_fires H USB_INT_WAKEUPI s
      in if \<not> f then Some s1
         else do {
           s2 \<leftarrow> (if USB_Options AND USB_OPT_MANUAL_PLL = 0 then USB_PLL_On_wait H s1 else Some s1);
           let s3 = USB_INT_Clear H USB_INT_WAKEUPI (USB_CLK_Unfreeze H s2);
           let s4 = USB_INT_Enable H USB_INT_SUSPI (USB_INT_Disable H USB_INT_WAKEUPI s3);
           if USB_Device_ConfigurationNumber s4 \<noteq> 0
           then Some (USB_Event_Stub (s4\<lparr>USB_DeviceState := DEVICE_STATE_Configured\<rparr>))
           else (let (a, s5) = USB_Device_IsAddressSet H s4
                 in Some (USB_Event_Stub (s5\<lparr>USB_DeviceState :=
                      (if a then DEVICE_STATE_Addressed else DEVICE_STATE_Powered)\<rparr>)))
         })"

definition ISR_EORSTI :: "'e hw \<Rightarrow> ('e, 'p) usb_scheme \<Rightarrow> ('e, 'p) usb_scheme option" where
  "ISR_EORSTI H s =
     (let (f, s1) = int_fires H USB_INT_EORSTI s
      in if \<not> f then Some s1
         else do {
           let s2 = (USB_INT_Clear H USB_INT_EORSTI s1)
                      \<lparr>USB_DeviceState := DEVICE_STATE_Default, USB_Device_ConfigurationNumber := 0\<rparr>;
           let s3 = USB_INT_Disable H USB_INT_SUSPI (USB_INT_Clear H USB_INT_SUSPI s2);
           let s4 = USB_INT_Enable H USB_INT_WAKEUPI s3;
           (_, s5) \<leftarrow> Endpoint_ConfigureEndpoint H ENDPOINT_CONTROLEP EP_TYPE_CONTROL
                        USB_Device_ControlEndpointSize 1 s4;
           Some (USB_Event_Stub s5)
         })"

definition USB_GEN_vect :: "'e hw \<Rightarrow> ('e, 'p) usb_scheme \<Rightarrow> ('e, 'p) usb_scheme option" where
  "USB_GEN_vect H s =
     do {
       s1 \<leftarrow> ISR_SOFI H s;
       s2 \<leftarrow> ISR_VBUSTI H s1;
       s3 \<leftarrow> ISR_SUSPI H s2;
       s4 \<leftarrow> ISR_WAKEUPI H s3;
       ISR_EORSTI H s4
     }"

text \<open>
  Taking an interrupt: the CPU clears the global interrupt flag on entry and the return
  from the (blocking) service routine sets it again.
\<close>

definition set_I :: "bool \<Rightarrow> ('e, 'p) usb_scheme \<Rightarrow> ('e, 'p) usb_scheme" where
  "set_I b s = s\<lparr>ctl := (ctl s)\<lparr>gregs := (gregs (ctl s))(SREG :=
     (if b then gregs (ctl s) SREG OR bv SREG_I else gregs (ctl s) SREG AND NOT (bv SREG_I)))\<rparr>\<rparr>"

definition irq_poll :: "'e hw \<Rightarrow> ('e, 'p) usb_scheme \<Rightarrow> ('e, 'p) usb_scheme option" where
  "irq_poll H s =
     (if tst (gregs (ctl s) SREG) SREG_I \<and> irq H (ctl s)
      then map_option (set_I True) (USB_GEN_vect H (set_I False s))
      else Some s)"

section \<open>Wait loops\<close>

text \<open>The main-program loop \<open>while (!test());\<close>, with interrupts taken while it waits.\<close>

definition wait_irq ::
  "'e hw \<Rightarrow> (('e, 'p) usb_scheme \<Rightarrow> bool \<times> ('e, 'p) usb_scheme) \<Rightarrow> ('e, 'p) usb_scheme \<Rightarrow>
   ('e, 'p) usb_scheme option" where
  "wait_irq H test = loop (\<lambda>s.
     do {
       s0 \<leftarrow> irq_poll H s;
       let (b, s1) = test s0;
       if b then leave s1 else continue s1
     })"

text \<open>
  \<open>while (!test()) { if (USB_DeviceState == DEVICE_STATE_Unattached) return; }\<close>: the
  Boolean says whether the test succeeded.
\<close>

definition wait_attached ::
  "'e hw \<Rightarrow> (('e, 'p) usb_scheme \<Rightarrow> bool \<times> ('e, 'p) usb_scheme) \<Rightarrow> ('e, 'p) usb_scheme \<Rightarrow>
   (bool \<times> ('e, 'p) usb_scheme) option" where
  "wait_attached H test = loop (\<lambda>s.
     do {
       s0 \<leftarrow> irq_poll H s;
       let (b, s1) = test s0;
       if b then leave (True, s1)
       else if USB_DeviceState s1 = DEVICE_STATE_Unattached then leave (False, s1)
       else continue s1
     })"

definition REQDIR_DEVICETOHOST :: u8 where "REQDIR_DEVICETOHOST = bv 7"

definition Endpoint_ClearStatusStage :: "'e hw \<Rightarrow> ('e, 'p) usb_scheme \<Rightarrow> ('e, 'p) usb_scheme option" where
  "Endpoint_ClearStatusStage H s =
     (if bmRequestType (USB_ControlRequest s) AND REQDIR_DEVICETOHOST \<noteq> 0
      then do {
        (ok, s1) \<leftarrow> wait_attached H (Endpoint_IsOUTReceived H) s;
        Some (if ok then Endpoint_ClearOUT H s1 else s1)
      }
      else do {
        (ok, s1) \<leftarrow> wait_attached H (Endpoint_IsINReady H) s;
        Some (if ok then Endpoint_ClearIN H s1 else s1)
      })"

definition ENDPOINT_READYWAIT_NoError :: u8 where "ENDPOINT_READYWAIT_NoError = 0"
definition ENDPOINT_READYWAIT_EndpointStalled :: u8 where "ENDPOINT_READYWAIT_EndpointStalled = 1"
definition ENDPOINT_READYWAIT_DeviceDisconnected :: u8 where "ENDPOINT_READYWAIT_DeviceDisconnected = 2"
definition ENDPOINT_READYWAIT_BusSuspended :: u8 where "ENDPOINT_READYWAIT_BusSuspended = 3"
definition ENDPOINT_READYWAIT_Timeout :: u8 where "ENDPOINT_READYWAIT_Timeout = 4"

lemmas readywait_codes [c_defs] = ENDPOINT_READYWAIT_NoError_def ENDPOINT_READYWAIT_EndpointStalled_def
  ENDPOINT_READYWAIT_DeviceDisconnected_def ENDPOINT_READYWAIT_BusSuspended_def
  ENDPOINT_READYWAIT_Timeout_def

definition USB_STREAM_TIMEOUT_MS :: u8 where "USB_STREAM_TIMEOUT_MS = 100"

definition WaitUntilReady_body ::
  "'e hw \<Rightarrow> u8 \<times> u16 \<times> ('e, 'p) usb_scheme \<Rightarrow>
   ((u8 \<times> u16 \<times> ('e, 'p) usb_scheme) + (u8 \<times> ('e, 'p) usb_scheme)) option" where
  "WaitUntilReady_body H = (\<lambda>(TimeoutMSRem, PreviousFrameNumber, s).
     do {
       s0 \<leftarrow> irq_poll H s;
       let (dir, s1) = Endpoint_GetEndpointDirection H s0;
       let (ready, s2) = (if dir = ENDPOINT_DIR_IN then Endpoint_IsINReady H s1
                          else Endpoint_IsOUTReceived H s1);
       if ready then leave (ENDPOINT_READYWAIT_NoError, s2)
       else if USB_DeviceState s2 = DEVICE_STATE_Unattached
         then leave (ENDPOINT_READYWAIT_DeviceDisconnected, s2)
       else if USB_DeviceState s2 = DEVICE_STATE_Suspended
         then leave (ENDPOINT_READYWAIT_BusSuspended, s2)
       else do {
         let (stalled, s3) = Endpoint_IsStalled H s2;
         if stalled then leave (ENDPOINT_READYWAIT_EndpointStalled, s3)
         else do {
           let (CurrentFrameNumber, s4) = USB_Device_GetFrameNumber H s3;
           if CurrentFrameNumber \<noteq> PreviousFrameNumber
           then (if TimeoutMSRem = 0 then leave (ENDPOINT_READYWAIT_Timeout, s4)
                 else continue (TimeoutMSRem - 1, CurrentFrameNumber, s4))
           else continue (TimeoutMSRem, PreviousFrameNumber, s4)
         }
       }
     })"

definition Endpoint_WaitUntilReady :: "'e hw \<Rightarrow> ('e, 'p) usb_scheme \<Rightarrow> (u8 \<times> ('e, 'p) usb_scheme) option" where
  "Endpoint_WaitUntilReady H s =
     (let (PreviousFrameNumber, s1) = USB_Device_GetFrameNumber H s
      in loop (WaitUntilReady_body H) (USB_STREAM_TIMEOUT_MS, PreviousFrameNumber, s1))"

section \<open>Initialisation returns\<close>

lemma USB_Init_Device_total:
  fixes H :: "'e hw" and s :: "('e, 'p) usb_scheme"
  shows "\<exists>s'. USB_Init_Device H s = Some s'"
proof -
  have "\<exists>r. Endpoint_ConfigureEndpoint H ENDPOINT_CONTROLEP EP_TYPE_CONTROL
      USB_Device_ControlEndpointSize 1 t = Some r" for t :: "('e, 'p) usb_scheme"
    by (rule ConfigureEndpoint_total [where m = "0x30"]) (simp add: USB_Device_ControlEndpointSize_def)
  then show ?thesis by (fastforce simp: USB_Init_Device_def Let_def bind_eq_Some_conv)
qed

lemma USB_Init_total: "\<exists>s'. USB_Init H s = Some s'"
  using USB_Init_Device_total by (fastforce simp: USB_Init_def USB_ResetInterface_def Let_def bind_eq_Some_conv)

section \<open>Invariants of the device state machine\<close>

text \<open>
  The contract extended by the variables that initialisation and the interrupt service
  routine write.
\<close>

locale dev_invariant = reg_invariant H I
  for H :: "'e hw" and I :: "('e, 'p) usb_scheme \<Rightarrow> bool" +
  assumes I_UDIEN [simp]: "I s \<Longrightarrow> I (wr H UDIEN v s)"
    and I_set_I [simp]: "I s \<Longrightarrow> I (set_I b s)"
    and I_DeviceState [simp]: "I s \<Longrightarrow> k \<le> DEVICE_STATE_Suspended \<Longrightarrow> I (s\<lparr>USB_DeviceState := k\<rparr>)"
    and I_ConfigurationNumber [simp]:
      "I s \<Longrightarrow> n \<le> 1 \<Longrightarrow> I (s\<lparr>USB_Device_ConfigurationNumber := n\<rparr>)"
    and I_RemoteWakeupEnabled [simp]: "I s \<Longrightarrow> I (s\<lparr>USB_Device_RemoteWakeupEnabled := b\<rparr>)"
    and I_CurrentlySelfPowered [simp]: "I s \<Longrightarrow> I (s\<lparr>USB_Device_CurrentlySelfPowered := b\<rparr>)"
    and I_IsInitialized [simp]: "I s \<Longrightarrow> I (s\<lparr>USB_IsInitialized := b\<rparr>)"
begin

lemma I_INT_mask [simp]:
  assumes "I s"
  shows "I (USB_INT_Enable H i s)" "I (USB_INT_Disable H i s)" "I (USB_INT_DisableAllInterrupts H s)"
proof -
  have "I (rmw H UDIEN f t)" if "I t" for f t using that by (simp add: rmw_def pair_simps)
  with assms show "I (USB_INT_Enable H i s)" "I (USB_INT_Disable H i s)" "I (USB_INT_DisableAllInterrupts H s)"
    by (simp_all add: USB_INT_Enable_def USB_INT_Disable_def USB_INT_DisableAllInterrupts_def)
qed

lemma I_states [simp]:
  assumes "I s"
  shows "I (s\<lparr>USB_DeviceState := DEVICE_STATE_Unattached\<rparr>)" "I (s\<lparr>USB_DeviceState := DEVICE_STATE_Powered\<rparr>)"
    "I (s\<lparr>USB_DeviceState := DEVICE_STATE_Default\<rparr>)" "I (s\<lparr>USB_DeviceState := DEVICE_STATE_Addressed\<rparr>)"
    "I (s\<lparr>USB_DeviceState := DEVICE_STATE_Configured\<rparr>)" "I (s\<lparr>USB_DeviceState := DEVICE_STATE_Suspended\<rparr>)"
  using assms by (auto intro!: I_DeviceState simp: device_states)

lemma I_Init_Device: "I s \<Longrightarrow> returns (USB_Init_Device H s) I"
  by (auto simp: USB_Init_Device_def Let_def intro!: returns_bind [where Q = "\<lambda>r. I (snd r)"] I_ConfigureEndpoint)

lemma I_ResetInterface: "I s \<Longrightarrow> returns (USB_ResetInterface H s) I"
  by (auto simp: USB_ResetInterface_def Let_def intro!: returns_bind [where Q = I] I_Init_Device)

lemma I_Init: "I s \<Longrightarrow> returns (USB_Init H s) I"
  by (auto simp: USB_Init_def Let_def intro!: I_ResetInterface)

lemma I_Disable: "I s \<Longrightarrow> I (USB_Disable H s)"
  by (simp add: USB_Disable_def Let_def)

lemma I_int_fires [simp]: "I s \<Longrightarrow> I (snd (int_fires H i s))"
  by (simp add: int_fires_def pair_simps)

lemma I_ISR_SOFI: "I s \<Longrightarrow> returns (ISR_SOFI H s) I"
  by (simp add: ISR_SOFI_def pair_simps)

lemma I_ISR_VBUSTI: "I s \<Longrightarrow> returns (ISR_VBUSTI H s) I"
  by (auto simp: ISR_VBUSTI_def pair_simps intro!: returns_bind [where Q = I] I_PLL_wait)

lemma I_ISR_SUSPI: "I s \<Longrightarrow> returns (ISR_SUSPI H s) I"
  by (simp add: ISR_SUSPI_def pair_simps)

lemma I_ISR_WAKEUPI: "I s \<Longrightarrow> returns (ISR_WAKEUPI H s) I"
  by (auto simp: ISR_WAKEUPI_def pair_simps intro!: returns_bind [where Q = I] I_PLL_wait)

lemma I_ISR_EORSTI: "I s \<Longrightarrow> returns (ISR_EORSTI H s) I"
  by (auto simp: ISR_EORSTI_def pair_simps
      intro!: returns_bind [where Q = "\<lambda>r. I (snd r)"] I_ConfigureEndpoint)

lemma I_GEN_vect: "I s \<Longrightarrow> returns (USB_GEN_vect H s) I"
  unfolding USB_GEN_vect_def
  by (intro returns_bind [where Q = I] I_ISR_SOFI I_ISR_VBUSTI I_ISR_SUSPI I_ISR_WAKEUPI I_ISR_EORSTI)

lemma I_irq_poll: "I s \<Longrightarrow> returns (irq_poll H s) I"
  using I_GEN_vect [of "set_I False s"] by (auto simp: irq_poll_def elim!: returns_mono)

lemma I_wait_irq:
  assumes "I s" and test: "\<And>t. I t \<Longrightarrow> I (snd (test t))"
  shows "returns (wait_irq H test s) I"
  unfolding wait_irq_def using assms(1)
  by (rule loop_inv [where I = I]) (auto simp: pair_simps test intro!: returns_bind [where Q = I] I_irq_poll)

lemma I_wait_attached:
  assumes "I s" and test: "\<And>t. I t \<Longrightarrow> I (snd (test t))"
  shows "returns (wait_attached H test s) (\<lambda>r. I (snd r))"
  unfolding wait_attached_def using assms(1)
  by (rule loop_inv [where I = I]) (auto simp: pair_simps test intro!: returns_bind [where Q = I] I_irq_poll)

lemma I_ClearStatusStage: "I s \<Longrightarrow> returns (Endpoint_ClearStatusStage H s) I"
  unfolding Endpoint_ClearStatusStage_def
  by (auto intro!: returns_bind [where Q = "\<lambda>r. I (snd r)"] I_wait_attached)

lemma I_WaitUntilReady: "I s \<Longrightarrow> returns (Endpoint_WaitUntilReady H s) (\<lambda>r. I (snd r))"
  unfolding Endpoint_WaitUntilReady_def Let_def case_prod_beta'
  by (rule loop_inv [where I = "\<lambda>(t, f, s). I s"])
    (auto simp: WaitUntilReady_body_def pair_simps intro!: returns_bind [where Q = I] I_irq_poll)

end

end
