(* ===== verification/Control_Stream.thy ===== *)
theory Control_Stream
  imports Usb_Device
begin

text \<open>
  Streams on the control endpoint: the templates \<open>Template_Endpoint_Control_W.c\<close> and
  \<open>Template_Endpoint_Control_R.c\<close> and their instantiations in \<open>EndpointStream_AVR8.c\<close>.

  A buffer is the memory at and behind the pointer that the caller passes: a function from
  the 16-bit offset to the byte there, so pointer arithmetic wraps as it does on the AVR.
  The template parameters are arguments: \<open>offset\<close> is \<open>TEMPLATE_BUFFER_OFFSET\<close>, \<open>move\<close> is
  \<open>TEMPLATE_BUFFER_MOVE\<close> and \<open>xfer\<close> is \<open>TEMPLATE_TRANSFER_BYTE\<close>.
\<close>

type_synonym mem = "u16 \<Rightarrow> u8"

definition ENDPOINT_RWCSTREAM_NoError :: u8 where "ENDPOINT_RWCSTREAM_NoError = 0"
definition ENDPOINT_RWCSTREAM_HostAborted :: u8 where "ENDPOINT_RWCSTREAM_HostAborted = 1"
definition ENDPOINT_RWCSTREAM_DeviceDisconnected :: u8 where "ENDPOINT_RWCSTREAM_DeviceDisconnected = 2"
definition ENDPOINT_RWCSTREAM_BusSuspended :: u8 where "ENDPOINT_RWCSTREAM_BusSuspended = 3"

lemmas rwcstream_codes [c_defs] = ENDPOINT_RWCSTREAM_NoError_def ENDPOINT_RWCSTREAM_HostAborted_def
  ENDPOINT_RWCSTREAM_DeviceDisconnected_def ENDPOINT_RWCSTREAM_BusSuspended_def

definition offset_LE :: "u16 \<Rightarrow> u16" where "offset_LE Length = 0"
definition offset_BE :: "u16 \<Rightarrow> u16" where "offset_BE Length = Length - 1"
definition move_LE :: "u16 \<Rightarrow> u16 \<Rightarrow> u16" where "move_LE BufferPtr Amount = BufferPtr + Amount"
definition move_BE :: "u16 \<Rightarrow> u16 \<Rightarrow> u16" where "move_BE BufferPtr Amount = BufferPtr - Amount"

text \<open>A counter that is decremented while it is not zero.\<close>

lemma unat_pred_less: "(n :: 'a::len word) \<noteq> 0 \<Longrightarrow> unat (n - 1) < unat n"
  by (metis measure_unat)

section \<open>Writing to the control endpoint\<close>

text \<open>The inner loop of the write template fills the bank.\<close>

function Control_W_fill ::
  "(u16 \<Rightarrow> u16 \<Rightarrow> u16) \<Rightarrow> (u16 \<Rightarrow> 's \<Rightarrow> 's) \<Rightarrow> u16 \<Rightarrow> u16 \<Rightarrow> u16 \<Rightarrow> 's \<Rightarrow> u16 \<times> u16 \<times> u16 \<times> 's" where
  "Control_W_fill move xfer Length BytesInEndpoint DataStream s =
     (if Length \<noteq> 0 \<and> BytesInEndpoint < USB_Device_ControlEndpointSize
      then Control_W_fill move xfer (Length - 1) (BytesInEndpoint + 1) (move DataStream 1)
             (xfer DataStream s)
      else (Length, BytesInEndpoint, DataStream, s))"
  by pat_completeness auto
termination
  by (relation "measure (\<lambda>(m, x, Length, b, d, s). unat Length)") (simp_all add: unat_pred_less)

declare Control_W_fill.simps [simp del]

text \<open>
  The outer loop: \<open>Some code\<close> in the first component is a \<open>return\<close> out of the loop, \<open>None\<close>
  means that the loop was left (its condition became false, or the host started the
  status stage).
\<close>

definition Control_W_body ::
  "'e hw \<Rightarrow> (u16 \<Rightarrow> u16 \<Rightarrow> u16) \<Rightarrow> (u16 \<Rightarrow> ('e, 'p) usb_scheme \<Rightarrow> ('e, 'p) usb_scheme) \<Rightarrow>
   u16 \<times> bool \<times> u16 \<times> ('e, 'p) usb_scheme \<Rightarrow>
   ((u16 \<times> bool \<times> u16 \<times> ('e, 'p) usb_scheme) + (u8 option \<times> ('e, 'p) usb_scheme)) option" where
  "Control_W_body H move xfer = (\<lambda>(Length, LastPacketFull, DataStream, s).
     if Length \<noteq> 0 \<or> LastPacketFull then do {
       s0 \<leftarrow> irq_poll H s;
       if USB_DeviceState s0 = DEVICE_STATE_Unattached
       then leave (Some ENDPOINT_RWCSTREAM_DeviceDisconnected, s0)
       else if USB_DeviceState s0 = DEVICE_STATE_Suspended
       then leave (Some ENDPOINT_RWCSTREAM_BusSuspended, s0)
       else do {
         let (setup, s1) = Endpoint_IsSETUPReceived H s0;
         if setup then leave (Some ENDPOINT_RWCSTREAM_HostAborted, s1)
         else do {
           let (out, s2) = Endpoint_IsOUTReceived H s1;
           if out then leave (None, s2)
           else do {
             let (inready, s3) = Endpoint_IsINReady H s2;
             if inready then do {
               let (n, s4) = Endpoint_BytesInEndpoint H s3;
               let (Length', n', DataStream', s5) = Control_W_fill move xfer Length n DataStream s4;
               continue (Length', n' = USB_Device_ControlEndpointSize, DataStream',
                 Endpoint_ClearIN H s5)
             }
             else continue (Length, LastPacketFull, DataStream, s3)
           }
         }
       }
     }
     else leave (None, s))"

definition Control_W_status :: "'e hw \<Rightarrow> ('e, 'p) usb_scheme \<Rightarrow> (u8 \<times> ('e, 'p) usb_scheme) option" where
  "Control_W_status H = loop (\<lambda>s.
     do {
       s0 \<leftarrow> irq_poll H s;
       let (out, s1) = Endpoint_IsOUTReceived H s0;
       if out then leave (ENDPOINT_RWCSTREAM_NoError, s1)
       else if USB_DeviceState s1 = DEVICE_STATE_Unattached
       then leave (ENDPOINT_RWCSTREAM_DeviceDisconnected, s1)
       else if USB_DeviceState s1 = DEVICE_STATE_Suspended
       then leave (ENDPOINT_RWCSTREAM_BusSuspended, s1)
       else do {
         let (setup, s2) = Endpoint_IsSETUPReceived H s1;
         if setup then leave (ENDPOINT_RWCSTREAM_HostAborted, s2) else continue s2
       }
     })"

definition Template_Endpoint_Control_W ::
  "'e hw \<Rightarrow> (u16 \<Rightarrow> u16) \<Rightarrow> (u16 \<Rightarrow> u16 \<Rightarrow> u16) \<Rightarrow> (u16 \<Rightarrow> ('e, 'p) usb_scheme \<Rightarrow> ('e, 'p) usb_scheme) \<Rightarrow>
   u16 \<Rightarrow> ('e, 'p) usb_scheme \<Rightarrow> (u8 \<times> ('e, 'p) usb_scheme) option" where
  "Template_Endpoint_Control_W H offset move xfer Length s =
     do {
       let DataStream = offset Length;
       let wLen = wLength (USB_ControlRequest s);
       let (Length', s1) = (if Length > wLen then (wLen, s)
                            else if Length = 0 then (Length, Endpoint_ClearIN H s)
                            else (Length, s));
       (r, s2) \<leftarrow> loop (Control_W_body H move xfer) (Length', False, DataStream, s1);
       case r of Some code \<Rightarrow> Some (code, s2) | None \<Rightarrow> Control_W_status H s2
     }"

definition Endpoint_Write_Control_Stream_LE ::
  "'e hw \<Rightarrow> mem \<Rightarrow> u16 \<Rightarrow> ('e, 'p) usb_scheme \<Rightarrow> (u8 \<times> ('e, 'p) usb_scheme) option" where
  "Endpoint_Write_Control_Stream_LE H Buffer =
     Template_Endpoint_Control_W H offset_LE move_LE (\<lambda>BufferPtr. Endpoint_Write_8 H (Buffer BufferPtr))"

definition Endpoint_Write_Control_Stream_BE ::
  "'e hw \<Rightarrow> mem \<Rightarrow> u16 \<Rightarrow> ('e, 'p) usb_scheme \<Rightarrow> (u8 \<times> ('e, 'p) usb_scheme) option" where
  "Endpoint_Write_Control_Stream_BE H Buffer =
     Template_Endpoint_Control_W H offset_BE move_BE (\<lambda>BufferPtr. Endpoint_Write_8 H (Buffer BufferPtr))"

text \<open>
  The program-memory (P) and EEPROM (E) variants differ from the above in the address
  space that the buffer lives in only: \<open>Buffer\<close> is then the contents of the flash
  (\<open>pgm_read_byte\<close>) or the EEPROM (\<open>eeprom_read_byte\<close>) at the pointer.
\<close>

definition Endpoint_Write_Control_PStream_LE ::
  "'e hw \<Rightarrow> mem \<Rightarrow> u16 \<Rightarrow> ('e, 'p) usb_scheme \<Rightarrow> (u8 \<times> ('e, 'p) usb_scheme) option" where
  "Endpoint_Write_Control_PStream_LE H flash =
     Template_Endpoint_Control_W H offset_LE move_LE (\<lambda>BufferPtr. Endpoint_Write_8 H (flash BufferPtr))"

definition Endpoint_Write_Control_PStream_BE ::
  "'e hw \<Rightarrow> mem \<Rightarrow> u16 \<Rightarrow> ('e, 'p) usb_scheme \<Rightarrow> (u8 \<times> ('e, 'p) usb_scheme) option" where
  "Endpoint_Write_Control_PStream_BE H flash =
     Template_Endpoint_Control_W H offset_BE move_BE (\<lambda>BufferPtr. Endpoint_Write_8 H (flash BufferPtr))"

definition Endpoint_Write_Control_EStream_LE ::
  "'e hw \<Rightarrow> mem \<Rightarrow> u16 \<Rightarrow> ('e, 'p) usb_scheme \<Rightarrow> (u8 \<times> ('e, 'p) usb_scheme) option" where
  "Endpoint_Write_Control_EStream_LE H eeprom =
     Template_Endpoint_Control_W H offset_LE move_LE (\<lambda>BufferPtr. Endpoint_Write_8 H (eeprom BufferPtr))"

definition Endpoint_Write_Control_EStream_BE ::
  "'e hw \<Rightarrow> mem \<Rightarrow> u16 \<Rightarrow> ('e, 'p) usb_scheme \<Rightarrow> (u8 \<times> ('e, 'p) usb_scheme) option" where
  "Endpoint_Write_Control_EStream_BE H eeprom =
     Template_Endpoint_Control_W H offset_BE move_BE (\<lambda>BufferPtr. Endpoint_Write_8 H (eeprom BufferPtr))"

section \<open>Reading from the control endpoint\<close>

function Control_R_drain ::
  "'e hw \<Rightarrow> (u16 \<Rightarrow> u16 \<Rightarrow> u16) \<Rightarrow> (u16 \<Rightarrow> mem \<times> ('e, 'p) usb_scheme \<Rightarrow> mem \<times> ('e, 'p) usb_scheme) \<Rightarrow>
   u16 \<Rightarrow> u16 \<Rightarrow> mem \<times> ('e, 'p) usb_scheme \<Rightarrow> u16 \<times> u16 \<times> mem \<times> ('e, 'p) usb_scheme" where
  "Control_R_drain H move xfer Length DataStream (buf, s) =
     (if Length = 0 then (Length, DataStream, buf, s)
      else (let (n, s1) = Endpoint_BytesInEndpoint H s
            in if n = 0 then (Length, DataStream, buf, s1)
               else Control_R_drain H move xfer (Length - 1) (move DataStream 1) (xfer DataStream (buf, s1))))"
  by pat_completeness auto
termination
  by (relation "measure (\<lambda>(H, m, x, Length, d, s). unat Length)") (simp_all add: unat_pred_less)

declare Control_R_drain.simps [simp del]

definition Control_R_body ::
  "'e hw \<Rightarrow> (u16 \<Rightarrow> u16 \<Rightarrow> u16) \<Rightarrow> (u16 \<Rightarrow> mem \<times> ('e, 'p) usb_scheme \<Rightarrow> mem \<times> ('e, 'p) usb_scheme) \<Rightarrow>
   u16 \<times> u16 \<times> mem \<times> ('e, 'p) usb_scheme \<Rightarrow>
   ((u16 \<times> u16 \<times> mem \<times> ('e, 'p) usb_scheme) + (u8 option \<times> mem \<times> ('e, 'p) usb_scheme)) option" where
  "Control_R_body H move xfer = (\<lambda>(Length, DataStream, buf, s).
     if Length \<noteq> 0 then do {
       s0 \<leftarrow> irq_poll H s;
       if USB_DeviceState s0 = DEVICE_STATE_Unattached
       then leave (Some ENDPOINT_RWCSTREAM_DeviceDisconnected, buf, s0)
       else if USB_DeviceState s0 = DEVICE_STATE_Suspended
       then leave (Some ENDPOINT_RWCSTREAM_BusSuspended, buf, s0)
       else do {
         let (setup, s1) = Endpoint_IsSETUPReceived H s0;
         if setup then leave (Some ENDPOINT_RWCSTREAM_HostAborted, buf, s1)
         else do {
           let (out, s2) = Endpoint_IsOUTReceived H s1;
           if out then do {
             let (Length', DataStream', buf', s3) = Control_R_drain H move xfer Length DataStream (buf, s2);
             continue (Length', DataStream', buf', Endpoint_ClearOUT H s3)
           }
           else continue (Length, DataStream, buf, s2)
         }
       }
     }
     else leave (None, buf, s))"

definition Control_R_status :: "'e hw \<Rightarrow> ('e, 'p) usb_scheme \<Rightarrow> (u8 \<times> ('e, 'p) usb_scheme) option" where
  "Control_R_status H = loop (\<lambda>s.
     do {
       s0 \<leftarrow> irq_poll H s;
       let (inready, s1) = Endpoint_IsINReady H s0;
       if inready then leave (ENDPOINT_RWCSTREAM_NoError, s1)
       else if USB_DeviceState s1 = DEVICE_STATE_Unattached
       then leave (ENDPOINT_RWCSTREAM_DeviceDisconnected, s1)
       else if USB_DeviceState s1 = DEVICE_STATE_Suspended
       then leave (ENDPOINT_RWCSTREAM_BusSuspended, s1)
       else continue s1
     })"

definition Template_Endpoint_Control_R ::
  "'e hw \<Rightarrow> (u16 \<Rightarrow> u16) \<Rightarrow> (u16 \<Rightarrow> u16 \<Rightarrow> u16) \<Rightarrow>
   (u16 \<Rightarrow> mem \<times> ('e, 'p) usb_scheme \<Rightarrow> mem \<times> ('e, 'p) usb_scheme) \<Rightarrow>
   mem \<Rightarrow> u16 \<Rightarrow> ('e, 'p) usb_scheme \<Rightarrow> (u8 \<times> mem \<times> ('e, 'p) usb_scheme) option" where
  "Template_Endpoint_Control_R H offset move xfer Buffer Length s =
     do {
       let DataStream = offset Length;
       let s1 = (if Length = 0 then Endpoint_ClearOUT H s else s);
       (r, buf, s2) \<leftarrow> loop (Control_R_body H move xfer) (Length, DataStream, Buffer, s1);
       case r of Some code \<Rightarrow> Some (code, buf, s2)
       | None \<Rightarrow> do { (code, s3) \<leftarrow> Control_R_status H s2; Some (code, buf, s3) }
     }"

text \<open>\<open>*BufferPtr = Endpoint_Read_8()\<close>.\<close>

definition xfer_read ::
  "'e hw \<Rightarrow> u16 \<Rightarrow> mem \<times> ('e, 'p) usb_scheme \<Rightarrow> mem \<times> ('e, 'p) usb_scheme" where
  "xfer_read H BufferPtr = (\<lambda>(buf, s). let (v, s') = Endpoint_Read_8 H s in (buf(BufferPtr := v), s'))"

definition Endpoint_Read_Control_Stream_LE ::
  "'e hw \<Rightarrow> mem \<Rightarrow> u16 \<Rightarrow> ('e, 'p) usb_scheme \<Rightarrow> (u8 \<times> mem \<times> ('e, 'p) usb_scheme) option" where
  "Endpoint_Read_Control_Stream_LE H = Template_Endpoint_Control_R H offset_LE move_LE (xfer_read H)"

definition Endpoint_Read_Control_Stream_BE ::
  "'e hw \<Rightarrow> mem \<Rightarrow> u16 \<Rightarrow> ('e, 'p) usb_scheme \<Rightarrow> (u8 \<times> mem \<times> ('e, 'p) usb_scheme) option" where
  "Endpoint_Read_Control_Stream_BE H = Template_Endpoint_Control_R H offset_BE move_BE (xfer_read H)"

text \<open>The EEPROM variants store with \<open>eeprom_update_byte\<close>; the buffer is the EEPROM.\<close>

definition Endpoint_Read_Control_EStream_LE ::
  "'e hw \<Rightarrow> mem \<Rightarrow> u16 \<Rightarrow> ('e, 'p) usb_scheme \<Rightarrow> (u8 \<times> mem \<times> ('e, 'p) usb_scheme) option" where
  "Endpoint_Read_Control_EStream_LE H = Template_Endpoint_Control_R H offset_LE move_LE (xfer_read H)"

definition Endpoint_Read_Control_EStream_BE ::
  "'e hw \<Rightarrow> mem \<Rightarrow> u16 \<Rightarrow> ('e, 'p) usb_scheme \<Rightarrow> (u8 \<times> mem \<times> ('e, 'p) usb_scheme) option" where
  "Endpoint_Read_Control_EStream_BE H = Template_Endpoint_Control_R H offset_BE move_BE (xfer_read H)"

section \<open>Invariants\<close>

text \<open>The contract extended by the FIFO data register.\<close>

locale data_invariant = dev_invariant H I
  for H :: "'e hw" and I :: "('e, 'p) usb_scheme \<Rightarrow> bool" +
  assumes I_UEDATX_rd [simp]: "I s \<Longrightarrow> I (snd (erd H UEDATX s))"
    and I_UEDATX_wr [simp]: "I s \<Longrightarrow> I (ewr H UEDATX v s)"
    and I_ControlRequest [simp]: "I s \<Longrightarrow> I (s\<lparr>USB_ControlRequest := r\<rparr>)"
begin

lemma I_data [simp]:
  assumes "I s"
  shows "I (snd (Endpoint_Read_8 H s))" "I (Endpoint_Write_8 H b s)" "I (Endpoint_Discard_8 H s)"
    "I (Endpoint_Write_16_LE H w s)"
  using assms by (simp_all add: Endpoint_Read_8_def Endpoint_Write_8_def Endpoint_Discard_8_def
      Endpoint_Write_16_LE_def)

lemma I_W_fill:
  "I s \<Longrightarrow> (\<And>d t. I t \<Longrightarrow> I (xfer d t)) \<Longrightarrow> I (snd (snd (snd (Control_W_fill move xfer n b d s))))"
proof (induction move xfer n b d s rule: Control_W_fill.induct)
  case (1 move xfer n b d s)
  then show ?case by (subst Control_W_fill.simps) simp
qed

lemma I_W_body:
  assumes "\<And>d t. I t \<Longrightarrow> I (xfer d t)" "I s"
  shows "returns (Control_W_body H move xfer (n, b, d, s))
    (\<lambda>x. case x of Inl (n, b, d, s') \<Rightarrow> I s' | Inr r \<Rightarrow> I (snd r))"
  using assms by (auto simp: Control_W_body_def pair_simps I_W_fill intro!: returns_bind [where Q = I] I_irq_poll)

lemma I_W_status: "I s \<Longrightarrow> returns (Control_W_status H s) (\<lambda>r. I (snd r))"
  unfolding Control_W_status_def
  by (rule loop_inv [where I = I]) (auto simp: pair_simps intro!: returns_bind [where Q = I] I_irq_poll)

lemma I_Control_W:
  assumes "\<And>d t. I t \<Longrightarrow> I (xfer d t)" "I s"
  shows "returns (Template_Endpoint_Control_W H ofs move xfer n s) (\<lambda>r. I (snd r))"
proof -
  have "returns (loop (Control_W_body H move xfer) (n', b, d, s')) (\<lambda>r. I (snd r))" if "I s'" for n' b d s'
    by (rule loop_inv [where I = "\<lambda>(n, b, d, s). I s"]) (use that assms(1) in \<open>auto intro!: I_W_body\<close>)
  with assms show ?thesis
    by (auto simp: Template_Endpoint_Control_W_def Let_def I_W_status split: option.split
        intro!: returns_bind [where Q = "\<lambda>r. I (snd r)"])
qed

lemma I_R_drain:
  assumes "\<And>d b t. I t \<Longrightarrow> I (snd (xfer d (b, t)))"
  shows "I s \<Longrightarrow> I (snd (snd (snd (Control_R_drain H move xfer n d (buf, s)))))"
proof (induction "unat n" arbitrary: n d buf s rule: less_induct)
  case less
  obtain b' t' where x: "xfer d (buf, snd (Endpoint_BytesInEndpoint H s)) = (b', t')"
    by (cases "xfer d (buf, snd (Endpoint_BytesInEndpoint H s))")
  have "I t'" using assms [of "snd (Endpoint_BytesInEndpoint H s)" d buf] less.prems by (simp add: x)
  with less show ?case
    by (subst Control_R_drain.simps) (simp add: pair_simps unat_pred_less x)
qed

lemma I_R_body:
  assumes "\<And>d b t. I t \<Longrightarrow> I (snd (xfer d (b, t)))" "I s"
  shows "returns (Control_R_body H move xfer (n, d, buf, s))
    (\<lambda>x. case x of Inl (n, d, b, s') \<Rightarrow> I s' | Inr r \<Rightarrow> I (snd (snd r)))"
  using assms by (auto simp: Control_R_body_def pair_simps I_R_drain intro!: returns_bind [where Q = I] I_irq_poll)

lemma I_R_status: "I s \<Longrightarrow> returns (Control_R_status H s) (\<lambda>r. I (snd r))"
  unfolding Control_R_status_def
  by (rule loop_inv [where I = I]) (auto simp: pair_simps intro!: returns_bind [where Q = I] I_irq_poll)

lemma I_Control_R:
  assumes "\<And>d b t. I t \<Longrightarrow> I (snd (xfer d (b, t)))" "I s"
  shows "returns (Template_Endpoint_Control_R H ofs move xfer buf n s) (\<lambda>r. I (snd (snd r)))"
proof -
  have "returns (loop (Control_R_body H move xfer) (n', d, buf', s')) (\<lambda>r. I (snd (snd r)))"
    if "I s'" for n' d buf' s'
    by (rule loop_inv [where I = "\<lambda>(n, d, b, s). I s"]) (use that assms(1) in \<open>auto intro!: I_R_body\<close>)
  with assms show ?thesis
    by (auto simp: Template_Endpoint_Control_R_def Let_def split: option.split
        intro!: returns_bind [where Q = "\<lambda>r. I (snd (snd r))"] returns_bind [where Q = "\<lambda>r. I (snd r)"] I_R_status)
qed

lemma I_xfer_read [simp]: "I t \<Longrightarrow> I (snd (xfer_read H d (b, t)))"
  by (simp add: xfer_read_def pair_simps)

lemma I_Write_Control_Stream:
  assumes "I s"
  shows "returns (Endpoint_Write_Control_Stream_LE H buf n s) (\<lambda>r. I (snd r))"
    "returns (Endpoint_Write_Control_PStream_LE H buf n s) (\<lambda>r. I (snd r))"
  using assms by (simp_all add: Endpoint_Write_Control_Stream_LE_def Endpoint_Write_Control_PStream_LE_def I_Control_W)

lemma I_Read_Control_Stream:
  "I s \<Longrightarrow> returns (Endpoint_Read_Control_Stream_LE H buf n s) (\<lambda>r. I (snd (snd r)))"
  by (simp add: Endpoint_Read_Control_Stream_LE_def I_Control_R)

end

end
