(* ===== verification/Device_Std_Req.thy ===== *)
theory Device_Std_Req
  imports Control_Stream
begin

text \<open>
  The control request handler of the library (\<open>DeviceStandardReq.c\<close>), the internal serial
  number (\<open>Device_AVR8.h\<close>) and the USB management task (\<open>USBTask.c\<close>).  The two events and
  the callback through which the library calls the application are the fields of a record;
  the application's own theory supplies them.
\<close>

section \<open>Requests\<close>

definition REQDIR_HOSTTODEVICE :: u8 where "REQDIR_HOSTTODEVICE = 0"
definition REQTYPE_STANDARD :: u8 where "REQTYPE_STANDARD = 0"
definition REQTYPE_CLASS :: u8 where "REQTYPE_CLASS = push_bit 5 1"
definition REQREC_DEVICE :: u8 where "REQREC_DEVICE = 0"
definition REQREC_INTERFACE :: u8 where "REQREC_INTERFACE = 1"
definition REQREC_ENDPOINT :: u8 where "REQREC_ENDPOINT = 2"
definition CONTROL_REQTYPE_RECIPIENT :: u8 where "CONTROL_REQTYPE_RECIPIENT = 0x1F"

definition REQ_GetStatus :: u8 where "REQ_GetStatus = 0"
definition REQ_ClearFeature :: u8 where "REQ_ClearFeature = 1"
definition REQ_SetFeature :: u8 where "REQ_SetFeature = 3"
definition REQ_SetAddress :: u8 where "REQ_SetAddress = 5"
definition REQ_GetDescriptor :: u8 where "REQ_GetDescriptor = 6"
definition REQ_GetConfiguration :: u8 where "REQ_GetConfiguration = 8"
definition REQ_SetConfiguration :: u8 where "REQ_SetConfiguration = 9"

definition FEATURE_SEL_EndpointHalt :: u8 where "FEATURE_SEL_EndpointHalt = 0"
definition FEATURE_SEL_DeviceRemoteWakeup :: u8 where "FEATURE_SEL_DeviceRemoteWakeup = 1"
definition FEATURE_SELFPOWERED_ENABLED :: u8 where "FEATURE_SELFPOWERED_ENABLED = bv 0"
definition FEATURE_REMOTE_WAKEUP_ENABLED :: u8 where "FEATURE_REMOTE_WAKEUP_ENABLED = bv 1"

lemmas request_types [c_defs] = REQDIR_DEVICETOHOST_def REQDIR_HOSTTODEVICE_def REQTYPE_STANDARD_def
  REQTYPE_CLASS_def REQREC_DEVICE_def REQREC_INTERFACE_def REQREC_ENDPOINT_def
  CONTROL_REQTYPE_RECIPIENT_def
lemmas request_codes [c_defs] = REQ_GetStatus_def REQ_ClearFeature_def REQ_SetFeature_def
  REQ_SetAddress_def REQ_GetDescriptor_def REQ_GetConfiguration_def
  REQ_SetConfiguration_def
lemmas feature_codes [c_defs] = FEATURE_SEL_EndpointHalt_def FEATURE_SEL_DeviceRemoteWakeup_def
  FEATURE_SELFPOWERED_ENABLED_def FEATURE_REMOTE_WAKEUP_ENABLED_def

definition DTYPE_Device :: u8 where "DTYPE_Device = 0x01"
definition DTYPE_Configuration :: u8 where "DTYPE_Configuration = 0x02"
definition DTYPE_String :: u8 where "DTYPE_String = 0x03"
definition DTYPE_Interface :: u8 where "DTYPE_Interface = 0x04"
definition DTYPE_Endpoint :: u8 where "DTYPE_Endpoint = 0x05"

lemmas dtypes [c_defs] = DTYPE_Device_def DTYPE_Configuration_def DTYPE_String_def DTYPE_Interface_def
  DTYPE_Endpoint_def
 

definition NO_DESCRIPTOR :: u16 where "NO_DESCRIPTOR = 0"
definition USE_INTERNAL_SERIAL :: u16 where "USE_INTERNAL_SERIAL = 0xDC"
definition INTERNAL_SERIAL_LENGTH_BITS :: nat where "INTERNAL_SERIAL_LENGTH_BITS = 80"
definition INTERNAL_SERIAL_START_ADDRESS :: u8 where "INTERNAL_SERIAL_START_ADDRESS = 0x0E"
definition FIXED_NUM_CONFIGURATIONS :: u8 where "FIXED_NUM_CONFIGURATIONS = 1"

lemmas descriptor_consts [c_defs] = NO_DESCRIPTOR_def USE_INTERNAL_SERIAL_def
  INTERNAL_SERIAL_LENGTH_BITS_def INTERNAL_SERIAL_START_ADDRESS_def FIXED_NUM_CONFIGURATIONS_def

section \<open>The application interface\<close>

text \<open>
  \<open>cb_GetDescriptor wValue wIndex\<close> is the size that \<open>CALLBACK_USB_GetDescriptor\<close> returns
  and the flash memory at the address it stores.
\<close>

record ('e, 'p) app =
  ev_ControlRequest :: "('e, 'p) usb_scheme \<Rightarrow> ('e, 'p) usb_scheme option"
  ev_ConfigurationChanged :: "('e, 'p) usb_scheme \<Rightarrow> ('e, 'p) usb_scheme option"
  cb_GetDescriptor :: "u16 \<Rightarrow> u16 \<Rightarrow> u16 \<times> mem"

section \<open>The internal serial number\<close>

text \<open>
  The loop of \<open>USB_Device_GetSerialString\<close>: the characters from number \<open>SerialCharNum\<close> on,
  two hexadecimal digits for each signature byte, low nibble first.
\<close>

definition serial_char :: "u8 \<Rightarrow> u16" where
  "serial_char SerialByte =
     (if SerialByte \<ge> 10 then (65 - 10) + ucast SerialByte else 48 + ucast SerialByte)"

fun serial_loop :: "'e hw \<Rightarrow> nat \<Rightarrow> u8 \<Rightarrow> nat \<Rightarrow> u16 list" where
  "serial_loop H SerialCharNum SigReadAddress 0 = []"
| "serial_loop H SerialCharNum SigReadAddress (Suc remaining) =
     (let SerialByte = boot_signature_byte_get H SigReadAddress;
          (SerialByte, SigReadAddress) =
            (if odd SerialCharNum then (drop_bit 4 SerialByte, SigReadAddress + 1)
             else (SerialByte, SigReadAddress));
          SerialByte = SerialByte AND 0x0F
      in serial_char SerialByte # serial_loop H (SerialCharNum + 1) SigReadAddress remaining)"

definition USB_Device_GetSerialString :: "'e hw \<Rightarrow> ('e, 'p) usb_scheme \<Rightarrow> u16 list \<times> ('e, 'p) usb_scheme" where
  "USB_Device_GetSerialString H s =
     (let (CurrentGlobalInt, s1) = GetGlobalInterruptMask H s;
          s2 = GlobalInterruptDisable H s1;
          UnicodeString = serial_loop H 0 INTERNAL_SERIAL_START_ADDRESS (INTERNAL_SERIAL_LENGTH_BITS div 4)
      in (UnicodeString, SetGlobalInterruptMask H CurrentGlobalInt s2))"

definition USB_STRING_LEN :: "nat \<Rightarrow> nat" where
  "USB_STRING_LEN UnicodeChars = 2 + UnicodeChars * 2"

text \<open>An object of known contents as memory behind its address.\<close>

definition mem_of :: "u8 list \<Rightarrow> mem" where
  "mem_of bs i = (if unat i < length bs then bs ! unat i else 0xFF)"

definition SignatureDescriptor :: "u16 list \<Rightarrow> u8 list" where
  "SignatureDescriptor UnicodeString =
     [of_nat (USB_STRING_LEN (INTERNAL_SERIAL_LENGTH_BITS div 4)), DTYPE_String]
       @ concat (map le16 UnicodeString)"

definition USB_Device_GetInternalSerialDescriptor ::
  "'e hw \<Rightarrow> ('e, 'p) usb_scheme \<Rightarrow> ('e, 'p) usb_scheme option" where
  "USB_Device_GetInternalSerialDescriptor H s =
     do {
       let (UnicodeString, s1) = USB_Device_GetSerialString H s;
       let s2 = Endpoint_ClearSETUP H s1;
       (_, s3) \<leftarrow> Endpoint_Write_Control_Stream_LE H (mem_of (SignatureDescriptor UnicodeString))
                    (of_nat (2 + 2 * (INTERNAL_SERIAL_LENGTH_BITS div 4))) s2;
       Some (Endpoint_ClearOUT H s3)
     }"

section \<open>The standard requests\<close>

definition USB_Device_SetAddress :: "'e hw \<Rightarrow> ('e, 'p) usb_scheme \<Rightarrow> ('e, 'p) usb_scheme option" where
  "USB_Device_SetAddress H s =
     do {
       let DeviceAddress = (ucast (wValue (USB_ControlRequest s) AND 0x7F) :: u8);
       let s1 = Endpoint_ClearSETUP H (USB_Device_SetDeviceAddress H DeviceAddress s);
       s2 \<leftarrow> Endpoint_ClearStatusStage H s1;
       s3 \<leftarrow> wait_irq H (Endpoint_IsINReady H) s2;
       let s4 = USB_Device_EnableDeviceAddress H DeviceAddress s3;
       Some (s4\<lparr>USB_DeviceState :=
         (if DeviceAddress \<noteq> 0 then DEVICE_STATE_Addressed else DEVICE_STATE_Default)\<rparr>)
     }"

definition USB_Device_SetConfiguration ::
  "'e hw \<Rightarrow> ('e, 'p) app \<Rightarrow> ('e, 'p) usb_scheme \<Rightarrow> ('e, 'p) usb_scheme option" where
  "USB_Device_SetConfiguration H A s =
     (if (ucast (wValue (USB_ControlRequest s)) :: u8) > FIXED_NUM_CONFIGURATIONS then Some s
      else do {
        let s1 = (Endpoint_ClearSETUP H s)
                   \<lparr>USB_Device_ConfigurationNumber := ucast (wValue (USB_ControlRequest s))\<rparr>;
        s2 \<leftarrow> Endpoint_ClearStatusStage H s1;
        let s3 = (if USB_Device_ConfigurationNumber s2 \<noteq> 0
                  then s2\<lparr>USB_DeviceState := DEVICE_STATE_Configured\<rparr>
                  else (let (a, t) = USB_Device_IsAddressSet H s2
                        in t\<lparr>USB_DeviceState :=
                             (if a then DEVICE_STATE_Configured else DEVICE_STATE_Powered)\<rparr>));
        ev_ConfigurationChanged A s3
      })"

definition USB_Device_GetConfiguration :: "'e hw \<Rightarrow> ('e, 'p) usb_scheme \<Rightarrow> ('e, 'p) usb_scheme option" where
  "USB_Device_GetConfiguration H s =
     do {
       let s1 = Endpoint_ClearSETUP H s;
       let s2 = Endpoint_Write_8 H (USB_Device_ConfigurationNumber s1) s1;
       Endpoint_ClearStatusStage H (Endpoint_ClearIN H s2)
     }"

definition USB_Device_GetDescriptor ::
  "'e hw \<Rightarrow> ('e, 'p) app \<Rightarrow> ('e, 'p) usb_scheme \<Rightarrow> ('e, 'p) usb_scheme option" where
  "USB_Device_GetDescriptor H A s =
     (if wValue (USB_ControlRequest s) = push_bit 8 (ucast DTYPE_String) OR USE_INTERNAL_SERIAL
      then USB_Device_GetInternalSerialDescriptor H s
      else (let (DescriptorSize, DescriptorPointer) =
                  cb_GetDescriptor A (wValue (USB_ControlRequest s)) (wIndex (USB_ControlRequest s))
            in if DescriptorSize = NO_DESCRIPTOR then Some s
               else do {
                 let s1 = Endpoint_ClearSETUP H s;
                 (_, s2) \<leftarrow> Endpoint_Write_Control_PStream_LE H DescriptorPointer DescriptorSize s1;
                 Some (Endpoint_ClearOUT H s2)
               }))"

definition GetStatus_reply :: "'e hw \<Rightarrow> u8 \<Rightarrow> ('e, 'p) usb_scheme \<Rightarrow> ('e, 'p) usb_scheme option" where
  "GetStatus_reply H CurrentStatus s =
     Endpoint_ClearStatusStage H (Endpoint_ClearIN H
       (Endpoint_Write_16_LE H (ucast CurrentStatus) (Endpoint_ClearSETUP H s)))"

definition USB_Device_GetStatus :: "'e hw \<Rightarrow> ('e, 'p) usb_scheme \<Rightarrow> ('e, 'p) usb_scheme option" where
  "USB_Device_GetStatus H s =
     (if bmRequestType (USB_ControlRequest s) = (REQDIR_DEVICETOHOST OR REQTYPE_STANDARD OR REQREC_DEVICE)
      then GetStatus_reply H
             ((if USB_Device_CurrentlySelfPowered s then FEATURE_SELFPOWERED_ENABLED else 0)
              OR (if USB_Device_RemoteWakeupEnabled s then FEATURE_REMOTE_WAKEUP_ENABLED else 0)) s
      else if bmRequestType (USB_ControlRequest s) = (REQDIR_DEVICETOHOST OR REQTYPE_STANDARD OR REQREC_ENDPOINT)
      then (let EndpointIndex = ucast (wIndex (USB_ControlRequest s)) AND ENDPOINT_EPNUM_MASK
            in if EndpointIndex \<ge> ENDPOINT_TOTAL_ENDPOINTS then Some s
               else (let (stalled, s1) = Endpoint_IsStalled H (Endpoint_SelectEndpoint H EndpointIndex s)
                     in GetStatus_reply H (if stalled then 1 else 0)
                          (Endpoint_SelectEndpoint H ENDPOINT_CONTROLEP s1)))
      else Some s)"

definition ClearSetFeature_finish :: "'e hw \<Rightarrow> ('e, 'p) usb_scheme \<Rightarrow> ('e, 'p) usb_scheme option" where
  "ClearSetFeature_finish H s =
     Endpoint_ClearStatusStage H (Endpoint_ClearSETUP H (Endpoint_SelectEndpoint H ENDPOINT_CONTROLEP s))"

definition ClearSetFeature_halt :: "'e hw \<Rightarrow> u8 \<Rightarrow> ('e, 'p) usb_scheme \<Rightarrow> ('e, 'p) usb_scheme" where
  "ClearSetFeature_halt H EndpointIndex s =
     (let (en, s1) = Endpoint_IsEnabled H (Endpoint_SelectEndpoint H EndpointIndex s)
      in if en
         then (if bRequest (USB_ControlRequest s1) = REQ_SetFeature
               then Endpoint_StallTransaction H s1
               else Endpoint_ResetDataToggle H (Endpoint_ResetEndpoint H EndpointIndex
                      (Endpoint_ClearStall H s1)))
         else s1)"

definition USB_Device_ClearSetFeature :: "'e hw \<Rightarrow> ('e, 'p) usb_scheme \<Rightarrow> ('e, 'p) usb_scheme option" where
  "USB_Device_ClearSetFeature H s =
     (let rcpt = bmRequestType (USB_ControlRequest s) AND CONTROL_REQTYPE_RECIPIENT;
          feature = (ucast (wValue (USB_ControlRequest s)) :: u8)
      in if rcpt = REQREC_DEVICE
         then (if feature = FEATURE_SEL_DeviceRemoteWakeup
               then ClearSetFeature_finish H (s\<lparr>USB_Device_RemoteWakeupEnabled :=
                      (bRequest (USB_ControlRequest s) = REQ_SetFeature)\<rparr>)
               else Some s)
         else if rcpt = REQREC_ENDPOINT
         then (if feature = FEATURE_SEL_EndpointHalt
               then (let EndpointIndex = ucast (wIndex (USB_ControlRequest s)) AND ENDPOINT_EPNUM_MASK
                     in if EndpointIndex = ENDPOINT_CONTROLEP \<or> EndpointIndex \<ge> ENDPOINT_TOTAL_ENDPOINTS
                        then Some s
                        else ClearSetFeature_finish H (ClearSetFeature_halt H EndpointIndex s))
               else ClearSetFeature_finish H s)
         else Some s)"

section \<open>Dispatch\<close>

text \<open>The loop that reads the eight bytes of the SETUP packet.\<close>

fun read_header :: "'e hw \<Rightarrow> nat \<Rightarrow> ('e, 'p) usb_scheme \<Rightarrow> u8 list \<times> ('e, 'p) usb_scheme" where
  "read_header H 0 s = ([], s)"
| "read_header H (Suc n) s =
     (let (b, s1) = Endpoint_Read_8 H s; (bs, s2) = read_header H n s1 in (b # bs, s2))"

definition header_of_bytes :: "u8 list \<Rightarrow> USB_Request_Header_t" where
  "header_of_bytes bs =
     \<lparr>bmRequestType = bs ! 0, bRequest = bs ! 1, wValue = u16_of (bs ! 2) (bs ! 3),
      wIndex = u16_of (bs ! 4) (bs ! 5), wLength = u16_of (bs ! 6) (bs ! 7)\<rparr>"

definition dispatch_request ::
  "'e hw \<Rightarrow> ('e, 'p) app \<Rightarrow> ('e, 'p) usb_scheme \<Rightarrow> ('e, 'p) usb_scheme option" where
  "dispatch_request H A s =
     (let rt = bmRequestType (USB_ControlRequest s); req = bRequest (USB_ControlRequest s)
      in if req = REQ_GetStatus
         then (if rt = (REQDIR_DEVICETOHOST OR REQTYPE_STANDARD OR REQREC_DEVICE) \<or>
                  rt = (REQDIR_DEVICETOHOST OR REQTYPE_STANDARD OR REQREC_ENDPOINT)
               then USB_Device_GetStatus H s else Some s)
         else if req = REQ_ClearFeature \<or> req = REQ_SetFeature
         then (if rt = (REQDIR_HOSTTODEVICE OR REQTYPE_STANDARD OR REQREC_DEVICE) \<or>
                  rt = (REQDIR_HOSTTODEVICE OR REQTYPE_STANDARD OR REQREC_ENDPOINT)
               then USB_Device_ClearSetFeature H s else Some s)
         else if req = REQ_SetAddress
         then (if rt = (REQDIR_HOSTTODEVICE OR REQTYPE_STANDARD OR REQREC_DEVICE)
               then USB_Device_SetAddress H s else Some s)
         else if req = REQ_GetDescriptor
         then (if rt = (REQDIR_DEVICETOHOST OR REQTYPE_STANDARD OR REQREC_DEVICE) \<or>
                  rt = (REQDIR_DEVICETOHOST OR REQTYPE_STANDARD OR REQREC_INTERFACE)
               then USB_Device_GetDescriptor H A s else Some s)
         else if req = REQ_GetConfiguration
         then (if rt = (REQDIR_DEVICETOHOST OR REQTYPE_STANDARD OR REQREC_DEVICE)
               then USB_Device_GetConfiguration H s else Some s)
         else if req = REQ_SetConfiguration
         then (if rt = (REQDIR_HOSTTODEVICE OR REQTYPE_STANDARD OR REQREC_DEVICE)
               then USB_Device_SetConfiguration H A s else Some s)
         else Some s)"

text \<open>The end of the handler: a request that nobody has taken is refused with a stall.\<close>

definition stall_unhandled :: "'e hw \<Rightarrow> ('e, 'p) usb_scheme \<Rightarrow> ('e, 'p) usb_scheme" where
  "stall_unhandled H s =
     (let (setup, s1) = Endpoint_IsSETUPReceived H s
      in if setup then Endpoint_StallTransaction H (Endpoint_ClearSETUP H s1) else s1)"

definition USB_Device_ProcessControlRequest ::
  "'e hw \<Rightarrow> ('e, 'p) app \<Rightarrow> ('e, 'p) usb_scheme \<Rightarrow> ('e, 'p) usb_scheme option" where
  "USB_Device_ProcessControlRequest H A s =
     do {
       let (bs, s1) = read_header H 8 s;
       s2 \<leftarrow> ev_ControlRequest A (s1\<lparr>USB_ControlRequest := header_of_bytes bs\<rparr>);
       let (setup, s3) = Endpoint_IsSETUPReceived H s2;
       s4 \<leftarrow> (if setup then dispatch_request H A s3 else Some s3);
       Some (stall_unhandled H s4)
     }"

section \<open>The USB task\<close>

definition USB_DeviceTask :: "'e hw \<Rightarrow> ('e, 'p) app \<Rightarrow> ('e, 'p) usb_scheme \<Rightarrow> ('e, 'p) usb_scheme option" where
  "USB_DeviceTask H A s =
     (if USB_DeviceState s = DEVICE_STATE_Unattached then Some s
      else do {
        let (PrevEndpoint, s1) = Endpoint_GetCurrentEndpoint H s;
        let (setup, s2) = Endpoint_IsSETUPReceived H (Endpoint_SelectEndpoint H ENDPOINT_CONTROLEP s1);
        s3 \<leftarrow> (if setup then USB_Device_ProcessControlRequest H A s2 else Some s2);
        Some (Endpoint_SelectEndpoint H PrevEndpoint s3)
      })"

definition USB_USBTask :: "'e hw \<Rightarrow> ('e, 'p) app \<Rightarrow> ('e, 'p) usb_scheme \<Rightarrow> ('e, 'p) usb_scheme option" where
  "USB_USBTask H A s = USB_DeviceTask H A s"

section \<open>Invariants\<close>

text \<open>
  The contract with the application: the property also survives the two events that the
  request handler raises.
\<close>

locale app_invariant = data_invariant H I
  for H :: "'e hw" and I :: "('e, 'p) usb_scheme \<Rightarrow> bool" +
  fixes A :: "('e, 'p) app"
  assumes I_ev_ControlRequest: "I s \<Longrightarrow> returns (ev_ControlRequest A s) I"
    and I_ev_ConfigurationChanged: "I s \<Longrightarrow> returns (ev_ConfigurationChanged A s) I"
begin

lemma I_SetAddress: "I s \<Longrightarrow> returns (USB_Device_SetAddress H s) I"
  by (auto simp: USB_Device_SetAddress_def Let_def
      intro!: returns_bind [where Q = I] I_ClearStatusStage I_wait_irq)

lemma I_SetConfiguration: "I s \<Longrightarrow> returns (USB_Device_SetConfiguration H A s) I"
  by (auto simp: USB_Device_SetConfiguration_def pair_simps FIXED_NUM_CONFIGURATIONS_def not_less
      intro!: returns_bind [where Q = I] I_ClearStatusStage I_ev_ConfigurationChanged)

lemma I_GetConfiguration: "I s \<Longrightarrow> returns (USB_Device_GetConfiguration H s) I"
  by (simp add: USB_Device_GetConfiguration_def Let_def I_ClearStatusStage)

lemma I_GetSerialString [simp]: "I s \<Longrightarrow> I (snd (USB_Device_GetSerialString H s))"
  by (simp add: USB_Device_GetSerialString_def pair_simps)

lemma I_GetInternalSerialDescriptor: "I s \<Longrightarrow> returns (USB_Device_GetInternalSerialDescriptor H s) I"
  by (auto simp: USB_Device_GetInternalSerialDescriptor_def pair_simps
      intro!: returns_bind [where Q = "\<lambda>r. I (snd r)"] I_Write_Control_Stream)

lemma I_GetDescriptor: "I s \<Longrightarrow> returns (USB_Device_GetDescriptor H A s) I"
  by (auto simp: USB_Device_GetDescriptor_def pair_simps
      intro!: returns_bind [where Q = "\<lambda>r. I (snd r)"] I_GetInternalSerialDescriptor I_Write_Control_Stream)

lemma I_GetStatus: "I s \<Longrightarrow> returns (USB_Device_GetStatus H s) I"
  by (simp add: USB_Device_GetStatus_def GetStatus_reply_def pair_simps I_ClearStatusStage)

lemma I_ClearSetFeature: "I s \<Longrightarrow> returns (USB_Device_ClearSetFeature H s) I"
  by (simp add: USB_Device_ClearSetFeature_def ClearSetFeature_finish_def ClearSetFeature_halt_def
      pair_simps I_ClearStatusStage)

lemma I_dispatch: "I s \<Longrightarrow> returns (dispatch_request H A s) I"
  unfolding dispatch_request_def Let_def
  by (intro returns_if) (simp_all add: I_GetStatus I_ClearSetFeature I_SetAddress I_GetDescriptor
      I_GetConfiguration I_SetConfiguration)

lemma I_stall_unhandled [simp]: "I s \<Longrightarrow> I (stall_unhandled H s)"
  by (simp add: stall_unhandled_def pair_simps)

lemma I_read_header: "I s \<Longrightarrow> I (snd (read_header H n s))"
  by (induction n arbitrary: s) (simp_all add: pair_simps)

lemma I_ProcessControlRequest: "I s \<Longrightarrow> returns (USB_Device_ProcessControlRequest H A s) I"
  by (auto simp: USB_Device_ProcessControlRequest_def pair_simps I_read_header
      intro!: returns_bind [where Q = I] I_ev_ControlRequest I_dispatch)

lemma I_USBTask: "I s \<Longrightarrow> returns (USB_USBTask H A s) I"
  by (auto simp: USB_USBTask_def USB_DeviceTask_def pair_simps
      intro!: returns_bind [where Q = I] I_ProcessControlRequest)

end

end
