(* ===== verification/Descriptors.thy ===== *)
theory Descriptors
  imports Device_Std_Req
begin

text \<open>
  The descriptors of the device (\<open>Descriptors.c\<close>, \<open>Descriptors.h\<close>): the HID report
  descriptor built from the item macros of \<open>HIDReportData.h\<close>, the packed descriptor structures of
  \<open>StdDescriptors.h\<close> and \<open>HIDClassCommon.h\<close> with their little-endian layout, the constants
  placed in flash, and the callback that hands them to the library.
\<close>

section \<open>HID report items\<close>

definition HID_RI_TYPE_MAIN :: u8 where "HID_RI_TYPE_MAIN = 0x00"
definition HID_RI_TYPE_GLOBAL :: u8 where "HID_RI_TYPE_GLOBAL = 0x04"
definition HID_RI_TYPE_LOCAL :: u8 where "HID_RI_TYPE_LOCAL = 0x08"

datatype DataBits = B0 | B8 | B16 | B32

primrec HID_RI_DATA_BITS :: "DataBits \<Rightarrow> u8" where
  "HID_RI_DATA_BITS B0 = 0x00"
| "HID_RI_DATA_BITS B8 = 0x01"
| "HID_RI_DATA_BITS B16 = 0x02"
| "HID_RI_DATA_BITS B32 = 0x03"

primrec HID_RI_ENCODE :: "DataBits \<Rightarrow> u32 \<Rightarrow> u8 list" where
  "HID_RI_ENCODE B0 Data = []"
| "HID_RI_ENCODE B8 Data = [ucast (Data AND 0xFF)]"
| "HID_RI_ENCODE B16 Data = [ucast (Data AND 0xFF), ucast (drop_bit 8 Data AND 0xFF)]"
| "HID_RI_ENCODE B32 Data = [ucast (Data AND 0xFF), ucast (drop_bit 8 Data AND 0xFF),
     ucast (drop_bit 16 Data AND 0xFF), ucast (drop_bit 24 Data AND 0xFF)]"

definition HID_RI_ENTRY :: "u8 \<Rightarrow> u8 \<Rightarrow> DataBits \<Rightarrow> u32 \<Rightarrow> u8 list" where
  "HID_RI_ENTRY Type Tag DataBits Data = (Type OR Tag OR HID_RI_DATA_BITS DataBits) # HID_RI_ENCODE DataBits Data"

definition HID_RI_INPUT where "HID_RI_INPUT = HID_RI_ENTRY HID_RI_TYPE_MAIN 0x80"
definition HID_RI_OUTPUT where "HID_RI_OUTPUT = HID_RI_ENTRY HID_RI_TYPE_MAIN 0x90"
definition HID_RI_COLLECTION where "HID_RI_COLLECTION = HID_RI_ENTRY HID_RI_TYPE_MAIN 0xA0"
definition HID_RI_FEATURE where "HID_RI_FEATURE = HID_RI_ENTRY HID_RI_TYPE_MAIN 0xB0"
definition HID_RI_END_COLLECTION where "HID_RI_END_COLLECTION = HID_RI_ENTRY HID_RI_TYPE_MAIN 0xC0"
definition HID_RI_USAGE_PAGE where "HID_RI_USAGE_PAGE = HID_RI_ENTRY HID_RI_TYPE_GLOBAL 0x00"
definition HID_RI_LOGICAL_MINIMUM where "HID_RI_LOGICAL_MINIMUM = HID_RI_ENTRY HID_RI_TYPE_GLOBAL 0x10"
definition HID_RI_LOGICAL_MAXIMUM where "HID_RI_LOGICAL_MAXIMUM = HID_RI_ENTRY HID_RI_TYPE_GLOBAL 0x20"
definition HID_RI_PHYSICAL_MINIMUM where "HID_RI_PHYSICAL_MINIMUM = HID_RI_ENTRY HID_RI_TYPE_GLOBAL 0x30"
definition HID_RI_PHYSICAL_MAXIMUM where "HID_RI_PHYSICAL_MAXIMUM = HID_RI_ENTRY HID_RI_TYPE_GLOBAL 0x40"
definition HID_RI_UNIT_EXPONENT where "HID_RI_UNIT_EXPONENT = HID_RI_ENTRY HID_RI_TYPE_GLOBAL 0x50"
definition HID_RI_UNIT where "HID_RI_UNIT = HID_RI_ENTRY HID_RI_TYPE_GLOBAL 0x60"
definition HID_RI_REPORT_SIZE where "HID_RI_REPORT_SIZE = HID_RI_ENTRY HID_RI_TYPE_GLOBAL 0x70"
definition HID_RI_REPORT_ID where "HID_RI_REPORT_ID = HID_RI_ENTRY HID_RI_TYPE_GLOBAL 0x80"
definition HID_RI_REPORT_COUNT where "HID_RI_REPORT_COUNT = HID_RI_ENTRY HID_RI_TYPE_GLOBAL 0x90"
definition HID_RI_PUSH where "HID_RI_PUSH = HID_RI_ENTRY HID_RI_TYPE_GLOBAL 0xA0"
definition HID_RI_POP where "HID_RI_POP = HID_RI_ENTRY HID_RI_TYPE_GLOBAL 0xB0"
definition HID_RI_USAGE where "HID_RI_USAGE = HID_RI_ENTRY HID_RI_TYPE_LOCAL 0x00"
definition HID_RI_USAGE_MINIMUM where "HID_RI_USAGE_MINIMUM = HID_RI_ENTRY HID_RI_TYPE_LOCAL 0x10"
definition HID_RI_USAGE_MAXIMUM where "HID_RI_USAGE_MAXIMUM = HID_RI_ENTRY HID_RI_TYPE_LOCAL 0x20"

lemmas hid_item_defs [c_defs] = HID_RI_INPUT_def HID_RI_OUTPUT_def HID_RI_COLLECTION_def
  HID_RI_FEATURE_def HID_RI_END_COLLECTION_def HID_RI_USAGE_PAGE_def HID_RI_LOGICAL_MINIMUM_def
  HID_RI_LOGICAL_MAXIMUM_def HID_RI_PHYSICAL_MINIMUM_def HID_RI_PHYSICAL_MAXIMUM_def
  HID_RI_UNIT_EXPONENT_def HID_RI_UNIT_def HID_RI_REPORT_SIZE_def HID_RI_REPORT_ID_def
  HID_RI_REPORT_COUNT_def HID_RI_PUSH_def HID_RI_POP_def HID_RI_USAGE_def HID_RI_USAGE_MINIMUM_def
  HID_RI_USAGE_MAXIMUM_def HID_RI_TYPE_MAIN_def HID_RI_TYPE_GLOBAL_def HID_RI_TYPE_LOCAL_def
  HID_RI_ENTRY_def

definition JoystickReport :: "u8 list" where
  "JoystickReport = concat [
     HID_RI_USAGE_PAGE B8 1,
     HID_RI_USAGE B8 5,
     HID_RI_COLLECTION B8 1,
       HID_RI_LOGICAL_MINIMUM B8 0,
       HID_RI_LOGICAL_MAXIMUM B8 1,
       HID_RI_PHYSICAL_MINIMUM B8 0,
       HID_RI_PHYSICAL_MAXIMUM B8 1,
       HID_RI_REPORT_SIZE B8 1,
       HID_RI_REPORT_COUNT B8 16,
       HID_RI_USAGE_PAGE B8 9,
       HID_RI_USAGE_MINIMUM B8 1,
       HID_RI_USAGE_MAXIMUM B8 16,
       HID_RI_INPUT B8 2,
       HID_RI_USAGE_PAGE B8 1,
       HID_RI_LOGICAL_MAXIMUM B8 7,
       HID_RI_PHYSICAL_MAXIMUM B16 315,
       HID_RI_REPORT_SIZE B8 4,
       HID_RI_REPORT_COUNT B8 1,
       HID_RI_UNIT B8 20,
       HID_RI_USAGE B8 57,
       HID_RI_INPUT B8 66,
       HID_RI_UNIT B8 0,
       HID_RI_REPORT_COUNT B8 1,
       HID_RI_INPUT B8 1,
       HID_RI_LOGICAL_MAXIMUM B16 255,
       HID_RI_PHYSICAL_MAXIMUM B16 255,
       HID_RI_USAGE B8 48,
       HID_RI_USAGE B8 49,
       HID_RI_USAGE B8 50,
       HID_RI_USAGE B8 53,
       HID_RI_REPORT_SIZE B8 8,
       HID_RI_REPORT_COUNT B8 4,
       HID_RI_INPUT B8 2,
       HID_RI_USAGE_PAGE B16 65280,
       HID_RI_USAGE B8 32,
       HID_RI_REPORT_COUNT B8 1,
       HID_RI_INPUT B8 2,
       HID_RI_USAGE B16 9761,
       HID_RI_REPORT_COUNT B8 8,
       HID_RI_OUTPUT B8 2,
     HID_RI_END_COLLECTION B0 0]"

section \<open>Descriptor structures\<close>

record USB_Descriptor_Header_t =
  Header_Size :: u8
  Header_Type :: u8

record USB_Descriptor_Device_t =
  Header_dev :: USB_Descriptor_Header_t
  USBSpecification :: u16
  Class_dev :: u8
  SubClass_dev :: u8
  Protocol_dev :: u8
  Endpoint0Size :: u8
  VendorID :: u16
  ProductID :: u16
  ReleaseNumber :: u16
  ManufacturerStrIndex :: u8
  ProductStrIndex :: u8
  SerialNumStrIndex :: u8
  NumberOfConfigurations :: u8

record USB_Descriptor_Configuration_Header_t =
  Header_cfg :: USB_Descriptor_Header_t
  TotalConfigurationSize :: u16
  TotalInterfaces :: u8
  ConfigurationNumber :: u8
  ConfigurationStrIndex :: u8
  ConfigAttributes :: u8
  MaxPowerConsumption :: u8

record USB_Descriptor_Interface_t =
  Header_itf :: USB_Descriptor_Header_t
  InterfaceNumber :: u8
  AlternateSetting :: u8
  TotalEndpoints :: u8
  Class_itf :: u8
  SubClass_itf :: u8
  Protocol_itf :: u8
  InterfaceStrIndex :: u8

record USB_HID_Descriptor_HID_t =
  Header_hid :: USB_Descriptor_Header_t
  HIDSpec :: u16
  CountryCode :: u8
  TotalReportDescriptors :: u8
  HIDReportType :: u8
  HIDReportLength :: u16

record USB_Descriptor_Endpoint_t =
  Header_ep :: USB_Descriptor_Header_t
  EndpointAddress :: u8
  Attributes :: u8
  EndpointSize :: u16
  PollingIntervalMS :: u8

record USB_Descriptor_String_t =
  Header_str :: USB_Descriptor_Header_t
  UnicodeString :: "u16 list"

record USB_Descriptor_Configuration_t =
  Config :: USB_Descriptor_Configuration_Header_t
  HID_Interface :: USB_Descriptor_Interface_t
  HID_JoystickHID :: USB_HID_Descriptor_HID_t
  HID_ReportOUTEndpoint :: USB_Descriptor_Endpoint_t
  HID_ReportINEndpoint :: USB_Descriptor_Endpoint_t

text \<open>The memory of a packed structure: its members in order, little endian.\<close>

definition bytes_Header :: "USB_Descriptor_Header_t \<Rightarrow> u8 list" where
  "bytes_Header d = [Header_Size d, Header_Type d]"

definition bytes_Device :: "USB_Descriptor_Device_t \<Rightarrow> u8 list" where
  "bytes_Device d = bytes_Header (Header_dev d) @ le16 (USBSpecification d)
     @ [Class_dev d, SubClass_dev d, Protocol_dev d, Endpoint0Size d]
     @ le16 (VendorID d) @ le16 (ProductID d) @ le16 (ReleaseNumber d)
     @ [ManufacturerStrIndex d, ProductStrIndex d, SerialNumStrIndex d, NumberOfConfigurations d]"

definition bytes_Config :: "USB_Descriptor_Configuration_Header_t \<Rightarrow> u8 list" where
  "bytes_Config d = bytes_Header (Header_cfg d) @ le16 (TotalConfigurationSize d)
     @ [TotalInterfaces d, ConfigurationNumber d, ConfigurationStrIndex d, ConfigAttributes d,
        MaxPowerConsumption d]"

definition bytes_Interface :: "USB_Descriptor_Interface_t \<Rightarrow> u8 list" where
  "bytes_Interface d = bytes_Header (Header_itf d)
     @ [InterfaceNumber d, AlternateSetting d, TotalEndpoints d, Class_itf d, SubClass_itf d,
        Protocol_itf d, InterfaceStrIndex d]"

definition bytes_HID :: "USB_HID_Descriptor_HID_t \<Rightarrow> u8 list" where
  "bytes_HID d = bytes_Header (Header_hid d) @ le16 (HIDSpec d)
     @ [CountryCode d, TotalReportDescriptors d, HIDReportType d] @ le16 (HIDReportLength d)"

definition bytes_Endpoint :: "USB_Descriptor_Endpoint_t \<Rightarrow> u8 list" where
  "bytes_Endpoint d = bytes_Header (Header_ep d) @ [EndpointAddress d, Attributes d]
     @ le16 (EndpointSize d) @ [PollingIntervalMS d]"

definition bytes_String :: "USB_Descriptor_String_t \<Rightarrow> u8 list" where
  "bytes_String d = bytes_Header (Header_str d) @ concat (map le16 (UnicodeString d))"

definition bytes_Configuration :: "USB_Descriptor_Configuration_t \<Rightarrow> u8 list" where
  "bytes_Configuration d = bytes_Config (Config d) @ bytes_Interface (HID_Interface d)
     @ bytes_HID (HID_JoystickHID d) @ bytes_Endpoint (HID_ReportOUTEndpoint d)
     @ bytes_Endpoint (HID_ReportINEndpoint d)"

text \<open>The \<open>sizeof\<close> of the packed structures.\<close>

definition sizeof_Header :: nat where "sizeof_Header = 1 + 1"
definition sizeof_Device :: nat where "sizeof_Device = sizeof_Header + 2 + 4 + 2 + 2 + 2 + 4"
definition sizeof_Config :: nat where "sizeof_Config = sizeof_Header + 2 + 5"
definition sizeof_Interface :: nat where "sizeof_Interface = sizeof_Header + 7"
definition sizeof_HID :: nat where "sizeof_HID = sizeof_Header + 2 + 3 + 2"
definition sizeof_Endpoint :: nat where "sizeof_Endpoint = sizeof_Header + 2 + 2 + 1"
definition sizeof_Configuration :: nat where
  "sizeof_Configuration = sizeof_Config + sizeof_Interface + sizeof_HID + sizeof_Endpoint + sizeof_Endpoint"

lemmas sizeof_defs [c_defs] = sizeof_Header_def sizeof_Device_def sizeof_Config_def sizeof_Interface_def
  sizeof_HID_def sizeof_Endpoint_def sizeof_Configuration_def

lemmas bytes_defs = bytes_Header_def bytes_Device_def bytes_Config_def bytes_Interface_def
  bytes_HID_def bytes_Endpoint_def bytes_String_def bytes_Configuration_def

section \<open>The descriptors in flash\<close>

definition VERSION_BCD :: "u16 \<Rightarrow> u16 \<Rightarrow> u16 \<Rightarrow> u16" where
  "VERSION_BCD Major Minor Revision =
     push_bit 8 (Major AND 0xFF) OR push_bit 4 (Minor AND 0x0F) OR (Revision AND 0x0F)"

definition USB_CONFIG_POWER_MA :: "u16 \<Rightarrow> u16" where
  "USB_CONFIG_POWER_MA mA = drop_bit 1 mA"

definition STRING_ID_Language :: u8 where "STRING_ID_Language = 0"
definition STRING_ID_Manufacturer :: u8 where "STRING_ID_Manufacturer = 1"
definition STRING_ID_Product :: u8 where "STRING_ID_Product = 2"
definition INTERFACE_ID_Joystick :: u8 where "INTERFACE_ID_Joystick = 0"
definition JOYSTICK_IN_EPADDR :: u8 where "JOYSTICK_IN_EPADDR = ENDPOINT_DIR_IN OR 1"
definition JOYSTICK_OUT_EPADDR :: u8 where "JOYSTICK_OUT_EPADDR = ENDPOINT_DIR_OUT OR 2"
definition JOYSTICK_EPSIZE :: u16 where "JOYSTICK_EPSIZE = 64"
definition DTYPE_HID :: u8 where "DTYPE_HID = 0x21"
definition DTYPE_Report :: u8 where "DTYPE_Report = 0x22"
definition HID_CSCP_HIDClass :: u8 where "HID_CSCP_HIDClass = 0x03"
definition HID_CSCP_NonBootSubclass :: u8 where "HID_CSCP_NonBootSubclass = 0x00"
definition HID_CSCP_NonBootProtocol :: u8 where "HID_CSCP_NonBootProtocol = 0x00"
definition LANGUAGE_ID_ENG :: u16 where "LANGUAGE_ID_ENG = 0x0409"

lemmas joystick_consts [c_defs] = STRING_ID_Language_def STRING_ID_Manufacturer_def
  STRING_ID_Product_def INTERFACE_ID_Joystick_def JOYSTICK_IN_EPADDR_def JOYSTICK_OUT_EPADDR_def
  JOYSTICK_EPSIZE_def DTYPE_HID_def DTYPE_Report_def HID_CSCP_HIDClass_def
  HID_CSCP_NonBootSubclass_def HID_CSCP_NonBootProtocol_def LANGUAGE_ID_ENG_def

definition DeviceDescriptor :: USB_Descriptor_Device_t where
  "DeviceDescriptor =
     \<lparr>Header_dev = \<lparr>Header_Size = of_nat sizeof_Device, Header_Type = DTYPE_Device\<rparr>,
      USBSpecification = VERSION_BCD 2 0 0,
      Class_dev = 0, SubClass_dev = 0, Protocol_dev = 0,
      Endpoint0Size = ucast USB_Device_ControlEndpointSize,
      VendorID = 0x0F0D, ProductID = 0x0092, ReleaseNumber = VERSION_BCD 1 0 0,
      ManufacturerStrIndex = STRING_ID_Manufacturer, ProductStrIndex = STRING_ID_Product,
      SerialNumStrIndex = ucast NO_DESCRIPTOR,
      NumberOfConfigurations = FIXED_NUM_CONFIGURATIONS\<rparr>"

definition ConfigurationDescriptor :: USB_Descriptor_Configuration_t where
  "ConfigurationDescriptor =
     \<lparr>Config =
        \<lparr>Header_cfg = \<lparr>Header_Size = of_nat sizeof_Config, Header_Type = DTYPE_Configuration\<rparr>,
         TotalConfigurationSize = of_nat sizeof_Configuration,
         TotalInterfaces = 1, ConfigurationNumber = 1, ConfigurationStrIndex = ucast NO_DESCRIPTOR,
         ConfigAttributes = 0x80, MaxPowerConsumption = ucast (USB_CONFIG_POWER_MA 500)\<rparr>,
      HID_Interface =
        \<lparr>Header_itf = \<lparr>Header_Size = of_nat sizeof_Interface, Header_Type = DTYPE_Interface\<rparr>,
         InterfaceNumber = INTERFACE_ID_Joystick, AlternateSetting = 0, TotalEndpoints = 2,
         Class_itf = HID_CSCP_HIDClass, SubClass_itf = HID_CSCP_NonBootSubclass,
         Protocol_itf = HID_CSCP_NonBootProtocol, InterfaceStrIndex = ucast NO_DESCRIPTOR\<rparr>,
      HID_JoystickHID =
        \<lparr>Header_hid = \<lparr>Header_Size = of_nat sizeof_HID, Header_Type = DTYPE_HID\<rparr>,
         HIDSpec = VERSION_BCD 1 1 1, CountryCode = 0, TotalReportDescriptors = 1,
         HIDReportType = DTYPE_Report, HIDReportLength = of_nat (length JoystickReport)\<rparr>,
      HID_ReportOUTEndpoint =
        \<lparr>Header_ep = \<lparr>Header_Size = of_nat sizeof_Endpoint, Header_Type = DTYPE_Endpoint\<rparr>,
         EndpointAddress = JOYSTICK_OUT_EPADDR, Attributes = EP_TYPE_INTERRUPT,
         EndpointSize = JOYSTICK_EPSIZE, PollingIntervalMS = 0x05\<rparr>,
      HID_ReportINEndpoint =
        \<lparr>Header_ep = \<lparr>Header_Size = of_nat sizeof_Endpoint, Header_Type = DTYPE_Endpoint\<rparr>,
         EndpointAddress = JOYSTICK_IN_EPADDR, Attributes = EP_TYPE_INTERRUPT,
         EndpointSize = JOYSTICK_EPSIZE, PollingIntervalMS = 0x05\<rparr>\<rparr>"

text \<open>
  \<open>USB_STRING_DESCRIPTOR(L"...")\<close>: a wide string literal keeps its terminator in memory,
  which the size in the header leaves out.
\<close>

definition wide :: "string \<Rightarrow> u16 list" where
  "wide cs = map (\<lambda>c. word_of_nat (of_char c)) cs @ [0]"

definition USB_STRING_DESCRIPTOR :: "u16 list \<Rightarrow> USB_Descriptor_String_t" where
  "USB_STRING_DESCRIPTOR String =
     \<lparr>Header_str = \<lparr>Header_Size = of_nat (sizeof_Header + (2 * length String - 2)), Header_Type = DTYPE_String\<rparr>,
      UnicodeString = String\<rparr>"

definition LanguageString :: USB_Descriptor_String_t where
  "LanguageString =
     \<lparr>Header_str = \<lparr>Header_Size = of_nat (sizeof_Header + 2), Header_Type = DTYPE_String\<rparr>,
      UnicodeString = [LANGUAGE_ID_ENG]\<rparr>"

definition ManufacturerString :: USB_Descriptor_String_t where
  "ManufacturerString = USB_STRING_DESCRIPTOR (wide ''HORI CO.,LTD.'')"

definition ProductString :: USB_Descriptor_String_t where
  "ProductString = USB_STRING_DESCRIPTOR (wide ''POKKEN CONTROLLER'')"

text \<open>The objects that a descriptor address can point to, and the memory behind the address.\<close>

datatype flash_obj = DeviceDescriptor_obj | ConfigurationDescriptor_obj | LanguageString_obj
  | ManufacturerString_obj | ProductString_obj | HID_JoystickHID_obj | JoystickReport_obj

primrec flash_bytes :: "flash_obj \<Rightarrow> u8 list" where
  "flash_bytes DeviceDescriptor_obj = bytes_Device DeviceDescriptor"
| "flash_bytes ConfigurationDescriptor_obj = bytes_Configuration ConfigurationDescriptor"
| "flash_bytes LanguageString_obj = bytes_String LanguageString"
| "flash_bytes ManufacturerString_obj = bytes_String ManufacturerString"
| "flash_bytes ProductString_obj = bytes_String ProductString"
| "flash_bytes HID_JoystickHID_obj =
     drop (sizeof_Config + sizeof_Interface) (bytes_Configuration ConfigurationDescriptor)"
| "flash_bytes JoystickReport_obj = JoystickReport"

definition CALLBACK_USB_GetDescriptor :: "u16 \<Rightarrow> u16 \<Rightarrow> flash_obj option \<times> u16" where
  "CALLBACK_USB_GetDescriptor wVal wIdx =
     (let DescriptorType = (ucast (drop_bit 8 wVal) :: u8);
          DescriptorNumber = (ucast (wVal AND 0xFF) :: u8)
      in if DescriptorType = DTYPE_Device then (Some DeviceDescriptor_obj, of_nat sizeof_Device)
         else if DescriptorType = DTYPE_Configuration
         then (Some ConfigurationDescriptor_obj, of_nat sizeof_Configuration)
         else if DescriptorType = DTYPE_String then
           (if DescriptorNumber = STRING_ID_Language
            then (Some LanguageString_obj, ucast (flash_bytes LanguageString_obj ! 0))
            else if DescriptorNumber = STRING_ID_Manufacturer
            then (Some ManufacturerString_obj, ucast (flash_bytes ManufacturerString_obj ! 0))
            else if DescriptorNumber = STRING_ID_Product
            then (Some ProductString_obj, ucast (flash_bytes ProductString_obj ! 0))
            else (None, NO_DESCRIPTOR))
         else if DescriptorType = DTYPE_HID then (Some HID_JoystickHID_obj, of_nat sizeof_HID)
         else if DescriptorType = DTYPE_Report
         then (Some JoystickReport_obj, of_nat (length JoystickReport))
         else (None, NO_DESCRIPTOR))"

end
