(* ===== verification/Serial.thy ===== *)
theory Serial
  imports Usb_Device
begin

text \<open>
  The USART driver (\<open>Serial_AVR8.h\<close>, \<open>Serial_AVR8.c\<close>).  Waiting for the transmitter is
  main-program code, so a pending USB interrupt may be taken there.  \<open>Serial_CreateStream\<close>
  and \<open>Serial_CreateBlockingStream\<close> store function pointers in the \<open>FILE\<close> structure of
  avr-libc and have no model; the functions they install have one.
\<close>

definition F_CPU :: u32 where "F_CPU = 16000000"

definition SERIAL_UBBRVAL :: "u32 \<Rightarrow> u32" where
  "SERIAL_UBBRVAL Baud = ((F_CPU div 16) + (Baud div 2)) div Baud - 1"

definition SERIAL_2X_UBBRVAL :: "u32 \<Rightarrow> u32" where
  "SERIAL_2X_UBBRVAL Baud = ((F_CPU div 8) + (Baud div 2)) div Baud - 1"

text \<open>A 16-bit I/O register is written high byte first.\<close>

definition wr_UBRR1 :: "'e hw \<Rightarrow> u16 \<Rightarrow> ('e, 'p) usb_scheme \<Rightarrow> ('e, 'p) usb_scheme" where
  "wr_UBRR1 H v s = wr H UBRR1L (ucast v) (wr H UBRR1H (ucast (drop_bit 8 v)) s)"

definition Serial_Init :: "'e hw \<Rightarrow> u32 \<Rightarrow> bool \<Rightarrow> ('e, 'p) usb_scheme \<Rightarrow> ('e, 'p) usb_scheme" where
  "Serial_Init H BaudRate DoubleSpeed s =
     (let s1 = wr_UBRR1 H (ucast (if DoubleSpeed then SERIAL_2X_UBBRVAL BaudRate
                                  else SERIAL_UBBRVAL BaudRate)) s;
          s2 = wr H UCSR1C (bv UCSZ11 OR bv UCSZ10) s1;
          s3 = wr H UCSR1A (if DoubleSpeed then bv U2X1 else 0) s2;
          s4 = wr H UCSR1B (bv TXEN1 OR bv RXEN1) s3;
          s5 = rmw H DDRD (\<lambda>v. v OR bv 3) s4
      in rmw H PORTD (\<lambda>v. v OR bv 2) s5)"

definition Serial_Disable :: "'e hw \<Rightarrow> ('e, 'p) usb_scheme \<Rightarrow> ('e, 'p) usb_scheme" where
  "Serial_Disable H s =
     (let s1 = wr H UCSR1C 0 (wr H UCSR1A 0 (wr H UCSR1B 0 s));
          s2 = wr_UBRR1 H 0 s1;
          s3 = rmw H DDRD (\<lambda>v. v AND NOT (bv 3)) s2
      in rmw H PORTD (\<lambda>v. v AND NOT (bv 2)) s3)"

definition Serial_IsCharReceived :: "'e hw \<Rightarrow> ('e, 'p) usb_scheme \<Rightarrow> bool \<times> ('e, 'p) usb_scheme" where
  "Serial_IsCharReceived H s = rd_bit H UCSR1A RXC1 s"

definition Serial_IsSendReady :: "'e hw \<Rightarrow> ('e, 'p) usb_scheme \<Rightarrow> bool \<times> ('e, 'p) usb_scheme" where
  "Serial_IsSendReady H s = rd_bit H UCSR1A UDRE1 s"

definition Serial_IsSendComplete :: "'e hw \<Rightarrow> ('e, 'p) usb_scheme \<Rightarrow> bool \<times> ('e, 'p) usb_scheme" where
  "Serial_IsSendComplete H s = rd_bit H UCSR1A TXC1 s"

definition Serial_SendByte :: "'e hw \<Rightarrow> u8 \<Rightarrow> ('e, 'p) usb_scheme \<Rightarrow> ('e, 'p) usb_scheme option" where
  "Serial_SendByte H DataByte s =
     do { s1 \<leftarrow> wait_irq H (Serial_IsSendReady H) s; Some (wr H UDR1 DataByte s1) }"

definition Serial_ReceiveByte :: "'e hw \<Rightarrow> ('e, 'p) usb_scheme \<Rightarrow> s16 \<times> ('e, 'p) usb_scheme" where
  "Serial_ReceiveByte H s =
     (let (rx, s1) = Serial_IsCharReceived H s
      in if \<not> rx then (-1, s1) else (let (v, s2) = rd H UDR1 s1 in (uint v, s2)))"

definition Serial_putchar :: "'e hw \<Rightarrow> u8 \<Rightarrow> ('e, 'p) usb_scheme \<Rightarrow> (s16 \<times> ('e, 'p) usb_scheme) option" where
  "Serial_putchar H DataByte s = do { s1 \<leftarrow> Serial_SendByte H DataByte s; Some (0, s1) }"

text \<open>\<open>_FDEV_EOF\<close> is \<open>-2\<close> in avr-libc.\<close>

definition Serial_getchar :: "'e hw \<Rightarrow> ('e, 'p) usb_scheme \<Rightarrow> s16 \<times> ('e, 'p) usb_scheme" where
  "Serial_getchar H s =
     (let (rx, s1) = Serial_IsCharReceived H s in if \<not> rx then (-2, s1) else Serial_ReceiveByte H s1)"

definition Serial_getchar_Blocking :: "'e hw \<Rightarrow> ('e, 'p) usb_scheme \<Rightarrow> (s16 \<times> ('e, 'p) usb_scheme) option" where
  "Serial_getchar_Blocking H s =
     do { s1 \<leftarrow> wait_irq H (Serial_IsCharReceived H) s; Some (Serial_ReceiveByte H s1) }"

text \<open>
  Strings are the bytes in memory from the pointer on; the loop stops at the first NUL,
  so a list without one is not a C string and yields \<open>None\<close>.
\<close>

fun Serial_SendString :: "'e hw \<Rightarrow> u8 list \<Rightarrow> ('e, 'p) usb_scheme \<Rightarrow> ('e, 'p) usb_scheme option" where
  "Serial_SendString H [] s = None"
| "Serial_SendString H (CurrByte # rest) s =
     (if CurrByte = 0 then Some s
      else do { s1 \<leftarrow> Serial_SendByte H CurrByte s; Serial_SendString H rest s1 })"

definition Serial_SendString_P :: "'e hw \<Rightarrow> u8 list \<Rightarrow> ('e, 'p) usb_scheme \<Rightarrow> ('e, 'p) usb_scheme option" where
  "Serial_SendString_P H flash s = Serial_SendString H flash s"

text \<open>\<open>Serial_SendData\<close>: the recursion runs over the 16-bit length.\<close>

fun SendData_loop :: "'e hw \<Rightarrow> (u16 \<Rightarrow> u8) \<Rightarrow> u16 \<Rightarrow> nat \<Rightarrow> ('e, 'p) usb_scheme \<Rightarrow> ('e, 'p) usb_scheme option" where
  "SendData_loop H Buffer CurrByte 0 s = Some s"
| "SendData_loop H Buffer CurrByte (Suc Length) s =
     do { s1 \<leftarrow> Serial_SendByte H (Buffer CurrByte) s; SendData_loop H Buffer (CurrByte + 1) Length s1 }"

definition Serial_SendData :: "'e hw \<Rightarrow> (u16 \<Rightarrow> u8) \<Rightarrow> u16 \<Rightarrow> ('e, 'p) usb_scheme \<Rightarrow> ('e, 'p) usb_scheme option" where
  "Serial_SendData H Buffer Length s = SendData_loop H Buffer 0 (unat Length) s"

text \<open>The bytes of a C string literal, with its terminating NUL.\<close>

definition c_string :: "string \<Rightarrow> u8 list" where
  "c_string cs = map (\<lambda>c. word_of_nat (of_char c)) cs @ [0]"

section \<open>Invariants\<close>

context dev_invariant
begin

lemma I_serial [simp]:
  assumes "I s"
  shows "I (Serial_Init H n d s)" "I (Serial_Disable H s)" "I (snd (Serial_IsCharReceived H s))"
    "I (snd (Serial_IsSendReady H s))" "I (snd (Serial_ReceiveByte H s))"
  using assms by (simp_all add: Serial_Init_def Serial_Disable_def wr_UBRR1_def Serial_IsCharReceived_def
      Serial_IsSendReady_def Serial_ReceiveByte_def pair_simps)

lemma I_SendByte: "I s \<Longrightarrow> returns (Serial_SendByte H b s) I"
  by (auto simp: Serial_SendByte_def intro!: returns_bind [where Q = I] I_wait_irq)

lemma I_SendString: "I s \<Longrightarrow> returns (Serial_SendString H bs s) I"
  by (induction bs arbitrary: s)
    (auto intro!: returns_bind [where Q = I] I_SendByte)

end

end
