(* ===== verification/Endpoint_Stream.thy ===== *)
theory Endpoint_Stream
  imports Device_Std_Req
begin

text \<open>
  Streams on the data endpoints: the template \<open>Template_Endpoint_RW.c\<close> with its
  instantiations, and the discarding and zero-filling streams of \<open>EndpointStream_AVR8.c\<close>.
  The template runs the USB task between two banks, so these functions take the
  application record as well.  \<open>BytesProcessed\<close> is \<open>None\<close> for the null pointer and
  \<open>Some n\<close> for a pointer to a counter that holds \<open>n\<close>.
\<close>

definition ENDPOINT_RWSTREAM_NoError :: u8 where "ENDPOINT_RWSTREAM_NoError = 0"
definition ENDPOINT_RWSTREAM_IncompleteTransfer :: u8 where "ENDPOINT_RWSTREAM_IncompleteTransfer = 5"

lemmas rwstream_codes [c_defs] = ENDPOINT_RWSTREAM_NoError_def ENDPOINT_RWSTREAM_IncompleteTransfer_def

definition RW_body ::
  "'e hw \<Rightarrow> ('e, 'p) app \<Rightarrow> (('e, 'p) usb_scheme \<Rightarrow> ('e, 'p) usb_scheme) \<Rightarrow> (u16 \<Rightarrow> u16 \<Rightarrow> u16) \<Rightarrow>
   (u16 \<Rightarrow> mem \<times> ('e, 'p) usb_scheme \<Rightarrow> mem \<times> ('e, 'p) usb_scheme) \<Rightarrow> u16 option \<Rightarrow>
   u16 \<times> u16 \<times> u16 \<times> mem \<times> ('e, 'p) usb_scheme \<Rightarrow>
   ((u16 \<times> u16 \<times> u16 \<times> mem \<times> ('e, 'p) usb_scheme) + (u8 \<times> u16 option \<times> mem \<times> ('e, 'p) usb_scheme)) option" where
  "RW_body H A clear move xfer BytesProcessed = (\<lambda>(Length, DataStream, BytesInTransfer, buf, s).
     if Length = 0 then leave (ENDPOINT_RWSTREAM_NoError, BytesProcessed, buf, s)
     else do {
       let (rw, s1) = Endpoint_IsReadWriteAllowed H s;
       if \<not> rw then do {
         s2 \<leftarrow> USB_USBTask H A (clear s1);
         case BytesProcessed of
           Some n \<Rightarrow> leave (ENDPOINT_RWSTREAM_IncompleteTransfer, Some (n + BytesInTransfer), buf, s2)
         | None \<Rightarrow> do {
             (ErrorCode, s3) \<leftarrow> Endpoint_WaitUntilReady H s2;
             if ErrorCode \<noteq> 0 then leave (ErrorCode, None, buf, s3)
             else continue (Length, DataStream, BytesInTransfer, buf, s3)
           }
       }
       else do {
         let (buf', s2) = xfer DataStream (buf, s1);
         continue (Length - 1, move DataStream 1, BytesInTransfer + 1, buf', s2)
       }
     })"

definition Template_Endpoint_RW ::
  "'e hw \<Rightarrow> ('e, 'p) app \<Rightarrow> (('e, 'p) usb_scheme \<Rightarrow> ('e, 'p) usb_scheme) \<Rightarrow> (u16 \<Rightarrow> u16) \<Rightarrow>
   (u16 \<Rightarrow> u16 \<Rightarrow> u16) \<Rightarrow> (u16 \<Rightarrow> mem \<times> ('e, 'p) usb_scheme \<Rightarrow> mem \<times> ('e, 'p) usb_scheme) \<Rightarrow>
   mem \<Rightarrow> u16 \<Rightarrow> u16 option \<Rightarrow> ('e, 'p) usb_scheme \<Rightarrow>
   (u8 \<times> u16 option \<times> mem \<times> ('e, 'p) usb_scheme) option" where
  "Template_Endpoint_RW H A clear offset move xfer Buffer Length BytesProcessed s =
     do {
       let DataStream = offset Length;
       (ErrorCode, s1) \<leftarrow> Endpoint_WaitUntilReady H s;
       if ErrorCode \<noteq> 0 then Some (ErrorCode, BytesProcessed, Buffer, s1)
       else do {
         let (Length', DataStream') =
           (case BytesProcessed of Some n \<Rightarrow> (Length - n, move DataStream n)
                                 | None \<Rightarrow> (Length, DataStream));
         loop (RW_body H A clear move xfer BytesProcessed) (Length', DataStream', 0, Buffer, s1)
       }
     }"

text \<open>\<open>Endpoint_Write_8(*BufferPtr)\<close>.\<close>

definition xfer_write ::
  "'e hw \<Rightarrow> u16 \<Rightarrow> mem \<times> ('e, 'p) usb_scheme \<Rightarrow> mem \<times> ('e, 'p) usb_scheme" where
  "xfer_write H BufferPtr = (\<lambda>(buf, s). (buf, Endpoint_Write_8 H (buf BufferPtr) s))"

definition Endpoint_Write_Stream_LE ::
  "'e hw \<Rightarrow> ('e, 'p) app \<Rightarrow> mem \<Rightarrow> u16 \<Rightarrow> u16 option \<Rightarrow> ('e, 'p) usb_scheme \<Rightarrow>
   (u8 \<times> u16 option \<times> mem \<times> ('e, 'p) usb_scheme) option" where
  "Endpoint_Write_Stream_LE H A = Template_Endpoint_RW H A (Endpoint_ClearIN H) offset_LE move_LE (xfer_write H)"

definition Endpoint_Write_Stream_BE ::
  "'e hw \<Rightarrow> ('e, 'p) app \<Rightarrow> mem \<Rightarrow> u16 \<Rightarrow> u16 option \<Rightarrow> ('e, 'p) usb_scheme \<Rightarrow>
   (u8 \<times> u16 option \<times> mem \<times> ('e, 'p) usb_scheme) option" where
  "Endpoint_Write_Stream_BE H A = Template_Endpoint_RW H A (Endpoint_ClearIN H) offset_BE move_BE (xfer_write H)"

definition Endpoint_Read_Stream_LE ::
  "'e hw \<Rightarrow> ('e, 'p) app \<Rightarrow> mem \<Rightarrow> u16 \<Rightarrow> u16 option \<Rightarrow> ('e, 'p) usb_scheme \<Rightarrow>
   (u8 \<times> u16 option \<times> mem \<times> ('e, 'p) usb_scheme) option" where
  "Endpoint_Read_Stream_LE H A = Template_Endpoint_RW H A (Endpoint_ClearOUT H) offset_LE move_LE (xfer_read H)"

definition Endpoint_Read_Stream_BE ::
  "'e hw \<Rightarrow> ('e, 'p) app \<Rightarrow> mem \<Rightarrow> u16 \<Rightarrow> u16 option \<Rightarrow> ('e, 'p) usb_scheme \<Rightarrow>
   (u8 \<times> u16 option \<times> mem \<times> ('e, 'p) usb_scheme) option" where
  "Endpoint_Read_Stream_BE H A = Template_Endpoint_RW H A (Endpoint_ClearOUT H) offset_BE move_BE (xfer_read H)"

text \<open>As for the control streams, the P and E variants name another address space.\<close>

definition Endpoint_Write_PStream_LE ::
  "'e hw \<Rightarrow> ('e, 'p) app \<Rightarrow> mem \<Rightarrow> u16 \<Rightarrow> u16 option \<Rightarrow> ('e, 'p) usb_scheme \<Rightarrow>
   (u8 \<times> u16 option \<times> mem \<times> ('e, 'p) usb_scheme) option" where
  "Endpoint_Write_PStream_LE H A = Template_Endpoint_RW H A (Endpoint_ClearIN H) offset_LE move_LE (xfer_write H)"

definition Endpoint_Write_PStream_BE ::
  "'e hw \<Rightarrow> ('e, 'p) app \<Rightarrow> mem \<Rightarrow> u16 \<Rightarrow> u16 option \<Rightarrow> ('e, 'p) usb_scheme \<Rightarrow>
   (u8 \<times> u16 option \<times> mem \<times> ('e, 'p) usb_scheme) option" where
  "Endpoint_Write_PStream_BE H A = Template_Endpoint_RW H A (Endpoint_ClearIN H) offset_BE move_BE (xfer_write H)"

definition Endpoint_Write_EStream_LE ::
  "'e hw \<Rightarrow> ('e, 'p) app \<Rightarrow> mem \<Rightarrow> u16 \<Rightarrow> u16 option \<Rightarrow> ('e, 'p) usb_scheme \<Rightarrow>
   (u8 \<times> u16 option \<times> mem \<times> ('e, 'p) usb_scheme) option" where
  "Endpoint_Write_EStream_LE H A = Template_Endpoint_RW H A (Endpoint_ClearIN H) offset_LE move_LE (xfer_write H)"

definition Endpoint_Write_EStream_BE ::
  "'e hw \<Rightarrow> ('e, 'p) app \<Rightarrow> mem \<Rightarrow> u16 \<Rightarrow> u16 option \<Rightarrow> ('e, 'p) usb_scheme \<Rightarrow>
   (u8 \<times> u16 option \<times> mem \<times> ('e, 'p) usb_scheme) option" where
  "Endpoint_Write_EStream_BE H A = Template_Endpoint_RW H A (Endpoint_ClearIN H) offset_BE move_BE (xfer_write H)"

definition Endpoint_Read_EStream_LE ::
  "'e hw \<Rightarrow> ('e, 'p) app \<Rightarrow> mem \<Rightarrow> u16 \<Rightarrow> u16 option \<Rightarrow> ('e, 'p) usb_scheme \<Rightarrow>
   (u8 \<times> u16 option \<times> mem \<times> ('e, 'p) usb_scheme) option" where
  "Endpoint_Read_EStream_LE H A = Template_Endpoint_RW H A (Endpoint_ClearOUT H) offset_LE move_LE (xfer_read H)"

definition Endpoint_Read_EStream_BE ::
  "'e hw \<Rightarrow> ('e, 'p) app \<Rightarrow> mem \<Rightarrow> u16 \<Rightarrow> u16 option \<Rightarrow> ('e, 'p) usb_scheme \<Rightarrow>
   (u8 \<times> u16 option \<times> mem \<times> ('e, 'p) usb_scheme) option" where
  "Endpoint_Read_EStream_BE H A = Template_Endpoint_RW H A (Endpoint_ClearOUT H) offset_BE move_BE (xfer_read H)"

section \<open>Discarding and zero-filling\<close>

text \<open>
  \<open>Endpoint_Discard_Stream\<close> and \<open>Endpoint_Null_Stream\<close> are the same loop with another
  transfer and another way to finish a bank; unlike the template they do not run the
  USB task.
\<close>

definition Skip_body ::
  "'e hw \<Rightarrow> (('e, 'p) usb_scheme \<Rightarrow> ('e, 'p) usb_scheme) \<Rightarrow> (('e, 'p) usb_scheme \<Rightarrow> ('e, 'p) usb_scheme) \<Rightarrow>
   u16 option \<Rightarrow> u16 \<times> u16 \<times> ('e, 'p) usb_scheme \<Rightarrow>
   ((u16 \<times> u16 \<times> ('e, 'p) usb_scheme) + (u8 \<times> u16 option \<times> ('e, 'p) usb_scheme)) option" where
  "Skip_body H clear xfer BytesProcessed = (\<lambda>(Length, BytesInTransfer, s).
     if Length = 0 then leave (ENDPOINT_RWSTREAM_NoError, BytesProcessed, s)
     else do {
       let (rw, s1) = Endpoint_IsReadWriteAllowed H s;
       if \<not> rw then
         (case BytesProcessed of
            Some n \<Rightarrow> leave (ENDPOINT_RWSTREAM_IncompleteTransfer, Some (n + BytesInTransfer), clear s1)
          | None \<Rightarrow> do {
              (ErrorCode, s3) \<leftarrow> Endpoint_WaitUntilReady H (clear s1);
              if ErrorCode \<noteq> 0 then leave (ErrorCode, None, s3)
              else continue (Length, BytesInTransfer, s3)
            })
       else continue (Length - 1, BytesInTransfer + 1, xfer s1)
     })"

definition Skip_Stream ::
  "'e hw \<Rightarrow> (('e, 'p) usb_scheme \<Rightarrow> ('e, 'p) usb_scheme) \<Rightarrow> (('e, 'p) usb_scheme \<Rightarrow> ('e, 'p) usb_scheme) \<Rightarrow>
   u16 \<Rightarrow> u16 option \<Rightarrow> ('e, 'p) usb_scheme \<Rightarrow> (u8 \<times> u16 option \<times> ('e, 'p) usb_scheme) option" where
  "Skip_Stream H clear xfer Length BytesProcessed s =
     do {
       (ErrorCode, s1) \<leftarrow> Endpoint_WaitUntilReady H s;
       if ErrorCode \<noteq> 0 then Some (ErrorCode, BytesProcessed, s1)
       else loop (Skip_body H clear xfer BytesProcessed)
              (case BytesProcessed of Some n \<Rightarrow> Length - n | None \<Rightarrow> Length, 0, s1)
     }"

definition Endpoint_Discard_Stream ::
  "'e hw \<Rightarrow> u16 \<Rightarrow> u16 option \<Rightarrow> ('e, 'p) usb_scheme \<Rightarrow> (u8 \<times> u16 option \<times> ('e, 'p) usb_scheme) option" where
  "Endpoint_Discard_Stream H = Skip_Stream H (Endpoint_ClearOUT H) (Endpoint_Discard_8 H)"

definition Endpoint_Null_Stream ::
  "'e hw \<Rightarrow> u16 \<Rightarrow> u16 option \<Rightarrow> ('e, 'p) usb_scheme \<Rightarrow> (u8 \<times> u16 option \<times> ('e, 'p) usb_scheme) option" where
  "Endpoint_Null_Stream H = Skip_Stream H (Endpoint_ClearIN H) (Endpoint_Write_8 H 0)"

section \<open>Invariants\<close>

context app_invariant
begin

lemma I_RW_body:
  assumes "\<And>t. I t \<Longrightarrow> I (clear t)" "\<And>d b t. I t \<Longrightarrow> I (snd (xfer d (b, t)))" "I s"
  shows "returns (RW_body H A clear move xfer bp (n, d, k, buf, s))
    (\<lambda>x. case x of Inl (n, d, k, b, s') \<Rightarrow> I s' | Inr (c, bp, b, s') \<Rightarrow> I s')"
  using assms
  by (auto simp: RW_body_def pair_simps split: option.split
      intro!: returns_bind [where Q = I] returns_bind [where Q = "\<lambda>r. I (snd r)"] I_USBTask I_WaitUntilReady)

lemma I_RW:
  assumes "\<And>t. I t \<Longrightarrow> I (clear t)" "\<And>d b t. I t \<Longrightarrow> I (snd (xfer d (b, t)))" "I s"
  shows "returns (Template_Endpoint_RW H A clear ofs move xfer buf n bp s) (\<lambda>(c, bp, b, s'). I s')"
proof -
  have "returns (loop (RW_body H A clear move xfer bp) (n', d, k, b, s')) (\<lambda>(c, bp, b, s'). I s')"
    if "I s'" for n' d k b s'
    by (rule loop_inv [where I = "\<lambda>(n, d, k, b, s). I s"])
      (use that assms(1,2) in \<open>auto intro!: I_RW_body\<close>)
  with assms show ?thesis
    by (auto simp: Template_Endpoint_RW_def Let_def split: option.split
        intro!: returns_bind [where Q = "\<lambda>r. I (snd r)"] I_WaitUntilReady)
qed

lemma I_xfer_write [simp]: "I t \<Longrightarrow> I (snd (xfer_write H d (b, t)))"
  by (simp add: xfer_write_def)

lemma I_Streams:
  assumes "I s"
  shows "returns (Endpoint_Write_Stream_LE H A buf n bp s) (\<lambda>(c, bp, b, s'). I s')"
    "returns (Endpoint_Read_Stream_LE H A buf n bp s) (\<lambda>(c, bp, b, s'). I s')"
  using assms by (simp_all add: Endpoint_Write_Stream_LE_def Endpoint_Read_Stream_LE_def I_RW)

end

end
