(* ===== verification/Joystick.thy ===== *)
theory Joystick
  imports Descriptors Serial Endpoint_Stream
begin

text \<open>
  The application (\<open>Joystick.c\<close>, \<open>Joystick.h\<close>): the virtual controller, the serial command
  interpreter, the HID task, the event handlers that the library calls, and the main loop.
\<close>

section \<open>The virtual controller\<close>

definition SWITCH_Y :: u16 where "SWITCH_Y = 0x01"
definition SWITCH_B :: u16 where "SWITCH_B = 0x02"
definition SWITCH_A :: u16 where "SWITCH_A = 0x04"
definition SWITCH_X :: u16 where "SWITCH_X = 0x08"
definition SWITCH_L :: u16 where "SWITCH_L = 0x10"
definition SWITCH_R :: u16 where "SWITCH_R = 0x20"
definition SWITCH_ZL :: u16 where "SWITCH_ZL = 0x40"
definition SWITCH_ZR :: u16 where "SWITCH_ZR = 0x80"
definition SWITCH_SELECT :: u16 where "SWITCH_SELECT = 0x100"
definition SWITCH_START :: u16 where "SWITCH_START = 0x200"
definition SWITCH_LCLICK :: u16 where "SWITCH_LCLICK = 0x400"
definition SWITCH_RCLICK :: u16 where "SWITCH_RCLICK = 0x800"
definition SWITCH_HOME :: u16 where "SWITCH_HOME = 0x1000"
definition SWITCH_CAPTURE :: u16 where "SWITCH_CAPTURE = 0x2000"
definition SWITCH_RELEASE :: u16 where "SWITCH_RELEASE = 0x00"

lemmas switch_defs [c_defs] = SWITCH_Y_def SWITCH_B_def SWITCH_A_def SWITCH_X_def SWITCH_L_def
  SWITCH_R_def SWITCH_ZL_def SWITCH_ZR_def SWITCH_SELECT_def SWITCH_START_def SWITCH_LCLICK_def
  SWITCH_RCLICK_def SWITCH_HOME_def SWITCH_CAPTURE_def SWITCH_RELEASE_def

definition HAT_TOP :: u8 where "HAT_TOP = 0x00"
definition HAT_RIGHT :: u8 where "HAT_RIGHT = 0x02"
definition HAT_BOTTOM :: u8 where "HAT_BOTTOM = 0x04"
definition HAT_LEFT :: u8 where "HAT_LEFT = 0x06"
definition HAT_CENTER :: u8 where "HAT_CENTER = 0x08"
definition STICK_MIN :: u8 where "STICK_MIN = 0"
definition STICK_CENTER :: u8 where "STICK_CENTER = 128"
definition STICK_MAX :: u8 where "STICK_MAX = 255"

lemmas hat_stick_defs [c_defs] = HAT_TOP_def HAT_RIGHT_def HAT_BOTTOM_def HAT_LEFT_def HAT_CENTER_def
  STICK_MIN_def STICK_CENTER_def STICK_MAX_def

record Virtual_Controller =
  Button :: u16
  HAT :: u8
  LX :: u8
  LY :: u8
  RX :: u8
  RY :: u8
  VendorSpec :: u8

text \<open>The memory of the structure, which \<open>memcpy\<close> copies into the report.\<close>

definition bytes_Virtual_Controller :: "Virtual_Controller \<Rightarrow> u8 list" where
  "bytes_Virtual_Controller vp =
     le16 (Button vp) @ [HAT vp, LX vp, LY vp, RX vp, RY vp, VendorSpec vp]"

definition sizeof_JoystickReport_Input :: nat where "sizeof_JoystickReport_Input = 2 + 6"
definition sizeof_JoystickReport_Output :: nat where "sizeof_JoystickReport_Output = 2 + 5"

text \<open>The globals of the firmware: those of the USB library and the virtual controller.\<close>

record 'e firmware = "'e usb" +
  virtual_controller :: Virtual_Controller

definition with_vp :: "(Virtual_Controller \<Rightarrow> Virtual_Controller) \<Rightarrow> 'e firmware \<Rightarrow> 'e firmware option" where
  "with_vp f s = Some (s\<lparr>virtual_controller := f (virtual_controller s)\<rparr>)"

definition reset_vp :: "Virtual_Controller \<Rightarrow> Virtual_Controller" where
  "reset_vp vp =
     (let vp = \<lparr>Button = 0, HAT = 0, LX = 0, LY = 0, RX = 0, RY = 0, VendorSpec = 0\<rparr>
      in vp\<lparr>LX := STICK_CENTER, LY := STICK_CENTER, RX := STICK_CENTER, RY := STICK_CENTER,
            HAT := HAT_CENTER, Button := SWITCH_RELEASE\<rparr>)"

definition initVirtualController :: "'e firmware \<Rightarrow> 'e firmware" where
  "initVirtualController s = s\<lparr>virtual_controller := reset_vp (virtual_controller s)\<rparr>"

section \<open>Serial commands\<close>

definition executeCommand :: "'e hw \<Rightarrow> s16 \<Rightarrow> 'e firmware \<Rightarrow> (bool \<times> 'e firmware) option" where
  "executeCommand H c s =
     (if c < 0 then Some (False, s)
      else do {
        s' \<leftarrow>
         (if c = 0 then Serial_SendString H (c_string ''I'm Ready!'') s
          else if c = 1 then with_vp (\<lambda>vp. vp\<lparr>Button := Button vp OR SWITCH_A\<rparr>) s
          else if c = 2 then with_vp (\<lambda>vp. vp\<lparr>Button := Button vp AND NOT (bv 2)\<rparr>) s
          else if c = 3 then with_vp (\<lambda>vp. vp\<lparr>Button := Button vp OR SWITCH_B\<rparr>) s
          else if c = 4 then with_vp (\<lambda>vp. vp\<lparr>Button := Button vp AND NOT (bv 1)\<rparr>) s
          else if c = 5 then with_vp (\<lambda>vp. vp\<lparr>Button := Button vp OR SWITCH_X\<rparr>) s
          else if c = 6 then with_vp (\<lambda>vp. vp\<lparr>Button := Button vp AND NOT (bv 3)\<rparr>) s
          else if c = 7 then with_vp (\<lambda>vp. vp\<lparr>Button := Button vp OR SWITCH_Y\<rparr>) s
          else if c = 8 then with_vp (\<lambda>vp. vp\<lparr>Button := Button vp AND NOT (bv 0)\<rparr>) s
          else if c = 9 then with_vp (\<lambda>vp. vp\<lparr>Button := Button vp OR SWITCH_L\<rparr>) s
          else if c = 10 then with_vp (\<lambda>vp. vp\<lparr>Button := Button vp AND NOT (bv 4)\<rparr>) s
          else if c = 11 then with_vp (\<lambda>vp. vp\<lparr>Button := Button vp OR SWITCH_R\<rparr>) s
          else if c = 12 then with_vp (\<lambda>vp. vp\<lparr>Button := Button vp AND NOT (bv 5)\<rparr>) s
          else if c = 13 then with_vp (\<lambda>vp. vp\<lparr>Button := Button vp OR SWITCH_ZL\<rparr>) s
          else if c = 14 then with_vp (\<lambda>vp. vp\<lparr>Button := Button vp AND NOT (bv 6)\<rparr>) s
          else if c = 15 then with_vp (\<lambda>vp. vp\<lparr>Button := Button vp OR SWITCH_ZR\<rparr>) s
          else if c = 16 then with_vp (\<lambda>vp. vp\<lparr>Button := Button vp AND NOT (bv 7)\<rparr>) s
          else if c = 17 then with_vp (\<lambda>vp. vp\<lparr>Button := Button vp OR SWITCH_LCLICK\<rparr>) s
          else if c = 18 then with_vp (\<lambda>vp. vp\<lparr>Button := Button vp AND NOT (bv 10)\<rparr>) s
          else if c = 19 then with_vp (\<lambda>vp. vp\<lparr>Button := Button vp OR SWITCH_RCLICK\<rparr>) s
          else if c = 20 then with_vp (\<lambda>vp. vp\<lparr>Button := Button vp AND NOT (bv 11)\<rparr>) s
          else if c = 21 then with_vp (\<lambda>vp. vp\<lparr>HAT := HAT_TOP\<rparr>) s
          else if c = 22 then with_vp (\<lambda>vp. vp\<lparr>HAT := HAT_CENTER\<rparr>) s
          else if c = 23 then with_vp (\<lambda>vp. vp\<lparr>HAT := HAT_BOTTOM\<rparr>) s
          else if c = 24 then with_vp (\<lambda>vp. vp\<lparr>HAT := HAT_CENTER\<rparr>) s
          else if c = 25 then with_vp (\<lambda>vp. vp\<lparr>HAT := HAT_LEFT\<rparr>) s
          else if c = 26 then with_vp (\<lambda>vp. vp\<lparr>HAT := HAT_CENTER\<rparr>) s
          else if c = 27 then with_vp (\<lambda>vp. vp\<lparr>HAT := HAT_RIGHT\<rparr>) s
          else if c = 28 then with_vp (\<lambda>vp. vp\<lparr>HAT := HAT_CENTER\<rparr>) s
          else if c = 29 then with_vp (\<lambda>vp. vp\<lparr>Button := Button vp OR SWITCH_START\<rparr>) s
          else if c = 30 then with_vp (\<lambda>vp. vp\<lparr>Button := Button vp AND NOT (bv 9)\<rparr>) s
          else if c = 31 then with_vp (\<lambda>vp. vp\<lparr>Button := Button vp OR SWITCH_SELECT\<rparr>) s
          else if c = 32 then with_vp (\<lambda>vp. vp\<lparr>Button := Button vp AND NOT (bv 8)\<rparr>) s
          else if c = 33 then with_vp (\<lambda>vp. vp\<lparr>Button := Button vp OR SWITCH_HOME\<rparr>) s
          else if c = 34 then with_vp (\<lambda>vp. vp\<lparr>Button := Button vp AND NOT (bv 12)\<rparr>) s
          else if c = 35 then with_vp (\<lambda>vp. vp\<lparr>Button := Button vp OR SWITCH_CAPTURE\<rparr>) s
          else if c = 36 then with_vp (\<lambda>vp. vp\<lparr>Button := Button vp AND NOT (bv 13)\<rparr>) s
          else if c = 37 then with_vp (\<lambda>vp. vp\<lparr>LX := STICK_MIN\<rparr>) s
          else if c = 38 then with_vp (\<lambda>vp. vp\<lparr>LX := STICK_MAX\<rparr>) s
          else if c = 39 then with_vp (\<lambda>vp. vp\<lparr>LX := STICK_CENTER\<rparr>) s
          else if c = 40 then with_vp (\<lambda>vp. vp\<lparr>LY := STICK_MIN\<rparr>) s
          else if c = 41 then with_vp (\<lambda>vp. vp\<lparr>LY := STICK_MAX\<rparr>) s
          else if c = 42 then with_vp (\<lambda>vp. vp\<lparr>LY := STICK_CENTER\<rparr>) s
          else if c = 43 then with_vp (\<lambda>vp. vp\<lparr>RX := STICK_MIN\<rparr>) s
          else if c = 44 then with_vp (\<lambda>vp. vp\<lparr>RX := STICK_MAX\<rparr>) s
          else if c = 45 then with_vp (\<lambda>vp. vp\<lparr>RX := STICK_CENTER\<rparr>) s
          else if c = 46 then with_vp (\<lambda>vp. vp\<lparr>LY := STICK_MIN\<rparr>) s
          else if c = 47 then with_vp (\<lambda>vp. vp\<lparr>LY := STICK_MAX\<rparr>) s
          else if c = 48 then with_vp (\<lambda>vp. vp\<lparr>LY := STICK_CENTER\<rparr>) s
          else if c = 49 then Some (initVirtualController s)
          else Serial_SendString H (c_string ''?'') s);
        Some (True, s')
      })"

text \<open>\<open>do {} while (executeCommand(Serial_ReceiveByte()))\<close>.\<close>

definition receive_body :: "'e hw \<Rightarrow> 'e firmware \<Rightarrow> ('e firmware + 'e firmware) option" where
  "receive_body H s =
     do {
       s0 \<leftarrow> irq_poll H s;
       let (c, s1) = Serial_ReceiveByte H s0;
       (again, s2) \<leftarrow> executeCommand H c s1;
       if again then continue s2 else leave s2
     }"

definition receiveCommand :: "'e hw \<Rightarrow> 'e firmware \<Rightarrow> 'e firmware option" where
  "receiveCommand H s =
     (let (rx, s1) = Serial_IsCharReceived H s in if rx then loop (receive_body H) s1 else Some s1)"

section \<open>Events\<close>

definition HID_REQ_GetReport :: u8 where "HID_REQ_GetReport = 0x01"
definition HID_REQ_SetReport :: u8 where "HID_REQ_SetReport = 0x09"

lemmas hid_req_defs [c_defs] = HID_REQ_GetReport_def HID_REQ_SetReport_def

definition EVENT_USB_Device_ConfigurationChanged :: "'e hw \<Rightarrow> 'e firmware \<Rightarrow> 'e firmware option" where
  "EVENT_USB_Device_ConfigurationChanged H s =
     do {
       (_, s1) \<leftarrow> Endpoint_ConfigureEndpoint H JOYSTICK_OUT_EPADDR EP_TYPE_INTERRUPT JOYSTICK_EPSIZE 1 s;
       (_, s2) \<leftarrow> Endpoint_ConfigureEndpoint H JOYSTICK_IN_EPADDR EP_TYPE_INTERRUPT JOYSTICK_EPSIZE 1 s1;
       Some s2
     }"

text \<open>
  The output report is read into a local buffer that nothing looks at afterwards; its
  uninitialised contents are arbitrary.
\<close>

definition uninitialised :: mem where "uninitialised = (\<lambda>_. 0)"

definition EVENT_USB_Device_ControlRequest :: "'e hw \<Rightarrow> 'e firmware \<Rightarrow> 'e firmware option" where
  "EVENT_USB_Device_ControlRequest H s =
     (let req = USB_ControlRequest s
      in if bRequest req = HID_REQ_GetReport then
           (if bmRequestType req = (REQDIR_DEVICETOHOST OR REQTYPE_CLASS OR REQREC_INTERFACE)
            then do {
              let joystickReport_Input = bytes_Virtual_Controller (virtual_controller s);
              let s1 = Endpoint_ClearSETUP H s;
              (_, s2) \<leftarrow> Endpoint_Write_Control_Stream_LE H (mem_of joystickReport_Input)
                           (of_nat sizeof_JoystickReport_Input) s1;
              Some (Endpoint_ClearOUT H s2)
            }
            else Some s)
         else if bRequest req = HID_REQ_SetReport then
           (if bmRequestType req = (REQDIR_HOSTTODEVICE OR REQTYPE_CLASS OR REQREC_INTERFACE)
            then do {
              let s1 = Endpoint_ClearSETUP H s;
              (_, _, s2) \<leftarrow> Endpoint_Read_Control_Stream_LE H uninitialised
                              (of_nat sizeof_JoystickReport_Output) s1;
              Some (Endpoint_ClearIN H s2)
            }
            else Some s)
         else Some s)"

definition joystick_app :: "'e hw \<Rightarrow> ('e, \<lparr>virtual_controller :: Virtual_Controller\<rparr>) app" where
  "joystick_app H =
     \<lparr>ev_ControlRequest = EVENT_USB_Device_ControlRequest H,
      ev_ConfigurationChanged = EVENT_USB_Device_ConfigurationChanged H,
      cb_GetDescriptor = (\<lambda>wVal wIdx.
        case CALLBACK_USB_GetDescriptor wVal wIdx of
          (Some ob, n) \<Rightarrow> (n, mem_of (flash_bytes ob))
        | (None, n) \<Rightarrow> (n, mem_of []))\<rparr>"

section \<open>Tasks and main loop\<close>

definition HID_Task :: "'e hw \<Rightarrow> 'e firmware \<Rightarrow> 'e firmware option" where
  "HID_Task H s =
     (if USB_DeviceState s \<noteq> DEVICE_STATE_Configured then Some s
      else do {
        let (out, s1) = Endpoint_IsOUTReceived H (Endpoint_SelectEndpoint H JOYSTICK_OUT_EPADDR s);
        s2 \<leftarrow> (if out then do {
                  let (rw, t1) = Endpoint_IsReadWriteAllowed H s1;
                  t2 \<leftarrow> (if rw then do {
                            (_, _, _, t) \<leftarrow> Endpoint_Read_Stream_LE H (joystick_app H) uninitialised
                                             (of_nat sizeof_JoystickReport_Output) None t1;
                            Some t
                          } else Some t1);
                  Some (Endpoint_ClearOUT H t2)
                } else Some s1);
        let (inr, s3) = Endpoint_IsINReady H (Endpoint_SelectEndpoint H JOYSTICK_IN_EPADDR s2);
        if inr then do {
          let joystickReport_Input = bytes_Virtual_Controller (virtual_controller s3);
          (_, _, _, s4) \<leftarrow> Endpoint_Write_Stream_LE H (joystick_app H) (mem_of joystickReport_Input)
                             (of_nat sizeof_JoystickReport_Input) None s3;
          Some (Endpoint_ClearIN H s4)
        } else Some s3
      })"

definition clock_div_1 :: u8 where "clock_div_1 = 0"

definition init :: "'e hw \<Rightarrow> 'e firmware \<Rightarrow> 'e firmware option" where
  "init H s =
     do {
       let s1 = rmw H MCUSR (\<lambda>v. v AND NOT (bv WDRF)) s;
       let s2 = s1\<lparr>ctl := wdt_disable H (ctl s1)\<rparr>;
       let s3 = s2\<lparr>ctl := clock_prescale_set H clock_div_1 (ctl s2)\<rparr>;
       s4 \<leftarrow> USB_Init H s3;
       Some (initVirtualController s4)
     }"

text \<open>
  \<open>main\<close>: the start-up code and one round of the endless loop.  A pending interrupt may
  be taken before each of the three calls.
\<close>

definition main_start :: "'e hw \<Rightarrow> 'e firmware \<Rightarrow> 'e firmware option" where
  "main_start H s = do { s1 \<leftarrow> init H (Serial_Init H 9600 False s); Some (GlobalInterruptEnable H s1) }"

definition main_round :: "'e hw \<Rightarrow> 'e firmware \<Rightarrow> 'e firmware option" where
  "main_round H s =
     do {
       s1 \<leftarrow> irq_poll H s;
       s2 \<leftarrow> receiveCommand H s1;
       s3 \<leftarrow> irq_poll H s2;
       s4 \<leftarrow> HID_Task H s3;
       s5 \<leftarrow> irq_poll H s4;
       USB_USBTask H (joystick_app H) s5
     }"

inductive main_reaches :: "'e hw \<Rightarrow> 'e firmware \<Rightarrow> 'e firmware \<Rightarrow> bool" for H s0 where
  start: "main_start H s0 = Some s \<Longrightarrow> main_reaches H s0 s"
| round: "main_reaches H s0 s \<Longrightarrow> main_round H s = Some s' \<Longrightarrow> main_reaches H s0 s'"

end
