(* ===== verification/Joystick_Spec.thy ===== *)
theory Joystick_Spec
  imports Joystick
begin

text \<open>
  What the application promises.  An abstract controller (a set of pressed buttons, a
  direction pad, four stick axes) with the actions that a command can have is the
  specification of the command interpreter; the concrete structure refines it.  A property
  of the firmware state that survives the single steps of the library and the command
  actions is an invariant of the main loop.
\<close>

section \<open>The abstract controller\<close>

datatype axis = Axis_LX | Axis_LY | Axis_RX | Axis_RY

datatype action = Press nat | Release nat | Dpad u8 | Tilt axis u8 | Reset

record pad =
  pressed :: "nat set"
  dpad :: u8
  stick :: "axis \<Rightarrow> u8"

primrec pad_step :: "action \<Rightarrow> pad \<Rightarrow> pad" where
  "pad_step (Press n) p = p\<lparr>pressed := insert n (pressed p)\<rparr>"
| "pad_step (Release n) p = p\<lparr>pressed := pressed p - {n}\<rparr>"
| "pad_step (Dpad d) p = p\<lparr>dpad := d\<rparr>"
| "pad_step (Tilt a v) p = p\<lparr>stick := (stick p)(a := v)\<rparr>"
| "pad_step Reset p = \<lparr>pressed = {}, dpad = HAT_CENTER, stick = (\<lambda>_. STICK_CENTER)\<rparr>"

text \<open>The action of the commands 1 to 49, in order.\<close>

definition command_table :: "action list" where
  "command_table =
     [Press 2, Release 2, Press 1, Release 1, Press 3, Release 3, Press 0, Release 0,
      Press 4, Release 4, Press 5, Release 5, Press 6, Release 6, Press 7, Release 7,
      Press 10, Release 10, Press 11, Release 11,
      Dpad HAT_TOP, Dpad HAT_CENTER, Dpad HAT_BOTTOM, Dpad HAT_CENTER,
      Dpad HAT_LEFT, Dpad HAT_CENTER, Dpad HAT_RIGHT, Dpad HAT_CENTER,
      Press 9, Release 9, Press 8, Release 8, Press 12, Release 12, Press 13, Release 13,
      Tilt Axis_LX STICK_MIN, Tilt Axis_LX STICK_MAX, Tilt Axis_LX STICK_CENTER,
      Tilt Axis_LY STICK_MIN, Tilt Axis_LY STICK_MAX, Tilt Axis_LY STICK_CENTER,
      Tilt Axis_RX STICK_MIN, Tilt Axis_RX STICK_MAX, Tilt Axis_RX STICK_CENTER,
      Tilt Axis_LY STICK_MIN, Tilt Axis_LY STICK_MAX, Tilt Axis_LY STICK_CENTER,
      Reset]"

definition pad_command :: "s16 \<Rightarrow> bool" where
  "pad_command c \<longleftrightarrow> 1 \<le> c \<and> c \<le> 49"

definition action_of :: "s16 \<Rightarrow> action" where
  "action_of c = command_table ! (nat c - 1)"

text \<open>The concrete structure as an abstract controller.\<close>

definition abs_pad :: "Virtual_Controller \<Rightarrow> pad" where
  "abs_pad vp = \<lparr>pressed = {n. bit (Button vp) n}, dpad = HAT vp,
     stick = (\<lambda>a. case a of Axis_LX \<Rightarrow> LX vp | Axis_LY \<Rightarrow> LY vp | Axis_RX \<Rightarrow> RX vp | Axis_RY \<Rightarrow> RY vp)\<rparr>"

text \<open>The actions on the concrete structure.\<close>

primrec vp_step :: "action \<Rightarrow> Virtual_Controller \<Rightarrow> Virtual_Controller" where
  "vp_step (Press n) vp = vp\<lparr>Button := Button vp OR bv n\<rparr>"
| "vp_step (Release n) vp = vp\<lparr>Button := Button vp AND NOT (bv n)\<rparr>"
| "vp_step (Dpad d) vp = vp\<lparr>HAT := d\<rparr>"
| "vp_step (Tilt a v) vp =
     (case a of Axis_LX \<Rightarrow> vp\<lparr>LX := v\<rparr> | Axis_LY \<Rightarrow> vp\<lparr>LY := v\<rparr>
              | Axis_RX \<Rightarrow> vp\<lparr>RX := v\<rparr> | Axis_RY \<Rightarrow> vp\<lparr>RY := v\<rparr>)"
| "vp_step Reset vp = reset_vp vp"

fun valid_action :: "action \<Rightarrow> bool" where
  "valid_action (Press n) = (n < 14)"
| "valid_action (Release n) = (n < 14)"
| "valid_action (Dpad d) = (d \<in> {HAT_TOP, HAT_RIGHT, HAT_BOTTOM, HAT_LEFT, HAT_CENTER})"
| "valid_action (Tilt a v) = (a \<noteq> Axis_RY \<and> v \<in> {STICK_MIN, STICK_CENTER, STICK_MAX})"
| "valid_action Reset = True"

lemma abs_pad_step: "valid_action a \<Longrightarrow> abs_pad (vp_step a vp) = pad_step a (abs_pad vp)"
  by (cases a rule: valid_action.cases)
    (auto simp: abs_pad_def bits reset_vp_def SWITCH_RELEASE_def fun_eq_iff split: axis.splits)

lemma command_table_valid: "list_all valid_action command_table"
  by (simp add: command_table_def)

lemma action_of_valid: "pad_command c \<Longrightarrow> valid_action (action_of c)"
  using command_table_valid
  by (auto simp: action_of_def pad_command_def list_all_length command_table_def)

section \<open>The command interpreter\<close>

lemma pad_command_list:
  "pad_command c \<longleftrightarrow> c \<in> set [1,2,3,4,5,6,7,8,9,10,11,12,13,14,15,16,17,18,19,20,21,22,23,24,25,26,
     27,28,29,30,31,32,33,34,35,36,37,38,39,40,41,42,43,44,45,46,47,48,49]"
proof -
  have "pad_command c \<longleftrightarrow> c \<in> set [1..49]" by (simp add: pad_command_def)
  then show ?thesis by (simp add: upto_rec1)
qed

lemma executeCommand_pad:
  "pad_command c \<Longrightarrow> executeCommand H c s =
     Some (True, s\<lparr>virtual_controller := vp_step (action_of c) (virtual_controller s)\<rparr>)"
  unfolding pad_command_list list.set insert_iff empty_iff
  by (elim disjE)
    (simp_all add: executeCommand_def action_of_def command_table_def with_vp_def
      initVirtualController_def switch_defs bv_eval)

lemma executeCommand_negative: "c < 0 \<Longrightarrow> executeCommand H c s = Some (False, s)"
  by (simp add: executeCommand_def)

lemma executeCommand_ready:
  "executeCommand H 0 s = map_option (Pair True) (Serial_SendString H (c_string ''I'm Ready!'') s)"
  by (cases "Serial_SendString H (c_string ''I'm Ready!'') s") (simp_all add: executeCommand_def)

lemma executeCommand_unknown:
  "c > 49 \<Longrightarrow> executeCommand H c s = map_option (Pair True) (Serial_SendString H (c_string ''?'') s)"
  by (cases "Serial_SendString H (c_string ''?'') s") (simp_all add: executeCommand_def)

lemma command_cases:
  obtains "c < 0" | "c = 0" | "pad_command c" | "c > 49"
  by (force simp: pad_command_def)

section \<open>Invariants of the main loop\<close>

locale joystick_invariant = data_invariant H I
  for H :: "'e hw" and I :: "'e firmware \<Rightarrow> bool" +
  assumes I_action: "I s \<Longrightarrow> valid_action a \<Longrightarrow>
    I (s\<lparr>virtual_controller := vp_step a (virtual_controller s)\<rparr>)"
begin

lemma I_executeCommand: "I s \<Longrightarrow> returns (executeCommand H c s) (\<lambda>r. I (snd r))"
  by (cases c rule: command_cases)
    (auto simp: executeCommand_negative executeCommand_ready executeCommand_unknown
      executeCommand_pad action_of_valid intro!: I_SendString I_action)

lemma I_receiveCommand: "I s \<Longrightarrow> returns (receiveCommand H s) I"
proof -
  have "returns (loop (receive_body H) t) I" if "I t" for t
    by (rule loop_inv [where I = I])
      (use that in \<open>auto simp: receive_body_def pair_simps
        intro!: returns_bind [where Q = I] returns_bind [where Q = "\<lambda>r. I (snd r)"] I_irq_poll I_executeCommand\<close>)
  then show "I s \<Longrightarrow> ?thesis" by (simp add: receiveCommand_def pair_simps)
qed

lemma I_EVENT_ConfigurationChanged: "I s \<Longrightarrow> returns (EVENT_USB_Device_ConfigurationChanged H s) I"
  by (auto simp: EVENT_USB_Device_ConfigurationChanged_def
      intro!: returns_bind [where Q = "\<lambda>r. I (snd r)"] I_ConfigureEndpoint)

lemma I_EVENT_ControlRequest: "I s \<Longrightarrow> returns (EVENT_USB_Device_ControlRequest H s) I"
  by (auto simp: EVENT_USB_Device_ControlRequest_def Let_def
      intro!: returns_bind [where Q = "\<lambda>r. I (snd r)"] returns_bind [where Q = "\<lambda>r. I (snd (snd r))"]
        I_Write_Control_Stream I_Read_Control_Stream)

end

sublocale joystick_invariant \<subseteq> app_invariant H I "joystick_app H"
  by unfold_locales (simp_all add: joystick_app_def I_EVENT_ControlRequest I_EVENT_ConfigurationChanged)

context joystick_invariant
begin

lemma I_HID_Task: "I s \<Longrightarrow> returns (HID_Task H s) I"
  by (auto simp: HID_Task_def pair_simps
      intro!: returns_bind [where Q = I] returns_bind [where Q = "\<lambda>(c, bp, b, t). I t"] I_Streams)

lemma I_main_round: "I s \<Longrightarrow> returns (main_round H s) I"
  unfolding main_round_def
  by (intro returns_bind [where Q = I] I_irq_poll I_receiveCommand I_HID_Task I_USBTask)

lemma I_main_reaches:
  assumes "main_reaches H s0 s" and "\<And>t. main_start H s0 = Some t \<Longrightarrow> I t"
  shows "I s"
  using assms(1) by induction (auto intro: assms(2) returnsD [OF I_main_round])

end

text \<open>
  The range of the controller: direction pad and sticks only take the values of the
  header, the two unused button bits and the vendor byte stay zero, and the vertical
  axis of the right stick never leaves its centre.
\<close>

definition vp_ok :: "Virtual_Controller \<Rightarrow> bool" where
  "vp_ok vp \<longleftrightarrow>
     HAT vp \<in> {HAT_TOP, HAT_RIGHT, HAT_BOTTOM, HAT_LEFT, HAT_CENTER} \<and>
     LX vp \<in> {STICK_MIN, STICK_CENTER, STICK_MAX} \<and> LY vp \<in> {STICK_MIN, STICK_CENTER, STICK_MAX} \<and>
     RX vp \<in> {STICK_MIN, STICK_CENTER, STICK_MAX} \<and> RY vp = STICK_CENTER \<and>
     VendorSpec vp = 0 \<and> (\<forall>n\<ge>14. \<not> bit (Button vp) n)"

lemma vp_ok_reset: "vp_ok (reset_vp vp)"
  by (simp add: vp_ok_def reset_vp_def SWITCH_RELEASE_def)

lemma vp_ok_step: "vp_ok vp \<Longrightarrow> valid_action a \<Longrightarrow> vp_ok (vp_step a vp)"
  by (cases a rule: valid_action.cases) (auto simp: vp_ok_def bits reset_vp_def SWITCH_RELEASE_def split: axis.splits)

definition device_ok :: "('e, 'p) usb_scheme \<Rightarrow> bool" where
  "device_ok s \<longleftrightarrow> USB_DeviceState s \<le> DEVICE_STATE_Suspended \<and>
     USB_Device_ConfigurationNumber s \<le> FIXED_NUM_CONFIGURATIONS"

lemma access_fields:
  "USB_DeviceState (snd (rd H r s)) = USB_DeviceState s" "USB_DeviceState (wr H r v s) = USB_DeviceState s"
  "USB_DeviceState (snd (erd H q s)) = USB_DeviceState s" "USB_DeviceState (ewr H q v s) = USB_DeviceState s"
  "USB_Device_ConfigurationNumber (snd (rd H r s)) = USB_Device_ConfigurationNumber s"
  "USB_Device_ConfigurationNumber (wr H r v s) = USB_Device_ConfigurationNumber s"
  "USB_Device_ConfigurationNumber (snd (erd H q s)) = USB_Device_ConfigurationNumber s"
  "USB_Device_ConfigurationNumber (ewr H q v s) = USB_Device_ConfigurationNumber s"
  "usb.more (snd (rd H r s)) = usb.more s" "usb.more (wr H r v s) = usb.more s"
  "usb.more (snd (erd H q s)) = usb.more s" "usb.more (ewr H q v s) = usb.more s"
  by (simp_all add: reg_access_defs Let_def)

lemma access_virtual_controller:
  "virtual_controller (snd (rd H r s)) = virtual_controller s" "virtual_controller (wr H r v s) = virtual_controller s"
  "virtual_controller (snd (erd H q s)) = virtual_controller s" "virtual_controller (ewr H q v s) = virtual_controller s"
  by (simp_all add: reg_access_defs Let_def)

lemmas access_frame = access_fields access_virtual_controller

interpretation fw: joystick_invariant H "\<lambda>s. device_ok s \<and> vp_ok (virtual_controller s)" for H
  by unfold_locales (simp_all add: device_ok_def access_frame set_I_def FIXED_NUM_CONFIGURATIONS_def vp_ok_step)

interpretation boot: joystick_invariant H "device_ok :: 'e firmware \<Rightarrow> bool" for H :: "'e hw"
  by unfold_locales (simp_all add: device_ok_def access_frame set_I_def FIXED_NUM_CONFIGURATIONS_def)

lemma init_establishes: "device_ok s \<Longrightarrow> returns (init H s) (\<lambda>t. device_ok t \<and> vp_ok (virtual_controller t))"
  by (auto simp: init_def initVirtualController_def Let_def vp_ok_reset device_ok_def access_frame rmw_def
      case_prod_beta' intro!: returns_bind [OF boot.I_Init])

lemma main_start_establishes:
  assumes "device_ok s0"
  shows "returns (main_start H s0) (\<lambda>t. device_ok t \<and> vp_ok (virtual_controller t))"
  unfolding main_start_def
  by (intro returns_bind [OF init_establishes]) (simp_all add: assms)

section \<open>Properties\<close>

text \<open>
  A firmware state for the witnesses: zeroed globals as the C start-up code leaves them.
\<close>

definition zero_vp :: Virtual_Controller where
  "zero_vp = \<lparr>Button = 0, HAT = 0, LX = 0, LY = 0, RX = 0, RY = 0, VendorSpec = 0\<rparr>"

definition firmware_with :: "'e ctl_scheme \<Rightarrow> Virtual_Controller \<Rightarrow> 'e firmware" where
  "firmware_with c vp =
     \<lparr>ctl = c, USB_IsInitialized = False,
      USB_ControlRequest = \<lparr>bmRequestType = 0, bRequest = 0, wValue = 0, wIndex = 0, wLength = 0\<rparr>,
      USB_DeviceState = 0, USB_Device_ConfigurationNumber = 0,
      USB_Device_CurrentlySelfPowered = False, USB_Device_RemoteWakeupEnabled = False,
      virtual_controller = vp\<rparr>"

text \<open>
  C4: the command interpreter refines the abstract controller: each of the commands 1 to
  49 asks for another byte, performs exactly its action on the controller (pressing or
  releasing one button, moving one axis, ...) and changes nothing else of the state.
\<close>

theorem executeCommand_refines_pad:
  assumes "pad_command c"
  shows "\<exists>s'. executeCommand H c s = Some (True, s') \<and>
    abs_pad (virtual_controller s') = pad_step (action_of c) (abs_pad (virtual_controller s)) \<and>
    VendorSpec (virtual_controller s') = (if c = 49 then 0 else VendorSpec (virtual_controller s)) \<and>
    s'\<lparr>virtual_controller := virtual_controller s\<rparr> = s"
proof -
  have "VendorSpec (vp_step (action_of c) vp) = (if c = 49 then 0 else VendorSpec vp)" for vp
    using assms unfolding pad_command_list list.set insert_iff empty_iff
    by (elim disjE) (simp_all add: action_of_def command_table_def reset_vp_def)
  with assms show ?thesis by (simp add: executeCommand_pad action_of_valid abs_pad_step)
qed

theorem executeCommand_refines_pad_witness:
  "\<exists>s'. executeCommand memory_hw 1 (firmware_with \<lparr>gregs = \<lambda>_. 0, eregs = \<lambda>_ _. 0\<rparr> zero_vp) = Some (True, s') \<and>
    pressed (abs_pad (virtual_controller s')) = {2}"
  using executeCommand_refines_pad [of 1 memory_hw "firmware_with \<lparr>gregs = \<lambda>_. 0, eregs = \<lambda>_ _. 0\<rparr> zero_vp"]
  by (auto simp: pad_command_def action_of_def command_table_def abs_pad_def firmware_with_def zero_vp_def)

text \<open>
  C27: the start-up code (serial port, clock, USB interface, controller) returns for every
  hardware: nothing in it waits.
\<close>

theorem main_start_returns: "\<exists>s'. main_start H s0 = Some s'"
  using USB_Init_total by (fastforce simp: main_start_def init_def Let_def bind_eq_Some_conv)

text \<open>
  C3: in every state that the main loop reaches, whatever the hardware does and whatever
  the host sends, the controller structure is in range (direction pad, sticks, unused
  button bits, vendor byte), the device state is one of the six states and the configuration
  number is at most the number of configurations.
\<close>

theorem firmware_invariant:
  assumes "device_ok s0" and "main_reaches H s0 s"
  shows "vp_ok (virtual_controller s) \<and> device_ok s"
  using fw.I_main_reaches [OF assms(2)] returnsD [OF main_start_establishes [OF assms(1)]] by blast

theorem firmware_invariant_witness:
  "\<exists>s. main_reaches memory_hw (firmware_with \<lparr>gregs = \<lambda>_. 0, eregs = \<lambda>_ _. 0\<rparr> zero_vp) s \<and>
    vp_ok (virtual_controller s) \<and> device_ok s"
proof -
  let ?s0 = "firmware_with \<lparr>gregs = \<lambda>_. 0, eregs = \<lambda>_ _. 0\<rparr> zero_vp"
  obtain s where "main_reaches memory_hw ?s0 s"
    using USB_Init_total main_reaches.start
    by (fastforce simp: main_start_def init_def Let_def bind_eq_Some_conv)
  moreover have "device_ok ?s0" by (simp add: device_ok_def firmware_with_def)
  ultimately show ?thesis using firmware_invariant [of ?s0 memory_hw s] by blast
qed

end
