(* ===== verification/Command_Channel.thy ===== *)
theory Command_Channel
  imports Joystick_Spec
begin

text \<open>
  The serial command channel end to end: what \<open>receiveCommand\<close> does with the bytes that
  have arrived, given the documented behaviour of the USART.
\<close>

section \<open>The USART\<close>

text \<open>
  \<open>usart H rx tx busy\<close>: the hardware has a receive queue \<open>rx\<close>, a record \<open>tx\<close> of the bytes
  it has been given to transmit and a transmitter that stays busy for \<open>busy\<close> polls.
  Reading the status register shows whether there is a byte and whether the transmitter is free;
  reading the data register takes a byte from the queue; writing it transmits.  No USB
  interrupt is requested meanwhile.
\<close>

definition usart :: "'e hw \<Rightarrow> ('e ctl_scheme \<Rightarrow> u8 list) \<Rightarrow> ('e ctl_scheme \<Rightarrow> u8 list) \<Rightarrow> ('e ctl_scheme \<Rightarrow> nat) \<Rightarrow> bool" where
  "usart H rx tx busy \<longleftrightarrow>
     (\<forall>c. \<not> irq H c) \<and>
     (\<forall>c. let c' = pre_rd H (G UCSR1A) c in
        rx c' = rx c \<and> tx c' = tx c \<and> busy c' = busy c - 1 \<and>
        (tst (gregs c' UCSR1A) RXC1 \<longleftrightarrow> rx c \<noteq> []) \<and> (tst (gregs c' UCSR1A) UDRE1 \<longleftrightarrow> busy c = 0)) \<and>
     (\<forall>c. rx c \<noteq> [] \<longrightarrow> (let c' = pre_rd H (G UDR1) c in
        rx c' = tl (rx c) \<and> tx c' = tx c \<and> gregs c' UDR1 = hd (rx c))) \<and>
     (\<forall>c. let c' = post_wr H (G UDR1) c in rx c' = rx c \<and> tx c' = tx c @ [gregs c UDR1]) \<and>
     (\<forall>c g. rx (c\<lparr>gregs := g\<rparr>) = rx c \<and> tx (c\<lparr>gregs := g\<rparr>) = tx c)"

text \<open>A USART that is busy for three polls after each byte; its hidden state is the triple itself.\<close>

definition usart_hw :: "(u8 list \<times> u8 list \<times> nat) hw" where
  "usart_hw =
     \<lparr>pre_rd = (\<lambda>p c. case ctl.more c of (r, t, b) \<Rightarrow>
        if p = G UCSR1A
        then c\<lparr>gregs := (gregs c)(UCSR1A := (if r \<noteq> [] then bv RXC1 else 0) OR (if b = 0 then bv UDRE1 else 0)),
               ctl.more := (r, t, b - 1)\<rparr>
        else if p = G UDR1 \<and> r \<noteq> [] then c\<lparr>gregs := (gregs c)(UDR1 := hd r), ctl.more := (tl r, t, b)\<rparr>
        else c),
      post_wr = (\<lambda>p c. case ctl.more c of (r, t, b) \<Rightarrow>
        if p = G UDR1 then c\<lparr>ctl.more := (r, t @ [gregs c UDR1], 3)\<rparr> else c),
      irq = (\<lambda>_. False), boot_signature_byte_get = (\<lambda>_. 0), wdt_disable = id, clock_prescale_set = (\<lambda>_. id)\<rparr>"

lemma usart_hw_usart:
  "usart usart_hw (\<lambda>c. fst (ctl.more c)) (\<lambda>c. fst (snd (ctl.more c))) (\<lambda>c. snd (snd (ctl.more c)))"
  by (simp add: usart_def usart_hw_def Let_def case_prod_beta' bits bit_or_iff)

section \<open>Sending\<close>

lemma usart_irq_poll: "usart H rx tx busy \<Longrightarrow> irq_poll H s = Some s"
  by (simp add: irq_poll_def usart_def)

lemma usart_IsSendReady:
  assumes "usart H rx tx busy" "Serial_IsSendReady H s = (b, s')"
  shows "b = (busy (ctl s) = 0)" "busy (ctl s') = busy (ctl s) - 1" "rx (ctl s') = rx (ctl s)"
    "tx (ctl s') = tx (ctl s)" "vars s' = vars s"
  using assms by (auto simp: Serial_IsSendReady_def rd_bit_def rd_def usart_def Let_def vars_def)

lemma usart_SendByte:
  assumes u: "usart H rx tx busy"
  shows "\<exists>s'. Serial_SendByte H b s = Some s' \<and> rx (ctl s') = rx (ctl s) \<and>
    tx (ctl s') = tx (ctl s) @ [b] \<and> vars s' = vars s"
proof -
  let ?I = "\<lambda>t. rx (ctl t) = rx (ctl s) \<and> tx (ctl t) = tx (ctl s) \<and> vars t = vars s"
  have "\<exists>s'. wait_irq H (Serial_IsSendReady H) s = Some s' \<and> ?I s'"
    unfolding wait_irq_def
  proof (rule loop_total [where I = ?I and m = "\<lambda>t. busy (ctl t)"], simp)
    fix t :: "('a, 'b) usb_scheme"
    assume t: "?I t"
    obtain r t1 where r: "Serial_IsSendReady H t = (r, t1)" by (cases "Serial_IsSendReady H t")
    show "\<exists>x. (irq_poll H t \<bind> (\<lambda>s0. let (b, s1) = Serial_IsSendReady H s0 in
        if b then leave s1 else continue s1)) = Some x \<and>
      (case x of Inl s' \<Rightarrow> ?I s' \<and> busy (ctl s') < busy (ctl t) | Inr s' \<Rightarrow> ?I s')"
      using t usart_IsSendReady [OF u r] by (auto simp: usart_irq_poll [OF u] r)
  qed
  then obtain s1 where "wait_irq H (Serial_IsSendReady H) s = Some s1" "?I s1" by blast
  then show ?thesis using u
    by (auto simp: Serial_SendByte_def wr_def usart_def Let_def vars_def)
qed

lemma usart_SendString:
  assumes u: "usart H rx tx busy"
  shows "0 \<notin> set cs \<Longrightarrow> \<exists>s'. Serial_SendString H (cs @ [0]) s = Some s' \<and> rx (ctl s') = rx (ctl s) \<and>
    tx (ctl s') = tx (ctl s) @ cs \<and> vars s' = vars s"
proof (induction cs arbitrary: s)
  case (Cons c cs)
  obtain s1 where s1: "Serial_SendByte H c s = Some s1" "rx (ctl s1) = rx (ctl s)"
      "tx (ctl s1) = tx (ctl s) @ [c]" "vars s1 = vars s"
    using usart_SendByte [OF u] by blast
  with Cons.IH [of s1] Cons.prems show ?case by auto
qed simp

section \<open>Receiving\<close>

text \<open>What a byte does to the controller, and what the firmware answers.\<close>

definition vp_byte :: "u8 \<Rightarrow> Virtual_Controller \<Rightarrow> Virtual_Controller" where
  "vp_byte b vp = (if pad_command (uint b) then vp_step (action_of (uint b)) vp else vp)"

definition vp_bytes :: "u8 list \<Rightarrow> Virtual_Controller \<Rightarrow> Virtual_Controller" where
  "vp_bytes bs = fold vp_byte bs"

definition reply_byte :: "u8 \<Rightarrow> u8 list" where
  "reply_byte b = (if b = 0 then map (\<lambda>c. word_of_nat (of_char c)) ''I'm Ready!''
                   else if b > 49 then map (\<lambda>c. word_of_nat (of_char c)) ''?'' else [])"

definition reply_bytes :: "u8 list \<Rightarrow> u8 list" where
  "reply_bytes bs = concat (map reply_byte bs)"

lemma c_string_nonzero:
  "0 \<notin> set (map (\<lambda>c. word_of_nat (of_char c) :: u8) ''I'm Ready!'')"
  "0 \<notin> set (map (\<lambda>c. word_of_nat (of_char c) :: u8) ''?'')"
  by (simp_all add: of_char_def)

lemma vars_firmware: "vars s = vars t \<Longrightarrow> virtual_controller s = virtual_controller t"
  by (cases s; cases t) (simp add: vars_def)

lemma usart_execute:
  assumes u: "usart H rx tx busy"
  shows "\<exists>s'. executeCommand H (uint b) s = Some (True, s') \<and> rx (ctl s') = rx (ctl s) \<and>
    tx (ctl s') = tx (ctl s) @ reply_byte b \<and> virtual_controller s' = vp_byte b (virtual_controller s)"
proof (cases "uint b" rule: command_cases)
  case 1
  then show ?thesis by (simp add: not_less [symmetric])
next
  case 2
  then have b: "b = 0" by (simp add: uint_0_iff)
  from usart_SendString [OF u c_string_nonzero(1), of s] obtain s' where
    "Serial_SendString H (c_string ''I'm Ready!'') s = Some s'" "rx (ctl s') = rx (ctl s)"
    "tx (ctl s') = tx (ctl s) @ reply_byte b" "vars s' = vars s"
    by (auto simp: c_string_def reply_byte_def b)
  with 2 show ?thesis
    by (auto simp: executeCommand_ready vp_byte_def pad_command_def dest: vars_firmware)
next
  case 3
  then have "b \<noteq> 0" "\<not> b > 49" by (auto simp: pad_command_def word_less_def)
  with 3 show ?thesis by (simp add: executeCommand_pad vp_byte_def reply_byte_def)
next
  case 4
  then have b: "b > 49" "b \<noteq> 0" by (auto simp: word_less_def)
  from usart_SendString [OF u c_string_nonzero(2), of s] obtain s' where
    "Serial_SendString H (c_string ''?'') s = Some s'" "rx (ctl s') = rx (ctl s)"
    "tx (ctl s') = tx (ctl s) @ reply_byte b" "vars s' = vars s"
    using b by (auto simp: c_string_def reply_byte_def)
  with 4 show ?thesis
    by (auto simp: executeCommand_unknown vp_byte_def pad_command_def dest: vars_firmware)
qed

lemma usart_ReceiveByte:
  assumes u: "usart H rx tx busy"
  shows "rx (ctl s) = [] \<Longrightarrow> \<exists>s'. Serial_ReceiveByte H s = (-1, s') \<and> rx (ctl s') = [] \<and>
      tx (ctl s') = tx (ctl s) \<and> vars s' = vars s"
    and "rx (ctl s) = b # bs \<Longrightarrow> \<exists>s'. Serial_ReceiveByte H s = (uint b, s') \<and> rx (ctl s') = bs \<and>
      tx (ctl s') = tx (ctl s) \<and> vars s' = vars s"
  using u by (auto simp: Serial_ReceiveByte_def Serial_IsCharReceived_def rd_bit_def rd_def usart_def Let_def vars_def)

lemma usart_receive_loop:
  assumes u: "usart H rx tx busy"
  shows "\<exists>s'. loop (receive_body H) s = Some s' \<and> rx (ctl s') = [] \<and>
    tx (ctl s') = tx (ctl s) @ reply_bytes (rx (ctl s)) \<and>
    virtual_controller s' = vp_bytes (rx (ctl s)) (virtual_controller s)"
proof (induction "rx (ctl s)" arbitrary: s)
  case Nil
  then obtain s1 where "Serial_ReceiveByte H s = (-1, s1)" "rx (ctl s1) = []" "tx (ctl s1) = tx (ctl s)" "vars s1 = vars s"
    using usart_ReceiveByte(1) [OF u] by metis
  with Nil show ?case
    by (auto simp: receive_body_def usart_irq_poll [OF u] executeCommand_negative reply_bytes_def vp_bytes_def
        dest: vars_firmware intro!: exI [of _ s1] loop_leave)
next
  case (Cons b bs)
  then obtain s1 where s1: "Serial_ReceiveByte H s = (uint b, s1)" "rx (ctl s1) = bs" "tx (ctl s1) = tx (ctl s)" "vars s1 = vars s"
    using usart_ReceiveByte(2) [OF u] by metis
  obtain s2 where s2: "executeCommand H (uint b) s1 = Some (True, s2)" "rx (ctl s2) = rx (ctl s1)"
      "tx (ctl s2) = tx (ctl s1) @ reply_byte b" "virtual_controller s2 = vp_byte b (virtual_controller s1)"
    using usart_execute [OF u] by blast
  have "receive_body H s = continue s2" by (simp add: receive_body_def usart_irq_poll [OF u] s1 s2)
  then have "loop (receive_body H) s = loop (receive_body H) s2" by (rule loop_continue)
  with Cons.hyps(1) [of s2] s1 s2 Cons.hyps(2) [symmetric] show ?case
    by (auto simp: reply_bytes_def vp_bytes_def dest: vars_firmware)
qed

lemma usart_receiveCommand:
  assumes "usart H rx tx busy"
  shows "\<exists>s'. receiveCommand H s = Some s' \<and> rx (ctl s') = [] \<and>
    virtual_controller s' = vp_bytes (rx (ctl s)) (virtual_controller s) \<and>
    tx (ctl s') = tx (ctl s) @ reply_bytes (rx (ctl s))"
proof -
  obtain s1 where s1: "Serial_IsCharReceived H s = (rx (ctl s) \<noteq> [], s1)" "rx (ctl s1) = rx (ctl s)"
      "tx (ctl s1) = tx (ctl s)" "vars s1 = vars s"
    using assms by (auto simp: Serial_IsCharReceived_def rd_bit_def rd_def usart_def Let_def vars_def)
  show ?thesis
  proof (cases "rx (ctl s) = []")
    case True
    with s1 show ?thesis by (auto simp: receiveCommand_def reply_bytes_def vp_bytes_def dest: vars_firmware)
  next
    case False
    with usart_receive_loop [OF assms, of s1] s1 show ?thesis
      by (auto simp: receiveCommand_def dest: vars_firmware)
  qed
qed

text \<open>
  C19: with a USART that behaves as documented, \<open>receiveCommand\<close> returns; it takes every
  byte that has arrived, performs the actions of the bytes in order on the controller and
  answers \<open>I'm Ready!\<close> to a zero and \<open>?\<close> to a byte above 49, in order, and nothing else.
\<close>

theorem receiveCommand_drains:
  assumes "usart H rx tx busy"
  shows "\<exists>s'. receiveCommand H s = Some s' \<and> rx (ctl s') = [] \<and>
    virtual_controller s' = vp_bytes (rx (ctl s)) (virtual_controller s) \<and>
    tx (ctl s') = tx (ctl s) @ reply_bytes (rx (ctl s))"
  by (rule usart_receiveCommand [OF assms])

theorem receiveCommand_drains_witness:
  "\<exists>s'. receiveCommand usart_hw
      (firmware_with \<lparr>gregs = \<lambda>_. 0, eregs = \<lambda>_ _. 0, \<dots> = ([1, 29, 2, 200], [], 2)\<rparr> zero_vp) = Some s' \<and>
    Button (virtual_controller s') = SWITCH_START \<and> fst (snd (ctl.more (ctl s'))) = [63]"
  using receiveCommand_drains [OF usart_hw_usart,
      of "firmware_with \<lparr>gregs = \<lambda>_. 0, eregs = \<lambda>_ _. 0, \<dots> = ([1, 29, 2, 200], [], 2)\<rparr> zero_vp"]
  by (auto simp: firmware_with_def zero_vp_def vp_bytes_def vp_byte_def pad_command_def action_of_def
      command_table_def reply_bytes_def reply_byte_def switch_defs bv_eval of_char_def)

end
