(* ===== verification/Host_Protocol.thy ===== *)
theory Host_Protocol
  imports Command_Channel
begin

text \<open>
  The host side of the serial protocol (\<open>src/main/java/.../output\<close>): the enumerations of
  buttons and stick positions with their command bytes, and the byte sequences that
  \<open>PGConProtocol\<close> sends for a hold, a release, a stick position and a reset.
\<close>

datatype NintendoSwitchStandardButton =
  A | B | X | Y | L | R | ZL | ZR | L_STICK | R_STICK | D_TOP | D_BOTTOM | D_LEFT | D_RIGHT
| PLUS | MINUS | HOME | CAPTURE

text \<open>The constructor arguments \<open>(holdCommandPGCon, releaseCommandPGCon, commandEasyCon, isHat)\<close>.\<close>

primrec button_args :: "NintendoSwitchStandardButton \<Rightarrow> int \<times> int \<times> int \<times> bool" where
  "button_args A = (1, 2, 0x04, False)"
| "button_args B = (3, 4, 0x02, False)"
| "button_args X = (5, 6, 0x08, False)"
| "button_args Y = (7, 8, 0x01, False)"
| "button_args L = (9, 10, 0x10, False)"
| "button_args R = (11, 12, 0x20, False)"
| "button_args ZL = (13, 14, 0x40, False)"
| "button_args ZR = (15, 16, 0x80, False)"
| "button_args L_STICK = (17, 18, 0x400, False)"
| "button_args R_STICK = (19, 20, 0x800, False)"
| "button_args D_TOP = (21, 22, 0x00, True)"
| "button_args D_BOTTOM = (23, 24, 0x04, True)"
| "button_args D_LEFT = (25, 26, 0x06, True)"
| "button_args D_RIGHT = (27, 28, 0x02, True)"
| "button_args PLUS = (29, 30, 0x200, False)"
| "button_args MINUS = (31, 32, 0x100, False)"
| "button_args HOME = (33, 34, 0x1000, False)"
| "button_args CAPTURE = (35, 36, 0x2000, False)"

definition getHoldCommandPGCon :: "NintendoSwitchStandardButton \<Rightarrow> u8" where
  "getHoldCommandPGCon b = (case button_args b of (h, r, m, hat) \<Rightarrow> word_of_int h)"

definition getReleaseCommandPGCon :: "NintendoSwitchStandardButton \<Rightarrow> u8" where
  "getReleaseCommandPGCon b = (case button_args b of (h, r, m, hat) \<Rightarrow> word_of_int r)"

definition getCommandEasyCon :: "NintendoSwitchStandardButton \<Rightarrow> int" where
  "getCommandEasyCon b = (case button_args b of (h, r, m, hat) \<Rightarrow> m)"

definition isHat :: "NintendoSwitchStandardButton \<Rightarrow> bool" where
  "isHat b = (case button_args b of (h, r, m, hat) \<Rightarrow> hat)"

datatype NintendoSwitchBaseStick =
  LX_MIN | LX_MAX | LX_CENTER | LY_MIN | LY_MAX | LY_CENTER
| RX_MIN | RX_MAX | RX_CENTER | RY_MIN | RY_MAX | RY_CENTER

text \<open>The constructor arguments \<open>(commandPGCon, commandEasyCon)\<close>, stored as Java bytes.\<close>

primrec base_stick_args :: "NintendoSwitchBaseStick \<Rightarrow> int \<times> int" where
  "base_stick_args LX_MIN = (37, 0)"
| "base_stick_args LX_MAX = (38, -1)"
| "base_stick_args LX_CENTER = (39, -128)"
| "base_stick_args LY_MIN = (40, 0)"
| "base_stick_args LY_MAX = (41, -1)"
| "base_stick_args LY_CENTER = (42, -128)"
| "base_stick_args RX_MIN = (43, 0)"
| "base_stick_args RX_MAX = (44, -1)"
| "base_stick_args RX_CENTER = (45, -128)"
| "base_stick_args RY_MIN = (46, 0)"
| "base_stick_args RY_MAX = (47, -1)"
| "base_stick_args RY_CENTER = (48, -128)"

definition stick_commandPGCon :: "NintendoSwitchBaseStick \<Rightarrow> u8" where
  "stick_commandPGCon a = word_of_int (fst (base_stick_args a))"

definition stick_commandEasyCon :: "NintendoSwitchBaseStick \<Rightarrow> u8" where
  "stick_commandEasyCon a = word_of_int (snd (base_stick_args a))"

datatype Sticks = LEFT | RIGHT

datatype NintendoSwitchStandardStick =
  L_TOP | L_TOP_RIGHT | L_RIGHT | L_BOTTOM_RIGHT | L_BOTTOM | L_BOTTOM_LEFT | L_LEFT | L_TOP_LEFT | L_CENTER
| R_TOP | R_TOP_RIGHT | R_RIGHT | R_BOTTOM_RIGHT | R_BOTTOM | R_BOTTOM_LEFT | R_LEFT | R_TOP_LEFT | R_CENTER

primrec stick_args :: "NintendoSwitchStandardStick \<Rightarrow> Sticks \<times> NintendoSwitchBaseStick \<times> NintendoSwitchBaseStick" where
  "stick_args L_TOP = (LEFT, LX_CENTER, LY_MIN)"
| "stick_args L_TOP_RIGHT = (LEFT, LX_MAX, LY_MIN)"
| "stick_args L_RIGHT = (LEFT, LX_MAX, LY_CENTER)"
| "stick_args L_BOTTOM_RIGHT = (LEFT, LX_MAX, LY_MAX)"
| "stick_args L_BOTTOM = (LEFT, LX_CENTER, LY_MAX)"
| "stick_args L_BOTTOM_LEFT = (LEFT, LX_MIN, LY_MAX)"
| "stick_args L_LEFT = (LEFT, LX_MIN, LY_CENTER)"
| "stick_args L_TOP_LEFT = (LEFT, LX_MIN, LY_MIN)"
| "stick_args L_CENTER = (LEFT, LX_CENTER, LY_CENTER)"
| "stick_args R_TOP = (RIGHT, RX_CENTER, LY_MIN)"
| "stick_args R_TOP_RIGHT = (RIGHT, RX_MAX, LY_MIN)"
| "stick_args R_RIGHT = (RIGHT, RX_MAX, RY_CENTER)"
| "stick_args R_BOTTOM_RIGHT = (RIGHT, RX_MAX, RY_MAX)"
| "stick_args R_BOTTOM = (RIGHT, RX_CENTER, RY_MAX)"
| "stick_args R_BOTTOM_LEFT = (RIGHT, RX_MIN, RY_MAX)"
| "stick_args R_LEFT = (RIGHT, RX_MIN, RY_CENTER)"
| "stick_args R_TOP_LEFT = (RIGHT, RX_MIN, LY_MIN)"
| "stick_args R_CENTER = (RIGHT, RX_CENTER, RY_CENTER)"

text \<open>The bytes that \<open>PGConProtocol\<close> writes to the serial port.\<close>

definition hold :: "NintendoSwitchStandardButton \<Rightarrow> u8 list" where
  "hold b = [getHoldCommandPGCon b]"

definition release :: "NintendoSwitchStandardButton \<Rightarrow> u8 list" where
  "release b = [getReleaseCommandPGCon b]"

definition set_stick :: "NintendoSwitchStandardStick \<Rightarrow> u8 list" where
  "set_stick a = (case stick_args a of (st, x, y) \<Rightarrow> [stick_commandPGCon x, stick_commandPGCon y])"

definition clear :: "u8 list" where
  "clear = [49]"

section \<open>Agreement of the two sides\<close>

lemma uint_word_of_int_byte: "0 \<le> k \<Longrightarrow> k < 256 \<Longrightarrow> uint (word_of_int k :: u8) = k"
  by (simp add: uint_word_of_int take_bit_eq_mod)

lemmas protocol_defs = hold_def release_def set_stick_def clear_def getHoldCommandPGCon_def
  getReleaseCommandPGCon_def getCommandEasyCon_def isHat_def stick_commandPGCon_def
  stick_commandEasyCon_def vp_bytes_def vp_byte_def pad_command_def action_of_def command_table_def

text \<open>The firmware receiving a sequence of bytes: one \<open>executeCommand\<close> after the other.\<close>

fun executeCommands :: "'e hw \<Rightarrow> u8 list \<Rightarrow> 'e firmware \<Rightarrow> 'e firmware option" where
  "executeCommands H [] s = Some s"
| "executeCommands H (b # bs) s = do { (_, s') \<leftarrow> executeCommand H (uint b) s; executeCommands H bs s' }"

lemma executeCommands_pad:
  "list_all (\<lambda>b. pad_command (uint b)) bs \<Longrightarrow>
   executeCommands H bs s = Some (s\<lparr>virtual_controller := vp_bytes bs (virtual_controller s)\<rparr>)"
  by (induction bs arbitrary: s) (simp_all add: executeCommand_pad vp_bytes_def vp_byte_def)

lemma protocol_pad:
  "list_all (\<lambda>c. pad_command (uint c)) (hold b)" "list_all (\<lambda>c. pad_command (uint c)) (release b)"
  "list_all (\<lambda>c. pad_command (uint c)) (set_stick a)"
  by (cases b, simp_all add: protocol_defs)+ (cases a, simp_all add: protocol_defs)

lemmas protocol_run = executeCommands_pad [OF protocol_pad(1)] executeCommands_pad [OF protocol_pad(2)]
  executeCommands_pad [OF protocol_pad(3)]

text \<open>
  For every button of the host's enumeration, the byte sent for a hold and the byte
  sent for a release make the firmware do exactly what the button's own mask says: an
  ordinary button is set and cleared in the button word, a direction moves the direction
  pad and back to its centre; nothing else changes.
\<close>

theorem host_buttons_agree:
  "if isHat b
   then executeCommands H (hold b) s =
          Some (s\<lparr>virtual_controller := (virtual_controller s)\<lparr>HAT := word_of_int (getCommandEasyCon b)\<rparr>\<rparr>) \<and>
        executeCommands H (release b) s =
          Some (s\<lparr>virtual_controller := (virtual_controller s)\<lparr>HAT := HAT_CENTER\<rparr>\<rparr>)
   else executeCommands H (hold b) s = Some (s\<lparr>virtual_controller := (virtual_controller s)
          \<lparr>Button := Button (virtual_controller s) OR word_of_int (getCommandEasyCon b)\<rparr>\<rparr>) \<and>
        executeCommands H (release b) s = Some (s\<lparr>virtual_controller := (virtual_controller s)
          \<lparr>Button := Button (virtual_controller s) AND NOT (word_of_int (getCommandEasyCon b))\<rparr>\<rparr>)"
  unfolding protocol_run by (cases b) (simp_all add: protocol_defs bv_eval hat_stick_defs)

text \<open>
  For every position of the left stick, the two bytes that the host sends make the
  firmware move the two axes of the left stick to the position's values and change nothing else.
\<close>

theorem host_left_stick_agrees:
  assumes "stick_args a = (LEFT, x, y)"
  shows "executeCommands H (set_stick a) s = Some (s\<lparr>virtual_controller := (virtual_controller s)
    \<lparr>LX := stick_commandEasyCon x, LY := stick_commandEasyCon y\<rparr>\<rparr>)"
  unfolding protocol_run using assms by (cases a) (auto simp: protocol_defs hat_stick_defs)

theorem host_left_stick_agrees_witness:
  "map_option virtual_controller (executeCommands memory_hw (set_stick L_TOP_RIGHT)
     (firmware_with \<lparr>gregs = \<lambda>_. 0, eregs = \<lambda>_ _. 0\<rparr> zero_vp)) = Some (zero_vp\<lparr>LX := 255, LY := 0\<rparr>)"
  using host_left_stick_agrees [of L_TOP_RIGHT LX_MAX LY_MIN memory_hw
      "firmware_with \<lparr>gregs = \<lambda>_. 0, eregs = \<lambda>_ _. 0\<rparr> zero_vp"]
  by (simp add: stick_commandEasyCon_def firmware_with_def)

text \<open>
  C28: for no position of the right stick do the two bytes that the host sends move the
  vertical axis of the right stick: the firmware moves the vertical axis of the left
  stick instead.
\<close>

theorem host_right_stick_moves_left:
  assumes "stick_args a = (RIGHT, x, y)"
  shows "executeCommands H (set_stick a) s = Some (s\<lparr>virtual_controller := (virtual_controller s)
    \<lparr>RX := stick_commandEasyCon x, LY := stick_commandEasyCon y\<rparr>\<rparr>)"
  unfolding protocol_run using assms by (cases a) (auto simp: protocol_defs hat_stick_defs)

theorem host_right_stick_moves_left_witness:
  "map_option virtual_controller (executeCommands memory_hw (set_stick R_BOTTOM)
     (firmware_with \<lparr>gregs = \<lambda>_. 0, eregs = \<lambda>_ _. 0\<rparr> zero_vp)) = Some (zero_vp\<lparr>RX := 128, LY := 255\<rparr>)"
  using host_right_stick_moves_left [of R_BOTTOM RX_CENTER RY_MAX memory_hw
      "firmware_with \<lparr>gregs = \<lambda>_. 0, eregs = \<lambda>_ _. 0\<rparr> zero_vp"]
  by (simp add: stick_commandEasyCon_def firmware_with_def)

end
