(* ===== verification/Controller_Service.thy ===== *)
theory Controller_Service
  imports Host_Protocol
begin

text \<open>
  The controller service of the host (\<open>output/ControllerService.java\<close>): it remembers until when each button
  and stick is held, sends a command to the connected protocol only when something changes, and a
  daemon releases what has expired.  The protocol is an interface; its implementations are
  \<open>PGConProtocol\<close>, which drives the firmware, and the two versions of \<open>EasyConProtocol\<close>
  (\<open>output/impl/easycon\<close>), which send the whole state of the controller in every packet.

  The methods that hold and release are \<open>synchronized\<close>, so a run of the service is a
  sequence of them; \<open>clear\<close> and \<open>setProtocol\<close> are not and are taken as one step too.
  \<open>None\<close> is a \<open>NullPointerException\<close>.
\<close>

section \<open>The service\<close>

text \<open>The interface \<open>Protocol\<close>, as functions on the state of an implementation.\<close>

record 'p Protocol =
  hold_P :: "NintendoSwitchStandardButton \<Rightarrow> 'p \<Rightarrow> 'p"
  release_P :: "NintendoSwitchStandardButton \<Rightarrow> 'p \<Rightarrow> 'p"
  set_P :: "NintendoSwitchStandardStick \<Rightarrow> 'p \<Rightarrow> 'p"
  clear_P :: "'p \<Rightarrow> 'p"

text \<open>The protocol object of \<open>PGConProtocol\<close> is the sequence of bytes that it has sent.\<close>

definition PGCon_P :: "u8 list Protocol" where
  "PGCon_P = \<lparr>hold_P = (\<lambda>b bs. bs @ hold b), release_P = (\<lambda>b bs. bs @ release b),
     set_P = (\<lambda>a bs. bs @ set_stick a), clear_P = (\<lambda>bs. bs @ clear)\<rparr>"

primrec ordinal :: "NintendoSwitchStandardButton \<Rightarrow> nat" where
  "ordinal A = 0" | "ordinal B = 1" | "ordinal X = 2" | "ordinal Y = 3" | "ordinal L = 4" | "ordinal R = 5"
| "ordinal ZL = 6" | "ordinal ZR = 7" | "ordinal L_STICK = 8" | "ordinal R_STICK = 9" | "ordinal D_TOP = 10"
| "ordinal D_BOTTOM = 11" | "ordinal D_LEFT = 12" | "ordinal D_RIGHT = 13" | "ordinal PLUS = 14"
| "ordinal MINUS = 15" | "ordinal HOME = 16" | "ordinal CAPTURE = 17"

definition BUTTON_ACTIONS :: "NintendoSwitchStandardButton list" where
  "BUTTON_ACTIONS = [A, B, X, Y, L, R, ZL, ZR, L_STICK, R_STICK, D_TOP, D_BOTTOM, D_LEFT, D_RIGHT,
     PLUS, MINUS, HOME, CAPTURE]"

primrec ordinal_stick :: "Sticks \<Rightarrow> nat" where
  "ordinal_stick LEFT = 0" | "ordinal_stick RIGHT = 1"

definition getStick :: "NintendoSwitchStandardStick \<Rightarrow> Sticks" where
  "getStick a = fst (stick_args a)"

record 'p ControllerService =
  buttonExpired :: "int list"
  stickExpired :: "int list"
  hatDirections :: "NintendoSwitchStandardButton option"
  stickDirections :: "NintendoSwitchStandardStick list"
  protocol :: "'p option"

definition new_ControllerService :: "'p ControllerService" where
  "new_ControllerService = \<lparr>buttonExpired = replicate (length BUTTON_ACTIONS) 0, stickExpired = replicate 2 0,
     hatDirections = None, stickDirections = [L_CENTER, R_CENTER], protocol = None\<rparr>"

definition setProtocol :: "'p option \<Rightarrow> 'p ControllerService \<Rightarrow> 'p ControllerService" where
  "setProtocol p s = s\<lparr>protocol := p\<rparr>"

text \<open>A call to the protocol behind the test \<open>protocol != null\<close>.\<close>

definition to_protocol :: "('p \<Rightarrow> 'p) \<Rightarrow> 'p ControllerService \<Rightarrow> 'p ControllerService" where
  "to_protocol f s = s\<lparr>protocol := map_option f (protocol s)\<rparr>"

definition getExpireTimeIndex_stick :: "NintendoSwitchStandardStick \<Rightarrow> nat" where
  "getExpireTimeIndex_stick a = ordinal_stick (getStick a)"

definition getReleaseAction_stick :: "NintendoSwitchStandardStick \<Rightarrow> NintendoSwitchStandardStick" where
  "getReleaseAction_stick a = (if getStick a = LEFT then L_CENTER else R_CENTER)"

definition getExpireTimeIndex :: "NintendoSwitchStandardButton \<Rightarrow> nat" where
  "getExpireTimeIndex b = (if isHat b then ordinal D_TOP else ordinal b)"

definition release_stick ::
  "'p Protocol \<Rightarrow> NintendoSwitchStandardStick \<Rightarrow> 'p ControllerService \<Rightarrow> 'p ControllerService" where
  "release_stick P a s =
     (let index = getExpireTimeIndex_stick a in
      if stickExpired s ! index \<noteq> 0 then
        let s1 = s\<lparr>stickExpired := (stickExpired s)[index := 0]\<rparr>;
            s2 = to_protocol (set_P P (getReleaseAction_stick a)) s1
        in s2\<lparr>stickDirections := (stickDirections s2)[index := getReleaseAction_stick a]\<rparr>
      else s)"

definition release_button ::
  "'p Protocol \<Rightarrow> NintendoSwitchStandardButton \<Rightarrow> 'p ControllerService \<Rightarrow> 'p ControllerService" where
  "release_button P b s =
     (let index = getExpireTimeIndex b in
      if buttonExpired s ! index \<noteq> 0 then
        let s1 = s\<lparr>buttonExpired := (buttonExpired s)[index := 0]\<rparr>;
            s2 = to_protocol (release_P P b) s1
        in if isHat b then s2\<lparr>hatDirections := None\<rparr> else s2
      else s)"

definition checkAndHold_button ::
  "'p Protocol \<Rightarrow> NintendoSwitchStandardButton \<Rightarrow> int \<Rightarrow> 'p ControllerService \<Rightarrow> 'p ControllerService option" where
  "checkAndHold_button P b expiredTime s =
     (let index = getExpireTimeIndex b;
          expire = (\<lambda>s. s\<lparr>buttonExpired := (buttonExpired s)[index := expiredTime]\<rparr>);
          later = (if buttonExpired s ! index < expiredTime then expire s else s)
      in if buttonExpired s ! index = 0 then
           let s1 = to_protocol (hold_P P b) (expire s)
           in Some (if isHat b then s1\<lparr>hatDirections := Some b\<rparr> else s1)
         else if isHat b then
           (if hatDirections s = Some b then Some later
            else let s1 = expire s in
                 case (protocol s1, hatDirections s1) of
                   (None, _) \<Rightarrow> Some (s1\<lparr>hatDirections := Some b\<rparr>)
                 | (Some p, None) \<Rightarrow> None
                 | (Some p, Some h) \<Rightarrow>
                     let s2 = to_protocol (hold_P P b) (to_protocol (release_P P h) s1)
                     in Some (s2\<lparr>hatDirections := Some b\<rparr>))
         else Some later)"

definition checkAndHold_stick ::
  "'p Protocol \<Rightarrow> NintendoSwitchStandardStick \<Rightarrow> int \<Rightarrow> 'p ControllerService \<Rightarrow> 'p ControllerService" where
  "checkAndHold_stick P a expiredTime s =
     (let index = getExpireTimeIndex_stick a;
          expire = (\<lambda>s. s\<lparr>stickExpired := (stickExpired s)[index := expiredTime]\<rparr>);
          s1 = (if stickExpired s ! index = 0 then to_protocol (set_P P a) (expire s)
                else if stickDirections s ! index = a
                then (if stickExpired s ! index < expiredTime then expire s else s)
                else to_protocol (set_P P a) (expire s))
      in s1\<lparr>stickDirections := (stickDirections s1)[index := a]\<rparr>)"

text \<open>
  The Java type \<open>long\<close>: 64 bits, two's complement.  \<open>now\<close> is \<open>System.currentTimeMillis()\<close>.
\<close>

definition to_long :: "int \<Rightarrow> int" where
  "to_long x = sint (word_of_int x :: 64 word)"

definition Long_MAX_VALUE :: int where
  "Long_MAX_VALUE = 2 ^ 63 - 1"

definition hold_button_for ::
  "'p Protocol \<Rightarrow> int \<Rightarrow> NintendoSwitchStandardButton \<Rightarrow> int \<Rightarrow> 'p ControllerService \<Rightarrow> 'p ControllerService option" where
  "hold_button_for P now b duration = checkAndHold_button P b (to_long (now + duration))"

definition press_button ::
  "'p Protocol \<Rightarrow> int \<Rightarrow> int \<Rightarrow> NintendoSwitchStandardButton \<Rightarrow> 'p ControllerService \<Rightarrow> 'p ControllerService option" where
  "press_button P now pressTime b = hold_button_for P now b pressTime"

definition hold_button ::
  "'p Protocol \<Rightarrow> NintendoSwitchStandardButton \<Rightarrow> 'p ControllerService \<Rightarrow> 'p ControllerService option" where
  "hold_button P b = checkAndHold_button P b Long_MAX_VALUE"

definition hold_stick_for ::
  "'p Protocol \<Rightarrow> int \<Rightarrow> NintendoSwitchStandardStick \<Rightarrow> int \<Rightarrow> 'p ControllerService \<Rightarrow> 'p ControllerService" where
  "hold_stick_for P now a duration = checkAndHold_stick P a (to_long (now + duration))"

definition press_stick ::
  "'p Protocol \<Rightarrow> int \<Rightarrow> int \<Rightarrow> NintendoSwitchStandardStick \<Rightarrow> 'p ControllerService \<Rightarrow> 'p ControllerService" where
  "press_stick P now pressTime a = hold_stick_for P now a pressTime"

definition hold_stick ::
  "'p Protocol \<Rightarrow> NintendoSwitchStandardStick \<Rightarrow> 'p ControllerService \<Rightarrow> 'p ControllerService" where
  "hold_stick P a = checkAndHold_stick P a Long_MAX_VALUE"

text \<open>\<open>clear\<close>: the first component is the protocol object that has been cleared and dropped.\<close>

definition clear_service :: "'p Protocol \<Rightarrow> 'p ControllerService \<Rightarrow> 'p option \<times> 'p ControllerService" where
  "clear_service P s =
     (case protocol s of
        None \<Rightarrow> (None, s)
      | Some p \<Rightarrow> (Some (clear_P P p), s\<lparr>protocol := None, stickExpired := map (\<lambda>_. 0) (stickExpired s),
          buttonExpired := map (\<lambda>_. 0) (buttonExpired s), hatDirections := None,
          stickDirections := (stickDirections s)[0 := L_CENTER, 1 := R_CENTER]\<rparr>))"

text \<open>
  One pass of the daemon.  The clock is read before each test: \<open>clock\<close> gives the reading for a stick or
  button.  The tests are outside the monitor, the releases inside: another method between the two is the
  step of that method followed by a release, which is a run of the service as well.
\<close>

definition autoRelease_stick :: "'p Protocol \<Rightarrow> int \<Rightarrow> nat \<Rightarrow> 'p ControllerService \<Rightarrow> 'p ControllerService" where
  "autoRelease_stick P now i s =
     (if stickExpired s ! i \<noteq> 0 \<and> stickExpired s ! i \<le> now
      then release_stick P (if i = 0 then L_CENTER else R_CENTER) s else s)"

definition autoRelease_button :: "'p Protocol \<Rightarrow> int \<Rightarrow> nat \<Rightarrow> 'p ControllerService \<Rightarrow> 'p ControllerService" where
  "autoRelease_button P now i s =
     (if buttonExpired s ! i \<noteq> 0 \<and> buttonExpired s ! i \<le> now
      then release_button P (BUTTON_ACTIONS ! i) s else s)"

definition autoRelease ::
  "'p Protocol \<Rightarrow> (nat \<Rightarrow> int) \<Rightarrow> (nat \<Rightarrow> int) \<Rightarrow> 'p ControllerService \<Rightarrow> 'p ControllerService" where
  "autoRelease P clock_stick clock_button s =
     fold (\<lambda>i. autoRelease_button P (clock_button i) i) [0..<length (buttonExpired s)]
       (fold (\<lambda>i. autoRelease_stick P (clock_stick i) i) [0..<length (stickExpired s)] s)"

section \<open>Runs of the service\<close>

text \<open>
  The steps of the service, which may come in any order and at any times; \<open>check\<close> is the public
  \<open>checkAndHold(Button, long)\<close>.  The expiry time 0 is excluded: it is the mark of a free entry, so a hold that
  expires at time 0 would be sent and taken to be released at once.
\<close>

definition time_ok :: "int \<Rightarrow> int \<Rightarrow> bool" where
  "time_ok now duration \<longleftrightarrow> 0 < now \<and> 0 \<le> duration \<and> now + duration < 2 ^ 63"

inductive service_step :: "'p Protocol \<Rightarrow> 'p ControllerService \<Rightarrow> 'p ControllerService \<Rightarrow> bool" for P where
  hold_for: "to_long (now + d) \<noteq> 0 \<Longrightarrow> hold_button_for P now b d s = Some s' \<Longrightarrow> service_step P s s'"
| press: "to_long (now + d) \<noteq> 0 \<Longrightarrow> press_button P now d b s = Some s' \<Longrightarrow> service_step P s s'"
| check: "t \<noteq> 0 \<Longrightarrow> checkAndHold_button P b t s = Some s' \<Longrightarrow> service_step P s s'"
| hold: "hold_button P b s = Some s' \<Longrightarrow> service_step P s s'"
| release: "service_step P s (release_button P b s)"
| hold_stick_for: "to_long (now + d) \<noteq> 0 \<Longrightarrow> service_step P s (hold_stick_for P now a d s)"
| press_stick: "to_long (now + d) \<noteq> 0 \<Longrightarrow> service_step P s (press_stick P now d a s)"
| hold_stick: "service_step P s (hold_stick P a s)"
| release_stick: "service_step P s (release_stick P a s)"
| auto_stick: "i < 2 \<Longrightarrow> service_step P s (autoRelease_stick P now i s)"
| auto_button: "i < 18 \<Longrightarrow> service_step P s (autoRelease_button P now i s)"
| clear: "service_step P s (snd (clear_service P s))"
| disconnect: "service_step P s (setProtocol None s)"

text \<open>
  A run starts with a new service.  A protocol object may be connected at any time, also while something is held or
  in place of another one; \<open>fresh\<close> describes the objects that are connected.
\<close>

inductive service_reaches :: "'p Protocol \<Rightarrow> ('p \<Rightarrow> bool) \<Rightarrow> 'p ControllerService \<Rightarrow> bool" for P fresh where
  start: "service_reaches P fresh new_ControllerService"
| connect: "service_reaches P fresh s \<Longrightarrow> fresh p \<Longrightarrow> service_reaches P fresh (setProtocol (Some p) s)"
| step: "service_reaches P fresh s \<Longrightarrow> service_step P s s' \<Longrightarrow> service_reaches P fresh s'"

text \<open>
  A run with its history: a hold that is in force when a protocol object is connected is never sent to it.  The
  history has the entries of these holds, for the buttons and for the sticks.  An entry leaves it when the hold
  ends or gives way to another direction, which is sent.
\<close>

definition still_unsent :: "nat set \<Rightarrow> 'p ControllerService \<Rightarrow> 'p ControllerService \<Rightarrow> nat set" where
  "still_unsent D s s' =
     {i \<in> D. buttonExpired s' ! i \<noteq> 0 \<and> (i = ordinal D_TOP \<longrightarrow> hatDirections s' = hatDirections s)}"

definition still_unsent_sticks :: "nat set \<Rightarrow> 'p ControllerService \<Rightarrow> 'p ControllerService \<Rightarrow> nat set" where
  "still_unsent_sticks DS s s' = {i \<in> DS. stickExpired s' ! i \<noteq> 0 \<and> stickDirections s' ! i = stickDirections s ! i}"

inductive service_history ::
  "'p Protocol \<Rightarrow> ('p \<Rightarrow> bool) \<Rightarrow> nat set \<Rightarrow> nat set \<Rightarrow> 'p ControllerService \<Rightarrow> bool" for P fresh where
  start: "service_history P fresh {} {} new_ControllerService"
| connect: "service_history P fresh D DS s \<Longrightarrow> fresh p \<Longrightarrow>
    service_history P fresh {i. i < 18 \<and> buttonExpired s ! i \<noteq> 0} {i. i < 2 \<and> stickExpired s ! i \<noteq> 0} (setProtocol (Some p) s)"
| step: "service_history P fresh D DS s \<Longrightarrow> service_step P s s' \<Longrightarrow>
    service_history P fresh (still_unsent D s s') (still_unsent_sticks DS s s') s'"

lemma history_of_run: "service_reaches P fresh s \<longleftrightarrow> (\<exists>D DS. service_history P fresh D DS s)"
proof
  show "service_reaches P fresh s \<Longrightarrow> \<exists>D DS. service_history P fresh D DS s"
    by (induction rule: service_reaches.induct) (blast intro: service_history.intros)+
next
  assume "\<exists>D DS. service_history P fresh D DS s"
  then obtain D DS where "service_history P fresh D DS s" by blast
  then show "service_reaches P fresh s"
    by induction (blast intro: service_reaches.intros)+
qed

text \<open>Every step is one of these.\<close>

lemma service_step_cases [consumes 1, case_names none release hold release_stick hold_stick clear disconnect]:
  assumes "service_step P s s'"
  obtains "s' = s" | b where "s' = release_button P b s"
    | b t where "t \<noteq> 0" "checkAndHold_button P b t s = Some s'"
    | a where "s' = release_stick P a s" | a t where "t \<noteq> 0" "s' = checkAndHold_stick P a t s"
    | "s' = snd (clear_service P s)" | "s' = setProtocol None s"
  using assms
proof (cases rule: service_step.cases)
  case (hold b)
  then show ?thesis using that(3) [of Long_MAX_VALUE b] by (simp add: hold_button_def Long_MAX_VALUE_def)
next
  case (hold_stick a)
  then show ?thesis using that(5) [of Long_MAX_VALUE a] by (simp add: hold_stick_def Long_MAX_VALUE_def)
qed (auto simp: hold_button_for_def press_button_def hold_stick_for_def press_stick_def autoRelease_stick_def
    autoRelease_button_def intro: that split: if_splits)

lemma BUTTON_ACTIONS_ordinal: "ordinal b < 18" "BUTTON_ACTIONS ! ordinal b = b"
  by (cases b, simp_all add: BUTTON_ACTIONS_def)+

lemma ordinal_less [simp]: "ordinal b < 18"
  by (rule BUTTON_ACTIONS_ordinal)

lemma ordinal_inject [simp]: "ordinal b = ordinal c \<longleftrightarrow> b = c"
  using BUTTON_ACTIONS_ordinal(2) by metis

lemma index_button [simp]: "getExpireTimeIndex b < 18"
  by (simp add: getExpireTimeIndex_def BUTTON_ACTIONS_ordinal)

lemma isHat_top [simp]: "isHat D_TOP"
  by (simp add: isHat_def)

lemma index_eq:
  "isHat b \<Longrightarrow> getExpireTimeIndex b = 10" "\<not> isHat b \<Longrightarrow> getExpireTimeIndex b = ordinal b"
  "ordinal b = 10 \<longleftrightarrow> b = D_TOP" "10 = ordinal b \<longleftrightarrow> b = D_TOP"
  using ordinal_inject [of b D_TOP] by (auto simp: getExpireTimeIndex_def)

lemma new_expired: "i < 18 \<Longrightarrow> buttonExpired new_ControllerService ! i = 0" "length (buttonExpired new_ControllerService) = 18"
proof -
  have "length BUTTON_ACTIONS = 18" by (simp add: BUTTON_ACTIONS_def)
  then show "i < 18 \<Longrightarrow> buttonExpired new_ControllerService ! i = 0" "length (buttonExpired new_ControllerService) = 18"
    by (simp_all only: new_ControllerService_def ControllerService.simps nth_replicate length_replicate)
qed

lemma expired_nonzero: "time_ok now d \<Longrightarrow> to_long (now + d) \<noteq> 0"
proof -
  assume t: "time_ok now d"
  then have "to_long (now + d) = now + d"
    unfolding to_long_def sint_sbintrunc' by (simp add: time_ok_def signed_take_bit_int_eq_self)
  with t show ?thesis by (simp add: time_ok_def)
qed

text \<open>The shape of the service's state.\<close>

definition service_ok :: "'p ControllerService \<Rightarrow> bool" where
  "service_ok s \<longleftrightarrow> length (buttonExpired s) = 18 \<and> length (stickExpired s) = 2 \<and> length (stickDirections s) = 2 \<and>
     (hatDirections s = None \<longleftrightarrow> buttonExpired s ! 10 = 0) \<and> (\<forall>h. hatDirections s = Some h \<longrightarrow> isHat h)"

text \<open>\<open>held s b\<close>: the service takes the button to be held.\<close>

definition held :: "'p ControllerService \<Rightarrow> NintendoSwitchStandardButton \<Rightarrow> bool" where
  "held s b \<longleftrightarrow> buttonExpired s ! getExpireTimeIndex b \<noteq> 0"

text \<open>
  The shape is kept by every operation, whatever the protocol does.  The entries of the three other directions are
  never used: all directions share the entry of \<open>D_TOP\<close>.
\<close>

definition hats_shared :: "'p ControllerService \<Rightarrow> bool" where
  "hats_shared s \<longleftrightarrow> buttonExpired s ! 11 = 0 \<and> buttonExpired s ! 12 = 0 \<and> buttonExpired s ! 13 = 0"

lemma index_directions: "getExpireTimeIndex b \<noteq> 11" "getExpireTimeIndex b \<noteq> 12" "getExpireTimeIndex b \<noteq> 13"
  by (cases b; simp add: getExpireTimeIndex_def isHat_def)+

lemma ordinal_directions:
  "ordinal b = 11 \<longleftrightarrow> b = D_BOTTOM" "ordinal b = 12 \<longleftrightarrow> b = D_LEFT" "ordinal b = 13 \<longleftrightarrow> b = D_RIGHT"
  "isHat D_BOTTOM" "isHat D_LEFT" "isHat D_RIGHT"
  by (cases b; simp add: isHat_def)+

lemmas service_shape = ordinal_directions service_ok_def hats_shared_def to_protocol_def Let_def index_eq index_directions nth_list_update

lemma shape_release_button:
  "service_ok s \<Longrightarrow> hats_shared s \<Longrightarrow> service_ok (release_button P b s) \<and> hats_shared (release_button P b s)"
  by (auto simp: release_button_def service_shape)

lemma shape_hold_button:
  assumes "service_ok s" "hats_shared s" "t \<noteq> 0"
  shows "\<exists>s'. checkAndHold_button P b t s = Some s' \<and> service_ok s' \<and> hats_shared s'"
proof -
  have "isHat b \<Longrightarrow> buttonExpired s ! 10 \<noteq> 0 \<Longrightarrow> \<exists>h. hatDirections s = Some h \<and> isHat h"
    using assms(1) by (auto simp: service_ok_def)
  with assms show ?thesis by (auto simp: checkAndHold_button_def service_shape split: option.splits)
qed

lemma shape_held:
  "checkAndHold_button P b t s = Some s' \<Longrightarrow> t \<noteq> 0 \<Longrightarrow> service_ok s \<and> hats_shared s \<Longrightarrow> service_ok s' \<and> hats_shared s'"
  using shape_hold_button [of s t P b] by auto

lemma shape_stick:
  assumes "service_ok s" "hats_shared s"
  shows "service_ok (release_stick P a s) \<and> hats_shared (release_stick P a s)"
    "service_ok (checkAndHold_stick P a t s) \<and> hats_shared (checkAndHold_stick P a t s)"
  using assms by (auto simp: release_stick_def checkAndHold_stick_def service_shape)

lemma shape_new: "service_ok new_ControllerService \<and> hats_shared new_ControllerService"
  using new_expired by (simp add: service_ok_def hats_shared_def) (simp add: new_ControllerService_def)

lemma shape_others:
  assumes "service_ok s" "hats_shared s"
  shows "service_ok (snd (clear_service P s)) \<and> hats_shared (snd (clear_service P s))"
    "service_ok (setProtocol p s) \<and> hats_shared (setProtocol p s)"
  using assms by (auto simp: clear_service_def setProtocol_def service_shape split: option.split)

lemma shape_step: "service_step P s s' \<Longrightarrow> service_ok s \<and> hats_shared s \<Longrightarrow> service_ok s' \<and> hats_shared s'"
  by (cases rule: service_step_cases) (auto simp: shape_others shape_release_button shape_stick dest: shape_held)

lemma reaches_shape: "service_reaches P fresh s \<Longrightarrow> service_ok s \<and> hats_shared s"
  by (induction rule: service_reaches.induct) (simp_all add: shape_new shape_others shape_step)

text \<open>
  C21: the state of the controller service keeps its shape whatever protocol is connected and in whatever order
  its methods are called: the three arrays keep their lengths, a direction is remembered exactly while
  the shared entry of the direction pad is in use, only directions are remembered there, and the entries of the other
  directions stay unused; so a hold or press never fails with a \<open>NullPointerException\<close>.
\<close>

theorem service_well_formed:
  assumes "service_reaches P fresh s"
  shows "service_ok s \<and> hats_shared s \<and> (\<exists>s'. hold_button P b s = Some s') \<and>
    (time_ok now d \<longrightarrow> (\<exists>s'. hold_button_for P now b d s = Some s') \<and> (\<exists>s'. press_button P now d b s = Some s'))"
proof -
  note s = reaches_shape [OF assms]
  have "\<exists>s'. checkAndHold_button P b t s = Some s'" if "t \<noteq> 0" for t
    using shape_hold_button [of s t P b] s that by auto
  with s show ?thesis
    by (simp add: hold_button_def hold_button_for_def press_button_def Long_MAX_VALUE_def expired_nonzero)
qed

text \<open>A run: a connection, then \<open>A\<close> for 100 milliseconds.\<close>

definition A_service :: "u8 list ControllerService" where
  "A_service = new_ControllerService\<lparr>protocol := Some (hold A), buttonExpired := (replicate 18 0)[0 := 1100]\<rparr>"

lemma A_history: "service_history PGCon_P (\<lambda>bs. bs = []) {} {} A_service"
proof -
  let ?s = "setProtocol (Some []) new_ControllerService :: u8 list ControllerService"
  have "{i. i < 18 \<and> buttonExpired (new_ControllerService :: u8 list ControllerService) ! i \<noteq> 0} = {}"
    "{i. i < 2 \<and> stickExpired (new_ControllerService :: u8 list ControllerService) ! i \<noteq> 0} = {}"
    using new_expired(1) by (auto simp: new_ControllerService_def)
  then have s: "service_history PGCon_P (\<lambda>bs. bs = []) {} {} ?s"
    using service_history.connect [OF service_history.start, of "\<lambda>bs. bs = []" "[]" PGCon_P] by (simp only:)
  have "hold_button_for PGCon_P 1000 A 100 ?s = Some A_service" by code_simp
  then have "service_step PGCon_P ?s A_service"
    by (rule service_step.hold_for [rotated]) (rule expired_nonzero, simp add: time_ok_def)
  from service_history.step [OF s this] show ?thesis by (simp add: still_unsent_def still_unsent_sticks_def)
qed

lemma A_reached: "service_reaches PGCon_P (\<lambda>bs. bs = []) A_service"
  using A_history history_of_run by blast

theorem service_well_formed_witness:
  "service_ok A_service \<and> (\<exists>s'. hold_button PGCon_P D_LEFT A_service = Some s')"
  using service_well_formed [OF A_reached] by blast

section \<open>Expiry\<close>

lemma BUTTON_ACTIONS_index: "i < 18 \<Longrightarrow> getExpireTimeIndex (BUTTON_ACTIONS ! i) = (if i \<in> {11, 12, 13} then 10 else i)"
proof -
  assume "i < 18"
  then have "i \<in> set [0, 1, 2, 3, 4, 5, 6, 7, 8, 9, 10, 11, 12, 13, 14, 15, 16, 17]" by (auto simp: numeral_eq_Suc less_Suc_eq)
  then show ?thesis by (auto simp: BUTTON_ACTIONS_def getExpireTimeIndex_def isHat_def)
qed

lemma update_same: "xs ! i = x \<Longrightarrow> xs = xs[i := x]"
  by auto

lemma autoRelease_button_expires:
  assumes "service_ok s" "hats_shared s" "i < 18"
  shows "buttonExpired (autoRelease_button P now i s) =
    (buttonExpired s)[i := if buttonExpired s ! i \<le> now then 0 else buttonExpired s ! i]"
  using assms by (auto simp: autoRelease_button_def release_button_def to_protocol_def Let_def BUTTON_ACTIONS_index
      hats_shared_def service_ok_def intro: update_same)

lemma autoRelease_stick_expires:
  assumes "i < length (stickExpired s)" "length (stickExpired s) = 2"
  shows "stickExpired (autoRelease_stick P now i s) =
    (stickExpired s)[i := if stickExpired s ! i \<le> now then 0 else stickExpired s ! i]"
  using assms by (cases i) (auto simp: autoRelease_stick_def release_stick_def to_protocol_def Let_def
      getExpireTimeIndex_stick_def getStick_def intro: update_same)

lemma autoRelease_frame:
  "stickExpired (autoRelease_button P now i s) = stickExpired s" "buttonExpired (autoRelease_stick P now i s) = buttonExpired s"
  by (simp_all add: autoRelease_button_def autoRelease_stick_def release_button_def release_stick_def to_protocol_def Let_def)

lemma fold_autoRelease_button:
  fixes clock :: "nat \<Rightarrow> int"
  assumes "service_reaches P fresh s" "n \<le> 18"
  defines "s' \<equiv> fold (\<lambda>i. autoRelease_button P (clock i) i) [0..<n] s"
  shows "service_reaches P fresh s' \<and> stickExpired s' = stickExpired s \<and>
    (\<forall>j < 18. buttonExpired s' ! j = (if j < n \<and> buttonExpired s ! j \<le> clock j then 0 else buttonExpired s ! j))"
  using assms(2) unfolding s'_def
proof (induction n)
  case (Suc n)
  then show ?case using reaches_shape [of P fresh "fold (\<lambda>i. autoRelease_button P (clock i) i) [0..<n] s"]
    by (auto simp: autoRelease_button_expires autoRelease_frame service_reaches.step service_step.auto_button nth_list_update service_ok_def)
qed (simp add: assms(1))

lemma fold_autoRelease_stick:
  fixes clock :: "nat \<Rightarrow> int"
  assumes "service_reaches P fresh s" "n \<le> 2"
  defines "s' \<equiv> fold (\<lambda>i. autoRelease_stick P (clock i) i) [0..<n] s"
  shows "service_reaches P fresh s' \<and> buttonExpired s' = buttonExpired s \<and>
    (\<forall>j < 2. stickExpired s' ! j = (if j < n \<and> stickExpired s ! j \<le> clock j then 0 else stickExpired s ! j))"
  using assms(2) unfolding s'_def
proof (induction n)
  case (Suc n)
  then show ?case using reaches_shape [of P fresh "fold (\<lambda>i. autoRelease_stick P (clock i) i) [0..<n] s"]
    by (auto simp: autoRelease_stick_expires autoRelease_frame service_reaches.step service_step.auto_stick nth_list_update service_ok_def)
qed (simp add: assms(1))

text \<open>
  C22: one pass of the release daemon releases exactly what has expired: every button and stick whose time is not
  after the daemon's reading of the clock is free afterwards, every other one keeps its time, and the
  pass is a run of the service, so what the protocol shows still agrees with it.
\<close>

theorem autoRelease_expires:
  fixes clock_stick clock_button :: "nat \<Rightarrow> int"
  assumes "service_reaches P fresh s"
  defines "s' \<equiv> autoRelease P clock_stick clock_button s"
  shows "service_reaches P fresh s' \<and>
    (\<forall>i < 2. stickExpired s' ! i = (if stickExpired s ! i \<le> clock_stick i then 0 else stickExpired s ! i)) \<and>
    (\<forall>i < 18. buttonExpired s' ! i = (if buttonExpired s ! i \<le> clock_button i then 0 else buttonExpired s ! i))"
proof -
  have l: "length (stickExpired s) = 2" "length (buttonExpired s) = 18"
    using reaches_shape [OF assms(1)] by (simp_all add: service_ok_def)
  note st = fold_autoRelease_stick [OF assms(1) order_refl, of clock_stick]
  from st have r: "service_reaches P fresh (fold (\<lambda>i. autoRelease_stick P (clock_stick i) i) [0..<2] s)" by (rule conjunct1)
  show ?thesis unfolding s'_def autoRelease_def l
    using fold_autoRelease_button [OF r order_refl, of clock_button] st by simp
qed

theorem autoRelease_expires_witness:
  "buttonExpired A_service ! 0 = 1100 \<and> buttonExpired (autoRelease PGCon_P (\<lambda>i. 1100) (\<lambda>i. 1100) A_service) ! 0 = 0 \<and>
   buttonExpired (autoRelease PGCon_P (\<lambda>i. 1100) (\<lambda>i. 1099) A_service) ! 0 = 1100"
  using autoRelease_expires [OF A_reached, of "\<lambda>i. 1100" "\<lambda>i. 1100"]
    autoRelease_expires [OF A_reached, of "\<lambda>i. 1100" "\<lambda>i. 1099"]
  by (simp add: A_service_def)

section \<open>What a protocol promises\<close>

text \<open>
  The contract for buttons and the direction pad: a hold adds the button, a release removes it, and neither
  touches anything else; a stick command changes no button.
\<close>

locale button_protocol =
  fixes P :: "'p Protocol" and fresh :: "'p \<Rightarrow> bool" and ok :: "'p \<Rightarrow> bool"
    and pressed :: "'p \<Rightarrow> NintendoSwitchStandardButton \<Rightarrow> bool"
    and hat :: "'p \<Rightarrow> NintendoSwitchStandardButton option"
  assumes ok: "fresh p \<Longrightarrow> ok p" "ok p \<Longrightarrow> ok (hold_P P b p)" "ok p \<Longrightarrow> ok (release_P P b p)" "ok p \<Longrightarrow> ok (set_P P a p)"
    and fresh_buttons: "fresh p \<Longrightarrow> \<not> isHat b \<Longrightarrow> \<not> pressed p b" "fresh p \<Longrightarrow> hat p = None"
    and hold_button: "ok p \<Longrightarrow> \<not> isHat b \<Longrightarrow> \<not> isHat c \<Longrightarrow> pressed (hold_P P b p) c \<longleftrightarrow> c = b \<or> pressed p c"
      "ok p \<Longrightarrow> \<not> isHat b \<Longrightarrow> hat (hold_P P b p) = hat p"
    and hold_hat: "ok p \<Longrightarrow> isHat b \<Longrightarrow> \<not> isHat c \<Longrightarrow> pressed (hold_P P b p) c = pressed p c"
      "ok p \<Longrightarrow> isHat b \<Longrightarrow> hat (hold_P P b p) = Some b"
    and release_button: "ok p \<Longrightarrow> \<not> isHat b \<Longrightarrow> \<not> isHat c \<Longrightarrow> pressed (release_P P b p) c \<longleftrightarrow> c \<noteq> b \<and> pressed p c"
      "ok p \<Longrightarrow> \<not> isHat b \<Longrightarrow> hat (release_P P b p) = hat p"
    and release_hat: "ok p \<Longrightarrow> isHat b \<Longrightarrow> \<not> isHat c \<Longrightarrow> pressed (release_P P b p) c = pressed p c"
      "ok p \<Longrightarrow> isHat b \<Longrightarrow> hat (release_P P b p) = None"
    and set_buttons: "ok p \<Longrightarrow> \<not> isHat c \<Longrightarrow> pressed (set_P P a p) c = pressed p c" "ok p \<Longrightarrow> hat (set_P P a p) = hat p"
begin

definition agrees :: "nat set \<Rightarrow> 'p ControllerService \<Rightarrow> bool" where
  "agrees D s \<longleftrightarrow> service_ok s \<and> (\<forall>i \<in> D. buttonExpired s ! i \<noteq> 0) \<and> (\<forall>p. protocol s = Some p \<longrightarrow>
     ok p \<and> (\<forall>b. \<not> isHat b \<longrightarrow> (pressed p b \<longleftrightarrow> held s b \<and> getExpireTimeIndex b \<notin> D)) \<and>
     hat p = (if 10 \<in> D then None else hatDirections s))"

lemmas protocol_laws = ok fresh_buttons hold_button hold_hat release_button release_hat set_buttons

lemma agrees_release_button: "agrees D s \<Longrightarrow> agrees (still_unsent D s (release_button P b s)) (release_button P b s)"
  by (auto simp: agrees_def still_unsent_def service_ok_def held_def release_button_def to_protocol_def Let_def
      nth_list_update protocol_laws index_eq)

lemma agrees_held:
  assumes "agrees D s" "t \<noteq> 0" "checkAndHold_button P b t s = Some s'"
  shows "agrees (still_unsent D s s') s'"
proof -
  have "isHat b \<Longrightarrow> buttonExpired s ! 10 \<noteq> 0 \<Longrightarrow> \<exists>h. hatDirections s = Some h \<and> isHat h"
    using assms(1) by (auto simp: agrees_def service_ok_def)
  with assms show ?thesis
    by (auto simp: agrees_def still_unsent_def service_ok_def held_def checkAndHold_button_def to_protocol_def Let_def
        nth_list_update protocol_laws index_eq split: option.splits if_splits)
qed

lemma agrees_stick:
  assumes "agrees D s"
  shows "agrees (still_unsent D s (release_stick P a s)) (release_stick P a s)"
    "agrees (still_unsent D s (checkAndHold_stick P a t s)) (checkAndHold_stick P a t s)"
  using assms by (auto simp: agrees_def still_unsent_def service_ok_def held_def release_stick_def checkAndHold_stick_def
      to_protocol_def Let_def protocol_laws)

lemma agrees_others:
  assumes "agrees D s"
  shows "agrees (still_unsent D s (snd (clear_service P s))) (snd (clear_service P s))"
    "agrees (still_unsent D s (setProtocol None s)) (setProtocol None s)" "agrees (still_unsent D s s) s"
  using assms by (auto simp: agrees_def still_unsent_def service_ok_def clear_service_def setProtocol_def split: option.split)

lemma agrees_new: "agrees {} new_ControllerService"
  using new_expired by (simp add: agrees_def service_ok_def) (simp add: new_ControllerService_def)

lemma agrees_connect:
  "agrees D s \<Longrightarrow> fresh p \<Longrightarrow> agrees {i. i < 18 \<and> buttonExpired s ! i \<noteq> 0} (setProtocol (Some p) s)"
  by (auto simp: agrees_def service_ok_def setProtocol_def held_def protocol_laws)

lemma agrees_step: "service_step P s s' \<Longrightarrow> agrees D s \<Longrightarrow> agrees (still_unsent D s s') s'"
  by (cases rule: service_step_cases) (auto simp: agrees_others agrees_release_button agrees_stick dest: agrees_held)

lemma history_agrees: "service_history P fresh D DS s \<Longrightarrow> agrees D s"
  by (induction rule: service_history.induct) (simp_all add: agrees_new agrees_connect agrees_step)

end

text \<open>The contract with the sticks: each stick is where it was last put.\<close>

definition position :: "NintendoSwitchStandardStick \<Rightarrow> u8 \<times> u8" where
  "position a = (case stick_args a of (st, x, y) \<Rightarrow> (stick_commandEasyCon x, stick_commandEasyCon y))"

locale stick_protocol = button_protocol P fresh ok pressed hat
  for P :: "'p Protocol" and fresh ok pressed hat +
  fixes stick :: "'p \<Rightarrow> Sticks \<Rightarrow> u8 \<times> u8"
  assumes fresh_sticks: "fresh p \<Longrightarrow> stick p w = (128, 128)"
    and set_stick: "ok p \<Longrightarrow> stick (set_P P a p) w = (if w = getStick a then position a else stick p w)"
    and buttons_stick: "ok p \<Longrightarrow> stick (hold_P P b p) w = stick p w" "ok p \<Longrightarrow> stick (release_P P b p) w = stick p w"
begin

definition sticks_agree :: "nat set \<Rightarrow> nat set \<Rightarrow> 'p ControllerService \<Rightarrow> bool" where
  "sticks_agree D DS s \<longleftrightarrow> agrees D s \<and> (\<forall>i \<in> DS. stickExpired s ! i \<noteq> 0) \<and>
     (\<forall>w. stickExpired s ! ordinal_stick w = 0 \<longrightarrow> position (stickDirections s ! ordinal_stick w) = (128, 128)) \<and>
     (\<forall>p w. protocol s = Some p \<longrightarrow>
        stick p w = (if ordinal_stick w \<in> DS then (128, 128) else position (stickDirections s ! ordinal_stick w)))"

lemma position_center: "position L_CENTER = (128, 128)" "position R_CENTER = (128, 128)"
  by (simp_all add: position_def stick_commandEasyCon_def)

lemma getStick_center: "getStick L_CENTER = LEFT" "getStick R_CENTER = RIGHT"
  "getStick (getReleaseAction_stick a) = getStick a"
  by (cases "getStick a", simp_all add: getStick_def getReleaseAction_stick_def)+

lemma position_release: "position (getReleaseAction_stick a) = (128, 128)"
  by (simp add: getReleaseAction_stick_def position_center)

lemma agrees_facts:
  "agrees D s \<Longrightarrow> protocol s = Some p \<Longrightarrow> ok p" "agrees D s \<Longrightarrow> length (stickDirections s) = 2"
  "agrees D s \<Longrightarrow> length (stickExpired s) = 2"
  by (simp_all add: agrees_def service_ok_def)

lemma ordinal_stick_eq [simp]: "ordinal_stick v = ordinal_stick w \<longleftrightarrow> v = w" "ordinal_stick w < 2"
  by (cases v; cases w; simp)+

lemma center_sticks: "position ([L_CENTER, R_CENTER] ! ordinal_stick w) = (128, 128)"
  by (cases w; simp add: position_center)

lemma update_both: "length xs = 2 \<Longrightarrow> xs[0 := a, 1 := b] = [a, b]"
  by (auto simp: length_Suc_conv numeral_eq_Suc)

lemmas sticks_defs = sticks_agree_def still_unsent_sticks_def to_protocol_def Let_def nth_list_update agrees_facts
  getExpireTimeIndex_stick_def set_stick getStick_center position_release

lemma sticks_release_stick:
  fixes a :: NintendoSwitchStandardStick
  assumes "sticks_agree D DS s"
  defines "s' \<equiv> release_stick P a s"
  shows "sticks_agree (still_unsent D s s') (still_unsent_sticks DS s s') s'"
  using assms agrees_stick(1) [of D s a] by (auto simp: release_stick_def sticks_defs)

lemma sticks_hold_stick:
  fixes a :: NintendoSwitchStandardStick and t :: int
  assumes "sticks_agree D DS s" "t \<noteq> 0"
  defines "s' \<equiv> checkAndHold_stick P a t s"
  shows "sticks_agree (still_unsent D s s') (still_unsent_sticks DS s s') s'"
  using assms agrees_stick(2) [of D s a t] by (auto simp: checkAndHold_stick_def sticks_defs)

lemma sticks_release_button:
  fixes b :: NintendoSwitchStandardButton
  assumes "sticks_agree D DS s"
  defines "s' \<equiv> release_button P b s"
  shows "sticks_agree (still_unsent D s s') (still_unsent_sticks DS s s') s'"
  using assms agrees_release_button [of D s b]
  by (auto simp: release_button_def sticks_agree_def still_unsent_sticks_def to_protocol_def Let_def agrees_facts buttons_stick)

lemma held_sticks:
  assumes "agrees D s" "checkAndHold_button P b t s = Some s'"
  shows "stickExpired s' = stickExpired s" "stickDirections s' = stickDirections s"
    "protocol s' = Some p' \<Longrightarrow> \<exists>p. protocol s = Some p \<and> stick p' = stick p"
  using assms
  by (auto simp: checkAndHold_button_def to_protocol_def Let_def agrees_facts buttons_stick ok fun_eq_iff
      split: if_splits option.splits)

lemma sticks_held:
  assumes "sticks_agree D DS s" "t \<noteq> 0" "checkAndHold_button P b t s = Some s'"
  shows "sticks_agree (still_unsent D s s') (still_unsent_sticks DS s s') s'"
proof -
  have a: "agrees D s" using assms(1) by (simp add: sticks_agree_def)
  note f = held_sticks [OF a assms(3)]
  have "stick p w = (if ordinal_stick w \<in> DS then (128, 128) else position (stickDirections s ! ordinal_stick w))"
    if "protocol s' = Some p" for p w
    using f(3) [OF that] assms(1) by (auto simp: sticks_agree_def)
  then show ?thesis
    using assms(1) agrees_held [OF a assms(2,3)] f(1,2) by (auto simp: sticks_agree_def still_unsent_sticks_def)
qed

lemma sticks_clear:
  assumes "sticks_agree D DS s"
  defines "s' \<equiv> snd (clear_service P s)"
  shows "sticks_agree (still_unsent D s s') (still_unsent_sticks DS s s') s'"
  using assms agrees_others(1) [of D s]
  by (auto simp: clear_service_def sticks_agree_def still_unsent_sticks_def agrees_facts update_both [simplified] center_sticks
      split: option.split)

lemma sticks_disconnect:
  assumes "sticks_agree D DS s"
  shows "sticks_agree (still_unsent D s (setProtocol None s)) (still_unsent_sticks DS s (setProtocol None s)) (setProtocol None s)"
    "sticks_agree (still_unsent D s s) (still_unsent_sticks DS s s) s"
  using assms agrees_others(2,3) [of D s] by (auto simp: setProtocol_def sticks_agree_def still_unsent_sticks_def)

lemma sticks_step:
  "service_step P s s' \<Longrightarrow> sticks_agree D DS s \<Longrightarrow> sticks_agree (still_unsent D s s') (still_unsent_sticks DS s s') s'"
  by (cases rule: service_step_cases)
    (auto simp: sticks_release_stick sticks_hold_stick sticks_release_button sticks_clear sticks_disconnect dest: sticks_held)

lemma sticks_connect:
  "sticks_agree D DS s \<Longrightarrow> fresh p \<Longrightarrow>
    sticks_agree {i. i < 18 \<and> buttonExpired s ! i \<noteq> 0} {i. i < 2 \<and> stickExpired s ! i \<noteq> 0} (setProtocol (Some p) s)"
  using agrees_connect [of D s p] by (auto simp: sticks_agree_def fresh_sticks setProtocol_def)

lemma history_sticks: "service_history P fresh D DS s \<Longrightarrow> sticks_agree D DS s"
proof (induction rule: service_history.induct)
  case start
  show ?case using agrees_new by (simp add: sticks_agree_def) (simp add: new_ControllerService_def center_sticks)
qed (simp_all add: sticks_connect sticks_step)

end

end
