(* ===== verification/Interrupt_Spec.thy ===== *)
theory Interrupt_Spec
  imports Usb_Device
begin

text \<open>
  What the USB interrupt service routine promises the rest of the program: which variables
  it may change and to what, and that the suspend and wake-up interrupts stay complementary.
\<close>

section \<open>What an interrupt may do\<close>

text \<open>
  The device states that an interrupt can lead to from state \<open>old\<close> while configuration
  \<open>cfg\<close> is selected.
\<close>

definition irq_state_ok :: "u8 \<Rightarrow> u8 \<Rightarrow> u8 \<Rightarrow> bool" where
  "irq_state_ok cfg old k \<longleftrightarrow> k = old \<or> k \<in> {DEVICE_STATE_Unattached, DEVICE_STATE_Powered,
     DEVICE_STATE_Default, DEVICE_STATE_Suspended} \<or>
     (k = DEVICE_STATE_Configured \<and> cfg \<noteq> 0) \<or> (k = DEVICE_STATE_Addressed \<and> cfg = 0)"

text \<open>State \<open>t\<close> is \<open>s\<close> with another device state, as far as the variables go.\<close>

definition irq_frame :: "('e, 'p) usb_scheme \<Rightarrow> ('e, 'p) usb_scheme \<Rightarrow> bool" where
  "irq_frame s t \<longleftrightarrow> (\<exists>k. irq_state_ok (USB_Device_ConfigurationNumber s) (USB_DeviceState s) k \<and>
     vars t = vars (s\<lparr>USB_DeviceState := k\<rparr>))"

lemma irq_frame_refl: "irq_frame s s"
  by (auto simp: irq_frame_def irq_state_ok_def vars_def)

lemma irq_frame_vars: "irq_frame s t \<Longrightarrow> vars u = vars t \<Longrightarrow> irq_frame s u"
  by (simp add: irq_frame_def)

lemma irq_frame_state:
  "irq_frame s t \<Longrightarrow> irq_state_ok (USB_Device_ConfigurationNumber s) (USB_DeviceState s) k \<Longrightarrow>
   irq_frame s (t\<lparr>USB_DeviceState := k\<rparr>)"
  by (auto simp: irq_frame_def vars_def)

lemma irq_frame_cfg: "irq_frame s t \<Longrightarrow> USB_Device_ConfigurationNumber t = USB_Device_ConfigurationNumber s"
  by (auto simp: irq_frame_def vars_def)

lemma irq_frame_access: "irq_frame s t \<Longrightarrow> irq_frame s (snd (rd H r t))"
    "irq_frame s t \<Longrightarrow> irq_frame s (wr H r v t)"
    "irq_frame s t \<Longrightarrow> irq_frame s (snd (erd H q t))"
    "irq_frame s t \<Longrightarrow> irq_frame s (ewr H q v t)"
  by (erule irq_frame_vars, simp)+

interpretation irqf: reg_invariant H "irq_frame s" for H s
  by unfold_locales (rule irq_frame_access; assumption)+

lemma irq_frame_mask [simp]:
  "irq_frame s t \<Longrightarrow> irq_frame s (USB_INT_Enable H i t)" "irq_frame s t \<Longrightarrow> irq_frame s (USB_INT_Disable H i t)"
  by (auto simp: USB_INT_Enable_def USB_INT_Disable_def rmw_def ermw_def pair_simps intro: irq_frame_access)

lemma irq_frame_states [simp]:
  assumes "irq_frame s t"
  shows "irq_frame s (t\<lparr>USB_DeviceState := DEVICE_STATE_Unattached\<rparr>)"
    "irq_frame s (t\<lparr>USB_DeviceState := DEVICE_STATE_Powered\<rparr>)"
    "irq_frame s (t\<lparr>USB_DeviceState := DEVICE_STATE_Suspended\<rparr>)"
    "USB_Device_ConfigurationNumber t \<noteq> 0 \<Longrightarrow> irq_frame s (t\<lparr>USB_DeviceState := DEVICE_STATE_Configured\<rparr>)"
    "USB_Device_ConfigurationNumber t = 0 \<Longrightarrow> irq_frame s (t\<lparr>USB_DeviceState := DEVICE_STATE_Addressed\<rparr>)"
  using assms irq_frame_cfg [OF assms] by (auto intro!: irq_frame_state simp: irq_state_ok_def)

lemma int_fires_frame [simp]: "irq_frame s t \<Longrightarrow> irq_frame s (snd (int_fires H i t))"
  by (simp add: int_fires_def pair_simps)

lemma cfg_access [simp]:
  "USB_Device_ConfigurationNumber (snd (USB_Device_IsAddressSet H t)) = USB_Device_ConfigurationNumber t"
  by (simp add: USB_Device_IsAddressSet_def rd_bit_def rd_def Let_def)

lemma irq_frame_first_four:
  "irq_frame s t \<Longrightarrow> returns (ISR_SOFI H t) (irq_frame s)"
  "irq_frame s t \<Longrightarrow> returns (ISR_VBUSTI H t) (irq_frame s)"
  "irq_frame s t \<Longrightarrow> returns (ISR_SUSPI H t) (irq_frame s)"
  "irq_frame s t \<Longrightarrow> returns (ISR_WAKEUPI H t) (irq_frame s)"
  by (auto simp: ISR_SOFI_def ISR_VBUSTI_def ISR_SUSPI_def ISR_WAKEUPI_def pair_simps
      intro!: returns_bind [where Q = "irq_frame s"] irqf.I_PLL_wait)

lemma ISR_EORSTI_vars:
  "returns (ISR_EORSTI H t) (\<lambda>u. vars u = vars t \<or>
     vars u = vars (t\<lparr>USB_DeviceState := DEVICE_STATE_Default, USB_Device_ConfigurationNumber := 0\<rparr>))"
proof -
  let ?Q = "\<lambda>u. vars u = vars (t\<lparr>USB_DeviceState := DEVICE_STATE_Default, USB_Device_ConfigurationNumber := 0\<rparr>)"
  have mask: "?Q u \<Longrightarrow> ?Q (USB_INT_Enable H i u)" "?Q u \<Longrightarrow> ?Q (USB_INT_Disable H i u)" for i u
    by (simp_all add: USB_INT_Enable_def USB_INT_Disable_def)
  have cong: "vars a = vars b \<Longrightarrow> vars (a\<lparr>USB_DeviceState := k, USB_Device_ConfigurationNumber := n\<rparr>) =
      vars (b\<lparr>USB_DeviceState := k, USB_Device_ConfigurationNumber := n\<rparr>)" for a b :: "('a, 'b) usb_scheme" and k n
    by (simp add: vars_def)
  have f: "vars (snd (int_fires H i t)) = vars t" for i by (simp add: int_fires_def pair_simps)
  then have "?Q ((USB_INT_Clear H USB_INT_EORSTI (snd (int_fires H USB_INT_EORSTI t)))
      \<lparr>USB_DeviceState := DEVICE_STATE_Default, USB_Device_ConfigurationNumber := 0\<rparr>)"
    by (intro cong vars_reg.I_INT)
  then show ?thesis
    by (auto simp: ISR_EORSTI_def pair_simps mask f intro!: returns_bind [OF vars_reg.I_ConfigureEndpoint])
qed


text \<open>
  C9: whatever the hardware does, an interrupt changes no variable of the program but the
  device state and the configuration number; the configuration is only ever cleared, and
  then the device is in the default state; the configured state is entered only while a configuration is
  selected, the addressed state only while none is.
\<close>

theorem USB_GEN_vect_state_machine:
  assumes "USB_GEN_vect H s = Some s'"
  shows "\<exists>k n. vars s' = vars (s\<lparr>USB_DeviceState := k, USB_Device_ConfigurationNumber := n\<rparr>) \<and>
    (n = USB_Device_ConfigurationNumber s \<and>
       irq_state_ok (USB_Device_ConfigurationNumber s) (USB_DeviceState s) k \<or>
     n = 0 \<and> k = DEVICE_STATE_Default)"
proof -
  have "returns (USB_GEN_vect H s) (\<lambda>u. \<exists>t. irq_frame s t \<and> (vars u = vars t \<or>
     vars u = vars (t\<lparr>USB_DeviceState := DEVICE_STATE_Default, USB_Device_ConfigurationNumber := 0\<rparr>)))"
    unfolding USB_GEN_vect_def
    by (intro returns_bind [where Q = "irq_frame s"] irq_frame_first_four irq_frame_refl
        returns_mono [OF ISR_EORSTI_vars]) blast+
  with assms obtain t where t: "irq_frame s t" "vars s' = vars t \<or>
     vars s' = vars (t\<lparr>USB_DeviceState := DEVICE_STATE_Default, USB_Device_ConfigurationNumber := 0\<rparr>)"
    by (auto dest: returnsD)
  then obtain k where k: "irq_state_ok (USB_Device_ConfigurationNumber s) (USB_DeviceState s) k"
    "vars t = vars (s\<lparr>USB_DeviceState := k\<rparr>)" by (auto simp: irq_frame_def)
  from t(2) show ?thesis
  proof
    assume "vars s' = vars t"
    with k show ?thesis
      by (intro exI [of _ k] exI [of _ "USB_Device_ConfigurationNumber s"]) (simp add: vars_def)
  next
    assume "vars s' = vars (t\<lparr>USB_DeviceState := DEVICE_STATE_Default, USB_Device_ConfigurationNumber := 0\<rparr>)"
    with k show ?thesis
      by (intro exI [of _ DEVICE_STATE_Default] exI [of _ 0]) (simp add: vars_def)
  qed
qed

theorem USB_GEN_vect_state_machine_witness:
  "\<exists>s' k n. USB_GEN_vect memory_hw (usb_with ((\<lambda>_. 0)(UDINT := bv EORSTI, UDIEN := bv EORSTE)) (\<lambda>_ _. 0)) = Some s' \<and>
    vars s' = vars (usb_with (\<lambda>_. 0) (\<lambda>_ _. 0)\<lparr>USB_DeviceState := k, USB_Device_ConfigurationNumber := n\<rparr>)"
proof -
  let ?s = "usb_with ((\<lambda>_. 0)(UDINT := bv EORSTI, UDIEN := bv EORSTE)) (\<lambda>_ _. 0)"
  have total: "\<exists>t r. Endpoint_ConfigureEndpoint memory_hw a k 64 b u = Some (r, t)" for a k b and u :: "unit usb"
    using ConfigureEndpoint_total [OF EPSizeMask_64, of memory_hw a k b u] by auto
  have "\<exists>s'. USB_GEN_vect memory_hw ?s = Some s'"
    by (simp add: total USB_GEN_vect_def ISR_SOFI_def ISR_VBUSTI_def ISR_SUSPI_def ISR_WAKEUPI_def ISR_EORSTI_def
        int_fires_def USB_INT_HasOccurred_def USB_INT_IsEnabled_def USB_INT_num rd_bit_def plain_access usb_with_def bits
        USB_Device_ControlEndpointSize_def bind_eq_Some_conv)
  then show ?thesis using USB_GEN_vect_state_machine [of memory_hw ?s]
    by (fastforce simp: usb_with_def vars_def)
qed

section \<open>Suspend and wake-up\<close>

text \<open>\<open>UDIEN\<close> is written by the program only.\<close>

definition program_owns_UDIEN :: "'e hw \<Rightarrow> bool" where
  "program_owns_UDIEN H \<longleftrightarrow> (\<forall>p c. gregs (pre_rd H p c) UDIEN = gregs c UDIEN \<and>
     gregs (post_wr H p c) UDIEN = gregs c UDIEN)"

definition one_of_suspend_wakeup :: "('e, 'p) usb_scheme \<Rightarrow> bool" where
  "one_of_suspend_wakeup s \<longleftrightarrow> tst (gregs (ctl s) UDIEN) SUSPE \<noteq> tst (gregs (ctl s) UDIEN) WAKEUPE"

lemma one_of_invariant: "program_owns_UDIEN H \<Longrightarrow> reg_invariant H one_of_suspend_wakeup"
  by unfold_locales
    (auto simp: program_owns_UDIEN_def one_of_suspend_wakeup_def reg_access_defs Let_def)

lemma owns_UDIEN_rmw:
  "program_owns_UDIEN H \<Longrightarrow> gregs (ctl (rmw H UDIEN f s)) UDIEN = f (gregs (ctl s) UDIEN)"
  by (simp add: program_owns_UDIEN_def reg_access_defs Let_def)

lemma one_of_swap:
  assumes "program_owns_UDIEN H"
  shows "one_of_suspend_wakeup (USB_INT_Enable H USB_INT_WAKEUPI (USB_INT_Disable H USB_INT_SUSPI s))"
    "one_of_suspend_wakeup (USB_INT_Enable H USB_INT_SUSPI (USB_INT_Disable H USB_INT_WAKEUPI s))"
  using assms by (simp_all add: one_of_suspend_wakeup_def USB_INT_Enable_def USB_INT_Disable_def
      USB_INT_num owns_UDIEN_rmw bits)

lemma one_of_state [simp]:
  "one_of_suspend_wakeup (s\<lparr>USB_DeviceState := k\<rparr>) = one_of_suspend_wakeup s"
  "one_of_suspend_wakeup (s\<lparr>USB_DeviceState := k, USB_Device_ConfigurationNumber := n\<rparr>) = one_of_suspend_wakeup s"
  by (simp_all add: one_of_suspend_wakeup_def)

lemma one_of_ISR:
  assumes H: "program_owns_UDIEN H" and s: "one_of_suspend_wakeup s"
  shows "returns (ISR_SOFI H s) one_of_suspend_wakeup" "returns (ISR_VBUSTI H s) one_of_suspend_wakeup"
    "returns (ISR_SUSPI H s) one_of_suspend_wakeup" "returns (ISR_WAKEUPI H s) one_of_suspend_wakeup"
    "returns (ISR_EORSTI H s) one_of_suspend_wakeup"
proof -
  note I = reg_invariant.I_INT [OF one_of_invariant [OF H]] reg_invariant.I_power [OF one_of_invariant [OF H]]
    reg_invariant.I_address [OF one_of_invariant [OF H]]
  note W = reg_invariant.I_PLL_wait [OF one_of_invariant [OF H]]
    reg_invariant.I_ConfigureEndpoint [OF one_of_invariant [OF H]]
  have f: "one_of_suspend_wakeup (snd (int_fires H i s))" for i
    using s by (simp add: int_fires_def pair_simps I)
  show "returns (ISR_SOFI H s) one_of_suspend_wakeup"
    by (simp add: ISR_SOFI_def pair_simps I f)
  show "returns (ISR_VBUSTI H s) one_of_suspend_wakeup"
    by (auto simp: ISR_VBUSTI_def pair_simps I f intro!: returns_bind [where Q = one_of_suspend_wakeup] W)
  show "returns (ISR_SUSPI H s) one_of_suspend_wakeup"
    by (simp add: ISR_SUSPI_def pair_simps I f one_of_swap [OF H])
  show "returns (ISR_WAKEUPI H s) one_of_suspend_wakeup"
    by (auto simp: ISR_WAKEUPI_def pair_simps I f one_of_swap [OF H]
        intro!: returns_bind [where Q = one_of_suspend_wakeup] W)
  show "returns (ISR_EORSTI H s) one_of_suspend_wakeup"
    by (auto simp: ISR_EORSTI_def pair_simps I f one_of_swap [OF H]
        intro!: returns_bind [where Q = "\<lambda>r. one_of_suspend_wakeup (snd r)"] W)
qed

lemma one_of_Init:
  assumes H: "program_owns_UDIEN H"
  shows "returns (USB_Init H s) one_of_suspend_wakeup"
proof -
  let ?off = "\<lambda>s. gregs (ctl s) UDIEN = 0"
  have "reg_invariant H ?off"
    using H by unfold_locales (auto simp: program_owns_UDIEN_def reg_access_defs Let_def)
  note off = reg_invariant.I_INT [OF this] reg_invariant.I_power [OF this] reg_invariant.I_address [OF this]
    reg_invariant.I_ConfigureEndpoint [OF this]
  note I = reg_invariant.I_power [OF one_of_invariant [OF H]]
  have none: "?off (USB_INT_DisableAllInterrupts H t)" for t :: "('a, 'b) usb_scheme"
    using H by (simp add: USB_INT_DisableAllInterrupts_def program_owns_UDIEN_def reg_access_defs Let_def)
  have on: "one_of_suspend_wakeup (USB_INT_Enable H USB_INT_EORSTI (USB_INT_Enable H USB_INT_SUSPI t))"
    if "?off t" for t :: "('a, 'b) usb_scheme"
    using H that by (simp add: one_of_suspend_wakeup_def USB_INT_Enable_def USB_INT_num owns_UDIEN_rmw bits)
  have "returns (USB_Init_Device H t) one_of_suspend_wakeup" if "?off t" for t :: "('a, 'b) usb_scheme"
    using that by (auto simp: USB_Init_Device_def Let_def off I on
        intro!: returns_bind [where Q = "\<lambda>r. ?off (snd r)"] off)
  then show ?thesis
    by (auto simp: USB_Init_def USB_ResetInterface_def Let_def off I none
        intro!: returns_bind [where Q = one_of_suspend_wakeup])
qed

text \<open>
  C10: once the interface has been initialised, and after every interrupt, exactly one of
  the suspend and the wake-up interrupt is enabled, so the device can always leave the
  suspended state and always notices the next suspend.
\<close>

theorem suspend_wakeup_exclusive:
  assumes "program_owns_UDIEN H"
  shows "returns (USB_Init H s) one_of_suspend_wakeup \<and>
    (one_of_suspend_wakeup t \<longrightarrow> returns (USB_GEN_vect H t) one_of_suspend_wakeup)"
  unfolding USB_GEN_vect_def using assms
  by (auto intro!: one_of_Init returns_bind [where Q = one_of_suspend_wakeup] one_of_ISR)

theorem suspend_wakeup_exclusive_witness:
  "one_of_suspend_wakeup (usb_with ((\<lambda>_. 0)(UDIEN := bv SUSPE)) (\<lambda>_ _. 0)) \<and>
   (\<exists>s'. USB_GEN_vect memory_hw (usb_with ((\<lambda>_. 0)(UDIEN := bv SUSPE)) (\<lambda>_ _. 0)) = Some s' \<and>
      one_of_suspend_wakeup s')"
proof -
  let ?s = "usb_with ((\<lambda>_. 0)(UDIEN := bv SUSPE)) (\<lambda>_ _. 0)"
  have "program_owns_UDIEN memory_hw" by (simp add: program_owns_UDIEN_def memory_hw_def)
  moreover have "one_of_suspend_wakeup ?s" by (simp add: one_of_suspend_wakeup_def usb_with_def bits)
  moreover have "\<exists>s'. USB_GEN_vect memory_hw ?s = Some s'"
    by (simp add: USB_GEN_vect_def ISR_SOFI_def ISR_VBUSTI_def ISR_SUSPI_def ISR_WAKEUPI_def ISR_EORSTI_def
        int_fires_def USB_INT_HasOccurred_def USB_INT_num rd_bit_def plain_access usb_with_def bits)
  ultimately show ?thesis
    using suspend_wakeup_exclusive [of memory_hw ?s ?s] by (auto dest: returnsD)
qed

end
