(* ===== verification/Control_Stream_Spec.thy ===== *)
theory Control_Stream_Spec
  imports Control_Stream
begin

text \<open>
  What a control write promises: to a host that behaves as USB prescribes it delivers
  exactly the requested prefix of the buffer, in well-formed packets, and returns.
\<close>

section \<open>The host during a control read\<close>

text \<open>
  A host that reads \<open>W\<close> bytes has had enough when it has got them all, or a packet
  shorter than the endpoint (USB 2.0, 8.5.3).
\<close>

definition host_done :: "nat \<Rightarrow> u8 list list \<Rightarrow> bool" where
  "host_done W ps \<longleftrightarrow> W \<le> length (concat ps) \<or> (ps \<noteq> [] \<and> length (last ps) < 64)"

text \<open>
  \<open>in_stage H W P bank sent left\<close>: while \<open>P\<close> holds the hardware is in the data stage of a
  control read of \<open>W\<close> bytes.  \<open>bank\<close> is what the program has written into the current bank
  (which \<open>UEBCX\<close> counts), \<open>sent\<close> the packets that it has handed over by clearing \<open>TXINI\<close>.
  There is no new SETUP packet and no interrupt, the status stage (\<open>RXOUTI\<close>) begins only when the host has had enough, and
  after finitely many polls (\<open>left\<close>) the bank is free and the status stage, if due, has begun.
\<close>

definition in_stage :: "'e hw \<Rightarrow> nat \<Rightarrow> ('e ctl_scheme \<Rightarrow> bool) \<Rightarrow> ('e ctl_scheme \<Rightarrow> u8 list) \<Rightarrow>
    ('e ctl_scheme \<Rightarrow> u8 list list) \<Rightarrow> ('e ctl_scheme \<Rightarrow> nat) \<Rightarrow> bool" where
  "in_stage H W P bank sent left \<longleftrightarrow>
     (\<forall>c. P c \<longrightarrow> \<not> irq H c) \<and>
     (\<forall>c e. P (c\<lparr>eregs := e\<rparr>) = P c \<and> bank (c\<lparr>eregs := e\<rparr>) = bank c \<and> sent (c\<lparr>eregs := e\<rparr>) = sent c) \<and>
     (\<forall>c. P c \<longrightarrow> (let c' = pre_rd H (E UEINTX) c; v = eregs c' (gregs c' UENUM) UEINTX in
        P c' \<and> bank c' = bank c \<and> sent c' = sent c \<and> left c' \<le> left c \<and>
        \<not> tst v RXSTPI \<and> (tst v RXOUTI \<longrightarrow> host_done W (sent c)) \<and>
        (left c' < left c \<or> tst v TXINI \<and> (host_done W (sent c) \<longrightarrow> tst v RXOUTI)))) \<and>
     (\<forall>c. P c \<longrightarrow> (let c' = pre_rd H (E UEBCHX) c in P c' \<and> bank c' = bank c \<and> sent c' = sent c \<and>
        eregs c' (gregs c' UENUM) UEBCHX = of_nat (length (bank c) div 256))) \<and>
     (\<forall>c. P c \<longrightarrow> (let c' = pre_rd H (E UEBCLX) c in P c' \<and> bank c' = bank c \<and> sent c' = sent c \<and>
        eregs c' (gregs c' UENUM) UEBCLX = of_nat (length (bank c)))) \<and>
     (\<forall>c. P c \<and> length (bank c) < 64 \<longrightarrow> (let c' = post_wr H (E UEDATX) c in
        P c' \<and> bank c' = bank c @ [eregs c (gregs c UENUM) UEDATX] \<and> sent c' = sent c)) \<and>
     (\<forall>c. P c \<and> \<not> tst (eregs c (gregs c UENUM) UEINTX) TXINI \<longrightarrow> (let c' = post_wr H (E UEINTX) c in
        P c' \<and> bank c' = [] \<and> sent c' = sent c @ [bank c]))"

lemma in_stage_irq_poll: "in_stage H W P bank sent left \<Longrightarrow> P (ctl s) \<Longrightarrow> irq_poll H s = Some s"
  by (simp add: in_stage_def irq_poll_def)

lemma in_stage_poll:
  assumes "in_stage H W P bank sent left" "P (ctl s)" "erd_bit H UEINTX b s = (r, s')"
  shows "P (ctl s')" "bank (ctl s') = bank (ctl s)" "sent (ctl s') = sent (ctl s)"
    "left (ctl s') \<le> left (ctl s)" "vars s' = vars s"
    "b = RXSTPI \<Longrightarrow> \<not> r" "b = RXOUTI \<Longrightarrow> r \<Longrightarrow> host_done W (sent (ctl s))"
    "b = TXINI \<Longrightarrow> \<not> r \<Longrightarrow> left (ctl s') < left (ctl s)"
    "b = RXOUTI \<Longrightarrow> host_done W (sent (ctl s)) \<Longrightarrow> \<not> r \<Longrightarrow> left (ctl s') < left (ctl s)"
  using assms by (auto simp: in_stage_def erd_bit_def erd_def Let_def vars_def)

lemma in_stage_ClearIN:
  assumes "in_stage H W P bank sent left" "P (ctl s)"
  shows "P (ctl (Endpoint_ClearIN H s))" "bank (ctl (Endpoint_ClearIN H s)) = []"
    "sent (ctl (Endpoint_ClearIN H s)) = sent (ctl s) @ [bank (ctl s)]" "vars (Endpoint_ClearIN H s) = vars s"
  using assms by (simp_all add: in_stage_def Endpoint_ClearIN_def ermw_def erd_def ewr_def Let_def vars_def bits bit_and_iff bit_not_iff)

lemma in_stage_BytesInEndpoint:
  assumes "in_stage H W P bank sent left" "P (ctl s)" "bank (ctl s) = []" "Endpoint_BytesInEndpoint H s = (n, s')"
  shows "n = 0" "P (ctl s')" "bank (ctl s') = []" "sent (ctl s') = sent (ctl s)" "vars s' = vars s"
  using assms by (auto simp: in_stage_def Endpoint_BytesInEndpoint_def erd_def Let_def vars_def)

lemma in_stage_Write_8:
  assumes "in_stage H W P bank sent left" "P (ctl s)" "length (bank (ctl s)) < 64"
  shows "P (ctl (Endpoint_Write_8 H v s))" "bank (ctl (Endpoint_Write_8 H v s)) = bank (ctl s) @ [v]"
    "sent (ctl (Endpoint_Write_8 H v s)) = sent (ctl s)" "vars (Endpoint_Write_8 H v s) = vars s"
  using assms by (simp_all add: in_stage_def Endpoint_Write_8_def ewr_def Let_def vars_def)

section \<open>Filling the bank\<close>

lemma in_stage_fill:
  assumes st: "in_stage H W P bank sent left" and ptr: "\<And>j. move (ptr j) 1 = ptr (Suc j)"
    and "P (ctl s)" "n = of_nat (length (bank (ctl s)))" "length (bank (ctl s)) \<le> 64"
    and "m = min (unat Length) (64 - length (bank (ctl s)))"
  shows "\<exists>s'. Control_W_fill move (\<lambda>p. Endpoint_Write_8 H (buf p)) Length n (ptr k) s =
      (Length - of_nat m, n + of_nat m, ptr (k + m), s') \<and> P (ctl s') \<and> sent (ctl s') = sent (ctl s) \<and>
      vars s' = vars s \<and> bank (ctl s') = bank (ctl s) @ map (\<lambda>i. buf (ptr i)) [k..<k + m]"
  using assms(3-)
proof (induction m arbitrary: Length n k s)
  case 0
  then have "Length = 0 \<or> length (bank (ctl s)) = 64" by (auto simp: min_def unat_eq_0 split: if_splits)
  with 0 show ?case
    by (subst Control_W_fill.simps) (auto simp: USB_Device_ControlEndpointSize_def)
next
  case (Suc m)
  then have len: "Length \<noteq> 0" "length (bank (ctl s)) < 64" by (auto simp: min_def split: if_splits)
  then have n: "n < USB_Device_ControlEndpointSize"
    using Suc.prems by (simp add: USB_Device_ControlEndpointSize_def word_less_nat_alt unat_of_nat_small)
  let ?s = "Endpoint_Write_8 H (buf (ptr k)) s"
  note w = in_stage_Write_8 [OF st Suc.prems(1) len(2), of "buf (ptr k)"]
  have "unat (Length - 1) = unat Length - 1" using len(1) by (simp add: unat_minus_one)
  then have "m = min (unat (Length - 1)) (64 - length (bank (ctl ?s)))"
    using Suc.prems len w by (auto simp: min_def split: if_splits)
  from Suc.IH [OF w(1) _ _ this, of "n + 1" "Suc k"] Suc.prems(1-3) len w n show ?case
    by (subst Control_W_fill.simps) (auto simp: ptr upt_conv_Cons simp del: upt_Suc)
qed

section \<open>The data stage\<close>

text \<open>
  Between two iterations: \<open>k\<close> of \<open>N\<close> bytes have gone out, in full packets except perhaps
  the last.
\<close>

definition packets_ok :: "u8 list list \<Rightarrow> bool" where
  "packets_ok ps \<longleftrightarrow> (\<forall>p \<in> set (butlast ps). length p = 64) \<and> (ps \<noteq> [] \<longrightarrow> length (last ps) \<le> 64)"

definition stage_inv ::
  "('e ctl_scheme \<Rightarrow> bool) \<Rightarrow> ('e ctl_scheme \<Rightarrow> u8 list) \<Rightarrow> ('e ctl_scheme \<Rightarrow> u8 list list) \<Rightarrow> nat \<Rightarrow> nat \<Rightarrow>
   (nat \<Rightarrow> u16) \<Rightarrow> mem \<Rightarrow> ('e, 'p) usb_scheme \<Rightarrow> u16 \<times> bool \<times> u16 \<times> ('e, 'p) usb_scheme \<Rightarrow> bool" where
  "stage_inv P bank sent W N ptr buf t = (\<lambda>(Length, Full, D, s). \<exists>k ps.
     P (ctl s) \<and> bank (ctl s) = [] \<and> vars s = vars t \<and> k \<le> N \<and> unat Length = N - k \<and> D = ptr k \<and>
     sent (ctl s) = ps \<and> concat ps = map (\<lambda>i. buf (ptr i)) [0..<k] \<and> packets_ok ps \<and>
     Full = (ps \<noteq> [] \<and> length (last ps) = 64) \<and> (ps \<noteq> [] \<and> \<not> Full \<longrightarrow> k = N) \<and>
     (ps = [] \<and> N = 0 \<longrightarrow> W = 0))"

definition stage_post ::
  "('e ctl_scheme \<Rightarrow> bool) \<Rightarrow> ('e ctl_scheme \<Rightarrow> u8 list list) \<Rightarrow> nat \<Rightarrow> nat \<Rightarrow> (nat \<Rightarrow> u16) \<Rightarrow> mem \<Rightarrow>
   ('e, 'p) usb_scheme \<Rightarrow> ('e, 'p) usb_scheme \<Rightarrow> bool" where
  "stage_post P sent W N ptr buf t s \<longleftrightarrow> P (ctl s) \<and> vars s = vars t \<and> packets_ok (sent (ctl s)) \<and>
     concat (sent (ctl s)) = map (\<lambda>i. buf (ptr i)) [0..<N] \<and> host_done W (sent (ctl s))"

lemma vars_DeviceState: "vars s = vars t \<Longrightarrow> USB_DeviceState s = USB_DeviceState t"
  by (simp add: vars_def)

lemma packets_ok_snoc:
  "packets_ok ps \<Longrightarrow> ps = [] \<or> length (last ps) = 64 \<Longrightarrow> length p \<le> 64 \<Longrightarrow> packets_ok (ps @ [p])"
  by (cases ps rule: rev_cases) (auto simp: packets_ok_def butlast_append)

text \<open>In the middle of the data stage the host can be done only when everything has been sent.\<close>

lemma done_all_sent:
  assumes "host_done W ps" "concat ps = map f [0..<k]" "k \<le> N" "N \<le> W" "packets_ok ps"
    "ps \<noteq> [] \<and> length (last ps) \<noteq> 64 \<longrightarrow> k = N"
  shows "k = N"
  using assms by (auto simp: host_done_def)

lemma stage_start:
  assumes "stage_inv P bank sent W N ptr buf t (Length, Full, D, s)" "\<not> (Length \<noteq> 0 \<or> Full)"
  shows "stage_post P sent W N ptr buf t s"
  using assms by (auto simp: stage_inv_def stage_post_def host_done_def packets_ok_def)

lemma stage_packet:
  assumes st: "in_stage H W P bank sent left" and ptr: "\<And>j. move (ptr j) 1 = ptr (Suc j)"
    and k: "P (ctl s)" "bank (ctl s) = []" "vars s = vars t" "k \<le> N" "unat Length = N - k"
      "concat (sent (ctl s)) = map (\<lambda>i. buf (ptr i)) [0..<k]" "packets_ok (sent (ctl s))"
      "sent (ctl s) = [] \<or> length (last (sent (ctl s))) = 64"
    and m: "m = min (unat Length) 64"
  shows "\<exists>s'. Control_W_fill move (\<lambda>p. Endpoint_Write_8 H (buf p)) Length 0 (ptr k) s =
      (Length - of_nat m, of_nat m, ptr (k + m), s') \<and>
      stage_inv P bank sent W N ptr buf t (Length - of_nat m, m = 64, ptr (k + m), Endpoint_ClearIN H s')"
proof -
  from in_stage_fill [where bank = bank and left = left and move = move and ptr = ptr and buf = buf and k = k,
      OF st ptr k(1) _ _ ] k(2) m
  obtain s' where s': "Control_W_fill move (\<lambda>p. Endpoint_Write_8 H (buf p)) Length 0 (ptr k) s =
      (Length - of_nat m, of_nat m, ptr (k + m), s')" "P (ctl s')" "sent (ctl s') = sent (ctl s)"
      "vars s' = vars s" "bank (ctl s') = map (\<lambda>i. buf (ptr i)) [k..<k + m]"
    by force
  have "unat (Length - of_nat m) = N - (k + m)"
    using k(4,5) m by (subst unat_sub) (auto simp: word_le_nat_alt unat_of_nat_small unsigned_of_nat take_bit_nat_eq_self)
  moreover have "map (\<lambda>i. buf (ptr i)) [0..<k] @ map (\<lambda>i. buf (ptr i)) [k..<k + m] = map (\<lambda>i. buf (ptr i)) [0..<k + m]"
    by (simp add: upt_add_eq_append [of 0 k m])
  ultimately have "stage_inv P bank sent W N ptr buf t (Length - of_nat m, m = 64, ptr (k + m), Endpoint_ClearIN H s')"
    using s' k m in_stage_ClearIN [OF st s'(2)]
    by (auto simp: stage_inv_def min_def intro!: exI [of _ "k + m"] packets_ok_snoc split: if_splits)
  with s' show ?thesis by blast
qed

abbreviation stage_order :: "('e ctl_scheme \<Rightarrow> nat) \<Rightarrow> ((u16 \<times> bool \<times> u16 \<times> ('e, 'p) usb_scheme) \<times> (u16 \<times> bool \<times> u16 \<times> ('e, 'p) usb_scheme)) set" where
  "stage_order left \<equiv> measures [\<lambda>(Length, Full, D, s). unat Length + (if Full then 1 else 0),
     \<lambda>(Length, Full, D, s). left (ctl s)]"

lemma stage_body:
  assumes st: "in_stage H W P bank sent left" and ptr: "\<And>j. move (ptr j) 1 = ptr (Suc j)" and "N \<le> W"
    and state: "USB_DeviceState t \<noteq> DEVICE_STATE_Unattached" "USB_DeviceState t \<noteq> DEVICE_STATE_Suspended"
    and inv: "stage_inv P bank sent W N ptr buf t x"
  shows "\<exists>y. Control_W_body H move (\<lambda>p. Endpoint_Write_8 H (buf p)) x = Some y \<and>
    (case y of Inl x' \<Rightarrow> stage_inv P bank sent W N ptr buf t x' \<and> (x', x) \<in> stage_order left
             | Inr r \<Rightarrow> fst r = None \<and> stage_post P sent W N ptr buf t (snd r))"
proof -
  obtain Length Full D s where x: "x = (Length, Full, D, s)" by (cases x)
  show ?thesis
  proof (cases "Length \<noteq> 0 \<or> Full")
    case False
    with stage_start [OF inv [unfolded x]] show ?thesis by (auto simp: x Control_W_body_def)
  next
    case True
    from inv obtain k where k: "P (ctl s)" "bank (ctl s) = []" "vars s = vars t" "k \<le> N" "unat Length = N - k"
      "D = ptr k" "concat (sent (ctl s)) = map (\<lambda>i. buf (ptr i)) [0..<k]" "packets_ok (sent (ctl s))"
      "Full = (sent (ctl s) \<noteq> [] \<and> length (last (sent (ctl s))) = 64)"
      "sent (ctl s) \<noteq> [] \<and> \<not> Full \<longrightarrow> k = N" "sent (ctl s) = [] \<and> N = 0 \<longrightarrow> W = 0"
      by (auto simp: stage_inv_def x)
    obtain b1 s1 b2 s2 b3 s3 n s4 where e: "erd_bit H UEINTX RXSTPI s = (b1, s1)" "erd_bit H UEINTX RXOUTI s1 = (b2, s2)"
      "erd_bit H UEINTX TXINI s2 = (b3, s3)" "Endpoint_BytesInEndpoint H s3 = (n, s4)" by (meson surj_pair)
    note p1 = in_stage_poll [OF st k(1) e(1)] note p2 = in_stage_poll [OF st p1(1) e(2)]
    note p3 = in_stage_poll [OF st p2(1) e(3)]
    note p4 = in_stage_BytesInEndpoint [OF st p3(1) _ e(4)]
    have running: "Control_W_body H move (\<lambda>p. Endpoint_Write_8 H (buf p)) x =
      (if b2 then leave (None, s2)
       else if b3 then (let (Length', n', D', s5) = Control_W_fill move (\<lambda>p. Endpoint_Write_8 H (buf p)) Length n D s4
         in continue (Length', n' = USB_Device_ControlEndpointSize, D', Endpoint_ClearIN H s5))
       else continue (Length, Full, D, s3))"
      using True p1(6) state vars_DeviceState [OF k(3)]
      by (auto simp: x Control_W_body_def in_stage_irq_poll [OF st k(1)] e Endpoint_IsSETUPReceived_def
          Endpoint_IsOUTReceived_def Endpoint_IsINReady_def)
    consider (out) b2 | (packet) "\<not> b2" b3 | (wait) "\<not> b2" "\<not> b3" by blast
    then show ?thesis
    proof cases
      case out
      with p2(7) p1(3) done_all_sent [OF _ k(7) k(4) \<open>N \<le> W\<close> k(8)] k(9,10) have "k = N" "host_done W (sent (ctl s))" by auto
      with out running k p1 p2 show ?thesis by (auto simp: stage_post_def)
    next
      case packet
      define m where "m = min (unat Length) 64"
      have "sent (ctl s4) = [] \<or> length (last (sent (ctl s4))) = 64"
        using True k p1 p2 p3 p4 by (auto simp: unat_eq_0)
      with stage_packet [where move = move and ptr = ptr and s = s4 and t = t and buf = buf and m = m, OF st ptr _ _ _ k(4,5)] k p1 p2 p3 p4 m_def obtain s5 where
        s5: "Control_W_fill move (\<lambda>p. Endpoint_Write_8 H (buf p)) Length 0 (ptr k) s4 =
          (Length - of_nat m, of_nat m, ptr (k + m), s5)"
        "stage_inv P bank sent W N ptr buf t (Length - of_nat m, m = 64, ptr (k + m), Endpoint_ClearIN H s5)"
        by auto
      have m64: "(of_nat m = (64 :: u16)) = (m = 64)"
        by (auto simp: m_def word_unat_eq_iff unat_of_nat_small)
      have "unat (Length - of_nat m) = unat Length - m"
        by (subst unat_sub) (auto simp: m_def word_le_nat_alt unat_of_nat_small)
      with True have "unat (Length - of_nat m) + (if m = 64 then 1 else 0) < unat Length + (if Full then 1 else 0)"
        by (auto simp: m_def min_def unat_eq_0 unat_gt_0)
      with packet running s5 k p1 p2 p3 p4 m64 show ?thesis
        by (auto simp: x USB_Device_ControlEndpointSize_def)
    next
      case wait
      with running k p1 p2 p3 inv show ?thesis by (force simp: x stage_inv_def)
    qed
  qed
qed

section \<open>The status stage\<close>

lemma stage_status:
  assumes st: "in_stage H W P bank sent left" and post: "stage_post P sent W N ptr buf t s"
    and state: "USB_DeviceState t \<noteq> DEVICE_STATE_Unattached" "USB_DeviceState t \<noteq> DEVICE_STATE_Suspended"
  shows "\<exists>s'. Control_W_status H s = Some (ENDPOINT_RWCSTREAM_NoError, s') \<and> stage_post P sent W N ptr buf t s'"
proof -
  let ?I = "stage_post P sent W N ptr buf t"
  have "\<exists>r. Control_W_status H s = Some r \<and> (fst r = ENDPOINT_RWCSTREAM_NoError \<and> ?I (snd r))"
    unfolding Control_W_status_def using post
  proof (rule loop_total [where m = "\<lambda>s. left (ctl s)"])
    fix u assume "?I u"
    then have u: "P (ctl u)" "vars u = vars t" "host_done W (sent (ctl u))" by (auto simp: stage_post_def)
    obtain b1 s1 b2 s2 where e: "erd_bit H UEINTX RXOUTI u = (b1, s1)" "erd_bit H UEINTX RXSTPI s1 = (b2, s2)"
      by (meson surj_pair)
    note p1 = in_stage_poll [OF st u(1) e(1)] note p2 = in_stage_poll [OF st p1(1) e(2)]
    have "USB_DeviceState s1 = USB_DeviceState t" using p1(5) u(2) by (simp add: vars_def)
    with state e u p1 p2 \<open>?I u\<close> show "\<exists>x. (irq_poll H u \<bind> (\<lambda>s0. let (out, s1) = Endpoint_IsOUTReceived H s0
        in if out then leave (ENDPOINT_RWCSTREAM_NoError, s1)
           else if USB_DeviceState s1 = DEVICE_STATE_Unattached then leave (ENDPOINT_RWCSTREAM_DeviceDisconnected, s1)
           else if USB_DeviceState s1 = DEVICE_STATE_Suspended then leave (ENDPOINT_RWCSTREAM_BusSuspended, s1)
           else let (setup, s2) = Endpoint_IsSETUPReceived H s1
                in if setup then leave (ENDPOINT_RWCSTREAM_HostAborted, s2) else continue s2)) = Some x \<and>
        (case x of Inl s' \<Rightarrow> ?I s' \<and> left (ctl s') < left (ctl u)
                 | Inr r \<Rightarrow> fst r = ENDPOINT_RWCSTREAM_NoError \<and> ?I (snd r))"
      by (cases b1) (auto simp: in_stage_irq_poll [OF st u(1)] Endpoint_IsOUTReceived_def
          Endpoint_IsSETUPReceived_def stage_post_def)
  qed
  then show ?thesis by auto
qed

section \<open>The whole control write\<close>

lemma Template_Control_W_delivers:
  assumes st: "in_stage H W P bank sent left" and ptr: "\<And>j. move (ptr j) 1 = ptr (Suc j)" "offset Length = ptr 0"
    and W: "W = unat (wLength (USB_ControlRequest s))" and N: "N = min (unat Length) W"
    and start: "P (ctl s)" "bank (ctl s) = []" "sent (ctl s) = []"
    and state: "USB_DeviceState s \<noteq> DEVICE_STATE_Unattached" "USB_DeviceState s \<noteq> DEVICE_STATE_Suspended"
  shows "\<exists>s'. Template_Endpoint_Control_W H offset move (\<lambda>p. Endpoint_Write_8 H (buf p)) Length s =
    Some (ENDPOINT_RWCSTREAM_NoError, s') \<and> stage_post P sent W N ptr buf s s'"
proof -
  let ?wL = "wLength (USB_ControlRequest s)"
  define L1 where "L1 = (if Length > ?wL then ?wL else Length)"
  define s1 where "s1 = (if \<not> Length > ?wL \<and> Length = 0 then Endpoint_ClearIN H s else s)"
  have L1: "unat L1 = N" by (auto simp: L1_def N W word_less_nat_alt)
  have inv: "stage_inv P bank sent W N ptr buf s (L1, False, ptr 0, s1)"
    using L1 start in_stage_ClearIN [OF st start(1)] W
    by (auto simp: stage_inv_def s1_def L1_def packets_ok_def word_less_nat_alt unat_eq_0 split: if_splits)
  have "\<exists>r. loop (Control_W_body H move (\<lambda>p. Endpoint_Write_8 H (buf p))) (L1, False, ptr 0, s1) = Some r \<and>
     (fst r = None \<and> stage_post P sent W N ptr buf s (snd r))"
    by (rule loop_wf [where R = "stage_order left" and I = "stage_inv P bank sent W N ptr buf s", OF _ inv])
      (simp, rule stage_body [where move = move and ptr = ptr, OF st ptr(1) _ state], simp_all add: N)
  then obtain s2 where s2: "loop (Control_W_body H move (\<lambda>p. Endpoint_Write_8 H (buf p))) (L1, False, ptr 0, s1) =
     Some (None, s2)" "stage_post P sent W N ptr buf s s2" by auto
  have "Template_Endpoint_Control_W H offset move (\<lambda>p. Endpoint_Write_8 H (buf p)) Length s = Control_W_status H s2"
    using s2(1) by (auto simp: Template_Endpoint_Control_W_def L1_def s1_def ptr(2) split: if_splits)
  with stage_status [OF st s2(2) state] show ?thesis by simp
qed

text \<open>
  C7: a control write of the library delivers its data.  To a host that reads \<open>wLength\<close> bytes
  and behaves as USB prescribes, it returns without error; the packets it sends
  make up exactly the first \<open>min Length wLength\<close> bytes of the buffer, all of them are full
  but the last, and the host knows that the transfer is over, because it has got all it
  asked for or a short packet.  No variable of the program changes.
\<close>

theorem control_write_delivers:
  assumes "in_stage H W P bank sent left" and "W = unat (wLength (USB_ControlRequest s))"
    and "P (ctl s)" "bank (ctl s) = []" "sent (ctl s) = []"
    and "USB_DeviceState s \<noteq> DEVICE_STATE_Unattached" "USB_DeviceState s \<noteq> DEVICE_STATE_Suspended"
  shows "\<exists>s'. Endpoint_Write_Control_Stream_LE H Buffer Length s = Some (ENDPOINT_RWCSTREAM_NoError, s') \<and>
    vars s' = vars s \<and> concat (sent (ctl s')) = map (\<lambda>i. Buffer (of_nat i)) [0..<min (unat Length) W] \<and>
    packets_ok (sent (ctl s')) \<and> host_done W (sent (ctl s'))"
  using Template_Control_W_delivers [OF assms(1) _ _ assms(2) refl assms(3-), of move_LE of_nat offset_LE Length Buffer]
  by (simp add: Endpoint_Write_Control_Stream_LE_def move_LE_def offset_LE_def stage_post_def add.commute) blast

text \<open>
  A host that takes two polls to collect a packet; its hidden state is the bank, the packets and
  the number of polls to go.
\<close>

definition host_hw :: "nat \<Rightarrow> (u8 list \<times> u8 list list \<times> nat) hw" where
  "host_hw W =
     \<lparr>pre_rd = (\<lambda>p c. case ctl.more c of (b, ps, l) \<Rightarrow>
        let set_reg = (\<lambda>r v. c\<lparr>eregs := (eregs c)(gregs c UENUM := (eregs c (gregs c UENUM))(r := v))\<rparr>) in
        if p = E UEINTX
        then (if l = 0 then set_reg UEINTX (bv TXINI OR (if host_done W ps then bv RXOUTI else 0))
              else (set_reg UEINTX 0)\<lparr>ctl.more := (b, ps, l - 1)\<rparr>)
        else if p = E UEBCHX then set_reg UEBCHX (of_nat (length b div 256))
        else if p = E UEBCLX then set_reg UEBCLX (of_nat (length b))
        else c),
      post_wr = (\<lambda>p c. case ctl.more c of (b, ps, l) \<Rightarrow>
        if p = E UEDATX then c\<lparr>ctl.more := (b @ [eregs c (gregs c UENUM) UEDATX], ps, l)\<rparr>
        else if p = E UEINTX \<and> \<not> tst (eregs c (gregs c UENUM) UEINTX) TXINI then c\<lparr>ctl.more := ([], ps @ [b], 2)\<rparr>
        else c),
      irq = (\<lambda>_. False), boot_signature_byte_get = (\<lambda>_. 0), wdt_disable = id, clock_prescale_set = (\<lambda>_. id)\<rparr>"

lemma host_hw_in_stage:
  "in_stage (host_hw W) W (\<lambda>_. True) (\<lambda>c. fst (ctl.more c)) (\<lambda>c. fst (snd (ctl.more c))) (\<lambda>c. snd (snd (ctl.more c)))"
  by (auto simp: in_stage_def host_hw_def Let_def case_prod_beta' bits bit_or_iff)

definition usb_request :: "'e ctl_scheme \<Rightarrow> USB_Request_Header_t \<Rightarrow> 'e usb" where
  "usb_request c h = \<lparr>ctl = c, USB_IsInitialized = True, USB_ControlRequest = h, USB_DeviceState = DEVICE_STATE_Addressed,
     USB_Device_ConfigurationNumber = 0, USB_Device_CurrentlySelfPowered = False, USB_Device_RemoteWakeupEnabled = False\<rparr>"

theorem control_write_delivers_witness:
  "\<exists>s'. Endpoint_Write_Control_Stream_LE (host_hw 3) (\<lambda>i. ucast i + 7) 200
     (usb_request \<lparr>gregs = \<lambda>_. 0, eregs = \<lambda>_ _. 0, \<dots> = ([], [], 1)\<rparr>
        \<lparr>bmRequestType = 0x80, bRequest = 6, wValue = 0x100, wIndex = 0, wLength = 3\<rparr>) =
     Some (ENDPOINT_RWCSTREAM_NoError, s') \<and> concat (fst (snd (ctl.more (ctl s')))) = [7, 8, 9]"
  using control_write_delivers [OF host_hw_in_stage [of 3],
      of "usb_request \<lparr>gregs = \<lambda>_. 0, eregs = \<lambda>_ _. 0, \<dots> = ([], [], 1)\<rparr>
        \<lparr>bmRequestType = 0x80, bRequest = 6, wValue = 0x100, wIndex = 0, wLength = 3\<rparr>" "\<lambda>i. ucast i + 7" 200]
  by (auto simp: usb_request_def device_states upt_rec)

end
