(* ===== verification/Request_Spec.thy ===== *)
theory Request_Spec
  imports Device_Std_Req Control_Stream_Spec
begin

text \<open>
  What the control request handler promises: which requests are refused and how, what the
  address and configuration requests do, and that the task leaves the endpoint selection as it found it.
\<close>

section \<open>Refused requests\<close>

text \<open>The requests of the library's dispatch table: request code and request types.\<close>

definition recognised :: "USB_Request_Header_t \<Rightarrow> bool" where
  "recognised h \<longleftrightarrow> (bRequest h, bmRequestType h) \<in>
     {(0, 0x80), (0, 0x82), (1, 0), (1, 2), (3, 0), (3, 2), (5, 0), (6, 0x80), (6, 0x81), (8, 0x80), (9, 0)}"

text \<open>
  The requests that the device must answer with a stall: those outside the table, an
  endpoint number out of range, a feature that does not exist, halting the control
  endpoint, a descriptor that does not exist, a configuration that does not exist.
\<close>

definition refused :: "('e, 'p) app \<Rightarrow> USB_Request_Header_t \<Rightarrow> bool" where
  "refused A h \<longleftrightarrow>
     \<not> recognised h \<or>
     (bRequest h = 0 \<and> bmRequestType h = 0x82 \<and> (ucast (wIndex h) :: u8) AND 0x0F \<ge> 7) \<or>
     (bRequest h \<in> {1, 3} \<and> bmRequestType h = 0 \<and> (ucast (wValue h) :: u8) \<noteq> 1) \<or>
     (bRequest h \<in> {1, 3} \<and> bmRequestType h = 2 \<and> (ucast (wValue h) :: u8) = 0 \<and>
        ((ucast (wIndex h) :: u8) AND 0x0F = 0 \<or> (ucast (wIndex h) :: u8) AND 0x0F \<ge> 7)) \<or>
     (bRequest h = 6 \<and> wValue h \<noteq> 0x3DC \<and> fst (cb_GetDescriptor A (wValue h) (wIndex h)) = 0) \<or>
     (bRequest h = 9 \<and> (ucast (wValue h) :: u8) > 1)"

lemma request_type_values:
  "REQDIR_DEVICETOHOST OR REQTYPE_STANDARD OR REQREC_DEVICE = 0x80"
  "REQDIR_DEVICETOHOST OR REQTYPE_STANDARD OR REQREC_INTERFACE = 0x81"
  "REQDIR_DEVICETOHOST OR REQTYPE_STANDARD OR REQREC_ENDPOINT = 0x82"
  "REQDIR_HOSTTODEVICE OR REQTYPE_STANDARD OR REQREC_DEVICE = 0"
  "REQDIR_HOSTTODEVICE OR REQTYPE_STANDARD OR REQREC_ENDPOINT = 2"
  "push_bit 8 (ucast DTYPE_String) OR USE_INTERNAL_SERIAL = 0x3DC"
  by (simp_all add: request_types bv_eval DTYPE_String_def USE_INTERNAL_SERIAL_def)

text \<open>The dispatch as a table of request codes and request types.\<close>

lemma dispatch_table:
  "dispatch_request H A s =
     (let r = (bRequest (USB_ControlRequest s), bmRequestType (USB_ControlRequest s)) in
      if r = (0, 0x80) \<or> r = (0, 0x82) then USB_Device_GetStatus H s
      else if r = (1, 0) \<or> r = (3, 0) \<or> r = (1, 2) \<or> r = (3, 2) then USB_Device_ClearSetFeature H s
      else if r = (5, 0) then USB_Device_SetAddress H s
      else if r = (6, 0x80) \<or> r = (6, 0x81) then USB_Device_GetDescriptor H A s
      else if r = (8, 0x80) then USB_Device_GetConfiguration H s
      else if r = (9, 0) then USB_Device_SetConfiguration H A s
      else Some s)"
  unfolding dispatch_request_def request_type_values request_codes Let_def prod.inject
  by (simp cong: if_cong)

lemma dispatch_unrecognised: "\<not> recognised (USB_ControlRequest s) \<Longrightarrow> dispatch_request H A s = Some s"
  by (simp add: dispatch_table recognised_def Let_def del: prod.inject)

lemma dispatch_refused:
  assumes "refused A (USB_ControlRequest s)"
  shows "dispatch_request H A s = Some s"
proof (cases "recognised (USB_ControlRequest s)")
  case True
  note d = dispatch_table Let_def
  from assms True show ?thesis
    unfolding refused_def
  proof (elim disjE conjE)
    assume "bRequest (USB_ControlRequest s) = 0" "bmRequestType (USB_ControlRequest s) = 0x82"
      "(ucast (wIndex (USB_ControlRequest s)) :: u8) AND 0x0F \<ge> 7"
    then show ?thesis by (simp add: d USB_Device_GetStatus_def request_type_values ep_consts)
  next
    assume "bRequest (USB_ControlRequest s) \<in> {1, 3}" "bmRequestType (USB_ControlRequest s) = 0"
      "(ucast (wValue (USB_ControlRequest s)) :: u8) \<noteq> 1"
    then show ?thesis by (auto simp: d USB_Device_ClearSetFeature_def CONTROL_REQTYPE_RECIPIENT_def REQREC_DEVICE_def FEATURE_SEL_DeviceRemoteWakeup_def)
  next
    assume "bRequest (USB_ControlRequest s) \<in> {1, 3}" "bmRequestType (USB_ControlRequest s) = 2"
      "(ucast (wValue (USB_ControlRequest s)) :: u8) = 0" "(ucast (wIndex (USB_ControlRequest s)) :: u8) AND 0x0F = 0"
    then show ?thesis
      by (auto simp: d USB_Device_ClearSetFeature_def CONTROL_REQTYPE_RECIPIENT_def REQREC_DEVICE_def REQREC_ENDPOINT_def FEATURE_SEL_EndpointHalt_def ep_consts)
  next
    assume "bRequest (USB_ControlRequest s) \<in> {1, 3}" "bmRequestType (USB_ControlRequest s) = 2"
      "(ucast (wValue (USB_ControlRequest s)) :: u8) = 0" "(ucast (wIndex (USB_ControlRequest s)) :: u8) AND 0x0F \<ge> 7"
    then show ?thesis
      by (auto simp: d USB_Device_ClearSetFeature_def CONTROL_REQTYPE_RECIPIENT_def REQREC_DEVICE_def REQREC_ENDPOINT_def FEATURE_SEL_EndpointHalt_def ep_consts)
  next
    assume "bRequest (USB_ControlRequest s) = 6" "wValue (USB_ControlRequest s) \<noteq> 0x3DC"
      "fst (cb_GetDescriptor A (wValue (USB_ControlRequest s)) (wIndex (USB_ControlRequest s))) = 0"
    then show ?thesis
      by (simp add: d USB_Device_GetDescriptor_def request_type_values NO_DESCRIPTOR_def case_prod_beta')
  next
    assume "bRequest (USB_ControlRequest s) = 9" "(ucast (wValue (USB_ControlRequest s)) :: u8) > 1"
    then show ?thesis by (simp add: d USB_Device_SetConfiguration_def FIXED_NUM_CONFIGURATIONS_def)
  qed simp
qed (rule dispatch_unrecognised)

text \<open>
  \<open>setup_pipe H fifo\<close>: the bank of the selected endpoint holds the bytes \<open>fifo\<close>, which reading
  \<open>UEDATX\<close> takes one by one and without touching another register; the interrupt flags and the control register
  of the endpoint are stored as written.
\<close>

definition setup_pipe :: "'e hw \<Rightarrow> ('e ctl_scheme \<Rightarrow> u8 list) \<Rightarrow> bool" where
  "setup_pipe H fifo \<longleftrightarrow> plain H (E UEINTX) \<and> plain H (E UECONX) \<and>
     (\<forall>c. fifo c \<noteq> [] \<longrightarrow> (let c' = pre_rd H (E UEDATX) c in
        gregs c' = gregs c \<and> fifo c' = tl (fifo c) \<and> eregs c' (gregs c UENUM) UEDATX = hd (fifo c) \<and>
        (\<forall>n r. r \<noteq> UEDATX \<longrightarrow> eregs c' n r = eregs c n r)))"

lemma read_header_fifo:
  assumes "setup_pipe H fifo"
  shows "fifo (ctl s) = bs \<Longrightarrow> length bs = n \<Longrightarrow> \<exists>s'. read_header H n s = (bs, s') \<and> vars s' = vars s \<and>
    gregs (ctl s') = gregs (ctl s) \<and> (\<forall>n r. r \<noteq> UEDATX \<longrightarrow> eregs (ctl s') n r = eregs (ctl s) n r)"
proof (induction bs arbitrary: s n)
  case (Cons b bs)
  obtain u where e: "erd H UEDATX s = (b, u)" "fifo (ctl u) = bs" "gregs (ctl u) = gregs (ctl s)" "vars u = vars s"
    "\<forall>n r. r \<noteq> UEDATX \<longrightarrow> eregs (ctl u) n r = eregs (ctl s) n r"
    using assms Cons.prems by (simp add: setup_pipe_def erd_def Let_def vars_def)
  from Cons.IH [OF e(2), of "length bs"] obtain s' where "read_header H (length bs) u = (bs, s')" "vars s' = vars u"
    "gregs (ctl s') = gregs (ctl u)" "\<forall>n r. r \<noteq> UEDATX \<longrightarrow> eregs (ctl s') n r = eregs (ctl u) n r" by auto
  with e Cons.prems show ?case by (cases n) (auto simp: Endpoint_Read_8_def)
qed simp

lemma process_refused:
  assumes H: "setup_pipe H fifo" and bs: "fifo (ctl s) = bs" "length bs = 8"
    and pending: "tst (eregs (ctl s) (gregs (ctl s) UENUM) UEINTX) RXSTPI"
    and app: "\<And>t. USB_ControlRequest t = header_of_bytes bs \<Longrightarrow> ev_ControlRequest A t = Some t"
    and "refused A (header_of_bytes bs)"
  shows "\<exists>s'. USB_Device_ProcessControlRequest H A s = Some s' \<and>
    vars s' = vars (s\<lparr>USB_ControlRequest := header_of_bytes bs\<rparr>) \<and> gregs (ctl s') = gregs (ctl s) \<and>
    (\<forall>n r. r \<noteq> UEDATX \<longrightarrow> eregs (ctl s') n r =
       (if n = gregs (ctl s) UENUM \<and> r = UECONX then eregs (ctl s) n r OR bv STALLRQ
        else if n = gregs (ctl s) UENUM \<and> r = UEINTX then eregs (ctl s) n r AND NOT (bv RXSTPI)
        else eregs (ctl s) n r))"
proof -
  from read_header_fifo [OF H bs] obtain s1 where s1: "read_header H 8 s = (bs, s1)" "vars s1 = vars s"
    "gregs (ctl s1) = gregs (ctl s)" "\<forall>n r. r \<noteq> UEDATX \<longrightarrow> eregs (ctl s1) n r = eregs (ctl s) n r" by blast
  let ?s = "s1\<lparr>USB_ControlRequest := header_of_bytes bs\<rparr>"
  have pl: "plain H (E UEINTX)" "plain H (E UECONX)" using H by (auto simp: setup_pipe_def)
  have rx: "Endpoint_IsSETUPReceived H ?s = (True, ?s)"
    using pending s1 pl by (simp add: Endpoint_IsSETUPReceived_def erd_bit_def plain_access)
  have "dispatch_request H A ?s = Some ?s" using assms(6) by (simp add: dispatch_refused)
  with s1 rx app [of ?s] have "USB_Device_ProcessControlRequest H A s =
      Some (Endpoint_StallTransaction H (Endpoint_ClearSETUP H ?s))"
    by (simp add: USB_Device_ProcessControlRequest_def stall_unhandled_def)
  then show ?thesis
    using s1 pl by (simp add: Endpoint_StallTransaction_def Endpoint_ClearSETUP_def plain_access vars_def bits)
qed

section \<open>The status stage\<close>

text \<open>
  \<open>in_acked H P left\<close>: while \<open>P\<close> holds, no interrupt comes, the flags of the endpoint do not
  interfere with the other registers, and after finitely many polls (\<open>left\<close>) the host has
  collected the packet and the bank is free.
\<close>

definition in_acked :: "'e hw \<Rightarrow> ('e ctl_scheme \<Rightarrow> bool) \<Rightarrow> ('e ctl_scheme \<Rightarrow> nat) \<Rightarrow> bool" where
  "in_acked H P left \<longleftrightarrow> plain H (G UDADDR) \<and>
     (\<forall>c. P c \<longrightarrow> \<not> irq H c) \<and> (\<forall>c g e. P (c\<lparr>eregs := e\<rparr>) = P c \<and> P (c\<lparr>gregs := g\<rparr>) = P c) \<and>
     (\<forall>c. P c \<longrightarrow> (let c' = pre_rd H (E UEINTX) c in P c' \<and> gregs c' = gregs c \<and>
        (tst (eregs c' (gregs c' UENUM) UEINTX) TXINI \<or> left c' < left c))) \<and>
     (\<forall>c. P c \<longrightarrow> (let c' = post_wr H (E UEINTX) c in P c' \<and> gregs c' = gregs c))"

definition acked_frame :: "('e ctl_scheme \<Rightarrow> bool) \<Rightarrow> ('e, 'p) usb_scheme \<Rightarrow> ('e, 'p) usb_scheme \<Rightarrow> bool" where
  "acked_frame P t s \<longleftrightarrow> P (ctl s) \<and> gregs (ctl s) = gregs (ctl t) \<and> vars s = vars t"

lemma acked_refl: "P (ctl s) \<Longrightarrow> acked_frame P s s"
  by (simp add: acked_frame_def)

lemma acked_flags:
  assumes "in_acked H P left" "acked_frame P t s"
  shows "acked_frame P t (ermw H UEINTX f s)" "acked_frame P t (snd (erd_bit H UEINTX b s))"
    "\<not> fst (erd_bit H UEINTX TXINI s) \<Longrightarrow> left (ctl (snd (erd_bit H UEINTX TXINI s))) < left (ctl s)"
  using assms by (auto simp: in_acked_def acked_frame_def ermw_def erd_bit_def erd_def ewr_def Let_def vars_def)

lemma acked_irq_poll: "in_acked H P left \<Longrightarrow> acked_frame P t s \<Longrightarrow> irq_poll H s = Some s"
  by (simp add: in_acked_def acked_frame_def irq_poll_def)

lemma acked_wait_irq:
  assumes H: "in_acked H P left" and "acked_frame P t s"
  shows "\<exists>s'. wait_irq H (Endpoint_IsINReady H) s = Some s' \<and> acked_frame P t s'"
  unfolding wait_irq_def using assms(2)
  by (rule loop_total [where m = "\<lambda>s. left (ctl s)"])
    (auto simp: acked_irq_poll [OF H] acked_flags [OF H] Endpoint_IsINReady_def pair_simps)

lemma acked_wait_attached:
  assumes H: "in_acked H P left" and "acked_frame P t s" and "USB_DeviceState t \<noteq> DEVICE_STATE_Unattached"
  shows "\<exists>s'. wait_attached H (Endpoint_IsINReady H) s = Some (True, s') \<and> acked_frame P t s'"
proof -
  have dev: "acked_frame P t u \<Longrightarrow> USB_DeviceState u \<noteq> DEVICE_STATE_Unattached" for u
    using assms(3) by (auto simp: acked_frame_def dest: vars_DeviceState)
  have "\<exists>r. wait_attached H (Endpoint_IsINReady H) s = Some r \<and> (fst r \<and> acked_frame P t (snd r))"
    unfolding wait_attached_def using assms(2)
    by (rule loop_total [where m = "\<lambda>s. left (ctl s)"])
      (auto simp: acked_irq_poll [OF H] acked_flags [OF H] Endpoint_IsINReady_def pair_simps dev)
  then show ?thesis by auto
qed

lemma acked_ClearStatusStage:
  assumes H: "in_acked H P left" and s: "acked_frame P t s" and "USB_DeviceState t \<noteq> DEVICE_STATE_Unattached"
    and "bmRequestType (USB_ControlRequest t) = 0"
  shows "\<exists>s'. Endpoint_ClearStatusStage H s = Some s' \<and> acked_frame P t s'"
proof -
  have "USB_ControlRequest s = USB_ControlRequest t" using s by (simp add: acked_frame_def vars_def)
  with acked_wait_attached [OF assms(1-3)] assms(4) show ?thesis
    by (auto simp: Endpoint_ClearStatusStage_def Endpoint_ClearIN_def intro!: acked_flags [OF H])
qed

section \<open>Setting the address\<close>

text \<open>
  C25: when the host collects the status packet, \<open>SetAddress\<close> returns with the address register
  holding the seven address bits of the request and the enable bit, and with the
  device in the addressed state, or in the default state for address 0; no other variable changes.
\<close>

theorem SetAddress_correct:
  assumes "in_acked H P left" "P (ctl s)" "USB_DeviceState s \<noteq> DEVICE_STATE_Unattached"
    and "bmRequestType (USB_ControlRequest s) = 0" and "a = ucast (wValue (USB_ControlRequest s)) AND 0x7F"
  shows "\<exists>s'. USB_Device_SetAddress H s = Some s' \<and> gregs (ctl s') = (gregs (ctl s))(UDADDR := a OR bv ADDEN) \<and>
    vars s' = vars (s\<lparr>USB_DeviceState := (if a \<noteq> 0 then DEVICE_STATE_Addressed else DEVICE_STATE_Default)\<rparr>)"
proof -
  have pl: "plain H (G UDADDR)" using assms(1) by (simp add: in_acked_def)
  have a: "ucast (wValue (USB_ControlRequest s) AND 0x7F) = a"
    unfolding assms(5) by (rule bit_word_eqI) (auto simp: bit_and_iff bit_ucast_iff)
  have a7: "a AND 0x7F = a" by (simp add: assms(5) and.assoc)
  let ?t = "USB_Device_SetDeviceAddress H a s"
  have "P (ctl ?t)" "vars ?t = vars s"
    using assms(1,2) by (simp_all add: in_acked_def USB_Device_SetDeviceAddress_def plain_access vars_def)
  then have t: "acked_frame P ?t (Endpoint_ClearSETUP H ?t)" "USB_DeviceState ?t = USB_DeviceState s"
      "USB_ControlRequest ?t = USB_ControlRequest s"
    by (simp_all add: Endpoint_ClearSETUP_def acked_flags [OF assms(1)] acked_refl vars_def)
  from acked_ClearStatusStage [OF assms(1) t(1)] t assms(3,4) obtain s2 where
    s2: "Endpoint_ClearStatusStage H (Endpoint_ClearSETUP H ?t) = Some s2" "acked_frame P ?t s2" by auto
  from acked_wait_irq [OF assms(1) s2(2)] obtain s3 where
    s3: "wait_irq H (Endpoint_IsINReady H) s2 = Some s3" "acked_frame P ?t s3" by blast
  have "USB_Device_SetAddress H s = Some ((USB_Device_EnableDeviceAddress H a s3)
      \<lparr>USB_DeviceState := (if a \<noteq> 0 then DEVICE_STATE_Addressed else DEVICE_STATE_Default)\<rparr>)"
    by (simp add: USB_Device_SetAddress_def a s2 s3)
  moreover have "(v AND bv ADDEN OR a) OR bv ADDEN = a OR bv ADDEN" for v :: u8
    by (rule bit_word_eqI) (auto simp: bit_or_iff bit_and_iff bit_bv)
  then have "gregs (ctl (USB_Device_EnableDeviceAddress H a s3)) = (gregs (ctl s))(UDADDR := a OR bv ADDEN)"
    using s3(2) by (simp add: USB_Device_EnableDeviceAddress_def USB_Device_SetDeviceAddress_def plain_access pl
        acked_frame_def a7)
  ultimately show ?thesis
    using s3(2) \<open>vars ?t = vars s\<close>
    by (simp add: USB_Device_EnableDeviceAddress_def plain_access pl acked_frame_def vars_def)
qed

lemma host_hw_in_acked: "in_acked (host_hw W) (\<lambda>_. True) (\<lambda>c. snd (snd (ctl.more c)))"
  by (auto simp: in_acked_def plain_def host_hw_def Let_def case_prod_beta' bits bit_or_iff fun_eq_iff)

theorem SetAddress_correct_witness:
  "\<exists>s'. USB_Device_SetAddress (host_hw 0)
     (usb_request \<lparr>gregs = \<lambda>_. 0, eregs = \<lambda>_ _. 0, \<dots> = ([], [], 2)\<rparr>
        \<lparr>bmRequestType = 0, bRequest = 5, wValue = 0x2B, wIndex = 0, wLength = 0\<rparr>) = Some s' \<and>
     gregs (ctl s') UDADDR = 0xAB \<and> USB_DeviceState s' = DEVICE_STATE_Addressed"
  using SetAddress_correct [OF host_hw_in_acked [of 0],
      of "usb_request \<lparr>gregs = \<lambda>_. 0, eregs = \<lambda>_ _. 0, \<dots> = ([], [], 2)\<rparr>
        \<lparr>bmRequestType = 0, bRequest = 5, wValue = 0x2B, wIndex = 0, wLength = 0\<rparr>" "0x2B"]
  by (auto simp: usb_request_def device_states vars_def bv_eval)

section \<open>Setting the configuration\<close>

text \<open>
  C26: when the host collects the status packet, \<open>SetConfiguration\<close> of an existing configuration
  records it and raises the configuration event in the configured state.
  Deselecting the configuration (number 0) raises the event in the configured state too when the
  device has an address, and in the powered state otherwise; it is the interrupt handler
  only that goes back to the addressed state.
\<close>

theorem SetConfiguration_correct:
  assumes "in_acked H P left" "P (ctl s)" "USB_DeviceState s \<noteq> DEVICE_STATE_Unattached"
    and "bmRequestType (USB_ControlRequest s) = 0" and "n = ucast (wValue (USB_ControlRequest s))" "n \<le> 1"
  shows "\<exists>t. USB_Device_SetConfiguration H A s = ev_ConfigurationChanged A t \<and> gregs (ctl t) = gregs (ctl s) \<and>
    vars t = vars (s\<lparr>USB_Device_ConfigurationNumber := n, USB_DeviceState :=
      (if n \<noteq> 0 \<or> tst (gregs (ctl s) UDADDR) ADDEN then DEVICE_STATE_Configured else DEVICE_STATE_Powered)\<rparr>)"
proof -
  have pl: "plain H (G UDADDR)" using assms(1) by (simp add: in_acked_def)
  let ?s = "(Endpoint_ClearSETUP H s)\<lparr>USB_Device_ConfigurationNumber := n\<rparr>"
  have "acked_frame P s (Endpoint_ClearSETUP H s)"
    unfolding Endpoint_ClearSETUP_def by (rule acked_flags [OF assms(1) acked_refl [where P = P, OF assms(2)]])
  then have t: "acked_frame P (s\<lparr>USB_Device_ConfigurationNumber := n\<rparr>) ?s"
    by (simp add: acked_frame_def vars_def)
  from acked_ClearStatusStage [OF assms(1) t] assms(3,4) obtain s2 where
    s2: "Endpoint_ClearStatusStage H ?s = Some s2" "acked_frame P (s\<lparr>USB_Device_ConfigurationNumber := n\<rparr>) s2" by auto
  then have "USB_Device_ConfigurationNumber s2 = n" by (simp add: acked_frame_def vars_def)
  with s2 assms(6) show ?thesis
    by (auto simp: USB_Device_SetConfiguration_def FIXED_NUM_CONFIGURATIONS_def not_less assms(5) [symmetric]
        USB_Device_IsAddressSet_def rd_bit_def plain_access pl acked_frame_def vars_def)
qed

definition idle_app :: "('e, 'p) app" where
  "idle_app = \<lparr>ev_ControlRequest = Some, ev_ConfigurationChanged = Some, cb_GetDescriptor = \<lambda>_ _. (0, \<lambda>_. 0)\<rparr>"

theorem SetConfiguration_correct_witness:
  "\<exists>s'. USB_Device_SetConfiguration (host_hw 0) idle_app
     (usb_request \<lparr>gregs = (\<lambda>_. 0)(UDADDR := 0x85), eregs = \<lambda>_ _. 0, \<dots> = ([], [], 2)\<rparr>
        \<lparr>bmRequestType = 0, bRequest = 9, wValue = 0, wIndex = 0, wLength = 0\<rparr>) = Some s' \<and>
     USB_Device_ConfigurationNumber s' = 0 \<and> USB_DeviceState s' = DEVICE_STATE_Configured"
  using SetConfiguration_correct [OF host_hw_in_acked [of 0],
      of "usb_request \<lparr>gregs = (\<lambda>_. 0)(UDADDR := 0x85), eregs = \<lambda>_ _. 0, \<dots> = ([], [], 2)\<rparr>
        \<lparr>bmRequestType = 0, bRequest = 9, wValue = 0, wIndex = 0, wLength = 0\<rparr>" 0 idle_app]
  by (auto simp: usb_request_def device_states vars_def idle_app_def bits)

section \<open>The USB task\<close>

text \<open>
  The USB task works on the control endpoint but leaves the endpoint selected that was selected
  before, whatever the request and the application do, provided that the selection register
  is a plain memory cell.
\<close>

theorem USBTask_restores_endpoint:
  assumes "plain H (G UENUM)" and "USB_USBTask H A s = Some s'"
  shows "gregs (ctl s') UENUM AND ENDPOINT_EPNUM_MASK = gregs (ctl s) UENUM AND ENDPOINT_EPNUM_MASK"
proof -
  have "((n AND ENDPOINT_EPNUM_MASK) OR (if b then ENDPOINT_DIR_IN else ENDPOINT_DIR_OUT)) AND ENDPOINT_EPNUM_MASK =
      n AND ENDPOINT_EPNUM_MASK" for n :: u8 and b
    by (simp add: ep_consts bit.conj_disj_distrib2 and.assoc)
  with assms show ?thesis
    by (auto simp: USB_USBTask_def USB_DeviceTask_def Endpoint_GetCurrentEndpoint_def Endpoint_SelectEndpoint_def
        Endpoint_GetEndpointDirection_def plain_access bind_eq_Some_conv pair_simps and.assoc split: if_splits)
qed

theorem USBTask_restores_endpoint_witness:
  "\<exists>s'. USB_USBTask memory_hw idle_app (usb_request \<lparr>gregs = (\<lambda>_. 0)(UENUM := 3), eregs = \<lambda>_ _. 0\<rparr>
        \<lparr>bmRequestType = 0, bRequest = 9, wValue = 0, wIndex = 0, wLength = 0\<rparr>) = Some s' \<and>
     gregs (ctl s') UENUM AND ENDPOINT_EPNUM_MASK = 3"
proof -
  let ?s = "usb_request \<lparr>gregs = (\<lambda>_. 0)(UENUM := 3), eregs = \<lambda>_ _. 0\<rparr>
        \<lparr>bmRequestType = 0, bRequest = 9, wValue = 0, wIndex = 0, wLength = 0\<rparr>"
  obtain s' where "USB_USBTask memory_hw idle_app ?s = Some s'"
    by (simp add: USB_USBTask_def USB_DeviceTask_def usb_request_def device_states Endpoint_GetCurrentEndpoint_def
        Endpoint_SelectEndpoint_def Endpoint_GetEndpointDirection_def Endpoint_IsSETUPReceived_def erd_bit_def plain_access bits)
  then show ?thesis using USBTask_restores_endpoint [of memory_hw idle_app ?s s']
    by (simp add: usb_request_def ENDPOINT_EPNUM_MASK_def)
qed

end
