(* ===== verification/Firmware_Requests.thy ===== *)
theory Firmware_Requests
  imports Request_Spec Command_Channel
begin

text \<open>
  The control requests of the firmware as a whole: the library's request handler with the
  application's descriptors, events and HID requests plugged in.
\<close>

section \<open>Refused requests\<close>


lemma class_request_values:
  "REQDIR_DEVICETOHOST OR REQTYPE_CLASS OR REQREC_INTERFACE = 0xA1"
  "REQDIR_HOSTTODEVICE OR REQTYPE_CLASS OR REQREC_INTERFACE = 0x21"
  by (simp_all add: request_types bv_eval)






section \<open>Descriptors\<close>

lemma mem_of_prefix:
  assumes "k \<le> length bs" "length bs < 2 ^ 16"
  shows "map (\<lambda>i. mem_of bs (of_nat i)) [0..<k] = take k bs"
proof (rule nth_equalityI)
  fix i assume "i < length (map (\<lambda>i. mem_of bs (of_nat i)) [0..<k])"
  with assms show "map (\<lambda>i. mem_of bs (of_nat i)) [0..<k] ! i = take k bs ! i"
    by (simp add: mem_of_def unsigned_of_nat take_bit_nat_eq_self)
qed (use assms in simp)

lemma length_JoystickReport: "length JoystickReport = 86"
  by (simp add: JoystickReport_def hid_item_defs HID_RI_ENTRY_def HID_RI_ENCODE_def HID_RI_DATA_BITS_def le16_def le32_def)

lemma length_descriptors:
  "length (bytes_Device d) = 18" "length (bytes_Configuration c) = 41"
  "length (bytes_String LanguageString) = 4" "length (bytes_String ManufacturerString) = 30"
  "length (bytes_String ProductString) = 38"
  by (simp_all add: bytes_defs LanguageString_def ManufacturerString_def ProductString_def USB_STRING_DESCRIPTOR_def wide_def)

lemma descriptor_in_flash:
  assumes "CALLBACK_USB_GetDescriptor wVal wIdx = (Some ob, n)"
  shows "0 < n" "unat n \<le> length (flash_bytes ob)" "length (flash_bytes ob) < 2 ^ 16"
proof -
  have first: "bytes_String LanguageString ! 0 = 4" "bytes_String ManufacturerString ! 0 = 28"
    "bytes_String ProductString ! 0 = 36"
    by (simp_all add: bytes_defs LanguageString_def ManufacturerString_def ProductString_def
        USB_STRING_DESCRIPTOR_def wide_def sizeof_Header_def)
  from assms show "0 < n" "unat n \<le> length (flash_bytes ob)" "length (flash_bytes ob) < 2 ^ 16"
    by (auto simp: CALLBACK_USB_GetDescriptor_def Let_def length_JoystickReport length_descriptors first
        sizeof_defs split: if_splits)
qed

lemma no_internal_serial: "CALLBACK_USB_GetDescriptor 0x3DC wIdx = (None, 0)"
  by (simp add: CALLBACK_USB_GetDescriptor_def dtypes joystick_consts NO_DESCRIPTOR_def)

text \<open>The reply to a request of the device-to-host kind, after the SETUP packet has been acknowledged.\<close>

lemma control_reply:
  assumes "in_stage H W P bank sent left" "W = unat (wLength (USB_ControlRequest s))"
    and "P (ctl (Endpoint_ClearSETUP H s))" "bank (ctl (Endpoint_ClearSETUP H s)) = []"
      "sent (ctl (Endpoint_ClearSETUP H s)) = []"
    and "USB_DeviceState s \<noteq> DEVICE_STATE_Unattached" "USB_DeviceState s \<noteq> DEVICE_STATE_Suspended"
    and len: "unat n \<le> length bs" "length bs < 2 ^ 16"
  obtains t where "Endpoint_Write_Control_Stream_LE H (mem_of bs) n (Endpoint_ClearSETUP H s) =
      Some (ENDPOINT_RWCSTREAM_NoError, t)" "vars t = vars s" "concat (sent (ctl t)) = take (min (unat n) W) bs"
    "packets_ok (sent (ctl t))" "host_done W (sent (ctl t))"
proof -
  let ?s = "Endpoint_ClearSETUP H s"
  have v: "vars ?s = vars s" by (simp add: Endpoint_ClearSETUP_def)
  then have eq: "USB_ControlRequest ?s = USB_ControlRequest s" "USB_DeviceState ?s = USB_DeviceState s"
    by (simp_all add: vars_def)
  from Template_Control_W_delivers [where s = ?s and move = move_LE and ptr = of_nat and offset = offset_LE
      and Length = n and buf = "mem_of bs", OF assms(1) _ _ _ refl assms(3-5)] assms(2,6,7) eq
  obtain t where t: "Endpoint_Write_Control_Stream_LE H (mem_of bs) n ?s = Some (ENDPOINT_RWCSTREAM_NoError, t)"
      "stage_post P sent W (min (unat n) W) of_nat (mem_of bs) ?s t"
    by (auto simp: Endpoint_Write_Control_Stream_LE_def move_LE_def offset_LE_def add.commute)
  then show thesis using v len that by (auto simp: stage_post_def mem_of_prefix)
qed

text \<open>
  C6: a request for a descriptor that the firmware has reaches the host completely.  To a host that
  behaves as USB prescribes, the device sends exactly the first \<open>min n wLength\<close> bytes of the
  descriptor in flash, \<open>n\<close> being the size that the callback reports; it never reads
  behind the object, sends well-formed packets, and returns with the variables unchanged.
\<close>

theorem GetDescriptor_delivers:
  assumes "CALLBACK_USB_GetDescriptor (wValue (USB_ControlRequest s)) (wIndex (USB_ControlRequest s)) = (Some ob, n)"
    and "in_stage H W P bank sent left" "W = unat (wLength (USB_ControlRequest s))"
    and "P (ctl (Endpoint_ClearSETUP H s))" "bank (ctl (Endpoint_ClearSETUP H s)) = []"
      "sent (ctl (Endpoint_ClearSETUP H s)) = []"
    and "USB_DeviceState s \<noteq> DEVICE_STATE_Unattached" "USB_DeviceState s \<noteq> DEVICE_STATE_Suspended"
  shows "\<exists>t. USB_Device_GetDescriptor H (joystick_app H) s = Some (Endpoint_ClearOUT H t) \<and> vars t = vars s \<and>
    concat (sent (ctl t)) = take (min (unat n) W) (flash_bytes ob) \<and>
    packets_ok (sent (ctl t)) \<and> host_done W (sent (ctl t))"
proof -
  have "wValue (USB_ControlRequest s) \<noteq> 0x3DC" using assms(1) no_internal_serial by auto
  moreover obtain t where "Endpoint_Write_Control_Stream_LE H (mem_of (flash_bytes ob)) n (Endpoint_ClearSETUP H s) =
      Some (ENDPOINT_RWCSTREAM_NoError, t)" "vars t = vars s" "concat (sent (ctl t)) = take (min (unat n) W) (flash_bytes ob)"
    "packets_ok (sent (ctl t))" "host_done W (sent (ctl t))"
    using control_reply [OF assms(2-) descriptor_in_flash(2,3) [OF assms(1)]] by blast
  ultimately show ?thesis
    using descriptor_in_flash(1) [OF assms(1)] assms(1)
    by (auto simp: USB_Device_GetDescriptor_def request_type_values joystick_app_def NO_DESCRIPTOR_def
        Endpoint_Write_Control_PStream_LE_def Endpoint_Write_Control_Stream_LE_def intro!: exI [of _ t])
qed

theorem GetDescriptor_delivers_witness:
  "\<exists>t. USB_Device_GetDescriptor (host_hw 8) (joystick_app (host_hw 8))
     ((firmware_with \<lparr>gregs = \<lambda>_. 0, eregs = \<lambda>_ r. 0xFF, \<dots> = ([], [], 0)\<rparr> zero_vp)
        \<lparr>USB_DeviceState := DEVICE_STATE_Addressed, USB_ControlRequest :=
           \<lparr>bmRequestType = 0x80, bRequest = 6, wValue = 0x100, wIndex = 0, wLength = 8\<rparr>\<rparr>) =
     Some (Endpoint_ClearOUT (host_hw 8) t) \<and>
   concat (fst (snd (ctl.more (ctl t)))) = [18, 1, 0, 2, 0, 0, 0, 64]"
proof -
  let ?s = "(firmware_with \<lparr>gregs = \<lambda>_. 0, eregs = \<lambda>_ r. 0xFF, \<dots> = ([], [], 0)\<rparr> zero_vp)
        \<lparr>USB_DeviceState := DEVICE_STATE_Addressed, USB_ControlRequest :=
           \<lparr>bmRequestType = 0x80, bRequest = 6, wValue = 0x100, wIndex = 0, wLength = 8\<rparr>\<rparr>"
  have "CALLBACK_USB_GetDescriptor 0x100 0 = (Some DeviceDescriptor_obj, 18)"
    by (simp add: CALLBACK_USB_GetDescriptor_def dtypes sizeof_defs)
  moreover have "fst (ctl.more (ctl (Endpoint_ClearSETUP (host_hw 8) ?s))) = []"
    "fst (snd (ctl.more (ctl (Endpoint_ClearSETUP (host_hw 8) ?s)))) = []"
    by (simp_all add: Endpoint_ClearSETUP_def ermw_def erd_def ewr_def host_hw_def firmware_with_def host_done_def bits bit_or_iff)
  ultimately show ?thesis
    using GetDescriptor_delivers [OF _ host_hw_in_stage [of 8], of ?s DeviceDescriptor_obj 18]
    by (auto simp: firmware_with_def device_states DeviceDescriptor_def bytes_defs sizeof_defs c_defs le16_def VERSION_BCD_def)
qed

section \<open>The HID report on the control endpoint\<close>

text \<open>
  C20: the HID request \<open>GetReport\<close> reads the current state of the virtual controller: to a host that
  behaves as USB prescribes the device sends the first \<open>wLength\<close> of the eight bytes of the
  structure (button word in little-endian order, direction pad, four stick axes, vendor byte).
\<close>

theorem GetReport_delivers:
  assumes "bRequest (USB_ControlRequest s) = HID_REQ_GetReport" "bmRequestType (USB_ControlRequest s) = 0xA1"
    and "in_stage H W P bank sent left" "W = unat (wLength (USB_ControlRequest s))"
    and "P (ctl (Endpoint_ClearSETUP H s))" "bank (ctl (Endpoint_ClearSETUP H s)) = []"
      "sent (ctl (Endpoint_ClearSETUP H s)) = []"
    and "USB_DeviceState s \<noteq> DEVICE_STATE_Unattached" "USB_DeviceState s \<noteq> DEVICE_STATE_Suspended"
  shows "\<exists>t. EVENT_USB_Device_ControlRequest H s = Some (Endpoint_ClearOUT H t) \<and> vars t = vars s \<and>
    concat (sent (ctl t)) = take W (le16 (Button (virtual_controller s)) @ [HAT (virtual_controller s),
      LX (virtual_controller s), LY (virtual_controller s), RX (virtual_controller s), RY (virtual_controller s),
      VendorSpec (virtual_controller s)]) \<and> host_done W (sent (ctl t))"
proof -
  obtain t where "Endpoint_Write_Control_Stream_LE H (mem_of (bytes_Virtual_Controller (virtual_controller s))) 8
      (Endpoint_ClearSETUP H s) = Some (ENDPOINT_RWCSTREAM_NoError, t)" "vars t = vars s"
      "concat (sent (ctl t)) = take (min 8 W) (bytes_Virtual_Controller (virtual_controller s))" "host_done W (sent (ctl t))"
    using control_reply [OF assms(3-), of 8 "bytes_Virtual_Controller (virtual_controller s)"]
    by (auto simp: bytes_Virtual_Controller_def)
  then show ?thesis using assms(1,2)
    by (auto simp: EVENT_USB_Device_ControlRequest_def class_request_values sizeof_JoystickReport_Input_def
        bytes_Virtual_Controller_def min_def intro!: exI [of _ t])
qed

theorem GetReport_delivers_witness:
  "\<exists>t. EVENT_USB_Device_ControlRequest (host_hw 4)
     ((firmware_with \<lparr>gregs = \<lambda>_. 0, eregs = \<lambda>_ r. 0xFF, \<dots> = ([], [], 0)\<rparr> (zero_vp\<lparr>Button := 0x204, HAT := 8\<rparr>))
        \<lparr>USB_DeviceState := DEVICE_STATE_Configured, USB_ControlRequest :=
           \<lparr>bmRequestType = 0xA1, bRequest = 1, wValue = 0x100, wIndex = 0, wLength = 4\<rparr>\<rparr>) =
     Some (Endpoint_ClearOUT (host_hw 4) t) \<and> concat (fst (snd (ctl.more (ctl t)))) = [4, 2, 8, 0]"
proof -
  let ?s = "(firmware_with \<lparr>gregs = \<lambda>_. 0, eregs = \<lambda>_ r. 0xFF, \<dots> = ([], [], 0)\<rparr> (zero_vp\<lparr>Button := 0x204, HAT := 8\<rparr>))
        \<lparr>USB_DeviceState := DEVICE_STATE_Configured, USB_ControlRequest :=
           \<lparr>bmRequestType = 0xA1, bRequest = 1, wValue = 0x100, wIndex = 0, wLength = 4\<rparr>\<rparr>"
  have "fst (ctl.more (ctl (Endpoint_ClearSETUP (host_hw 4) ?s))) = []"
    "fst (snd (ctl.more (ctl (Endpoint_ClearSETUP (host_hw 4) ?s)))) = []"
    by (simp_all add: Endpoint_ClearSETUP_def ermw_def erd_def ewr_def host_hw_def firmware_with_def host_done_def bits bit_or_iff)
  then show ?thesis
    using GetReport_delivers [OF _ _ host_hw_in_stage [of 4], of ?s]
    by (auto simp: firmware_with_def device_states hid_req_defs le16_def zero_vp_def)
qed

section \<open>Selecting the configuration\<close>

text \<open>
  C23: when the host selects or deselects the configuration, the event handler returns and has configured and enabled the
  two interrupt endpoints that the configuration descriptor announces, with the sizes and directions announced there, and the
  controller reports them as configured; the variables are unchanged.  This is on a controller whose configuration registers
  behave as documented and which can give endpoints 1 and 2 one bank of 64 bytes each (\<open>0x32\<close> in \<open>UECFG1X\<close>) and the
  endpoints behind them the banks that they already have.
\<close>

theorem ConfigurationChanged_endpoints:
  assumes "alloc_config H fits" "fits 1 0x32" "fits 2 0x32"
    and "\<forall>k < ENDPOINT_TOTAL_ENDPOINTS. 2 < k \<longrightarrow> tst (eregs (ctl s) k UECFG1X) ALLOC \<longrightarrow> fits k (eregs (ctl s) k UECFG1X)"
  shows "\<exists>s'. EVENT_USB_Device_ConfigurationChanged H s = Some s' \<and> vars s' = vars s \<and>
    (\<forall>d \<in> {HID_ReportOUTEndpoint ConfigurationDescriptor, HID_ReportINEndpoint ConfigurationDescriptor}.
       let r = eregs (ctl s') (EndpointAddress d AND ENDPOINT_EPNUM_MASK) in
       r UECFG0X = (push_bit EPTYPE0 (Attributes d) OR (if EndpointAddress d AND ENDPOINT_DIR_IN \<noteq> 0 then bv EPDIR else 0)) \<and>
       Some (r UECFG1X AND NOT (bv ALLOC)) = Endpoint_BytesToEPSizeMask (EndpointSize d) \<and>
       tst (r UECFG1X) ALLOC \<and> tst (r UECONX) EPEN \<and> tst (r UESTA0X) CFGOK)"
proof -
  note conf = ConfigureEndpoint_alloc [OF assms(1), where Size = 64 and m = "0x30" and Type = 3 and Banks = 1]
  obtain s1 where s1: "Endpoint_ConfigureEndpoint H 2 3 64 1 s = Some (True, s1)" "vars s1 = vars s"
      "\<forall>k < 7. reconf_ep 2 0xC0 0x32 2 k (eregs (ctl s) k) (eregs (ctl s1) k)"
    using conf [where Address = 2 and s = s] assms(3,4) by (auto simp: ep_consts bv_eval accepted_def)
  have e1: "eregs (ctl s1) 2 UECFG0X = 0xC0" "eregs (ctl s1) 2 UECFG1X = 0x32"
    using s1(3) [rule_format, of 2] by (simp_all add: reconf_ep_def)
  have "accepted fits 1 0x32 k (eregs (ctl s1) k)" if "k < 7" "1 \<le> k" for k
  proof -
    have "k = 1 \<or> k = 2 \<or> 2 < k" using that(2) by (auto simp: word_le_nat_alt word_less_nat_alt word_unat_eq_iff)
    moreover have "eregs (ctl s1) k UECFG1X = eregs (ctl s) k UECFG1X" if "2 < k"
      using reconf_ep_other [OF s1(3) [rule_format, OF \<open>k < 7\<close>]] that by auto
    ultimately show ?thesis using assms(2-4) e1 \<open>k < 7\<close> by (auto simp: accepted_def ep_consts)
  qed
  then obtain s2 where s2: "Endpoint_ConfigureEndpoint H 0x81 3 64 1 s1 = Some (True, s2)" "vars s2 = vars s1"
      "\<forall>k < 7. reconf_ep 1 0xC1 0x32 1 k (eregs (ctl s1) k) (eregs (ctl s2) k)"
    using conf [where Address = "0x81" and s = s1] by (auto simp: ep_consts bv_eval)
  have e2: "eregs (ctl s2) 2 UECFG0X = 0xC0" "eregs (ctl s2) 2 UECFG1X = 0x32" "tst (eregs (ctl s2) 2 UECONX) EPEN"
    "eregs (ctl s2) 1 UECFG0X = 0xC1" "eregs (ctl s2) 1 UECFG1X = 0x32" "tst (eregs (ctl s2) 1 UECONX) EPEN"
    "tst (eregs (ctl s2) 2 UESTA0X) CFGOK" "tst (eregs (ctl s2) 1 UESTA0X) CFGOK"
    using s2(3) [rule_format, of 2] s2(3) [rule_format, of 1] e1 by (simp_all add: reconf_ep_def bits)
  have "EVENT_USB_Device_ConfigurationChanged H s = Some s2"
    using s1 s2 by (simp add: EVENT_USB_Device_ConfigurationChanged_def joystick_consts ep_consts)
  with s1(2) s2(2) e2 show ?thesis
    by (simp add: ConfigurationDescriptor_def joystick_consts ep_consts bv_eval tst_def)
qed

theorem ConfigurationChanged_endpoints_witness:
  "\<exists>s'. EVENT_USB_Device_ConfigurationChanged (alloc_hw atmega32u4_fits)
      (firmware_with \<lparr>gregs = \<lambda>_. 0, eregs = \<lambda>_ _. 0\<rparr> zero_vp) = Some s' \<and>
    eregs (ctl s') 1 UECFG0X = 0xC1 \<and> eregs (ctl s') 2 UECFG0X = 0xC0"
  using ConfigurationChanged_endpoints [OF alloc_hw_config, of atmega32u4_fits
      "firmware_with \<lparr>gregs = \<lambda>_. 0, eregs = \<lambda>_ _. 0\<rparr> zero_vp"]
  by (auto simp: firmware_with_def bits ConfigurationDescriptor_def joystick_consts ep_consts bv_eval Let_def atmega32u4_fits_def)

end
