(* ===== verification/Report_Spec.thy ===== *)
theory Report_Spec
  imports Firmware_Requests
begin

text \<open>
  The report that the HID task sends on the interrupt endpoint, and a frame lemma for the
  command loop.
\<close>

section \<open>The report on the interrupt endpoint\<close>

text \<open>
  \<open>report_pipe H bank sent\<close>: the joystick's IN endpoint has a free bank, whose contents are
  \<open>bank\<close>; clearing \<open>TXINI\<close> hands it to the host (\<open>sent\<close>).  Nothing has arrived on the
  OUT endpoint and no interrupt is requested.  Reading flags, configuration and frame number
  changes neither the selection nor the banks.
\<close>

definition report_pipe :: "'e hw \<Rightarrow> ('e ctl_scheme \<Rightarrow> u8 list) \<Rightarrow> ('e ctl_scheme \<Rightarrow> u8 list list) \<Rightarrow> bool" where
  "report_pipe H bank sent \<longleftrightarrow> plain H (G UENUM) \<and> (\<forall>c. \<not> irq H c) \<and>
     (\<forall>c g e. bank (c\<lparr>gregs := g\<rparr>) = bank c \<and> sent (c\<lparr>gregs := g\<rparr>) = sent c \<and>
        bank (c\<lparr>eregs := e\<rparr>) = bank c \<and> sent (c\<lparr>eregs := e\<rparr>) = sent c) \<and>
     (\<forall>p \<in> {E UEINTX, E UECFG0X, G UDFNUML, G UDFNUMH}. \<forall>c.
        bank (pre_rd H p c) = bank c \<and> sent (pre_rd H p c) = sent c \<and> gregs (pre_rd H p c) UENUM = gregs c UENUM) \<and>
     (\<forall>c. gregs c UENUM = 1 \<longrightarrow> tst (eregs (pre_rd H (E UECFG0X) c) 1 UECFG0X) EPDIR) \<and>
     (\<forall>c. gregs c UENUM = 2 \<longrightarrow> \<not> tst (eregs (pre_rd H (E UEINTX) c) 2 UEINTX) RXOUTI) \<and>
     (\<forall>c. gregs c UENUM = 1 \<longrightarrow> (let v = eregs (pre_rd H (E UEINTX) c) 1 UEINTX in
        tst v TXINI \<and> (tst v RWAL \<longleftrightarrow> length (bank c) < 64))) \<and>
     (\<forall>c. gregs c UENUM = 1 \<longrightarrow> (let c' = post_wr H (E UEDATX) c in
        gregs c' UENUM = 1 \<and> bank c' = bank c @ [eregs c 1 UEDATX] \<and> sent c' = sent c)) \<and>
     (\<forall>c. gregs c UENUM = 1 \<and> \<not> tst (eregs c 1 UEINTX) TXINI \<longrightarrow> (let c' = post_wr H (E UEINTX) c in
        gregs c' UENUM = 1 \<and> bank c' = [] \<and> sent c' = sent c @ [bank c]))"

lemma report_irq: "report_pipe H bank sent \<Longrightarrow> irq_poll H s = Some s"
  by (simp add: report_pipe_def irq_poll_def)

lemma report_select:
  assumes "report_pipe H bank sent"
  shows "gregs (ctl (Endpoint_SelectEndpoint H a s)) UENUM = a AND ENDPOINT_EPNUM_MASK"
    "bank (ctl (Endpoint_SelectEndpoint H a s)) = bank (ctl s)" "sent (ctl (Endpoint_SelectEndpoint H a s)) = sent (ctl s)"
    "vars (Endpoint_SelectEndpoint H a s) = vars s"
  using assms by (simp_all add: report_pipe_def Endpoint_SelectEndpoint_def plain_access vars_def)

definition at_IN :: "('e ctl_scheme \<Rightarrow> u8 list) \<Rightarrow> ('e ctl_scheme \<Rightarrow> u8 list list) \<Rightarrow> u8 list \<Rightarrow> u8 list list \<Rightarrow>
    ('e, 'p) usb_scheme \<Rightarrow> ('e, 'p) usb_scheme \<Rightarrow> bool" where
  "at_IN bank sent b ps t s \<longleftrightarrow> gregs (ctl s) UENUM = 1 \<and> bank (ctl s) = b \<and> sent (ctl s) = ps \<and> vars s = vars t"

lemma report_reads:
  assumes H: "report_pipe H bank sent" and s: "at_IN bank sent b ps t s"
  shows "\<exists>s'. Endpoint_IsINReady H s = (True, s') \<and> at_IN bank sent b ps t s'"
    "\<exists>s'. Endpoint_IsReadWriteAllowed H s = (length b < 64, s') \<and> at_IN bank sent b ps t s'"
    "\<exists>s'. Endpoint_GetEndpointDirection H s = (ENDPOINT_DIR_IN, s') \<and> at_IN bank sent b ps t s'"
    "\<exists>n s'. USB_Device_GetFrameNumber H s = (n, s') \<and> at_IN bank sent b ps t s'"
    "at_IN bank sent (b @ [v]) ps t (Endpoint_Write_8 H v s)"
    "at_IN bank sent [] (ps @ [b]) t (Endpoint_ClearIN H s)"
  using assms
  by (auto simp: report_pipe_def at_IN_def Endpoint_IsINReady_def Endpoint_IsReadWriteAllowed_def
      Endpoint_GetEndpointDirection_def USB_Device_GetFrameNumber_def Endpoint_Write_8_def Endpoint_ClearIN_def
      erd_bit_def erd_def ewr_def rd_def ermw_def Let_def vars_def bits bit_and_iff bit_not_iff)

lemma report_wait:
  assumes H: "report_pipe H bank sent" and s: "at_IN bank sent b ps t s"
  shows "\<exists>s'. Endpoint_WaitUntilReady H s = Some (ENDPOINT_READYWAIT_NoError, s') \<and> at_IN bank sent b ps t s'"
proof -
  obtain n s1 where s1: "USB_Device_GetFrameNumber H s = (n, s1)" "at_IN bank sent b ps t s1" using report_reads(4) [OF H s] by blast
  obtain s2 where s2: "Endpoint_GetEndpointDirection H s1 = (ENDPOINT_DIR_IN, s2)" "at_IN bank sent b ps t s2"
    using report_reads(3) [OF H s1(2)] by blast
  obtain s3 where s3: "Endpoint_IsINReady H s2 = (True, s3)" "at_IN bank sent b ps t s3"
    using report_reads(1) [OF H s2(2)] by blast
  have "WaitUntilReady_body H (USB_STREAM_TIMEOUT_MS, n, s1) = leave (ENDPOINT_READYWAIT_NoError, s3)"
    by (simp add: WaitUntilReady_body_def report_irq [OF H] s2 s3)
  with s1 s3 show ?thesis by (simp add: Endpoint_WaitUntilReady_def loop_leave)
qed

text \<open>Writing what is left of a report that fits into the bank.\<close>

lemma report_write_loop:
  assumes H: "report_pipe H bank sent" and "at_IN bank sent b ps t s" "length b + n \<le> 64"
  shows "\<exists>s'. loop (RW_body H A clr move_LE (xfer_write H) None) (of_nat n, of_nat k, j, buf, s) =
      Some (ENDPOINT_RWSTREAM_NoError, None, buf, s') \<and>
    at_IN bank sent (b @ map (\<lambda>i. buf (of_nat i)) [k..<k + n]) ps t s'"
  using assms(2,3)
proof (induction n arbitrary: b k j s)
  case 0
  then show ?case by (auto simp: RW_body_def intro!: exI [of _ s] loop_leave)
next
  case (Suc n)
  have "unat (of_nat (Suc n) :: u16) = Suc n" using Suc.prems(2) by (intro unat_of_nat_small) simp
  then have n: "of_nat (Suc n) \<noteq> (0 :: u16)" by (metis unat_0 nat.distinct(1))
  obtain s1 where s1: "Endpoint_IsReadWriteAllowed H s = (length b < 64, s1)" "at_IN bank sent b ps t s1"
    using report_reads(2) [OF H Suc.prems(1)] by blast
  let ?s = "Endpoint_Write_8 H (buf (of_nat k)) s1"
  have "at_IN bank sent (b @ [buf (of_nat k)]) ps t ?s" by (rule report_reads(5) [OF H s1(2)])
  moreover have "RW_body H A clr move_LE (xfer_write H) None (of_nat (Suc n), of_nat k, j, buf, s) =
      continue (of_nat n, of_nat (Suc k), j + 1, buf, ?s)"
    using n s1 Suc.prems(2) by (simp add: RW_body_def xfer_write_def move_LE_def add.commute)
  ultimately show ?case
    using Suc.IH [of "b @ [buf (of_nat k)]" ?s "Suc k" "j + 1"] Suc.prems(2)
    by (auto simp: loop_continue upt_conv_Cons simp del: upt_Suc of_nat_Suc)
qed

lemma report_write:
  assumes H: "report_pipe H bank sent" and s: "at_IN bank sent [] ps t s" and "length bs \<le> 64"
  shows "\<exists>s'. Endpoint_Write_Stream_LE H A (mem_of bs) (of_nat (length bs)) None s =
      Some (ENDPOINT_RWSTREAM_NoError, None, mem_of bs, s') \<and> at_IN bank sent bs ps t s'"
proof -
  obtain s1 where s1: "Endpoint_WaitUntilReady H s = Some (ENDPOINT_READYWAIT_NoError, s1)" "at_IN bank sent [] ps t s1"
    using report_wait [OF H s] by blast
  from report_write_loop [OF H s1(2), of "length bs" A "Endpoint_ClearIN H" 0 0 "mem_of bs"] assms(3) s1 show ?thesis
    by (auto simp: Endpoint_Write_Stream_LE_def Template_Endpoint_RW_def offset_LE_def ENDPOINT_READYWAIT_NoError_def
        mem_of_prefix [of "length bs" bs])
qed

lemma report_task:
  assumes "report_pipe H bank sent" "bank (ctl s) = []" "USB_DeviceState s = DEVICE_STATE_Configured"
  shows "\<exists>s'. HID_Task H s = Some s' \<and> vars s' = vars s \<and> bank (ctl s') = [] \<and>
    sent (ctl s') = sent (ctl s) @ [bytes_Virtual_Controller (virtual_controller s)]"
proof -
  let ?s1 = "Endpoint_SelectEndpoint H JOYSTICK_OUT_EPADDR s"
  note s1 = report_select [OF assms(1), of JOYSTICK_OUT_EPADDR s]
  obtain s2 where s2: "Endpoint_IsOUTReceived H ?s1 = (False, s2)" "bank (ctl s2) = []" "sent (ctl s2) = sent (ctl s)" "vars s2 = vars s"
    using assms(1,2) s1 by (auto simp: report_pipe_def Endpoint_IsOUTReceived_def erd_bit_def erd_def Let_def vars_def joystick_consts ep_consts)
  let ?s3 = "Endpoint_SelectEndpoint H JOYSTICK_IN_EPADDR s2"
  have "at_IN bank sent [] (sent (ctl s)) s ?s3"
    using s2 report_select [OF assms(1), of JOYSTICK_IN_EPADDR s2] by (simp add: at_IN_def joystick_consts ep_consts)
  then obtain s4 where s4: "Endpoint_IsINReady H ?s3 = (True, s4)" "at_IN bank sent [] (sent (ctl s)) s s4"
    using report_reads(1) [OF assms(1)] by blast
  then have vc: "virtual_controller s4 = virtual_controller s" by (auto simp: at_IN_def dest: vars_firmware)
  have len: "length (bytes_Virtual_Controller vp) = 8" for vp by (simp add: bytes_Virtual_Controller_def)
  obtain s5 where s5: "Endpoint_Write_Stream_LE H (joystick_app H) (mem_of (bytes_Virtual_Controller (virtual_controller s))) 8 None s4 =
      Some (ENDPOINT_RWSTREAM_NoError, None, mem_of (bytes_Virtual_Controller (virtual_controller s)), s5)"
      "at_IN bank sent (bytes_Virtual_Controller (virtual_controller s)) (sent (ctl s)) s s5"
    using report_write [OF assms(1) s4(2), of "bytes_Virtual_Controller (virtual_controller s)" "joystick_app H"] by (auto simp: len)
  have "HID_Task H s = Some (Endpoint_ClearIN H s5)"
    using assms(3) s2 s4 s5 vc by (simp add: HID_Task_def sizeof_JoystickReport_Input_def)
  with report_reads(6) [OF assms(1) s5(2)] show ?thesis by (auto simp: at_IN_def)
qed

text \<open>
  When the device is configured, the console has collected the previous report and sends
  nothing itself, one call of \<open>HID_Task\<close> hands exactly one packet to the
  IN endpoint: the eight bytes of the virtual controller.  No variable changes.
\<close>

theorem HID_Task_sends_report:
  assumes "report_pipe H bank sent" "bank (ctl s) = []" "USB_DeviceState s = DEVICE_STATE_Configured"
  shows "\<exists>s'. HID_Task H s = Some s' \<and> vars s' = vars s \<and> bank (ctl s') = [] \<and>
    sent (ctl s') = sent (ctl s) @ [bytes_Virtual_Controller (virtual_controller s)]"
  by (rule report_task [OF assms])

text \<open>
  A console that collects every report, with a USART beside it; the hidden state is what the USART
  has received and sent, the bank and the reports.
\<close>

definition console_hw :: "(u8 list \<times> u8 list \<times> u8 list \<times> u8 list list) hw" where
  "console_hw =
     \<lparr>pre_rd = (\<lambda>p c. case ctl.more c of (r, t, b, ps) \<Rightarrow>
        let ep = gregs c UENUM;
            set_ep = (\<lambda>q v. c\<lparr>eregs := (eregs c)(ep := (eregs c ep)(q := v))\<rparr>) in
        if p = G UCSR1A
        then c\<lparr>gregs := (gregs c)(UCSR1A := (if r \<noteq> [] then bv RXC1 else 0) OR bv UDRE1)\<rparr>
        else if p = G UDR1 \<and> r \<noteq> []
        then c\<lparr>gregs := (gregs c)(UDR1 := hd r), ctl.more := (tl r, t, b, ps)\<rparr>
        else if p = E UECFG0X then set_ep UECFG0X (if ep = 1 then bv EPDIR else 0)
        else if p = E UEINTX
        then set_ep UEINTX (if ep = 1 then bv TXINI OR (if length b < 64 then bv RWAL else 0) else 0)
        else c),
      post_wr = (\<lambda>p c. case ctl.more c of (r, t, b, ps) \<Rightarrow>
        if p = G UDR1 then c\<lparr>ctl.more := (r, t @ [gregs c UDR1], b, ps)\<rparr>
        else if p = E UEDATX \<and> gregs c UENUM = 1 then c\<lparr>ctl.more := (r, t, b @ [eregs c 1 UEDATX], ps)\<rparr>
        else if p = E UEINTX \<and> gregs c UENUM = 1 \<and> \<not> tst (eregs c 1 UEINTX) TXINI
        then c\<lparr>ctl.more := (r, t, [], ps @ [b])\<rparr>
        else c),
      irq = (\<lambda>_. False), boot_signature_byte_get = (\<lambda>_. 0), wdt_disable = id, clock_prescale_set = (\<lambda>_. id)\<rparr>"

abbreviation (input) "console_bank \<equiv> \<lambda>c. fst (snd (snd (ctl.more c)))"
abbreviation (input) "console_sent \<equiv> \<lambda>c. snd (snd (snd (ctl.more c)))"

lemma console_hw_report_pipe: "report_pipe console_hw console_bank console_sent"
  by (simp add: report_pipe_def plain_def console_hw_def Let_def case_prod_beta' bits bit_or_iff fun_eq_iff)

lemma console_hw_usart: "usart console_hw (\<lambda>c. fst (ctl.more c)) (\<lambda>c. fst (snd (ctl.more c))) (\<lambda>_. 0)"
  by (simp add: usart_def console_hw_def Let_def case_prod_beta' bits bit_or_iff)

lemma console_hw_serial:
  "p \<in> {G UCSR1A, G UDR1} \<Longrightarrow> console_bank (pre_rd console_hw p c) = console_bank c \<and>
     console_sent (pre_rd console_hw p c) = console_sent c"
  "console_bank (post_wr console_hw (G UDR1) c) = console_bank c \<and>
     console_sent (post_wr console_hw (G UDR1) c) = console_sent c"
  by (auto simp: console_hw_def Let_def case_prod_beta')

theorem HID_Task_sends_report_witness:
  "\<exists>s'. HID_Task console_hw
      ((firmware_with \<lparr>gregs = \<lambda>_. 0, eregs = \<lambda>_ _. 0, \<dots> = ([], [], [], [])\<rparr> (zero_vp\<lparr>Button := 0x104, LX := 7\<rparr>))
        \<lparr>USB_DeviceState := DEVICE_STATE_Configured\<rparr>) = Some s' \<and>
    console_sent (ctl s') = [[4, 1, 0, 7, 0, 0, 0, 0]]"
  using HID_Task_sends_report [OF console_hw_report_pipe,
      of "(firmware_with \<lparr>gregs = \<lambda>_. 0, eregs = \<lambda>_ _. 0, \<dots> = ([], [], [], [])\<rparr> (zero_vp\<lparr>Button := 0x104, LX := 7\<rparr>))
        \<lparr>USB_DeviceState := DEVICE_STATE_Configured\<rparr>"]
  by (auto simp: firmware_with_def zero_vp_def bytes_Virtual_Controller_def le16_def)

section \<open>What the command loop leaves alone\<close>

text \<open>
  A property that survives the accesses to the two USART registers and every change of the
  controller survives \<open>receiveCommand\<close>.
\<close>

lemma receiveCommand_frame:
  assumes irq: "\<And>c. \<not> irq H c"
    and rd: "\<And>s r. r \<in> {UCSR1A, UDR1} \<Longrightarrow> J s \<Longrightarrow> J (snd (rd H r s))" and wr: "\<And>s v. J s \<Longrightarrow> J (wr H UDR1 v s)"
    and vp: "\<And>s v. J s \<Longrightarrow> J (s\<lparr>virtual_controller := v\<rparr>)" and "J s"
  shows "returns (receiveCommand H s) J"
proof -
  have bit: "J (snd (rd_bit H UCSR1A b t))" if "J t" for b t
    using rd [of UCSR1A t] that by (simp add: rd_bit_def pair_simps)
  have poll: "irq_poll H t = Some t" for t :: "'a firmware" by (simp add: irq_poll_def irq)
  have byte: "returns (Serial_SendByte H b t) J" if "J t" for b t
    using that by (auto simp: Serial_SendByte_def wait_irq_def poll Serial_IsSendReady_def pair_simps bit wr
        intro!: returns_bind [where Q = J] loop_inv [where I = J])
  have str: "returns (Serial_SendString H bs t) J" if "J t" for bs t
    using that by (induction bs arbitrary: t) (auto intro!: returns_bind [where Q = J] byte)
  have exec: "returns (executeCommand H c t) (\<lambda>r. J (snd r))" if "J t" for c t
    using that by (cases c rule: command_cases) (auto simp: executeCommand_negative executeCommand_ready
        executeCommand_unknown executeCommand_pad vp intro!: str)
  have rx: "J (snd (Serial_ReceiveByte H t))" if "J t" for t
    using bit [OF that] by (simp add: Serial_ReceiveByte_def Serial_IsCharReceived_def pair_simps rd)
  have "returns (loop (receive_body H) t) J" if "J t" for t
    using that by (auto simp: receive_body_def poll pair_simps rx
        intro!: loop_inv [where I = J] returns_bind [where Q = "\<lambda>r. J (snd r)"] exec)
  with bit [OF assms(5)] show ?thesis by (simp add: receiveCommand_def Serial_IsCharReceived_def pair_simps)
qed

end
