(* ===== verification/Byte_Order.thy ===== *)
theory Byte_Order
  imports PGCon_Prelude
begin

text \<open>
  Byte and bit order (\<open>Common/Endianness.h\<close>, \<open>BitReverse\<close> of \<open>Common/Common.h\<close>) for the
  little-endian build.  The compiler's question whether an argument is a compile-time constant
  is the Boolean argument of the inline functions: they have one path for each answer.
\<close>

section \<open>Swapping\<close>

definition SWAPENDIAN_16 :: "u16 \<Rightarrow> u16" where
  "SWAPENDIAN_16 x = drop_bit 8 (x AND 0xFF00) OR push_bit 8 (x AND 0x00FF)"

definition SWAPENDIAN_32 :: "u32 \<Rightarrow> u32" where
  "SWAPENDIAN_32 x =
     drop_bit 24 (x AND 0xFF000000) OR drop_bit 8 (x AND 0x00FF0000) OR
     push_bit 8 (x AND 0x0000FF00) OR push_bit 24 (x AND 0x000000FF)"

text \<open>The union of a word with its bytes: written as a word, changed and read as bytes.\<close>

definition SwapEndian_16 :: "bool \<Rightarrow> u16 \<Rightarrow> u16" where
  "SwapEndian_16 compile_const Word =
     (if compile_const then SWAPENDIAN_16 Word
      else (let Bytes = le16 Word;
                Temp = Bytes ! 0;
                Bytes = Bytes[0 := Bytes ! 1];
                Bytes = Bytes[1 := Temp]
            in u16_of (Bytes ! 0) (Bytes ! 1)))"

definition SwapEndian_32 :: "bool \<Rightarrow> u32 \<Rightarrow> u32" where
  "SwapEndian_32 compile_const DWord =
     (if compile_const then SWAPENDIAN_32 DWord
      else (let Bytes = le32 DWord;
                Temp = Bytes ! 0;
                Bytes = Bytes[0 := Bytes ! 3];
                Bytes = Bytes[3 := Temp];
                Temp = Bytes ! 1;
                Bytes = Bytes[1 := Bytes ! 2];
                Bytes = Bytes[2 := Temp]
            in u32_of (Bytes ! 0) (Bytes ! 1) (Bytes ! 2) (Bytes ! 3)))"

text \<open>\<open>SwapEndian_n\<close> works in place on the memory at and behind its pointer.\<close>

function SwapEndian_n :: "u16 \<Rightarrow> u8 \<Rightarrow> (u16 \<Rightarrow> u8) \<Rightarrow> u16 \<Rightarrow> u8" where
  "SwapEndian_n CurrDataPos Length m =
     (if Length > 1
      then (let Temp = m CurrDataPos;
                last = CurrDataPos + ucast Length - 1;
                m1 = m(CurrDataPos := m last);
                m2 = m1(last := Temp)
            in SwapEndian_n (CurrDataPos + 1) (Length - 2) m2)
      else m)"
  by pat_completeness auto
termination
proof (relation "measure (\<lambda>(p, Length, m). unat Length)", goal_cases)
  case (2 CurrDataPos Length m)
  then have "2 \<le> Length" by (simp add: word_le_nat_alt word_less_nat_alt)
  then have "unat (Length - 2) = unat Length - 2" by (simp add: unat_sub)
  with \<open>2 \<le> Length\<close> show ?case by (simp add: word_le_nat_alt)
qed simp

declare SwapEndian_n.simps [simp del]

definition BitReverse :: "u8 \<Rightarrow> u8" where
  "BitReverse Byte =
     (let Byte = drop_bit 4 (Byte AND 0xF0) OR push_bit 4 (Byte AND 0x0F);
          Byte = drop_bit 2 (Byte AND 0xCC) OR push_bit 2 (Byte AND 0x33);
          Byte = drop_bit 1 (Byte AND 0xAA) OR push_bit 1 (Byte AND 0x55)
      in Byte)"

section \<open>The 16- and 32-bit swaps\<close>

lemma swap16_bytes: "u16_of (ucast (drop_bit 8 w)) (ucast w) = SWAPENDIAN_16 w"
proof (rule bit_word_eqI)
  fix n assume "n < LENGTH(16)"
  then have "n \<in> {..<16}" by simp
  then show "bit (u16_of (ucast (drop_bit 8 w)) (ucast w)) n = bit (SWAPENDIAN_16 w) n"
    by (simp add: lessThan_nat_numeral lessThan_Suc, elim disjE)
      (simp_all add: u16_of_def SWAPENDIAN_16_def bit_simps)
qed

lemma swap32_bytes:
  "u32_of (ucast (drop_bit 24 w)) (ucast (drop_bit 16 w)) (ucast (drop_bit 8 w)) (ucast w) = SWAPENDIAN_32 w"
proof (rule bit_word_eqI)
  fix n assume "n < LENGTH(32)"
  then have "n \<in> {..<32}" by simp
  then show "bit (u32_of (ucast (drop_bit 24 w)) (ucast (drop_bit 16 w)) (ucast (drop_bit 8 w)) (ucast w)) n =
      bit (SWAPENDIAN_32 w) n"
    by (simp add: lessThan_nat_numeral lessThan_Suc, elim disjE)
      (simp_all add: u32_of_def SWAPENDIAN_32_def bit_simps)
qed

lemma le32_u32_of: "le32 (u32_of b0 b1 b2 b3) = [b0, b1, b2, b3]"
proof -
  have "n < 8 \<Longrightarrow> n \<in> {..<8}" for n :: nat by simp
  then have "ucast (u32_of b0 b1 b2 b3) = b0" "ucast (drop_bit 8 (u32_of b0 b1 b2 b3)) = b1"
    "ucast (drop_bit 16 (u32_of b0 b1 b2 b3)) = b2" "ucast (drop_bit 24 (u32_of b0 b1 b2 b3)) = b3"
    by (intro bit_word_eqI, simp add: u32_of_def bit_simps possible_bit_def, auto dest: bit_imp_le_length)+
  then show ?thesis by (simp add: le32_def)
qed

lemma SwapEndian_16_const: "SwapEndian_16 c w = SWAPENDIAN_16 w"
  by (simp add: SwapEndian_16_def le16_def swap16_bytes)

lemma SwapEndian_32_const: "SwapEndian_32 c w = SWAPENDIAN_32 w"
  by (simp add: SwapEndian_32_def le32_def swap32_bytes)

lemma le16_SWAPENDIAN: "le16 (SWAPENDIAN_16 w) = rev (le16 w)"
  by (simp add: swap16_bytes [symmetric] le16_u16_of) (simp add: le16_def)

lemma le32_SWAPENDIAN: "le32 (SWAPENDIAN_32 w) = rev (le32 w)"
  by (simp add: swap32_bytes [symmetric] le32_u32_of) (simp add: le32_def)

lemma le16_inject: assumes "le16 v = le16 w" shows "v = w"
proof -
  have "u16_of (le16 v ! 0) (le16 v ! 1) = u16_of (le16 w ! 0) (le16 w ! 1)" by (simp add: assms)
  then show ?thesis by (simp add: le16_def u16_of_le16)
qed

lemma le32_inject: assumes "le32 v = le32 w" shows "v = w"
proof -
  have "u32_of (le32 v ! 0) (le32 v ! 1) (le32 v ! 2) (le32 v ! 3) =
      u32_of (le32 w ! 0) (le32 w ! 1) (le32 w ! 2) (le32 w ! 3)" by (simp add: assms)
  then show ?thesis by (simp add: le32_def u32_of_le32)
qed

text \<open>
  Whichever path the compiler takes, swapping a 16- or 32-bit value reverses its bytes
  in memory, and swapping twice gives the value back.
\<close>

theorem SwapEndian_roundtrip:
  "le16 (SwapEndian_16 c v) = rev (le16 v) \<and> SwapEndian_16 d (SwapEndian_16 c v) = v \<and>
   le32 (SwapEndian_32 c w) = rev (le32 w) \<and> SwapEndian_32 d (SwapEndian_32 c w) = w"
  using le16_inject [of "SWAPENDIAN_16 (SWAPENDIAN_16 v)" v] le32_inject [of "SWAPENDIAN_32 (SWAPENDIAN_32 w)" w]
  by (simp add: SwapEndian_16_const SwapEndian_32_const le16_SWAPENDIAN le32_SWAPENDIAN)

section \<open>Reversing memory\<close>

lemma bl16: "LENGTH(16) = 16"
  by simp

lemma SwapEndian_n_at:
  "SwapEndian_n p Length m (p + of_nat i) =
     (if i < unat Length then m (p + of_nat (unat Length - 1 - i)) else m (p + of_nat i))"
  if "i < 2 ^ 16"
  using that
proof (induction p Length m arbitrary: i rule: SwapEndian_n.induct)
  case (1 p Length m)
  show ?case
  proof (cases "Length > 1")
    case False
    then have "unat Length \<le> 1" by (simp add: word_less_nat_alt)
    with False show ?thesis by (cases i) (simp_all add: SwapEndian_n.simps [of p Length])
  next
    case True
    define L where "L = unat Length"
    have L: "2 \<le> L" "L < 256" using True unsigned_less [of Length] by (auto simp: L_def word_less_nat_alt)
    have last: "p + ucast Length - 1 = p + of_nat (L - 1)"
    proof -
      have "ucast Length = (of_nat L :: u16)" by (simp add: L_def)
      then show ?thesis using L by (simp add: of_nat_diff)
    qed
    have L2: "unat (Length - 2) = L - 2"
      using L by (simp add: L_def unat_sub word_le_nat_alt)
    have inj: "p + of_nat j = p + of_nat k \<longleftrightarrow> j = k" if "j < 2 ^ 16" "k < 2 ^ 16" for j k
      using that unat_of_nat_small [where 'a = 16] by (metis add_left_cancel bl16)
    define m2 where "m2 = m(p := m (p + ucast Length - 1), p + ucast Length - 1 := m p)"
    have m2: "m2 (p + of_nat j) = (if j = 0 then m (p + of_nat (L - 1)) else if j = L - 1 then m p else m (p + of_nat j))"
      if "j < 2 ^ 16" for j
      using that L inj [of j 0] inj [of j "L - 1"] inj [of "L - 1" 0] unfolding m2_def last by (simp only: fun_upd_apply) auto
    have rec: "SwapEndian_n p Length m = SwapEndian_n (p + 1) (Length - 2) m2"
      using True by (subst SwapEndian_n.simps) (simp add: m2_def Let_def)
    have IH: "SwapEndian_n (p + 1) (Length - 2) m2 (p + 1 + of_nat j) =
        (if j < L - 2 then m2 (p + 1 + of_nat (L - 2 - 1 - j)) else m2 (p + 1 + of_nat j))" if "j < 2 ^ 16" for j
      using 1(1) [OF True refl refl refl refl that] unfolding m2_def L2 .
    show ?thesis
    proof (cases i)
      case 0
      have wrap: "p + 1 + of_nat 65535 = p + of_nat 0" by (simp add: add.assoc) 
      have "SwapEndian_n p Length m (p + of_nat 0) = SwapEndian_n (p + 1) (Length - 2) m2 (p + 1 + of_nat 65535)"
        unfolding rec wrap ..
      also have "\<dots> = m2 (p + of_nat 0)" 
      proof -
        have "\<not> 65535 < L - 2" using L by linarith
        then show ?thesis using IH [of 65535] unfolding wrap by simp
      qed
      also have "\<dots> = m (p + of_nat (L - 1))" by (subst m2) simp_all
      finally show ?thesis unfolding 0 using L by (simp only: L_def [symmetric]) simp
    next
      case (Suc j)
      have eq: "p + of_nat (Suc j) = p + 1 + of_nat j" by simp
      show ?thesis
      proof (cases "j < L - 2")
        case True
        then have "L - 1 - Suc j = Suc (L - 2 - 1 - j)" by simp
        then have adr: "p + 1 + of_nat (L - 2 - 1 - j) = p + of_nat (L - 1 - Suc j)" by simp
        have j: "j < 2 ^ 16" using Suc 1(2) by simp
        have "SwapEndian_n p Length m (p + of_nat (Suc j)) = m2 (p + of_nat (L - 1 - Suc j))"
          unfolding rec eq IH [OF j] adr using True by (simp only: if_True)
        also have "\<dots> = m (p + of_nat (L - 1 - Suc j))" using True L by (subst m2) auto
        finally have "SwapEndian_n p Length m (p + of_nat (Suc j)) = m (p + of_nat (L - 1 - Suc j))" .
        moreover have "Suc j < L" using True by simp
        ultimately show ?thesis unfolding Suc L_def [symmetric] by (simp only: if_True)
      next
        case False
        then have "SwapEndian_n p Length m (p + of_nat (Suc j)) = m2 (p + of_nat (Suc j))"
          unfolding rec eq using Suc 1(2) IH [of j] by simp
        also have "\<dots> = (if Suc j = L - 1 then m p else m (p + of_nat (Suc j)))" using 1(2) Suc by (subst m2) auto
        also have "\<dots> = (if Suc j < L then m (p + of_nat (L - 1 - Suc j)) else m (p + of_nat (Suc j)))"
        proof (cases "Suc j = L - 1")
          case True
          then have "Suc j < L" "L - 1 - Suc j = 0" using L by simp_all
          with True show ?thesis by simp
        next
          case neq: False
          with False L have "\<not> Suc j < L" by simp
          with neq show ?thesis by simp
        qed
        finally show ?thesis unfolding Suc L_def [symmetric] .
      qed
    qed
  qed
qed

text \<open>
  \<open>SwapEndian_n\<close> reverses the \<open>Length\<close> bytes at its pointer in place and
  touches no other byte of the memory.
\<close>

theorem SwapEndian_n_reverses:
  assumes "length xs = unat Length" "\<And>i. i < length xs \<Longrightarrow> m (p + of_nat i) = xs ! i"
  shows "map (\<lambda>i. SwapEndian_n p Length m (p + of_nat i)) [0..<length xs] = rev xs \<and>
    (\<forall>i. length xs \<le> i \<and> i < 2 ^ 16 \<longrightarrow> SwapEndian_n p Length m (p + of_nat i) = m (p + of_nat i))"
proof -
  have "unat Length < 2 ^ 16" using unsigned_less [of Length, where 'a = nat] by simp
  moreover have "SwapEndian_n p Length m (p + of_nat i) = rev xs ! i" if "i < length xs" for i
  proof -
    have "SwapEndian_n p Length m (p + of_nat i) = m (p + of_nat (length xs - 1 - i))"
      using that assms(1) calculation by (subst SwapEndian_n_at) simp_all
    also have "\<dots> = rev xs ! i" using that by (subst assms(2)) (simp_all add: rev_nth)
    finally show ?thesis .
  qed
  ultimately show ?thesis using assms(1) by (auto intro!: nth_equalityI simp: SwapEndian_n_at)
qed

theorem SwapEndian_n_reverses_witness:
  "map (\<lambda>i. SwapEndian_n 10 3 (\<lambda>a. ucast a) (10 + of_nat i)) [0..<3] = [12, 11, 10]"
proof -
  have "ucast (10 + of_nat i :: u16) = ([10, 11, 12] :: u8 list) ! i" if "i < 3" for i
  proof -
    from that consider "i = 0" | "i = 1" | "i = 2" by linarith
    then show ?thesis by cases simp_all
  qed
  then show ?thesis using SwapEndian_n_reverses [of "[10, 11, 12]" 3 "\<lambda>a. ucast a" 10] by (simp add: upt_rec)
qed

section \<open>Reversing the bits of a byte\<close>

text \<open>
  \<open>BitReverse\<close> mirrors a byte: bit \<open>n\<close> of the result is bit \<open>7 - n\<close> of the argument.
  Applying it twice gives the byte back.
\<close>

theorem BitReverse_mirrors:
  "bit (BitReverse b) n = (n < 8 \<and> bit b (7 - n)) \<and> BitReverse (BitReverse b) = b"
proof -
  have at: "bit (BitReverse v) k = bit v (7 - k)" if "k \<in> {..<8}" for v k
    using that unfolding BitReverse_def Let_def bit_or_iff bit_push_bit_iff bit_drop_bit_eq bit_and_iff o_apply
    by (simp add: lessThan_nat_numeral lessThan_Suc, elim disjE) simp_all
  have "BitReverse (BitReverse b) = b"
    by (rule bit_word_eqI) (simp add: at)
  moreover have "bit (BitReverse b) n \<Longrightarrow> n < 8" using bit_imp_le_length [of "BitReverse b" n] by simp
  ultimately show ?thesis using at [of n b] by auto
qed

end
