(* ===== verification/Ring_Buffer.thy ===== *)
theory Ring_Buffer
  imports Usb_Controller
begin

text \<open>
  The ring buffer of the library (\<open>Drivers/Misc/RingBuffer.h\<close>).  Its pointers are 16-bit
  addresses into the data memory; every operation works on the structure, the memory and
  the state that holds the global interrupt flag, in the order of the code.
\<close>

record RingBuffer_t =
  In_rb :: u16
  Out_rb :: u16
  Start_rb :: u16
  End_rb :: u16
  Size_rb :: u16
  Count_rb :: u16

type_synonym ('e, 'p) ring = "RingBuffer_t \<times> (u16 \<Rightarrow> u8) \<times> ('e, 'p) usb_scheme"

definition RingBuffer_InitBuffer :: "'e hw \<Rightarrow> u16 \<Rightarrow> u16 \<Rightarrow> ('e, 'p) ring \<Rightarrow> ('e, 'p) ring" where
  "RingBuffer_InitBuffer H DataPtr Size = (\<lambda>(B, m, s).
     let (CurrentGlobalInt, s1) = GetGlobalInterruptMask H s;
         s2 = GlobalInterruptDisable H s1;
         B' = B\<lparr>In_rb := DataPtr, Out_rb := DataPtr, Start_rb := DataPtr, End_rb := DataPtr + Size,
                Size_rb := Size, Count_rb := 0\<rparr>
     in (B', m, SetGlobalInterruptMask H CurrentGlobalInt s2))"

definition RingBuffer_GetCount :: "'e hw \<Rightarrow> ('e, 'p) ring \<Rightarrow> u16 \<times> ('e, 'p) ring" where
  "RingBuffer_GetCount H = (\<lambda>(B, m, s).
     let (CurrentGlobalInt, s1) = GetGlobalInterruptMask H s;
         s2 = GlobalInterruptDisable H s1;
         Count = Count_rb B
     in (Count, B, m, SetGlobalInterruptMask H CurrentGlobalInt s2))"

definition RingBuffer_GetFreeCount :: "'e hw \<Rightarrow> ('e, 'p) ring \<Rightarrow> u16 \<times> ('e, 'p) ring" where
  "RingBuffer_GetFreeCount H r =
     (let (Count, r') = RingBuffer_GetCount H r in (Size_rb (fst r) - Count, r'))"

definition RingBuffer_IsEmpty :: "'e hw \<Rightarrow> ('e, 'p) ring \<Rightarrow> bool \<times> ('e, 'p) ring" where
  "RingBuffer_IsEmpty H r = (let (Count, r') = RingBuffer_GetCount H r in (Count = 0, r'))"

definition RingBuffer_IsFull :: "'e hw \<Rightarrow> ('e, 'p) ring \<Rightarrow> bool \<times> ('e, 'p) ring" where
  "RingBuffer_IsFull H r = (let (Count, r') = RingBuffer_GetCount H r in (Count = Size_rb (fst r'), r'))"

definition RingBuffer_Insert :: "'e hw \<Rightarrow> u8 \<Rightarrow> ('e, 'p) ring \<Rightarrow> ('e, 'p) ring" where
  "RingBuffer_Insert H Data = (\<lambda>(B, m, s).
     let m1 = m(In_rb B := Data);
         B1 = B\<lparr>In_rb := In_rb B + 1\<rparr>;
         B2 = (if In_rb B1 = End_rb B1 then B1\<lparr>In_rb := Start_rb B1\<rparr> else B1);
         (CurrentGlobalInt, s1) = GetGlobalInterruptMask H s;
         s2 = GlobalInterruptDisable H s1;
         B3 = B2\<lparr>Count_rb := Count_rb B2 + 1\<rparr>
     in (B3, m1, SetGlobalInterruptMask H CurrentGlobalInt s2))"

definition RingBuffer_Remove :: "'e hw \<Rightarrow> ('e, 'p) ring \<Rightarrow> u8 \<times> ('e, 'p) ring" where
  "RingBuffer_Remove H = (\<lambda>(B, m, s).
     let Data = m (Out_rb B);
         B1 = B\<lparr>Out_rb := Out_rb B + 1\<rparr>;
         B2 = (if Out_rb B1 = End_rb B1 then B1\<lparr>Out_rb := Start_rb B1\<rparr> else B1);
         (CurrentGlobalInt, s1) = GetGlobalInterruptMask H s;
         s2 = GlobalInterruptDisable H s1;
         B3 = B2\<lparr>Count_rb := Count_rb B2 - 1\<rparr>
     in (Data, B3, m, SetGlobalInterruptMask H CurrentGlobalInt s2))"

definition RingBuffer_Peek :: "('e, 'p) ring \<Rightarrow> u8" where
  "RingBuffer_Peek = (\<lambda>(B, m, s). m (Out_rb B))"

section \<open>The contract of a bounded queue\<close>

fun remove_n :: "('q \<Rightarrow> 'a \<times> 'q) \<Rightarrow> nat \<Rightarrow> 'q \<Rightarrow> 'a list \<times> 'q" where
  "remove_n remove 0 q = ([], q)"
| "remove_n remove (Suc n) q = (let (x, q1) = remove q; (xs, q2) = remove_n remove n q1 in (x # xs, q2))"

locale bounded_queue =
  fixes insert :: "'a \<Rightarrow> 'q \<Rightarrow> 'q" and remove :: "'q \<Rightarrow> 'a \<times> 'q" and peek :: "'q \<Rightarrow> 'a"
    and contents :: "'q \<Rightarrow> 'a list" and capacity :: "'q \<Rightarrow> nat" and invar :: "'q \<Rightarrow> bool"
  assumes insert: "invar q \<Longrightarrow> length (contents q) < capacity q \<Longrightarrow>
      invar (insert x q) \<and> contents (insert x q) = contents q @ [x] \<and> capacity (insert x q) = capacity q"
    and remove: "invar q \<Longrightarrow> contents q = x # xs \<Longrightarrow>
      fst (remove q) = x \<and> peek q = x \<and> invar (snd (remove q)) \<and> contents (snd (remove q)) = xs \<and>
      capacity (snd (remove q)) = capacity q"
begin

lemma insert_all:
  "invar q \<Longrightarrow> length (contents q) + length xs \<le> capacity q \<Longrightarrow>
   invar (fold insert xs q) \<and> contents (fold insert xs q) = contents q @ xs \<and>
   capacity (fold insert xs q) = capacity q"
proof (induction xs arbitrary: q)
  case (Cons x xs)
  then show ?case using insert [of q x] Cons.IH [of "insert x q"] by simp
qed simp

lemma remove_all:
  "invar q \<Longrightarrow> n \<le> length (contents q) \<Longrightarrow>
   \<exists>q'. remove_n remove n q = (take n (contents q), q') \<and> invar q' \<and>
     contents q' = drop n (contents q) \<and> capacity q' = capacity q"
proof (induction n arbitrary: q)
  case (Suc n)
  then obtain x xs where q: "contents q = x # xs" by (cases "contents q") auto
  note r = remove [OF Suc.prems(1) q]
  with Suc q show ?case using Suc.IH [of "snd (remove q)"] by (auto simp: case_prod_beta')
qed simp

text \<open>First in, first out: what has been put in comes out again, in order.\<close>

lemma fifo:
  assumes "invar q" "length (contents q) + length xs \<le> capacity q"
  shows "\<exists>q'. remove_n remove (length (contents q) + length xs) (fold insert xs q) = (contents q @ xs, q') \<and>
    invar q' \<and> contents q' = []"
  using insert_all [OF assms] remove_all [of "fold insert xs q" "length (contents q) + length xs"] by auto

end

section \<open>The ring buffer as a queue\<close>

text \<open>
  \<open>ring_ok o B\<close>: the buffer occupies \<open>Size\<close> bytes from \<open>Start\<close> on without wrapping around
  the address space, \<open>Out\<close> is at offset \<open>o\<close> and \<open>In\<close> is \<open>Count\<close> places further on.
\<close>

definition ring_ok :: "nat \<Rightarrow> RingBuffer_t \<Rightarrow> bool" where
  "ring_ok k B \<longleftrightarrow> (let n = unat (Size_rb B) in
     k < n \<and> unat (Start_rb B) + n < 2 ^ 16 \<and> End_rb B = Start_rb B + of_nat n \<and>
     Out_rb B = Start_rb B + of_nat k \<and> unat (Count_rb B) \<le> n \<and>
     In_rb B = Start_rb B + of_nat ((k + unat (Count_rb B)) mod n))"

definition ring_invar :: "('e, 'p) ring \<Rightarrow> bool" where
  "ring_invar = (\<lambda>(B, m, s). ring_ok (unat (Out_rb B - Start_rb B)) B)"

definition ring_contents :: "('e, 'p) ring \<Rightarrow> u8 list" where
  "ring_contents = (\<lambda>(B, m, s). map (\<lambda>i. m (Start_rb B +
     of_nat ((unat (Out_rb B - Start_rb B) + i) mod unat (Size_rb B)))) [0..<unat (Count_rb B)])"

definition ring_capacity :: "('e, 'p) ring \<Rightarrow> nat" where
  "ring_capacity = (\<lambda>(B, m, s). unat (Size_rb B))"

lemma ring_offset: "ring_ok k B \<Longrightarrow> unat (Out_rb B - Start_rb B) = k"
  by (auto simp: ring_ok_def Let_def unat_of_nat_small)

lemma slot_inj: "a < 2 ^ 16 \<Longrightarrow> b < 2 ^ 16 \<Longrightarrow> (of_nat a :: u16) = of_nat b \<longleftrightarrow> a = b"
  by (rule iffI, drule arg_cong [where f = unat]) (simp_all add: unat_of_nat_small)

lemma ring_next:
  assumes "unat p + n < 2 ^ 16" "k < n"
  shows "(if p + of_nat k + 1 = p + of_nat n then p else p + of_nat k + 1) = (p + of_nat (Suc k mod n) :: u16)"
proof -
  have "p + of_nat k + 1 = p + of_nat n \<longleftrightarrow> Suc k = n"
  proof -
    have "p + of_nat k + 1 = p + of_nat n \<longleftrightarrow> (of_nat (Suc k) :: u16) = of_nat n" by (simp add: add.assoc add.commute)
    also have "\<dots> \<longleftrightarrow> Suc k = n" using assms by (intro slot_inj) linarith+
    finally show ?thesis .
  qed
  then show ?thesis using assms(2) by (auto simp: add.assoc add.commute)
qed

lemma slot_distinct: "i < j \<Longrightarrow> j < n \<Longrightarrow> (k + i) mod n \<noteq> (k + j) mod (n :: nat)"
proof
  assume "i < j" "j < n" "(k + i) mod n = (k + j) mod n"
  then have "n dvd (k + j) - (k + i)" by (metis mod_eq_dvd_iff_nat add_left_mono less_imp_le)
  with \<open>i < j\<close> \<open>j < n\<close> show False by (auto dest: dvd_imp_le)
qed

lemma RingBuffer_Insert_eq:
  "\<exists>s'. RingBuffer_Insert H x (B, m, s) =
    (B\<lparr>In_rb := if In_rb B + 1 = End_rb B then Start_rb B else In_rb B + 1, Count_rb := Count_rb B + 1\<rparr>,
     m(In_rb B := x), s')"
  by (simp add: RingBuffer_Insert_def Let_def case_prod_beta')

lemma RingBuffer_Remove_eq:
  "\<exists>s'. RingBuffer_Remove H (B, m, s) =
    (m (Out_rb B), B\<lparr>Out_rb := if Out_rb B + 1 = End_rb B then Start_rb B else Out_rb B + 1, Count_rb := Count_rb B - 1\<rparr>,
     m, s')"
  by (simp add: RingBuffer_Remove_def Let_def case_prod_beta')

lemma ring_invar_iff: "ring_invar (B, m, s) \<longleftrightarrow> (\<exists>k. ring_ok k B)"
  unfolding ring_invar_def prod.case using ring_offset by metis

lemma ring_contents_eq:
  "ring_ok k B \<Longrightarrow> ring_contents (B, m, s) =
    map (\<lambda>i. m (Start_rb B + of_nat ((k + i) mod unat (Size_rb B)))) [0..<unat (Count_rb B)]"
  by (simp add: ring_contents_def ring_offset)

lemma ring_okD:
  assumes "ring_ok k B"
  shows "k < unat (Size_rb B)" "unat (Start_rb B) + unat (Size_rb B) < 2 ^ 16"
    "End_rb B = Start_rb B + of_nat (unat (Size_rb B))" "Out_rb B = Start_rb B + of_nat k"
    "unat (Count_rb B) \<le> unat (Size_rb B)"
    "In_rb B = Start_rb B + of_nat ((k + unat (Count_rb B)) mod unat (Size_rb B))"
  using assms unfolding ring_ok_def Let_def by blast+

lemma ring_ok_update:
  "ring_ok k (B\<lparr>In_rb := i, Count_rb := c\<rparr>) \<longleftrightarrow> k < unat (Size_rb B) \<and>
     unat (Start_rb B) + unat (Size_rb B) < 2 ^ 16 \<and> End_rb B = Start_rb B + of_nat (unat (Size_rb B)) \<and>
     Out_rb B = Start_rb B + of_nat k \<and> unat c \<le> unat (Size_rb B) \<and>
     i = Start_rb B + of_nat ((k + unat c) mod unat (Size_rb B))"
  "ring_ok k (B\<lparr>Out_rb := i, Count_rb := c\<rparr>) \<longleftrightarrow> k < unat (Size_rb B) \<and>
     unat (Start_rb B) + unat (Size_rb B) < 2 ^ 16 \<and> End_rb B = Start_rb B + of_nat (unat (Size_rb B)) \<and>
     i = Start_rb B + of_nat k \<and> unat c \<le> unat (Size_rb B) \<and>
     In_rb B = Start_rb B + of_nat ((k + unat c) mod unat (Size_rb B))"
  by (simp_all add: ring_ok_def Let_def)

lemma ring_ok_Insert:
  assumes ok: "ring_ok k B" and room: "unat (Count_rb B) < unat (Size_rb B)"
  shows "ring_ok k (B\<lparr>In_rb := if In_rb B + 1 = End_rb B then Start_rb B else In_rb B + 1, Count_rb := Count_rb B + 1\<rparr>)"
    and "unat (Count_rb B + 1) = Suc (unat (Count_rb B))"
proof -
  note okD = ring_okD [OF ok]
  show c: "unat (Count_rb B + 1) = Suc (unat (Count_rb B))"
    using room by (intro unat_Suc_less) (simp add: word_less_nat_alt)
  have "(k + unat (Count_rb B)) mod unat (Size_rb B) < unat (Size_rb B)" using room by simp
  from ring_next [OF okD(2) this] have
    "(if In_rb B + 1 = End_rb B then Start_rb B else In_rb B + 1) =
      Start_rb B + of_nat ((k + Suc (unat (Count_rb B))) mod unat (Size_rb B))"
    unfolding okD(3,6) by (simp only: mod_Suc_eq add_Suc_right)
  with okD room show
    "ring_ok k (B\<lparr>In_rb := if In_rb B + 1 = End_rb B then Start_rb B else In_rb B + 1, Count_rb := Count_rb B + 1\<rparr>)"
    unfolding ring_ok_update c by (intro conjI Suc_leI)
qed

lemma ring_ok_Remove:
  assumes ok: "ring_ok k B" and some: "0 < unat (Count_rb B)"
  shows "ring_ok (Suc k mod unat (Size_rb B))
      (B\<lparr>Out_rb := if Out_rb B + 1 = End_rb B then Start_rb B else Out_rb B + 1, Count_rb := Count_rb B - 1\<rparr>)"
    and "unat (Count_rb B - 1) = unat (Count_rb B) - 1"
proof -
  note okD = ring_okD [OF ok]
  show c: "unat (Count_rb B - 1) = unat (Count_rb B) - 1"
    using some by (metis less_irrefl unat_0 unat_minus_one)
  have "Suc k mod unat (Size_rb B) < unat (Size_rb B)" using okD(1) by simp
  moreover have "(if Out_rb B + 1 = End_rb B then Start_rb B else Out_rb B + 1) =
      Start_rb B + of_nat (Suc k mod unat (Size_rb B))"
    unfolding okD(3,4) by (rule ring_next [OF okD(2,1)])
  moreover have "(Suc k mod unat (Size_rb B) + (unat (Count_rb B) - 1)) mod unat (Size_rb B) =
      (k + unat (Count_rb B)) mod unat (Size_rb B)"
    unfolding mod_add_left_eq using some by simp
  moreover have "unat (Count_rb B) - 1 \<le> unat (Size_rb B)" using okD(5) by simp
  ultimately show "ring_ok (Suc k mod unat (Size_rb B))
      (B\<lparr>Out_rb := if Out_rb B + 1 = End_rb B then Start_rb B else Out_rb B + 1, Count_rb := Count_rb B - 1\<rparr>)"
    unfolding ring_ok_update c using okD(2,3,6) by simp
qed

lemma ring_Insert:
  assumes "ring_invar r" "length (ring_contents r) < ring_capacity r"
  shows "ring_invar (RingBuffer_Insert H x r) \<and> ring_contents (RingBuffer_Insert H x r) = ring_contents r @ [x] \<and>
    ring_capacity (RingBuffer_Insert H x r) = ring_capacity r"
proof -
  obtain B m s where r: "r = (B, m, s)" by (cases r)
  with assms obtain k where ok: "ring_ok k B" by (auto simp: ring_invar_iff)
  have room: "unat (Count_rb B) < unat (Size_rb B)"
    using assms(2) by (simp add: r ring_contents_def ring_capacity_def)
  note ok' = ring_ok_Insert [OF ok room] and okD = ring_okD [OF ok]
  have new: "(m(In_rb B := x)) (Start_rb B + of_nat ((k + i) mod unat (Size_rb B))) =
      (if i = unat (Count_rb B) then x else m (Start_rb B + of_nat ((k + i) mod unat (Size_rb B))))"
    if "i \<le> unat (Count_rb B)" for i
  proof -
    have "(k + j) mod unat (Size_rb B) < 2 ^ 16" for j
      using okD(1,2) mod_less_divisor [of "unat (Size_rb B)" "k + j"] by linarith
    note inj = slot_inj [OF this [of i] this [of "unat (Count_rb B)"]]
    show ?thesis
      using that slot_distinct [OF _ room, of i k] unfolding okD(6) fun_upd_apply add_left_cancel inj by auto
  qed
  obtain s' where ins: "RingBuffer_Insert H x (B, m, s) =
      (B\<lparr>In_rb := if In_rb B + 1 = End_rb B then Start_rb B else In_rb B + 1, Count_rb := Count_rb B + 1\<rparr>,
       m(In_rb B := x), s')"
    using RingBuffer_Insert_eq by blast
  have "ring_contents (RingBuffer_Insert H x r) = ring_contents r @ [x]"
    unfolding r ins ring_contents_eq [OF ok'(1)] ring_contents_eq [OF ok]
    using new by (simp add: ok'(2) del: fun_upd_apply cong: map_cong)
  moreover have "ring_invar (RingBuffer_Insert H x r)"
    unfolding r ins ring_invar_iff using ok'(1) by blast
  moreover have "ring_capacity (RingBuffer_Insert H x r) = ring_capacity r"
    unfolding r ins by (simp add: ring_capacity_def)
  ultimately show ?thesis by blast
qed

lemma ring_Remove:
  assumes "ring_invar r" "ring_contents r = x # xs"
  shows "fst (RingBuffer_Remove H r) = x \<and> RingBuffer_Peek r = x \<and> ring_invar (snd (RingBuffer_Remove H r)) \<and>
    ring_contents (snd (RingBuffer_Remove H r)) = xs \<and> ring_capacity (snd (RingBuffer_Remove H r)) = ring_capacity r"
proof -
  obtain B m s where r: "r = (B, m, s)" by (cases r)
  with assms obtain k where ok: "ring_ok k B" by (auto simp: ring_invar_iff)
  have some: "0 < unat (Count_rb B)"
    using arg_cong [OF assms(2), where f = length] by (simp add: r ring_contents_def)
  note ok' = ring_ok_Remove [OF ok some] and okD = ring_okD [OF ok]
  obtain s' where rem: "RingBuffer_Remove H (B, m, s) = (m (Out_rb B),
      B\<lparr>Out_rb := if Out_rb B + 1 = End_rb B then Start_rb B else Out_rb B + 1, Count_rb := Count_rb B - 1\<rparr>, m, s')"
    using RingBuffer_Remove_eq by blast
  have upt: "[0..<unat (Count_rb B)] = 0 # map Suc [0..<unat (Count_rb B) - 1]"
    using some by (simp add: map_Suc_upt upt_conv_Cons)
  have "m (Out_rb B) = x" "xs = map (\<lambda>i. m (Start_rb B + of_nat ((k + Suc i) mod unat (Size_rb B)))) [0..<unat (Count_rb B) - 1]"
    using assms(2) okD(1) unfolding r ring_contents_eq [OF ok] upt okD(4) by (simp_all add: comp_def del: of_nat_Suc)
  moreover have "ring_contents (snd (RingBuffer_Remove H r)) =
      map (\<lambda>i. m (Start_rb B + of_nat ((k + Suc i) mod unat (Size_rb B)))) [0..<unat (Count_rb B) - 1]"
    unfolding r rem snd_conv ring_contents_eq [OF ok'(1)] by (simp add: ok'(2) mod_add_left_eq)
  moreover have "ring_invar (snd (RingBuffer_Remove H r))"
    unfolding r rem snd_conv ring_invar_iff using ok'(1) by blast
  moreover have "ring_capacity (snd (RingBuffer_Remove H r)) = ring_capacity r"
    unfolding r rem by (simp add: ring_capacity_def)
  moreover have "fst (RingBuffer_Remove H r) = m (Out_rb B)" "RingBuffer_Peek r = m (Out_rb B)"
    unfolding r rem by (simp_all add: RingBuffer_Peek_def)
  ultimately show ?thesis by metis
qed

interpretation rb: bounded_queue "RingBuffer_Insert H" "RingBuffer_Remove H" RingBuffer_Peek
    ring_contents ring_capacity ring_invar for H
  by (rule bounded_queue.intro [OF ring_Insert ring_Remove])

section \<open>Properties\<close>

lemma RingBuffer_InitBuffer_empty:
  assumes "0 < Size" "unat DataPtr + unat Size < 2 ^ 16"
  shows "ring_invar (RingBuffer_InitBuffer H DataPtr Size r)" (is ?I)
    and "ring_contents (RingBuffer_InitBuffer H DataPtr Size r) = []" (is ?E)
    and "ring_capacity (RingBuffer_InitBuffer H DataPtr Size r) = unat Size" (is ?C)
proof -
  obtain B m s where r: "r = (B, m, s)" by (cases r)
  show ?I ?E ?C
    using assms by (simp_all add: r RingBuffer_InitBuffer_def ring_contents_def ring_capacity_def ring_invar_def
        ring_ok_def Let_def case_prod_beta' word_less_nat_alt)
qed

text \<open>
  C31: the ring buffer is a first-in first-out queue: after it has been initialised over a memory
  area that does not wrap around, any number of bytes up to its size can be stored, and
  removing as many gives exactly these bytes back in the order of their insertion; after that
  the buffer is empty.
\<close>

theorem RingBuffer_fifo:
  assumes "0 < Size" "unat DataPtr + unat Size < 2 ^ 16" "length xs \<le> unat Size"
  shows "\<exists>r'. remove_n (RingBuffer_Remove H) (length xs)
      (fold (RingBuffer_Insert H) xs (RingBuffer_InitBuffer H DataPtr Size r)) = (xs, r') \<and>
    ring_invar r' \<and> fst (RingBuffer_IsEmpty H r')"
proof -
  note init = RingBuffer_InitBuffer_empty [OF assms(1,2), of H r]
  obtain r' where r': "remove_n (RingBuffer_Remove H) (length xs)
      (fold (RingBuffer_Insert H) xs (RingBuffer_InitBuffer H DataPtr Size r)) = (xs, r')"
    "ring_invar r'" "ring_contents r' = []"
    using rb.fifo [OF init(1), of xs H] init(2,3) assms(3) by auto
  then have "fst (RingBuffer_IsEmpty H r')"
    by (cases r') (simp add: ring_contents_def RingBuffer_IsEmpty_def RingBuffer_GetCount_def case_prod_beta'
        Let_def unat_eq_0)
  with r' show ?thesis by blast
qed

theorem RingBuffer_fifo_witness:
  "\<exists>r'. remove_n (RingBuffer_Remove memory_hw) (length [7 :: u8, 8, 9])
      (fold (RingBuffer_Insert memory_hw) [7, 8, 9] (RingBuffer_InitBuffer memory_hw 0x200 4
        (\<lparr>In_rb = 0, Out_rb = 0, Start_rb = 0, End_rb = 0, Size_rb = 0, Count_rb = 0\<rparr>, \<lambda>_. 0,
         usb_with (\<lambda>_. 0) (\<lambda>_ _. 0)))) = ([7, 8, 9], r') \<and>
    ring_invar r' \<and> fst (RingBuffer_IsEmpty memory_hw r')"
  by (rule RingBuffer_fifo) simp_all

lemma interrupt_flag_restored:
  assumes "plain H (G SREG)"
  shows "SetGlobalInterruptMask H (fst (GetGlobalInterruptMask H s))
    (GlobalInterruptDisable H (snd (GetGlobalInterruptMask H s))) = s"
  using assms by (simp add: GetGlobalInterruptMask_def SetGlobalInterruptMask_def GlobalInterruptDisable_def plain_access)

text \<open>
  C33: on a buffer in a consistent state \<open>RingBuffer_Insert\<close> writes no byte outside the
  \<open>Size\<close> bytes of the buffer's memory area, not even when the buffer is full, and
  \<open>RingBuffer_Remove\<close> writes no memory at all.  Both leave every register and variable as they found
  it: the critical section restores the interrupt flag.
\<close>

theorem RingBuffer_safe:
  assumes "plain H (G SREG)" "ring_invar (B, m, s)"
  shows "(\<forall>a. Size_rb B \<le> a - Start_rb B \<longrightarrow> fst (snd (RingBuffer_Insert H x (B, m, s))) a = m a) \<and>
    snd (snd (RingBuffer_Insert H x (B, m, s))) = s \<and>
    snd (snd (RingBuffer_Remove H (B, m, s))) = (m, s)"
proof -
  obtain k where ok: "ring_ok k B" using assms(2) by (auto simp: ring_invar_iff)
  note okD = ring_okD [OF ok]
  let ?i = "(k + unat (Count_rb B)) mod unat (Size_rb B)"
  have "?i < unat (Size_rb B)" using okD(1) by simp
  moreover from this okD(2) have "?i < 2 ^ 16" by linarith
  ultimately have "In_rb B - Start_rb B < Size_rb B"
    unfolding okD(6) add_diff_cancel_left' word_less_nat_alt by (simp add: unat_of_nat_small)
  then have "fst (snd (RingBuffer_Insert H x (B, m, s))) a = m a" if "Size_rb B \<le> a - Start_rb B" for a
    using that RingBuffer_Insert_eq [of H x B m s] by (auto simp: not_le [symmetric])
  moreover have "snd (snd (RingBuffer_Insert H x (B, m, s))) = s" "snd (snd (RingBuffer_Remove H (B, m, s))) = (m, s)"
    by (simp_all add: RingBuffer_Insert_def RingBuffer_Remove_def Let_def case_prod_beta'
        interrupt_flag_restored [OF assms(1)])
  ultimately show ?thesis by blast
qed

theorem RingBuffer_safe_witness:
  "snd (snd (RingBuffer_Insert memory_hw 5
     (\<lparr>In_rb = 0x201, Out_rb = 0x200, Start_rb = 0x200, End_rb = 0x202, Size_rb = 2, Count_rb = 1\<rparr>, \<lambda>_. 0,
      usb_with (\<lambda>_. 0x80) (\<lambda>_ _. 0)))) = usb_with (\<lambda>_. 0x80) (\<lambda>_ _. 0)"
  using RingBuffer_safe [of memory_hw
      "\<lparr>In_rb = 0x201, Out_rb = 0x200, Start_rb = 0x200, End_rb = 0x202, Size_rb = 2, Count_rb = 1\<rparr>" "\<lambda>_. 0"
      "usb_with (\<lambda>_. 0x80) (\<lambda>_ _. 0)" 5]
  by (simp add: ring_invar_def ring_ok_def)

end
