(* ===== verification/Config_Descriptors.thy ===== *)
theory Config_Descriptors
  imports Descriptors
begin

text \<open>
  The parser for configuration descriptors (\<open>Core/ConfigDescriptors.c\<close>,
  \<open>Core/ConfigDescriptors.h\<close>): a configuration descriptor is a chain of
  sub-descriptors that each start with their size and type, and the parser moves a pair of remaining bytes
  and current address along it.  The memory is an argument; the searches are loops.
\<close>

definition DESCRIPTOR_TYPE :: "mem \<Rightarrow> u16 \<Rightarrow> u8" where
  "DESCRIPTOR_TYPE m DescriptorPtr = m (DescriptorPtr + 1)"

definition DESCRIPTOR_SIZE :: "mem \<Rightarrow> u16 \<Rightarrow> u8" where
  "DESCRIPTOR_SIZE m DescriptorPtr = m DescriptorPtr"

definition DESCRIPTOR_SEARCH_Found :: u8 where "DESCRIPTOR_SEARCH_Found = 0"
definition DESCRIPTOR_SEARCH_Fail :: u8 where "DESCRIPTOR_SEARCH_Fail = 1"
definition DESCRIPTOR_SEARCH_NotFound :: u8 where "DESCRIPTOR_SEARCH_NotFound = 2"
definition DESCRIPTOR_SEARCH_COMP_Found :: u8 where "DESCRIPTOR_SEARCH_COMP_Found = 0"
definition DESCRIPTOR_SEARCH_COMP_EndOfDescriptor :: u8 where "DESCRIPTOR_SEARCH_COMP_EndOfDescriptor = 2"

lemmas search_consts [c_defs] = DESCRIPTOR_SEARCH_Found_def DESCRIPTOR_SEARCH_Fail_def
  DESCRIPTOR_SEARCH_NotFound_def DESCRIPTOR_SEARCH_COMP_Found_def
  DESCRIPTOR_SEARCH_COMP_EndOfDescriptor_def

definition USB_GetNextDescriptor :: "mem \<Rightarrow> u16 \<times> u16 \<Rightarrow> u16 \<times> u16" where
  "USB_GetNextDescriptor m = (\<lambda>(BytesRem, CurrConfigLoc).
     let CurrDescriptorSize = ucast (DESCRIPTOR_SIZE m CurrConfigLoc);
         CurrDescriptorSize = (if BytesRem < CurrDescriptorSize then BytesRem else CurrDescriptorSize)
     in (BytesRem - CurrDescriptorSize, CurrConfigLoc + CurrDescriptorSize))"

definition USB_GetNextDescriptorOfType :: "mem \<Rightarrow> u8 \<Rightarrow> u16 \<times> u16 \<Rightarrow> (u16 \<times> u16) option" where
  "USB_GetNextDescriptorOfType m Type = loop (\<lambda>(BytesRem, CurrConfigLoc).
     if BytesRem = 0 then leave (BytesRem, CurrConfigLoc)
     else let (BytesRem, CurrConfigLoc) = USB_GetNextDescriptor m (BytesRem, CurrConfigLoc)
          in if DESCRIPTOR_TYPE m CurrConfigLoc = Type then leave (BytesRem, CurrConfigLoc)
             else continue (BytesRem, CurrConfigLoc))"

definition USB_GetNextDescriptorOfTypeBefore :: "mem \<Rightarrow> u8 \<Rightarrow> u8 \<Rightarrow> u16 \<times> u16 \<Rightarrow> (u16 \<times> u16) option" where
  "USB_GetNextDescriptorOfTypeBefore m Type BeforeType = loop (\<lambda>(BytesRem, CurrConfigLoc).
     if BytesRem = 0 then leave (BytesRem, CurrConfigLoc)
     else let (BytesRem, CurrConfigLoc) = USB_GetNextDescriptor m (BytesRem, CurrConfigLoc)
          in if DESCRIPTOR_TYPE m CurrConfigLoc = Type then leave (BytesRem, CurrConfigLoc)
             else if DESCRIPTOR_TYPE m CurrConfigLoc = BeforeType then leave (0, CurrConfigLoc)
             else continue (BytesRem, CurrConfigLoc))"

definition USB_GetNextDescriptorOfTypeAfter :: "mem \<Rightarrow> u8 \<Rightarrow> u8 \<Rightarrow> u16 \<times> u16 \<Rightarrow> (u16 \<times> u16) option" where
  "USB_GetNextDescriptorOfTypeAfter m Type AfterType c = do {
     (BytesRem, CurrConfigLoc) \<leftarrow> USB_GetNextDescriptorOfType m AfterType c;
     if BytesRem \<noteq> 0 then USB_GetNextDescriptorOfType m Type (BytesRem, CurrConfigLoc)
     else Some (BytesRem, CurrConfigLoc) }"

text \<open>The comparator is a function pointer of the application: an argument.\<close>

definition USB_GetNextDescriptorComp ::
  "mem \<Rightarrow> (u16 \<Rightarrow> u8) \<Rightarrow> u16 \<times> u16 \<Rightarrow> (u8 \<times> u16 \<times> u16) option" where
  "USB_GetNextDescriptorComp m ComparatorRoutine = loop (\<lambda>(BytesRem, CurrConfigLoc).
     if BytesRem = 0 then leave (DESCRIPTOR_SEARCH_COMP_EndOfDescriptor, BytesRem, CurrConfigLoc)
     else let PrevDescLoc = CurrConfigLoc; PrevBytesRem = BytesRem;
              (BytesRem, CurrConfigLoc) = USB_GetNextDescriptor m (BytesRem, CurrConfigLoc);
              ErrorCode = ComparatorRoutine CurrConfigLoc
          in if ErrorCode \<noteq> DESCRIPTOR_SEARCH_NotFound
             then (if ErrorCode = DESCRIPTOR_SEARCH_Fail then leave (ErrorCode, PrevBytesRem, PrevDescLoc)
                   else leave (ErrorCode, BytesRem, CurrConfigLoc))
             else continue (BytesRem, CurrConfigLoc))"

section \<open>Well-formed chains\<close>

text \<open>
  \<open>descriptor d\<close>: \<open>d\<close> starts with its own length.  \<open>chain m ds c\<close>: the parser position \<open>c\<close> has
  the sub-descriptors \<open>ds\<close> ahead of it in memory.
\<close>

definition descriptor :: "u8 list \<Rightarrow> bool" where
  "descriptor d \<longleftrightarrow> 2 \<le> length d \<and> length d = unat (d ! 0)"

definition chain :: "mem \<Rightarrow> u8 list list \<Rightarrow> u16 \<times> u16 \<Rightarrow> bool" where
  "chain m ds c \<longleftrightarrow> list_all descriptor ds \<and> length (concat ds) < 2 ^ 16 \<and> unat (fst c) = length (concat ds) \<and>
     (\<forall>i < length (concat ds). m (snd c + of_nat i) = concat ds ! i)"

lemma chain_empty: "chain m [] c \<longleftrightarrow> fst c = 0"
  by (simp add: chain_def unat_eq_0)

lemma chain_rem: "chain m (d # ds) c \<Longrightarrow> fst c \<noteq> 0"
  by (auto simp: chain_def descriptor_def)

lemma chain_at:
  assumes "chain m (d # ds) c" "i < length d"
  shows "m (snd c + of_nat i) = d ! i"
  using assms by (auto simp: chain_def nth_append)

lemma chain_type: "chain m (d # ds) c \<Longrightarrow> DESCRIPTOR_TYPE m (snd c) = d ! 1"
  using chain_at [of m d ds c 1] by (auto simp: DESCRIPTOR_TYPE_def chain_def descriptor_def)

lemma chain_size: "chain m (d # ds) c \<Longrightarrow> unat (DESCRIPTOR_SIZE m (snd c)) = length d"
  using chain_at [of m d ds c 0] by (auto simp: DESCRIPTOR_SIZE_def chain_def descriptor_def)

lemma unat_ucast_8_16: "unat (ucast (b :: u8) :: u16) = unat b"
  by transfer simp

text \<open>Descriptors one after the other in a buffer are a chain.\<close>

lemma chain_mem_of:
  assumes "list_all descriptor ds" "length (concat ds @ bs) < 2 ^ 16"
  shows "chain (mem_of (concat ds @ bs)) ds (of_nat (length (concat ds)), 0)"
  using assms by (simp add: chain_def mem_of_def unat_of_nat_small nth_append)

text \<open>Skipping a descriptor moves the parser to the rest of the chain.\<close>

lemma chain_next:
  assumes ch: "chain m (d # ds) c"
  shows "chain m ds (USB_GetNextDescriptor m c)"
    and "snd (USB_GetNextDescriptor m c) = snd c + of_nat (length d)"
proof -
  obtain r p where c: "c = (r, p)" by (cases c)
  define z where "z = (ucast (DESCRIPTOR_SIZE m p) :: u16)"
  have z: "unat z = length d" using chain_size [OF ch] by (simp add: z_def c unat_ucast_8_16)
  have "z = of_nat (unat z)" by simp
  then have zn: "z = of_nat (length d)" unfolding z .
  have r: "unat r = length d + length (concat ds)" using ch by (simp add: chain_def c)
  then have "\<not> r < z" using z by (simp add: word_less_nat_alt)
  then have nx: "USB_GetNextDescriptor m c = (r - z, p + z)"
    by (simp add: USB_GetNextDescriptor_def c z_def [symmetric] Let_def)
  then show "snd (USB_GetNextDescriptor m c) = snd c + of_nat (length d)" by (simp add: c zn)
  have "unat (r - z) = length (concat ds)" using r z by (simp add: unat_sub word_le_nat_alt)
  moreover have "m (p + z + of_nat i) = concat ds ! i" if "i < length (concat ds)" for i
  proof -
    have "m (p + of_nat (length d + i)) = concat (d # ds) ! (length d + i)"
      using ch that unfolding chain_def c snd_conv by (elim conjE allE [where x = "length d + i"]) simp
    then show ?thesis by (simp add: zn add.assoc)
  qed
  ultimately show "chain m ds (USB_GetNextDescriptor m c)" using ch by (simp add: nx chain_def)
qed


section \<open>The searches\<close>

lemma OfType_step:
  "fst c \<noteq> 0 \<Longrightarrow> USB_GetNextDescriptorOfType m Type c =
    (let c' = USB_GetNextDescriptor m c
     in if DESCRIPTOR_TYPE m (snd c') = Type then Some c' else USB_GetNextDescriptorOfType m Type c')"
  unfolding USB_GetNextDescriptorOfType_def by (subst loop.simps) (simp add: case_prod_beta' Let_def)

lemma OfTypeBefore_step:
  "fst c \<noteq> 0 \<Longrightarrow> USB_GetNextDescriptorOfTypeBefore m Type BeforeType c =
    (let c' = USB_GetNextDescriptor m c
     in if DESCRIPTOR_TYPE m (snd c') = Type then Some c'
        else if DESCRIPTOR_TYPE m (snd c') = BeforeType then Some (0, snd c')
        else USB_GetNextDescriptorOfTypeBefore m Type BeforeType c')"
  unfolding USB_GetNextDescriptorOfTypeBefore_def by (subst loop.simps) (simp add: case_prod_beta' Let_def)

lemma Comp_step:
  "fst c \<noteq> 0 \<Longrightarrow> USB_GetNextDescriptorComp m f c =
    (let c' = USB_GetNextDescriptor m c
     in if f (snd c') = DESCRIPTOR_SEARCH_NotFound then USB_GetNextDescriptorComp m f c'
        else Some (f (snd c'), if f (snd c') = DESCRIPTOR_SEARCH_Fail then c else c'))"
  unfolding USB_GetNextDescriptorComp_def by (subst loop.simps) (simp add: case_prod_beta' Let_def)

lemma search_end:
  "fst c = 0 \<Longrightarrow> USB_GetNextDescriptorOfType m Type c = Some c"
  "fst c = 0 \<Longrightarrow> USB_GetNextDescriptorOfTypeBefore m Type BeforeType c = Some c"
  "fst c = 0 \<Longrightarrow> USB_GetNextDescriptorComp m f c = Some (DESCRIPTOR_SEARCH_COMP_EndOfDescriptor, c)"
  unfolding USB_GetNextDescriptorOfType_def USB_GetNextDescriptorOfTypeBefore_def USB_GetNextDescriptorComp_def
  by (subst loop.simps, simp add: case_prod_beta' prod_eq_iff)+

lemma OfType_chain:
  assumes "chain m (d # ds) c"
  shows "\<exists>c'. USB_GetNextDescriptorOfType m Type c = Some c' \<and> chain m (dropWhile (\<lambda>d. d ! 1 \<noteq> Type) ds) c' \<and>
    snd c' = snd c + of_nat (length (concat (d # takeWhile (\<lambda>d. d ! 1 \<noteq> Type) ds)))"
  using assms
proof (induction ds arbitrary: d c)
  case Nil
  note n = chain_next [OF Nil]
  show ?case using chain_rem [OF Nil] n by (auto simp: OfType_step Let_def chain_empty search_end prod_eq_iff)
next
  case (Cons e ds)
  note n = chain_next [OF Cons.prems]
  show ?case
  proof (cases "e ! 1 = Type")
    case True
    then show ?thesis using chain_rem [OF Cons.prems] n chain_type [OF n(1)] by (auto simp: OfType_step Let_def)
  next
    case False
    with Cons.IH [OF n(1)] show ?thesis
      using chain_rem [OF Cons.prems] n(2) chain_type [OF n(1)] by (auto simp: OfType_step Let_def add.assoc)
  qed
qed

lemma OfTypeBefore_chain:
  fixes Type BeforeType :: u8
  defines "other \<equiv> \<lambda>d. d ! 1 \<noteq> Type \<and> d ! 1 \<noteq> BeforeType"
  assumes "chain m (d # ds) c"
  shows "\<exists>c'. USB_GetNextDescriptorOfTypeBefore m Type BeforeType c = Some c' \<and>
    (case dropWhile other ds of [] \<Rightarrow> fst c' = 0
     | e # es \<Rightarrow> if e ! 1 = Type then chain m (e # es) c' else fst c' = 0) \<and>
    snd c' = snd c + of_nat (length (concat (d # takeWhile other ds)))"
  using assms(2)
proof (induction ds arbitrary: d c)
  case Nil
  note n = chain_next [OF Nil]
  show ?case using chain_rem [OF Nil] n by (auto simp: OfTypeBefore_step Let_def chain_empty search_end prod_eq_iff)
next
  case (Cons e ds)
  note n = chain_next [OF Cons.prems] and r = chain_rem [OF Cons.prems]
  show ?case
  proof (cases "other e")
    case True
    with Cons.IH [OF n(1)] show ?thesis
      using r n(2) chain_type [OF n(1)] by (auto simp: OfTypeBefore_step Let_def add.assoc other_def)
  next
    case False
    then show ?thesis
      using r n chain_type [OF n(1)]
      by (cases "USB_GetNextDescriptor m c") (auto simp: OfTypeBefore_step Let_def other_def)
  qed
qed


text \<open>
  On a well-formed chain \<open>USB_GetNextDescriptorOfType\<close> returns with the parser at the first
  descriptor of the wanted type after the current one, and with no bytes remaining when there
  is none; \<open>USB_GetNextDescriptorOfTypeBefore\<close> does so unless a descriptor of the limiting
  type comes first, which leaves no bytes remaining; \<open>USB_GetNextDescriptorOfTypeAfter\<close> searches behind the
  first descriptor of the other type.
\<close>

theorem OfType_search:
  assumes "chain m (d # ds) c"
  shows "\<exists>c1 c2 c3. USB_GetNextDescriptorOfType m Type c = Some c1 \<and>
      chain m (dropWhile (\<lambda>d. d ! 1 \<noteq> Type) ds) c1 \<and>
      snd c1 = snd c + of_nat (length (concat (d # takeWhile (\<lambda>d. d ! 1 \<noteq> Type) ds))) \<and>
    USB_GetNextDescriptorOfTypeBefore m Type Other c = Some c2 \<and>
      (case dropWhile (\<lambda>d. d ! 1 \<noteq> Type \<and> d ! 1 \<noteq> Other) ds of [] \<Rightarrow> fst c2 = 0
       | e # es \<Rightarrow> if e ! 1 = Type then chain m (e # es) c2 else fst c2 = 0) \<and>
    USB_GetNextDescriptorOfTypeAfter m Type Other c = Some c3 \<and>
      chain m (dropWhile (\<lambda>d. d ! 1 \<noteq> Type) (tl (dropWhile (\<lambda>d. d ! 1 \<noteq> Other) ds))) c3"
proof -
  obtain a where a: "USB_GetNextDescriptorOfType m Other c = Some a"
    "chain m (dropWhile (\<lambda>d. d ! 1 \<noteq> Other) ds) a"
    using OfType_chain [OF assms, of Other] by blast
  have "\<exists>c3. USB_GetNextDescriptorOfTypeAfter m Type Other c = Some c3 \<and>
      chain m (dropWhile (\<lambda>d. d ! 1 \<noteq> Type) (tl (dropWhile (\<lambda>d. d ! 1 \<noteq> Other) ds))) c3"
  proof (cases "dropWhile (\<lambda>d. d ! 1 \<noteq> Other) ds")
    case Nil
    have "chain m [] a" using a(2) unfolding Nil .
    with a(1) show ?thesis unfolding Nil by (simp add: USB_GetNextDescriptorOfTypeAfter_def chain_empty case_prod_beta')
  next
    case (Cons e es)
    with a(2) have ch: "chain m (e # es) a" by simp
    from OfType_chain [OF this, of Type] a(1) chain_rem [OF ch] Cons show ?thesis
      by (auto simp: USB_GetNextDescriptorOfTypeAfter_def case_prod_beta')
  qed
  with OfType_chain [OF assms, of Type] OfTypeBefore_chain [OF assms, of Type Other] show ?thesis by blast
qed

theorem OfType_search_witness:
  "\<exists>c1 c2 c3. USB_GetNextDescriptorOfType (mem_of [2, 1, 2, 4, 2, 5]) 5 (6, 0) = Some c1 \<and> snd c1 = 4 \<and>
    USB_GetNextDescriptorOfTypeBefore (mem_of [2, 1, 2, 4, 2, 5]) 5 4 (6, 0) = Some c2 \<and> fst c2 = 0 \<and>
    USB_GetNextDescriptorOfTypeAfter (mem_of [2, 1, 2, 4, 2, 5]) 5 4 (6, 0) = Some c3 \<and> unat (fst c3) = 2"
proof -
  have "chain (mem_of [2, 1, 2, 4, 2, 5]) [[2, 1], [2, 4], [2, 5]] (6, 0)"
    using chain_mem_of [of "[[2, 1], [2, 4], [2, 5]]" "[]"] by (simp add: descriptor_def)
  from OfType_search [OF this, of 5 4] show ?thesis by (auto simp: chain_def)
qed

text \<open>
  The search with a comparator that judges descriptors by their contents stops
  at the first descriptor that is not ``not found'' and returns the comparator's verdict;
  the parser is left at that descriptor, and after the verdict ``fail'' at the descriptor before it.
\<close>

theorem Comp_search:
  fixes g :: "u8 list \<Rightarrow> u8"
  assumes "chain m (d # ds) c" "\<And>e es c'. chain m (e # es) c' \<Longrightarrow> f (snd c') = g e"
    and "dropWhile (\<lambda>d. g d = DESCRIPTOR_SEARCH_NotFound) ds = e # es"
  shows "\<exists>c'. USB_GetNextDescriptorComp m f c = Some (g e, c') \<and>
    chain m (if g e = DESCRIPTOR_SEARCH_Fail then last (d # takeWhile (\<lambda>d. g d = DESCRIPTOR_SEARCH_NotFound) ds) # e # es else e # es) c'"
  using assms(1,3)
proof (induction ds arbitrary: d c)
  case (Cons a ds)
  note n = chain_next [OF Cons.prems(1)] and r = chain_rem [OF Cons.prems(1)]
  note fa = assms(2) [OF n(1)]
  show ?case
  proof (cases "g a = DESCRIPTOR_SEARCH_NotFound")
    case True
    with Cons.IH [OF n(1)] Cons.prems(2) r fa show ?thesis by (auto simp: Comp_step Let_def)
  next
    case False
    with n(1) r fa Cons.prems show ?thesis by (auto simp: Comp_step Let_def)
  qed
qed simp

theorem Comp_search_witness:
  "\<exists>c'. USB_GetNextDescriptorComp (mem_of [2, 1, 2, 4, 2, 5])
      (\<lambda>p. if DESCRIPTOR_TYPE (mem_of [2, 1, 2, 4, 2, 5]) p = 5 then DESCRIPTOR_SEARCH_Found
           else DESCRIPTOR_SEARCH_NotFound) (6, 0) = Some (DESCRIPTOR_SEARCH_Found, c')"
proof -
  let ?m = "mem_of [2, 1, 2, 4, 2, 5]"
  let ?f = "\<lambda>p. if DESCRIPTOR_TYPE ?m p = 5 then DESCRIPTOR_SEARCH_Found else DESCRIPTOR_SEARCH_NotFound"
  have ch: "chain ?m [[2, 1], [2, 4], [2, 5]] (6, 0)"
    using chain_mem_of [of "[[2, 1], [2, 4], [2, 5]]" "[]"] by (simp add: descriptor_def)
  show ?thesis
    using Comp_search [OF ch, of ?f "\<lambda>d. if d ! 1 = 5 then DESCRIPTOR_SEARCH_Found else DESCRIPTOR_SEARCH_NotFound" "[2, 5]" "[]"]
    by (auto simp: chain_type search_consts)
qed

text \<open>
  A sub-descriptor with size zero hangs the parser: the searches do not return when the
  current descriptor claims to have no bytes and is not of a type that ends the search.
\<close>

theorem zero_size_hangs:
  assumes "BytesRem \<noteq> 0" "DESCRIPTOR_SIZE m p = 0" "DESCRIPTOR_TYPE m p \<noteq> Type"
  shows "USB_GetNextDescriptorOfType m Type (BytesRem, p) = None \<and>
    (DESCRIPTOR_TYPE m p \<noteq> BeforeType \<longrightarrow>
      USB_GetNextDescriptorOfTypeBefore m Type BeforeType (BytesRem, p) = None)"
proof -
  have n: "USB_GetNextDescriptor m (BytesRem, p) = (BytesRem, p)"
    by (simp add: USB_GetNextDescriptor_def assms(2))
  show ?thesis
    unfolding USB_GetNextDescriptorOfType_def USB_GetNextDescriptorOfTypeBefore_def
    by (intro conjI impI; rule loop_diverges [where I = "\<lambda>c. c = (BytesRem, p)"]) (use assms n in auto)
qed

theorem zero_size_hangs_witness:
  "USB_GetNextDescriptorOfType (mem_of [0, 4]) 5 (2, 0) = None"
  using zero_size_hangs [of 2 "mem_of [0, 4]" 0 5] by (simp add: DESCRIPTOR_SIZE_def DESCRIPTOR_TYPE_def mem_of_def)

text \<open>
  \<open>USB_GetNextDescriptorComp\<close> shows the comparator the memory behind the chain: after the
  last descriptor it is called once more although no bytes remain, and when it accepts what it reads there
  the search reports success.
\<close>

theorem Comp_past_end:
  assumes "chain m [d] c" "f (snd c + of_nat (length d)) = DESCRIPTOR_SEARCH_Found"
  shows "USB_GetNextDescriptorComp m f c = Some (DESCRIPTOR_SEARCH_COMP_Found, 0, snd c + of_nat (length d))"
proof -
  note n = chain_next [OF assms(1)]
  then have "USB_GetNextDescriptor m c = (0, snd c + of_nat (length d))" by (simp add: chain_empty prod_eq_iff)
  with assms(2) chain_rem [OF assms(1)] show ?thesis by (simp add: Comp_step search_consts)
qed

theorem Comp_past_end_witness:
  "USB_GetNextDescriptorComp (mem_of [2, 1, 7, 5]) (\<lambda>p. if DESCRIPTOR_TYPE (mem_of [2, 1, 7, 5]) p = 5
     then DESCRIPTOR_SEARCH_Found else DESCRIPTOR_SEARCH_NotFound) (2, 0) = Some (DESCRIPTOR_SEARCH_COMP_Found, 0, 2)"
proof -
  have "chain (mem_of [2, 1, 7, 5]) [[2, 1]] (2, 0)"
    using chain_mem_of [of "[[2, 1]]" "[7, 5]"] by (simp add: descriptor_def)
  from Comp_past_end [OF this, of "\<lambda>p. if DESCRIPTOR_TYPE (mem_of [2, 1, 7, 5]) p = 5
     then DESCRIPTOR_SEARCH_Found else DESCRIPTOR_SEARCH_NotFound"] show ?thesis
    by (simp add: DESCRIPTOR_TYPE_def mem_of_def)
qed


section \<open>The configuration descriptor of the firmware\<close>



end
