(* ===== verification/HID_Parser.thy ===== *)
theory HID_Parser
  imports Config_Descriptors
begin

text \<open>
  The parser for HID report descriptors (\<open>Class/Common/HIDParser.c\<close>, \<open>HIDParser.h\<close>).  The
  pointers into the arrays of the parser are indices, \<open>NULL\<close> is \<open>None\<close>; an access outside an array
  is the outcome \<open>Out_of_bounds\<close>.  The array sizes, which an application may define before it
  includes the header, are the record \<open>hid_limits\<close>; the contents of the local variables
  that the code does not initialise are the record \<open>hid_locals\<close>: the state table, the usage list and
  the stack slot of \<open>NewReportItem\<close>, of which the code never writes the two values.
\<close>

section \<open>Data\<close>

record hid_limits =
  HID_STATETABLE_STACK_DEPTH :: nat
  HID_USAGE_STACK_DEPTH :: nat
  HID_MAX_COLLECTIONS :: nat
  HID_MAX_REPORTITEMS :: nat
  HID_MAX_REPORT_IDS :: nat

definition default_limits :: hid_limits where
  "default_limits = \<lparr>HID_STATETABLE_STACK_DEPTH = 2, HID_USAGE_STACK_DEPTH = 8, HID_MAX_COLLECTIONS = 10,
     HID_MAX_REPORTITEMS = 20, HID_MAX_REPORT_IDS = 10\<rparr>"

definition HID_PARSE_Successful :: u8 where "HID_PARSE_Successful = 0"
definition HID_PARSE_HIDStackOverflow :: u8 where "HID_PARSE_HIDStackOverflow = 1"
definition HID_PARSE_HIDStackUnderflow :: u8 where "HID_PARSE_HIDStackUnderflow = 2"
definition HID_PARSE_InsufficientReportItems :: u8 where "HID_PARSE_InsufficientReportItems = 3"
definition HID_PARSE_UnexpectedEndCollection :: u8 where "HID_PARSE_UnexpectedEndCollection = 4"
definition HID_PARSE_InsufficientCollectionPaths :: u8 where "HID_PARSE_InsufficientCollectionPaths = 5"
definition HID_PARSE_UsageListOverflow :: u8 where "HID_PARSE_UsageListOverflow = 6"
definition HID_PARSE_InsufficientReportIDItems :: u8 where "HID_PARSE_InsufficientReportIDItems = 7"
definition HID_PARSE_NoUnfilteredReportItems :: u8 where "HID_PARSE_NoUnfilteredReportItems = 8"

definition HID_REPORT_ITEM_In :: u8 where "HID_REPORT_ITEM_In = 0"
definition HID_REPORT_ITEM_Out :: u8 where "HID_REPORT_ITEM_Out = 1"
definition HID_REPORT_ITEM_Feature :: u8 where "HID_REPORT_ITEM_Feature = 2"

definition HID_RI_DATA_SIZE_MASK :: u8 where "HID_RI_DATA_SIZE_MASK = 0x03"
definition HID_RI_TYPE_MASK :: u8 where "HID_RI_TYPE_MASK = 0x0C"
definition HID_RI_TAG_MASK :: u8 where "HID_RI_TAG_MASK = 0xF0"
definition HID_IOF_CONSTANT :: u32 where "HID_IOF_CONSTANT = 1"

lemmas hid_codes [c_defs] = HID_PARSE_Successful_def HID_PARSE_HIDStackOverflow_def HID_PARSE_HIDStackUnderflow_def
  HID_PARSE_InsufficientReportItems_def HID_PARSE_UnexpectedEndCollection_def
  HID_PARSE_InsufficientCollectionPaths_def HID_PARSE_UsageListOverflow_def
  HID_PARSE_InsufficientReportIDItems_def HID_PARSE_NoUnfilteredReportItems_def
lemmas hid_consts [c_defs] = HID_REPORT_ITEM_In_def HID_REPORT_ITEM_Out_def HID_REPORT_ITEM_Feature_def
  HID_RI_DATA_SIZE_MASK_def HID_RI_TYPE_MASK_def HID_RI_TAG_MASK_def HID_IOF_CONSTANT_def

record HID_MinMax_t =
  Minimum :: u32
  Maximum :: u32

record HID_Unit_t =
  Type_unit :: u32
  Exponent :: u8

record HID_Usage_t =
  Page :: u16
  Usage :: u16

record HID_CollectionPath_t =
  Type_path :: u8
  Usage_path :: HID_Usage_t
  Parent :: "nat option"

record HID_ReportItem_Attributes_t =
  BitSize :: u8
  Usage_attr :: HID_Usage_t
  Unit :: HID_Unit_t
  Logical :: HID_MinMax_t
  Physical :: HID_MinMax_t

record HID_ReportItem_t =
  BitOffset :: u16
  ItemType :: u8
  ItemFlags :: u16
  ReportID_item :: u8
  CollectionPath :: "nat option"
  Attributes_item :: HID_ReportItem_Attributes_t
  Value :: u32
  PreviousValue :: u32

record HID_ReportSizeInfo_t =
  ReportID_size :: u8
  ReportSizeBits :: "u16 list"

record HID_ReportInfo_t =
  TotalReportItems :: u8
  ReportItems :: "HID_ReportItem_t list"
  CollectionPaths :: "HID_CollectionPath_t list"
  TotalDeviceReports :: u8
  ReportIDSizes :: "HID_ReportSizeInfo_t list"
  LargestReportSizeBits :: u16
  UsingReportIDs :: bool

record HID_StateTable_t =
  Attributes_st :: HID_ReportItem_Attributes_t
  ReportCount :: u8
  ReportID_st :: u8

text \<open>The structures after \<open>memset(..., 0x00, ...)\<close>.\<close>

definition zero_attributes :: HID_ReportItem_Attributes_t where
  "zero_attributes = \<lparr>BitSize = 0, Usage_attr = \<lparr>Page = 0, Usage = 0\<rparr>, Unit = \<lparr>Type_unit = 0, Exponent = 0\<rparr>,
     Logical = \<lparr>Minimum = 0, Maximum = 0\<rparr>, Physical = \<lparr>Minimum = 0, Maximum = 0\<rparr>\<rparr>"

definition zero_state :: HID_StateTable_t where
  "zero_state = \<lparr>Attributes_st = zero_attributes, ReportCount = 0, ReportID_st = 0\<rparr>"

definition zero_size :: HID_ReportSizeInfo_t where
  "zero_size = \<lparr>ReportID_size = 0, ReportSizeBits = [0, 0, 0]\<rparr>"

definition zero_item :: HID_ReportItem_t where
  "zero_item = \<lparr>BitOffset = 0, ItemType = 0, ItemFlags = 0, ReportID_item = 0, CollectionPath = None,
     Attributes_item = zero_attributes, Value = 0, PreviousValue = 0\<rparr>"

definition zero_info :: "hid_limits \<Rightarrow> HID_ReportInfo_t" where
  "zero_info L = \<lparr>TotalReportItems = 0, ReportItems = replicate (HID_MAX_REPORTITEMS L) zero_item,
     CollectionPaths = replicate (HID_MAX_COLLECTIONS L)
       \<lparr>Type_path = 0, Usage_path = \<lparr>Page = 0, Usage = 0\<rparr>, Parent = None\<rparr>,
     TotalDeviceReports = 0, ReportIDSizes = replicate (HID_MAX_REPORT_IDS L) zero_size,
     LargestReportSizeBits = 0, UsingReportIDs = False\<rparr>"

section \<open>The parser\<close>

text \<open>
  The local variables of \<open>USB_ProcessHIDReport\<close> and the structure behind \<open>ParserData\<close>.
\<close>

record hid_state =
  StateTable :: "HID_StateTable_t list"
  CurrStateTable :: nat
  CurrCollectionPath :: "nat option"
  CurrReportIDInfo :: nat
  UsageList :: "u16 list"
  UsageListSize :: u8
  UsageMinMax :: HID_MinMax_t
  ParserData :: HID_ReportInfo_t

record hid_locals =
  StateTable_junk :: "HID_StateTable_t list"
  UsageList_junk :: "u16 list"
  NewReportItem_junk :: HID_ReportItem_t

text \<open>
  How the parser stops before the end of the report: with an error code, with an access outside an
  array, or with a \<open>memcpy\<close> whose source and destination overlap.
\<close>

datatype hid_stop = Return u8 HID_ReportInfo_t | Out_of_bounds | Overlapping_memcpy

definition HID_ReportItem_Attributes_sizeof :: nat where
  "HID_ReportItem_Attributes_sizeof = 1 + (2 + 2) + (4 + 1) + (4 + 4) + (4 + 4)"

definition HID_ReportItem_sizeof :: nat where
  "HID_ReportItem_sizeof = 2 + 1 + 2 + 1 + 2 + HID_ReportItem_Attributes_sizeof + 4 + 4"

definition HID_StateTable_sizeof :: nat where
  "HID_StateTable_sizeof = HID_ReportItem_Attributes_sizeof + 1 + 1"

text \<open>An update of the current entry of the state table.\<close>

definition with_state :: "(HID_StateTable_t \<Rightarrow> HID_StateTable_t) \<Rightarrow> hid_state \<Rightarrow> hid_stop + hid_state" where
  "with_state f z =
     (if CurrStateTable z < length (StateTable z)
      then Inr (z\<lparr>StateTable := (StateTable z)[CurrStateTable z := f (StateTable z ! CurrStateTable z)]\<rparr>)
      else Inl Out_of_bounds)"

definition with_attributes ::
  "(HID_ReportItem_Attributes_t \<Rightarrow> HID_ReportItem_Attributes_t) \<Rightarrow> hid_state \<Rightarrow> hid_stop + hid_state" where
  "with_attributes f = with_state (\<lambda>t. t\<lparr>Attributes_st := f (Attributes_st t)\<rparr>)"

definition hid_push :: "hid_limits \<Rightarrow> hid_state \<Rightarrow> hid_stop + hid_state" where
  "hid_push L z =
     (if CurrStateTable z = HID_STATETABLE_STACK_DEPTH L - 1
      then Inl (Return HID_PARSE_HIDStackOverflow (ParserData z))
      else if HID_StateTable_sizeof < HID_ReportItem_sizeof then Inl Overlapping_memcpy
      else if Suc (CurrStateTable z) < length (StateTable z)
      then Inr (z\<lparr>StateTable := (StateTable z)[Suc (CurrStateTable z) := StateTable z ! CurrStateTable z],
                  CurrStateTable := Suc (CurrStateTable z)\<rparr>)
      else Inl Out_of_bounds)"

definition hid_pop :: "hid_state \<Rightarrow> hid_stop + hid_state" where
  "hid_pop z =
     (if CurrStateTable z = 0 then Inl (Return HID_PARSE_HIDStackUnderflow (ParserData z))
      else Inr (z\<lparr>CurrStateTable := CurrStateTable z - 1\<rparr>))"

text \<open>\<open>find_report\<close>: the search loop for a report ID among the first \<open>n\<close> reports.\<close>

function find_report :: "HID_ReportSizeInfo_t list \<Rightarrow> u8 \<Rightarrow> nat \<Rightarrow> nat \<Rightarrow> nat option" where
  "find_report sizes ID n i =
     (if i < n then (if ReportID_size (sizes ! i) = ID then Some i else find_report sizes ID n (Suc i)) else None)"
  by pat_completeness auto
termination by (relation "measure (\<lambda>(sizes, ID, n, i). n - i)") auto

declare find_report.simps [simp del]

definition hid_set_report_id :: "nat \<Rightarrow> u8 \<Rightarrow> hid_state \<Rightarrow> hid_stop + hid_state" where
  "hid_set_report_id i ID z =
     (let P = ParserData z in
      if i < length (ReportIDSizes P)
      then Inr (z\<lparr>CurrReportIDInfo := i,
                  ParserData := P\<lparr>UsingReportIDs := True,
                    ReportIDSizes := (ReportIDSizes P)[i := (ReportIDSizes P ! i)\<lparr>ReportID_size := ID\<rparr>]\<rparr>\<rparr>)
      else Inl Out_of_bounds)"

definition hid_report_id :: "hid_limits \<Rightarrow> u32 \<Rightarrow> hid_state \<Rightarrow> hid_stop + hid_state" where
  "hid_report_id L Data z =
     (case with_state (\<lambda>t. t\<lparr>ReportID_st := ucast Data\<rparr>) z of
        Inl stop \<Rightarrow> Inl stop
      | Inr z1 \<Rightarrow>
          let P = ParserData z1; ID = ReportID_st (StateTable z1 ! CurrStateTable z1)
          in if UsingReportIDs P then
               (case find_report (ReportIDSizes P) ID (unat (TotalDeviceReports P)) 0 of
                  Some i \<Rightarrow> hid_set_report_id i ID z1
                | None \<Rightarrow>
                    if unat (TotalDeviceReports P) = HID_MAX_REPORT_IDS L
                    then Inl (Return HID_PARSE_InsufficientReportIDItems P)
                    else hid_set_report_id (unat (TotalDeviceReports P)) ID
                      (z1\<lparr>ParserData := P\<lparr>TotalDeviceReports := TotalDeviceReports P + 1,
                         ReportIDSizes := (ReportIDSizes P)[unat (TotalDeviceReports P) := zero_size]\<rparr>\<rparr>))
             else hid_set_report_id (CurrReportIDInfo z1) ID z1)"

definition hid_usage :: "hid_limits \<Rightarrow> u32 \<Rightarrow> hid_state \<Rightarrow> hid_stop + hid_state" where
  "hid_usage L Data z =
     (if unat (UsageListSize z) = HID_USAGE_STACK_DEPTH L
      then Inl (Return HID_PARSE_UsageListOverflow (ParserData z))
      else if unat (UsageListSize z) < length (UsageList z)
      then Inr (z\<lparr>UsageList := (UsageList z)[unat (UsageListSize z) := ucast Data],
                  UsageListSize := UsageListSize z + 1\<rparr>)
      else Inl Out_of_bounds)"

text \<open>
  \<open>next_usage\<close>: the usage for the next collection or report item: from the front of the usage list,
  else from the usage range, else unchanged.
\<close>

definition next_usage :: "hid_state \<Rightarrow> u16 option \<times> hid_state" where
  "next_usage z =
     (if UsageListSize z \<noteq> 0
      then (Some (UsageList z ! 0),
            z\<lparr>UsageList := fold (\<lambda>i l. l[i - 1 := l ! i]) [1..<unat (UsageListSize z)] (UsageList z),
              UsageListSize := UsageListSize z - 1\<rparr>)
      else if Minimum (UsageMinMax z) \<le> Maximum (UsageMinMax z)
      then (Some (ucast (Minimum (UsageMinMax z))),
            z\<lparr>UsageMinMax := (UsageMinMax z)\<lparr>Minimum := Minimum (UsageMinMax z) + 1\<rparr>\<rparr>)
      else (None, z))"

text \<open>\<open>free_path\<close>: the first collection path from index \<open>i\<close> on without a parent.\<close>

function free_path :: "hid_limits \<Rightarrow> HID_CollectionPath_t list \<Rightarrow> nat \<Rightarrow> (hid_stop option) + nat" where
  "free_path L paths i =
     (if i < length paths then
        (if Parent (paths ! i) = None then Inr i
         else if i = HID_MAX_COLLECTIONS L - 1 then Inl None
         else free_path L paths (Suc i))
      else Inl (Some Out_of_bounds))"
  by pat_completeness auto
termination by (relation "measure (\<lambda>(L, paths, i). length paths - i)") auto

declare free_path.simps [simp del]

definition hid_enter_path :: "u32 \<Rightarrow> nat \<Rightarrow> nat option \<Rightarrow> hid_state \<Rightarrow> hid_stop + hid_state" where
  "hid_enter_path Data i parent z =
     (if i < length (CollectionPaths (ParserData z)) \<and> CurrStateTable z < length (StateTable z) then
        let (u, z1) = next_usage z;
            P = ParserData z1;
            path = (CollectionPaths P ! i)\<lparr>Parent := parent, Type_path := ucast Data\<rparr>;
            page = Page (Usage_attr (Attributes_st (StateTable z ! CurrStateTable z)));
            path1 = path\<lparr>Usage_path := (Usage_path path)\<lparr>Page := page\<rparr>\<rparr>;
            path2 = (case u of None \<Rightarrow> path1
                     | Some v \<Rightarrow> path1\<lparr>Usage_path := (Usage_path path1)\<lparr>Usage := v\<rparr>\<rparr>)
        in Inr (z1\<lparr>CurrCollectionPath := Some i,
                   ParserData := P\<lparr>CollectionPaths := (CollectionPaths P)[i := path2]\<rparr>\<rparr>)
      else Inl Out_of_bounds)"

definition hid_collection :: "hid_limits \<Rightarrow> u32 \<Rightarrow> hid_state \<Rightarrow> hid_stop + hid_state" where
  "hid_collection L Data z =
     (let P = ParserData z in
      case CurrCollectionPath z of
        None \<Rightarrow>
          hid_enter_path Data 0 (if 0 < length (CollectionPaths P) then Parent (CollectionPaths P ! 0) else None) z
      | Some ParentCollectionPath \<Rightarrow>
          (case free_path L (CollectionPaths P) 1 of
             Inl None \<Rightarrow> Inl (Return HID_PARSE_InsufficientCollectionPaths P)
           | Inl (Some stop) \<Rightarrow> Inl stop
           | Inr i \<Rightarrow> hid_enter_path Data i (Some ParentCollectionPath) z))"

definition hid_end_collection :: "hid_state \<Rightarrow> hid_stop + hid_state" where
  "hid_end_collection z =
     (case CurrCollectionPath z of
        None \<Rightarrow> Inl (Return HID_PARSE_UnexpectedEndCollection (ParserData z))
      | Some i \<Rightarrow>
          if i < length (CollectionPaths (ParserData z))
          then Inr (z\<lparr>CurrCollectionPath := Parent (CollectionPaths (ParserData z) ! i)\<rparr>)
          else Inl Out_of_bounds)"


text \<open>One pass of the loop over the items of an INPUT, OUTPUT or FEATURE entry.\<close>

definition hid_new_item :: "hid_locals \<Rightarrow> u32 \<Rightarrow> HID_StateTable_t \<Rightarrow> u16 option \<Rightarrow> u8 \<Rightarrow> hid_state \<Rightarrow> HID_ReportItem_t" where
  "hid_new_item U ReportItemData t u itemType z =
     (let A = Attributes_st t;
          A1 = (case u of None \<Rightarrow> A | Some v \<Rightarrow> A\<lparr>Usage_attr := (Usage_attr A)\<lparr>Usage := v\<rparr>\<rparr>);
          P = ParserData z
      in (NewReportItem_junk U)\<lparr>Attributes_item := A1, ItemFlags := ucast ReportItemData,
           CollectionPath := CurrCollectionPath z, ReportID_item := ReportID_st t, ItemType := itemType,
           BitOffset := ReportSizeBits (ReportIDSizes P ! CurrReportIDInfo z) ! unat itemType\<rparr>)"

definition hid_item_type :: "u8 \<Rightarrow> u8" where
  "hid_item_type HIDReportItem =
     (let ItemTypeTag = HIDReportItem AND (HID_RI_TYPE_MASK OR HID_RI_TAG_MASK)
      in if ItemTypeTag = hd (HID_RI_INPUT B0 0) then HID_REPORT_ITEM_In
         else if ItemTypeTag = hd (HID_RI_OUTPUT B0 0) then HID_REPORT_ITEM_Out
         else HID_REPORT_ITEM_Feature)"

definition hid_report_item ::
  "hid_limits \<Rightarrow> hid_locals \<Rightarrow> (HID_ReportItem_t \<Rightarrow> bool) \<Rightarrow> u8 \<Rightarrow> u32 \<Rightarrow> hid_state \<Rightarrow> hid_stop + hid_state" where
  "hid_report_item L U CALLBACK_HIDParser_FilterHIDReportItem HIDReportItem ReportItemData z =
     (if \<not> (CurrStateTable z < length (StateTable z) \<and> CurrReportIDInfo z < length (ReportIDSizes (ParserData z)))
      then Inl Out_of_bounds
      else let t = StateTable z ! CurrStateTable z;
          (u, z1) = next_usage z;
          itemType = hid_item_type HIDReportItem;
          NewReportItem = hid_new_item U ReportItemData t u itemType z1;
          P = ParserData z1;
          info = ReportIDSizes P ! CurrReportIDInfo z1;
          bits = ReportSizeBits info ! unat itemType + ucast (BitSize (Attributes_st t));
          P1 = P\<lparr>ReportIDSizes := (ReportIDSizes P)[CurrReportIDInfo z1 :=
                  info\<lparr>ReportSizeBits := (ReportSizeBits info)[unat itemType := bits]\<rparr>],
                 LargestReportSizeBits := max (LargestReportSizeBits P) bits\<rparr>
      in if unat (TotalReportItems P1) = HID_MAX_REPORTITEMS L then Inl (Return HID_PARSE_InsufficientReportItems P1)
         else if \<not> unat (TotalReportItems P1) < length (ReportItems P1) then Inl Out_of_bounds
         else let P2 = P1\<lparr>ReportItems := (ReportItems P1)[unat (TotalReportItems P1) := NewReportItem]\<rparr>;
                  P3 = (if ReportItemData AND HID_IOF_CONSTANT = 0 \<and> CALLBACK_HIDParser_FilterHIDReportItem NewReportItem
                        then P2\<lparr>TotalReportItems := TotalReportItems P2 + 1\<rparr> else P2)
              in Inr (z1\<lparr>ParserData := P3\<rparr>))"

primrec hid_report_items ::
  "hid_limits \<Rightarrow> hid_locals \<Rightarrow> (HID_ReportItem_t \<Rightarrow> bool) \<Rightarrow> u8 \<Rightarrow> u32 \<Rightarrow> nat \<Rightarrow> hid_state \<Rightarrow> hid_stop + hid_state" where
  "hid_report_items L U cb HIDReportItem ReportItemData 0 z = Inr z"
| "hid_report_items L U cb HIDReportItem ReportItemData (Suc n) z =
     (case hid_report_item L U cb HIDReportItem ReportItemData z of
        Inl stop \<Rightarrow> Inl stop
      | Inr z1 \<Rightarrow> hid_report_items L U cb HIDReportItem ReportItemData n z1)"

text \<open>The body of the parser's loop after the item has been fetched.\<close>

definition hid_switch ::
  "hid_limits \<Rightarrow> hid_locals \<Rightarrow> (HID_ReportItem_t \<Rightarrow> bool) \<Rightarrow> u8 \<Rightarrow> u32 \<Rightarrow> hid_state \<Rightarrow> hid_stop + hid_state" where
  "hid_switch L U cb HIDReportItem ReportItemData z =
     (let tag = HIDReportItem AND (HID_RI_TYPE_MASK OR HID_RI_TAG_MASK) in
      if tag = hd (HID_RI_PUSH B0 0) then hid_push L z
      else if tag = hd (HID_RI_POP B0 0) then hid_pop z
      else if tag = hd (HID_RI_USAGE_PAGE B0 0) then
        (case (if HIDReportItem AND HID_RI_DATA_SIZE_MASK = HID_RI_DATA_BITS B32
               then with_attributes (\<lambda>a. a\<lparr>Usage_attr := (Usage_attr a)\<lparr>Page := ucast (drop_bit 16 ReportItemData)\<rparr>\<rparr>) z
               else Inr z) of
           Inl stop \<Rightarrow> Inl stop
         | Inr z1 \<Rightarrow> with_attributes (\<lambda>a. a\<lparr>Usage_attr := (Usage_attr a)\<lparr>Page := ucast ReportItemData\<rparr>\<rparr>) z1)
      else if tag = hd (HID_RI_LOGICAL_MINIMUM B0 0) then
        with_attributes (\<lambda>a. a\<lparr>Logical := (Logical a)\<lparr>Minimum := ReportItemData\<rparr>\<rparr>) z
      else if tag = hd (HID_RI_LOGICAL_MAXIMUM B0 0) then
        with_attributes (\<lambda>a. a\<lparr>Logical := (Logical a)\<lparr>Maximum := ReportItemData\<rparr>\<rparr>) z
      else if tag = hd (HID_RI_PHYSICAL_MINIMUM B0 0) then
        with_attributes (\<lambda>a. a\<lparr>Physical := (Physical a)\<lparr>Minimum := ReportItemData\<rparr>\<rparr>) z
      else if tag = hd (HID_RI_PHYSICAL_MAXIMUM B0 0) then
        with_attributes (\<lambda>a. a\<lparr>Physical := (Physical a)\<lparr>Maximum := ReportItemData\<rparr>\<rparr>) z
      else if tag = hd (HID_RI_UNIT_EXPONENT B0 0) then
        with_attributes (\<lambda>a. a\<lparr>Unit := (Unit a)\<lparr>Exponent := ucast ReportItemData\<rparr>\<rparr>) z
      else if tag = hd (HID_RI_UNIT B0 0) then
        with_attributes (\<lambda>a. a\<lparr>Unit := (Unit a)\<lparr>Type_unit := ReportItemData\<rparr>\<rparr>) z
      else if tag = hd (HID_RI_REPORT_SIZE B0 0) then with_attributes (\<lambda>a. a\<lparr>BitSize := ucast ReportItemData\<rparr>) z
      else if tag = hd (HID_RI_REPORT_COUNT B0 0) then with_state (\<lambda>t. t\<lparr>ReportCount := ucast ReportItemData\<rparr>) z
      else if tag = hd (HID_RI_REPORT_ID B0 0) then hid_report_id L ReportItemData z
      else if tag = hd (HID_RI_USAGE B0 0) then hid_usage L ReportItemData z
      else if tag = hd (HID_RI_USAGE_MINIMUM B0 0) then
        Inr (z\<lparr>UsageMinMax := (UsageMinMax z)\<lparr>Minimum := ReportItemData\<rparr>\<rparr>)
      else if tag = hd (HID_RI_USAGE_MAXIMUM B0 0) then
        Inr (z\<lparr>UsageMinMax := (UsageMinMax z)\<lparr>Maximum := ReportItemData\<rparr>\<rparr>)
      else if tag = hd (HID_RI_COLLECTION B0 0) then hid_collection L ReportItemData z
      else if tag = hd (HID_RI_END_COLLECTION B0 0) then hid_end_collection z
      else if tag = hd (HID_RI_INPUT B0 0) \<or> tag = hd (HID_RI_OUTPUT B0 0) \<or> tag = hd (HID_RI_FEATURE B0 0) then
        (if CurrStateTable z < length (StateTable z)
         then hid_report_items L U cb HIDReportItem ReportItemData (unat (ReportCount (StateTable z ! CurrStateTable z))) z
         else Inl Out_of_bounds)
      else Inr z)"

definition hid_main_reset :: "u8 \<Rightarrow> hid_state \<Rightarrow> hid_state" where
  "hid_main_reset HIDReportItem z =
     (if HIDReportItem AND HID_RI_TYPE_MASK = HID_RI_TYPE_MAIN
      then z\<lparr>UsageMinMax := \<lparr>Minimum = 0, Maximum = 0\<rparr>, UsageListSize := 0\<rparr> else z)"

text \<open>Fetching an item: the prefix byte, its data, and the report pointer and size behind it.\<close>

definition hid_fetch :: "mem \<Rightarrow> u16 \<Rightarrow> u16 \<Rightarrow> u8 \<times> u32 \<times> u16 \<times> u16" where
  "hid_fetch m ReportData ReportSize =
     (let HIDReportItem = m ReportData; p = ReportData + 1; n = ReportSize - 1;
          size = HIDReportItem AND HID_RI_DATA_SIZE_MASK
      in if size = HID_RI_DATA_BITS B32
         then (HIDReportItem, push_bit 24 (ucast (m (p + 3))) OR push_bit 16 (ucast (m (p + 2)))
                 OR ucast (push_bit 8 (ucast (m (p + 1)) :: u16)) OR ucast (m p), p + 4, n - 4)
         else if size = HID_RI_DATA_BITS B16
         then (HIDReportItem, ucast (push_bit 8 (ucast (m (p + 1))) OR ucast (m p) :: u16), p + 2, n - 2)
         else if size = HID_RI_DATA_BITS B8 then (HIDReportItem, ucast (m p), p + 1, n - 1)
         else (HIDReportItem, 0, p, n))"

definition hid_loop ::
  "hid_limits \<Rightarrow> hid_locals \<Rightarrow> (HID_ReportItem_t \<Rightarrow> bool) \<Rightarrow> mem \<Rightarrow> u16 \<times> u16 \<times> hid_state \<Rightarrow> (hid_stop + hid_state) option" where
  "hid_loop L U cb m = loop (\<lambda>(ReportData, ReportSize, z).
     if ReportSize = 0 then leave (Inr z)
     else let (HIDReportItem, ReportItemData, p, n) = hid_fetch m ReportData ReportSize
          in case hid_switch L U cb HIDReportItem ReportItemData z of
               Inl stop \<Rightarrow> leave (Inl stop)
             | Inr z1 \<Rightarrow> continue (p, n, hid_main_reset HIDReportItem z1))"

definition hid_start :: "hid_limits \<Rightarrow> hid_locals \<Rightarrow> hid_state" where
  "hid_start L U =
     \<lparr>StateTable = (StateTable_junk U)[0 := zero_state], CurrStateTable = 0, CurrCollectionPath = None,
      CurrReportIDInfo = 0, UsageList = UsageList_junk U, UsageListSize = 0,
      UsageMinMax = \<lparr>Minimum = 0, Maximum = 0\<rparr>,
      ParserData = (zero_info L)\<lparr>TotalDeviceReports := 1\<rparr>\<rparr>"

definition USB_ProcessHIDReport ::
  "hid_limits \<Rightarrow> hid_locals \<Rightarrow> (HID_ReportItem_t \<Rightarrow> bool) \<Rightarrow> mem \<Rightarrow> u16 \<Rightarrow> u16 \<Rightarrow> hid_stop option" where
  "USB_ProcessHIDReport L U cb m ReportData ReportSize =
     map_option (\<lambda>r. case r of
        Inl stop \<Rightarrow> stop
      | Inr z \<Rightarrow> if TotalReportItems (ParserData z) = 0 then Return HID_PARSE_NoUnfilteredReportItems (ParserData z)
                 else Return HID_PARSE_Successful (ParserData z))
       (hid_loop L U cb m (ReportData, ReportSize, hid_start L U))"

section \<open>Items of a report\<close>

text \<open>
  The loops \<open>while (DataBitsRem--)\<close> over the bits of an item, of which \<open>n\<close> remain.
\<close>

primrec get_bits :: "mem \<Rightarrow> u16 \<Rightarrow> nat \<Rightarrow> u16 \<times> u32 \<times> u32 \<Rightarrow> u32" where
  "get_bits m ReportData 0 v = (case v of (CurrentBit, BitMask, Val) \<Rightarrow> Val)"
| "get_bits m ReportData (Suc n) v = (case v of (CurrentBit, BitMask, Val) \<Rightarrow>
     get_bits m ReportData n
       (CurrentBit + 1, push_bit 1 BitMask,
        if tst (m (ReportData + CurrentBit div 8)) (unat (CurrentBit mod 8))
        then Val OR BitMask else Val))"

definition USB_GetHIDReportItemInfo :: "mem \<Rightarrow> u16 \<Rightarrow> HID_ReportItem_t option \<Rightarrow> bool \<times> HID_ReportItem_t option" where
  "USB_GetHIDReportItemInfo m ReportData ReportItem =
     (case ReportItem of
        None \<Rightarrow> (False, None)
      | Some it \<Rightarrow>
          if ReportID_item it \<noteq> 0 \<and> ReportID_item it \<noteq> m ReportData then (False, Some it)
          else let p = (if ReportID_item it \<noteq> 0 then ReportData + 1 else ReportData);
                   it1 = it\<lparr>PreviousValue := Value it, Value := 0\<rparr>
               in (True, Some (it1\<lparr>Value := get_bits m p (unat (BitSize (Attributes_item it))) (BitOffset it, 1, 0)\<rparr>)))"

primrec set_bits :: "u16 \<Rightarrow> u32 \<Rightarrow> nat \<Rightarrow> u16 \<times> u32 \<Rightarrow> mem \<Rightarrow> mem" where
  "set_bits ReportData Val 0 v m = m"
| "set_bits ReportData Val (Suc n) v m = (case v of (CurrentBit, BitMask) \<Rightarrow>
     let a = ReportData + CurrentBit div 8;
         m1 = (if Val AND BitMask \<noteq> 0 then m(a := m a OR bv (unat (CurrentBit mod 8))) else m)
     in set_bits ReportData Val n (CurrentBit + 1, push_bit 1 BitMask) m1)"

definition USB_SetHIDReportItemInfo :: "u16 \<Rightarrow> HID_ReportItem_t option \<Rightarrow> mem \<Rightarrow> HID_ReportItem_t option \<times> mem" where
  "USB_SetHIDReportItemInfo ReportData ReportItem m =
     (case ReportItem of
        None \<Rightarrow> (None, m)
      | Some it \<Rightarrow>
          let (p, m1) = (if ReportID_item it \<noteq> 0 then (ReportData + 1, m(ReportData := ReportID_item it)) else (ReportData, m));
              it1 = it\<lparr>PreviousValue := Value it\<rparr>
          in (Some it1, set_bits p (Value it1) (unat (BitSize (Attributes_item it))) (BitOffset it, 1) m1))"

text \<open>\<open>None\<close>: the report type is no index of \<open>ReportSizeBits\<close>.\<close>

definition USB_GetHIDReportSize :: "hid_limits \<Rightarrow> HID_ReportInfo_t \<Rightarrow> u8 \<Rightarrow> u8 \<Rightarrow> u16 option" where
  "USB_GetHIDReportSize L P ReportID ReportType =
     (if 3 \<le> ReportType then None
      else case find_report (ReportIDSizes P) ReportID (HID_MAX_REPORT_IDS L) 0 of
        Some i \<Rightarrow>
          let bits = ReportSizeBits (ReportIDSizes P ! i) ! unat ReportType
          in Some (bits div 8 + (if bits mod 8 \<noteq> 0 then 1 else 0))
      | None \<Rightarrow> Some 0)"

end
