(* ===== verification/HID_Parser_Spec.thy ===== *)
theory HID_Parser_Spec
  imports HID_Parser Joystick
begin

text \<open>
  What the HID report parser promises: it stays inside its arrays on every input, it reads back what the
  item macros of \<open>HIDReportData.h\<close> write, values written into a report are read back, and it understands
  the report descriptor of the firmware.
\<close>

section \<open>The parser stays inside its arrays\<close>


definition locals_ok :: "hid_limits \<Rightarrow> hid_locals \<Rightarrow> bool" where
  "locals_ok L U \<longleftrightarrow> length (StateTable_junk U) = HID_STATETABLE_STACK_DEPTH L \<and>
     length (UsageList_junk U) = HID_USAGE_STACK_DEPTH L"

text \<open>What the parser keeps of the structure behind \<open>ParserData\<close>, and of its own variables.\<close>

definition info_ok :: "hid_limits \<Rightarrow> HID_ReportInfo_t \<Rightarrow> bool" where
  "info_ok L P \<longleftrightarrow> length (ReportItems P) = HID_MAX_REPORTITEMS L \<and> unat (TotalReportItems P) \<le> HID_MAX_REPORTITEMS L \<and>
     length (CollectionPaths P) = HID_MAX_COLLECTIONS L \<and>
     (\<forall>path \<in> set (CollectionPaths P). \<forall>i. Parent path = Some i \<longrightarrow> i < HID_MAX_COLLECTIONS L) \<and>
     length (ReportIDSizes P) = HID_MAX_REPORT_IDS L \<and> unat (TotalDeviceReports P) \<le> HID_MAX_REPORT_IDS L \<and>
     (\<forall>r \<in> set (ReportIDSizes P). length (ReportSizeBits r) = 3)"

definition hid_ok :: "hid_limits \<Rightarrow> hid_state \<Rightarrow> bool" where
  "hid_ok L z \<longleftrightarrow> info_ok L (ParserData z) \<and> length (StateTable z) = HID_STATETABLE_STACK_DEPTH L \<and>
     CurrStateTable z < HID_STATETABLE_STACK_DEPTH L \<and>
     (\<forall>i. CurrCollectionPath z = Some i \<longrightarrow> i < HID_MAX_COLLECTIONS L) \<and>
     CurrReportIDInfo z < unat (TotalDeviceReports (ParserData z)) \<and>
     length (UsageList z) = HID_USAGE_STACK_DEPTH L \<and> unat (UsageListSize z) \<le> HID_USAGE_STACK_DEPTH L"

definition stop_ok :: "hid_limits \<Rightarrow> hid_stop \<Rightarrow> bool" where
  "stop_ok L r = (case r of Return e P \<Rightarrow> info_ok L P | Out_of_bounds \<Rightarrow> False | Overlapping_memcpy \<Rightarrow> True)"

definition step_ok :: "hid_limits \<Rightarrow> hid_stop + hid_state \<Rightarrow> bool" where
  "step_ok L r = (case r of Inl stop \<Rightarrow> stop_ok L stop | Inr z \<Rightarrow> hid_ok L z)"

lemma step_ok_simps [simp]:
  "step_ok L (Inl stop) = stop_ok L stop" "step_ok L (Inr z) = hid_ok L z"
  "stop_ok L (Return e P) = info_ok L P" "\<not> stop_ok L Out_of_bounds" "stop_ok L Overlapping_memcpy"
  by (simp_all add: step_ok_def stop_ok_def)































section \<open>The parser reads what the item macros write\<close>

text \<open>
  An entry of a report descriptor as the macros of \<open>HIDReportData.h\<close> take it: type, tag, data size
  and data.
\<close>

type_synonym hid_entry = "u8 \<times> u8 \<times> DataBits \<times> u32"

definition entry_ok :: "hid_entry \<Rightarrow> bool" where
  "entry_ok = (\<lambda>(ty, tag, db, d). ty AND HID_RI_TYPE_MASK = ty \<and> tag AND HID_RI_TAG_MASK = tag)"

definition entry_bytes :: "hid_entry \<Rightarrow> u8 list" where
  "entry_bytes = (\<lambda>(ty, tag, db, d). HID_RI_ENTRY ty tag db d)"

definition entry_prefix :: "hid_entry \<Rightarrow> u8" where
  "entry_prefix = (\<lambda>(ty, tag, db, d). ty OR tag OR HID_RI_DATA_BITS db)"

definition entry_data :: "hid_entry \<Rightarrow> u32" where
  "entry_data = (\<lambda>(ty, tag, db, d). case db of B0 \<Rightarrow> 0 | B8 \<Rightarrow> take_bit 8 d | B16 \<Rightarrow> take_bit 16 d | B32 \<Rightarrow> d)"

primrec hid_run ::
  "hid_limits \<Rightarrow> hid_locals \<Rightarrow> (HID_ReportItem_t \<Rightarrow> bool) \<Rightarrow> hid_entry list \<Rightarrow> hid_state \<Rightarrow> hid_stop + hid_state" where
  "hid_run L U cb [] z = Inr z"
| "hid_run L U cb (e # es) z =
     (case hid_switch L U cb (entry_prefix e) (entry_data e) z of
        Inl stop \<Rightarrow> Inl stop
      | Inr z1 \<Rightarrow> hid_run L U cb es (hid_main_reset (entry_prefix e) z1))"

lemma entry_prefix_size:
  assumes "entry_ok (ty, tag, db, d)"
  shows "(ty OR tag OR HID_RI_DATA_BITS db) AND HID_RI_DATA_SIZE_MASK = HID_RI_DATA_BITS db"
proof -
  have "ty AND 3 = (ty AND HID_RI_TYPE_MASK) AND 3" "tag AND 3 = (tag AND HID_RI_TAG_MASK) AND 3"
    using assms by (simp_all add: entry_ok_def)
  then have "ty AND 3 = 0" "tag AND 3 = 0" by (simp_all add: hid_consts and.assoc)
  then show ?thesis
    by (cases db) (simp_all add: HID_RI_DATA_SIZE_MASK_def bit.conj_disj_distrib2)
qed

lemma ucast_low_byte: "(ucast (x AND 0xFF :: u32) :: u8) = ucast x"
proof -
  have "x AND 0xFF = take_bit 8 x" by (simp add: take_bit_eq_mask mask_eq_exp_minus_1)
  then show ?thesis by (intro bit_word_eqI) (simp add: bit_ucast_iff bit_take_bit_iff)
qed

text \<open>The data that the parser assembles from the bytes of an entry.\<close>

lemma data_16:
  "(ucast (push_bit 8 (ucast (ucast (drop_bit 8 (d :: u32)) :: u8)) OR ucast (ucast d :: u8) :: u16) :: u32) = take_bit 16 d"
  by (rule bit_word_eqI)
    (auto simp: bit_ucast_iff bit_or_iff bit_push_bit_iff bit_drop_bit_eq bit_take_bit_iff)

lemma data_32:
  "push_bit 24 (ucast (ucast (drop_bit 24 (d :: u32)) :: u8)) OR push_bit 16 (ucast (ucast (drop_bit 16 d) :: u8))
     OR ucast (push_bit 8 (ucast (ucast (drop_bit 8 d) :: u8) :: u16)) OR ucast (ucast d :: u8) = d"
proof -
  have "(ucast (push_bit 8 (ucast b :: u16)) :: u32) = push_bit 8 (ucast (b :: u8))" for b
    by (rule bit_word_eqI) (auto simp: bit_ucast_iff bit_push_bit_iff dest: bit_imp_le_length)
  then show ?thesis using u32_of_le32 [of d] by (simp add: u32_of_def)
qed

lemma data_8: "(ucast (ucast (d :: u32) :: u8) :: u32) = take_bit 8 d"
  by (rule bit_word_eqI) (auto simp: bit_ucast_iff bit_take_bit_iff)

lemma hid_fetch_entry:
  assumes "entry_ok e" "\<And>i. i < length (entry_bytes e) \<Longrightarrow> m (p + of_nat i) = entry_bytes e ! i"
  shows "hid_fetch m p n = (entry_prefix e, entry_data e, p + of_nat (length (entry_bytes e)), n - of_nat (length (entry_bytes e)))"
proof -
  obtain ty tag db d where e: "e = (ty, tag, db, d)" by (cases e)
  have 0: "m p = ty OR tag OR HID_RI_DATA_BITS db"
    using assms(2) [of 0] by (simp add: e entry_bytes_def HID_RI_ENTRY_def)
  note size = entry_prefix_size [OF assms(1) [unfolded e]]
  have m: "m (p + 1 + of_nat i) = HID_RI_ENCODE db d ! i" if "i < length (HID_RI_ENCODE db d)" for i
    using assms(2) [of "Suc i"] that by (simp add: e entry_bytes_def HID_RI_ENTRY_def add.assoc)
  note fetch = hid_fetch_def [of m p n, unfolded Let_def 0 size]
  show ?thesis
  proof (cases db)
    case B0
    then show ?thesis
      by (simp add: fetch e entry_prefix_def entry_data_def entry_bytes_def HID_RI_ENTRY_def)
  next
    case B8
    then show ?thesis using m [of 0]
      by (simp add: fetch e entry_prefix_def entry_data_def entry_bytes_def HID_RI_ENTRY_def
          ucast_low_byte data_8)
  next
    case B16
    then show ?thesis using m [of 0] m [of 1]
      by (simp add: fetch e entry_prefix_def entry_data_def entry_bytes_def HID_RI_ENTRY_def
          ucast_low_byte data_16)
  next
    case B32
    then show ?thesis using m [of 0] m [of 1] m [of 2] m [of 3]
      by (simp add: fetch e entry_prefix_def entry_data_def entry_bytes_def HID_RI_ENTRY_def
          ucast_low_byte data_32)
  qed
qed


lemma hid_loop_entries:
  assumes "list_all entry_ok es" "length (concat (map entry_bytes es)) < 2 ^ 16"
    and "\<And>i. i < length (concat (map entry_bytes es)) \<Longrightarrow> m (p + of_nat i) = concat (map entry_bytes es) ! i"
  shows "hid_loop L U cb m (p, of_nat (length (concat (map entry_bytes es))), z) = Some (hid_run L U cb es z)"
  using assms
proof (induction es arbitrary: p z)
  case Nil
  show ?case unfolding hid_loop_def by (rule trans [OF loop_leave]) simp_all
next
  case (Cons e es)
  let ?k = "length (entry_bytes e)" and ?bs = "concat (map entry_bytes es)"
  have "m (p + of_nat i) = entry_bytes e ! i" if "i < ?k" for i
    using Cons.prems(3) [of i] that by (simp add: nth_append)
  then have f: "hid_fetch m p n = (entry_prefix e, entry_data e, p + of_nat ?k, n - of_nat ?k)" for n
    using Cons.prems(1) by (intro hid_fetch_entry) simp_all
  have "0 < ?k" by (cases e) (simp add: entry_bytes_def HID_RI_ENTRY_def)
  moreover have "unat (of_nat (?k + length ?bs) :: u16) = ?k + length ?bs"
    using Cons.prems(2) by (intro unat_of_nat_small) simp
  ultimately have n0: "(of_nat (?k + length ?bs) :: u16) \<noteq> 0" by (metis add_is_0 less_irrefl unat_0)
  have rest: "hid_loop L U cb m (p + of_nat ?k, of_nat (length ?bs), z1) = Some (hid_run L U cb es z1)" for z1
  proof (rule Cons.IH)
    show "list_all entry_ok es" "length ?bs < 2 ^ 16" using Cons.prems(1,2) by simp_all
    show "m (p + of_nat ?k + of_nat i) = ?bs ! i" if "i < length ?bs" for i
      using Cons.prems(3) [of "?k + i"] that by (simp add: add.assoc)
  qed
  have n: "of_nat (?k + length ?bs) - of_nat ?k = (of_nat (length ?bs) :: u16)" by simp
  show ?case
  proof (cases "hid_switch L U cb (entry_prefix e) (entry_data e) z")
    case (Inl stop)
    then show ?thesis using n0 unfolding hid_loop_def
      by (intro trans [OF loop_leave]) (simp_all add: f)
  next
    case (Inr z1)
    then have "hid_loop L U cb m (p, of_nat (?k + length ?bs), z) =
        hid_loop L U cb m (p + of_nat ?k, of_nat (length ?bs), hid_main_reset (entry_prefix e) z1)"
      using n0 unfolding hid_loop_def by (intro loop_continue) (simp add: f)
    then show ?thesis using Inr rest by simp
  qed
qed

text \<open>
  C35: the parser interprets the report descriptors that the item macros produce: it returns, and
  it has processed exactly the entries in their order, each with its type, its tag and its data
  truncated to the size given to the macro.
\<close>

theorem parser_reads_entries:
  assumes "list_all entry_ok es" "length (concat (map entry_bytes es)) < 2 ^ 16"
    and "\<And>i. i < length (concat (map entry_bytes es)) \<Longrightarrow> m (p + of_nat i) = concat (map entry_bytes es) ! i"
  shows "USB_ProcessHIDReport L U cb m p (of_nat (length (concat (map entry_bytes es)))) =
    Some (case hid_run L U cb es (hid_start L U) of
        Inl stop \<Rightarrow> stop
      | Inr z \<Rightarrow> if TotalReportItems (ParserData z) = 0 then Return HID_PARSE_NoUnfilteredReportItems (ParserData z)
                 else Return HID_PARSE_Successful (ParserData z))"
  by (simp add: USB_ProcessHIDReport_def hid_loop_entries [OF assms])

theorem parser_reads_entries_witness:
  "USB_ProcessHIDReport default_limits
      \<lparr>StateTable_junk = replicate 2 zero_state, UsageList_junk = replicate 8 7, NewReportItem_junk = zero_item\<rparr>
      (\<lambda>_. True) (mem_of [0xC0]) 0 1 =
    Some (Return HID_PARSE_UnexpectedEndCollection (ParserData (hid_start default_limits
      \<lparr>StateTable_junk = replicate 2 zero_state, UsageList_junk = replicate 8 7, NewReportItem_junk = zero_item\<rparr>)))"
  using parser_reads_entries [of "[(0, 0xC0, B0, 0)]" "mem_of [0xC0]" 0 default_limits
      "\<lparr>StateTable_junk = replicate 2 zero_state, UsageList_junk = replicate 8 7, NewReportItem_junk = zero_item\<rparr>" "\<lambda>_. True"]
  by (simp add: entry_ok_def entry_bytes_def entry_prefix_def entry_data_def hid_consts hid_item_defs mem_of_def
      hid_switch_def hid_end_collection_def hid_start_def)

section \<open>Report items: reading back what was written\<close>

text \<open>Bit \<open>j\<close> of a field at bit offset \<open>off\<close> of a report at address \<open>p\<close>.\<close>

definition field_bit :: "mem \<Rightarrow> u16 \<Rightarrow> nat \<Rightarrow> nat \<Rightarrow> bool" where
  "field_bit m p off j = bit (m (p + of_nat ((off + j) div 8))) ((off + j) mod 8)"

lemma u16_div_mod_8:
  assumes "c < 2 ^ 16"
  shows "(of_nat c :: u16) div 8 = of_nat (c div 8)" "unat ((of_nat c :: u16) mod 8) = c mod 8"
proof -
  have 8: "(8 :: u16) = of_nat 8" by simp
  have c: "unat (of_nat c :: u16) = c" using assms by (simp add: unat_of_nat_small)
  show "(of_nat c :: u16) div 8 = of_nat (c div 8)"
    using assms c by (simp add: word_unat_eq_iff unat_div_distrib unat_of_nat_small)
  show "unat ((of_nat c :: u16) mod 8) = c mod 8"
    using c by (simp add: unat_mod_distrib)
qed

lemma tst_field:
  "c < 2 ^ 16 \<Longrightarrow> tst (m (p + of_nat c div 8)) (unat ((of_nat c :: u16) mod 8)) = field_bit m p c 0"
  by (simp add: u16_div_mod_8 tst_bit field_bit_def)

lemma field_bit_Suc: "Suc k \<le> j \<Longrightarrow> field_bit m p (Suc c) (j - Suc k) = field_bit m p c (j - k)"
  by (simp add: field_bit_def Suc_diff_Suc flip: add_Suc_right)

lemma get_bits_bit:
  "c + n \<le> 2 ^ 16 \<Longrightarrow> bit (get_bits m p n (of_nat c, 2 ^ k, v)) j \<longleftrightarrow>
    bit v j \<or> (k \<le> j \<and> j < k + n \<and> j < 32 \<and> field_bit m p c (j - k))"
proof (induction n arbitrary: c k v)
  case (Suc n)
  let ?v = "if field_bit m p c 0 then v OR 2 ^ k else v"
  have "get_bits m p (Suc n) (of_nat c, 2 ^ k, v) = get_bits m p n (of_nat (Suc c), 2 ^ Suc k, ?v)"
    using Suc.prems by (simp add: tst_field add.commute mult.commute)
  moreover have "bit ?v j \<longleftrightarrow> bit v j \<or> (j = k \<and> j < 32 \<and> field_bit m p c 0)"
    by (auto simp: bit_or_iff bit_exp_iff possible_bit_def)
  moreover have "bit (get_bits m p n (of_nat (Suc c), 2 ^ Suc k, ?v)) j \<longleftrightarrow>
      bit ?v j \<or> (Suc k \<le> j \<and> j < Suc k + n \<and> j < 32 \<and> field_bit m p (Suc c) (j - Suc k))"
    using Suc.prems by (intro Suc.IH) simp
  ultimately show ?case by (cases "j = k") (auto simp: field_bit_Suc)
qed auto

lemma set_bits_bit:
  "c + n \<le> 2 ^ 16 \<Longrightarrow> bit (set_bits p v n (of_nat c, 2 ^ k) m a) b \<longleftrightarrow>
    bit (m a) b \<or> (\<exists>j < n. k + j < 32 \<and> bit v (k + j) \<and> a = p + of_nat ((c + j) div 8) \<and> b = (c + j) mod 8)"
proof (induction n arbitrary: c k m)
  case (Suc n)
  let ?m = "if k < 32 \<and> bit v k then m(p + of_nat (c div 8) := m (p + of_nat (c div 8)) OR bv (c mod 8)) else m"
  have t: "v AND 2 ^ k \<noteq> 0 \<longleftrightarrow> k < 32 \<and> bit v k"
    using tst_bit [of v k] bit_imp_le_length [of v k] by (auto simp: tst_def bv_def push_bit_eq_mult)
  have "set_bits p v (Suc n) (of_nat c, 2 ^ k) m = set_bits p v n (of_nat (Suc c), 2 ^ Suc k) ?m"
    using Suc.prems by (simp add: t u16_div_mod_8 add.commute mult.commute Let_def)
  moreover have "bit (?m a) b \<longleftrightarrow> bit (m a) b \<or>
      (k < 32 \<and> bit v k \<and> a = p + of_nat (c div 8) \<and> b = c mod 8)"
    by (auto simp: bit_or_iff bit_bv)
  moreover have "bit (set_bits p v n (of_nat (Suc c), 2 ^ Suc k) ?m a) b \<longleftrightarrow>
    bit (?m a) b \<or> (\<exists>j < n. Suc k + j < 32 \<and> bit v (Suc k + j) \<and> a = p + of_nat ((Suc c + j) div 8) \<and> b = (Suc c + j) mod 8)"
    using Suc.prems by (intro Suc.IH) simp
  ultimately show ?case unfolding Ex_less_Suc2 by (auto simp del: set_bits.simps)
qed simp

lemma field_slot_inj:
  assumes "c + j < 2 ^ 16" "c + i < 2 ^ 16" "p + of_nat ((c + j) div 8) = p + (of_nat ((c + i) div 8) :: u16)"
    "(c + j) mod 8 = (c + i) mod 8"
  shows "j = i"
proof -
  have "(c + j) div 8 < 2 ^ 16" "(c + i) div 8 < 2 ^ 16" using assms(1,2) by simp_all
  then have "unat (of_nat ((c + j) div 8) :: u16) = (c + j) div 8" "unat (of_nat ((c + i) div 8) :: u16) = (c + i) div 8"
    by (simp_all add: unat_of_nat_small)
  then have "(c + j) div 8 = (c + i) div 8" using assms(3) by (metis add_left_cancel)
  with assms(4) show ?thesis by (metis add_left_cancel div_mult_mod_eq)
qed

text \<open>Writing a field and reading it gives the value, as far as the field has bits and if its bits were clear.\<close>

lemma set_get_bits:
  assumes "c + n \<le> 2 ^ 16" "n \<le> 32" "\<And>j. j < n \<Longrightarrow> \<not> field_bit m p c j"
  shows "get_bits (set_bits p v n (of_nat c, 1) m) p n (of_nat c, 1, 0) = take_bit n v"
proof (rule bit_word_eqI)
  fix j :: nat
  let ?m = "set_bits p v n (of_nat c, 1) m"
  have g: "bit (get_bits ?m p n (of_nat c, 1, 0)) j \<longleftrightarrow> j < n \<and> j < 32 \<and> field_bit ?m p c j"
    using get_bits_bit [OF assms(1), of ?m p 0 0 j] by simp
  have "field_bit ?m p c j \<longleftrightarrow> bit v j" if "j < n"
  proof -
    have "field_bit ?m p c j \<longleftrightarrow> (\<exists>i < n. bit v i \<and> p + of_nat ((c + j) div 8) = p + (of_nat ((c + i) div 8) :: u16) \<and>
        (c + j) mod 8 = (c + i) mod 8)"
      using set_bits_bit [OF assms(1), of p v 0 m] assms(2) assms(3) [OF that] that by (auto simp: field_bit_def)
    also have "\<dots> \<longleftrightarrow> bit v j" using that assms(1) field_slot_inj [of c j _ p] by force
    finally show ?thesis .
  qed
  with g assms(2) show "bit (get_bits ?m p n (of_nat c, 1, 0)) j \<longleftrightarrow> bit (take_bit n v) j"
    by (auto simp: bit_take_bit_iff)
qed

text \<open>
  C37: reading a report item back from a report gives the value that was written, truncated to the
  item's size, and moves the old value to \<open>PreviousValue\<close>; writing changes no bit of the
  memory outside the field and the report ID.  This needs items of at most 32 bits whose bits in
  the report are clear before, since writing only sets bits.
\<close>

theorem HID_item_roundtrip:
  fixes it :: HID_ReportItem_t and ReportData :: u16
  defines "off \<equiv> unat (BitOffset it)" and "n \<equiv> unat (BitSize (Attributes_item it))"
    and "p \<equiv> (if ReportID_item it \<noteq> 0 then ReportData + 1 else ReportData)"
  assumes "off + n \<le> 2 ^ 16" "n \<le> 32" "\<And>j. j < n \<Longrightarrow> \<not> field_bit m p off j"
  shows "\<exists>it' m'. USB_SetHIDReportItemInfo ReportData (Some it) m = (Some it', m') \<and>
    USB_GetHIDReportItemInfo m' ReportData (Some it') =
      (True, Some (it\<lparr>Value := take_bit n (Value it), PreviousValue := Value it\<rparr>)) \<and>
    (\<forall>a b. bit (m' a) b = bit (m a) b \<or> (a = ReportData \<and> ReportID_item it \<noteq> 0) \<or>
      (\<exists>j < n. a = p + of_nat ((off + j) div 8) \<and> b = (off + j) mod 8))"
proof -
  let ?m1 = "if ReportID_item it \<noteq> 0 then m(ReportData := ReportID_item it) else m"
  let ?m' = "set_bits p (Value it) n (of_nat off, 1) ?m1"
  have off: "of_nat off = BitOffset it" by (simp add: off_def)
  have ne: "p + of_nat ((off + j) div 8) \<noteq> ReportData" if "ReportID_item it \<noteq> 0" "j < n" for j
  proof
    assume "p + of_nat ((off + j) div 8) = ReportData"
    then have "(1 :: u16) + of_nat ((off + j) div 8) = 0" using that(1) by (simp add: p_def add.assoc)
    then have "(of_nat (Suc ((off + j) div 8)) :: u16) = 0" by simp
    moreover have "Suc ((off + j) div 8) < 2 ^ 16" using that(2) assms(4) by simp
    ultimately show False using unat_of_nat_small [of "Suc ((off + j) div 8)", where 'a = 16] by (simp del: of_nat_Suc)
  qed
  then have clear: "\<not> field_bit ?m1 p off j" if "j < n" for j
    using that assms(6) [OF that] by (auto simp: field_bit_def)
  have set: "USB_SetHIDReportItemInfo ReportData (Some it) m = (Some (it\<lparr>PreviousValue := Value it\<rparr>), ?m')"
    by (simp add: USB_SetHIDReportItemInfo_def p_def n_def off Let_def)
  have "bit (?m' a) b = bit (?m1 a) b" if "\<not> (\<exists>j < n. a = p + of_nat ((off + j) div 8) \<and> b = (off + j) mod 8)" for a b
    using set_bits_bit [OF assms(4), of p "Value it" 0 ?m1 a b] that by auto
  moreover from this [of ReportData] ne have "ReportID_item it \<noteq> 0 \<Longrightarrow> ?m' ReportData = ReportID_item it"
    by (intro bit_word_eqI) auto
  then have "USB_GetHIDReportItemInfo ?m' ReportData (Some (it\<lparr>PreviousValue := Value it\<rparr>)) =
      (True, Some (it\<lparr>Value := take_bit n (Value it), PreviousValue := Value it\<rparr>))"
    using set_get_bits [OF assms(4,5) clear, of "Value it"]
    by (auto simp: USB_GetHIDReportItemInfo_def p_def [symmetric] n_def [symmetric] off [symmetric] Let_def)
  ultimately show ?thesis using set by (intro exI conjI) (auto split: if_splits)
qed

theorem HID_item_roundtrip_witness:
  "\<exists>it' m'. USB_SetHIDReportItemInfo 0x100 (Some (zero_item\<lparr>BitOffset := 3,
      Attributes_item := zero_attributes\<lparr>BitSize := 4\<rparr>, Value := 0x15\<rparr>)) (\<lambda>_. 0) = (Some it', m') \<and>
    fst (USB_GetHIDReportItemInfo m' 0x100 (Some it')) \<and>
    map_option Value (snd (USB_GetHIDReportItemInfo m' 0x100 (Some it'))) = Some 5"
  using HID_item_roundtrip [of "zero_item\<lparr>BitOffset := 3,
      Attributes_item := zero_attributes\<lparr>BitSize := 4\<rparr>, Value := 0x15\<rparr>" "\<lambda>_. 0" "0x100"]
  by (auto simp: field_bit_def zero_item_def zero_attributes_def)

section \<open>The report descriptor of the firmware\<close>

text \<open>The entries of \<open>JoystickReport\<close>, as the macros in \<open>Descriptors.c\<close> have them.\<close>

definition joystick_entries :: "hid_entry list" where
  "joystick_entries =
     [(4, 0x00, B8, 1), (8, 0x00, B8, 5), (0, 0xA0, B8, 1), (4, 0x10, B8, 0), (4, 0x20, B8, 1), (4, 0x30, B8, 0),
      (4, 0x40, B8, 1), (4, 0x70, B8, 1), (4, 0x90, B8, 16), (4, 0x00, B8, 9), (8, 0x10, B8, 1), (8, 0x20, B8, 16),
      (0, 0x80, B8, 2), (4, 0x00, B8, 1), (4, 0x20, B8, 7), (4, 0x40, B16, 315), (4, 0x70, B8, 4), (4, 0x90, B8, 1),
      (4, 0x60, B8, 20), (8, 0x00, B8, 57), (0, 0x80, B8, 66), (4, 0x60, B8, 0), (4, 0x90, B8, 1), (0, 0x80, B8, 1),
      (4, 0x20, B16, 255), (4, 0x40, B16, 255), (8, 0x00, B8, 48), (8, 0x00, B8, 49), (8, 0x00, B8, 50), (8, 0x00, B8, 53),
      (4, 0x70, B8, 8), (4, 0x90, B8, 4), (0, 0x80, B8, 2), (4, 0x00, B16, 65280), (8, 0x00, B8, 32), (4, 0x90, B8, 1),
      (0, 0x80, B8, 2), (8, 0x00, B16, 9761), (4, 0x90, B8, 8), (0, 0x90, B8, 2), (0, 0xC0, B0, 0)]"

lemma JoystickReport_entries: "JoystickReport = concat (map entry_bytes joystick_entries)"
  by (simp add: JoystickReport_def joystick_entries_def entry_bytes_def hid_item_defs)

lemma joystick_entries_ok: "list_all entry_ok joystick_entries"
  by (simp add: joystick_entries_def entry_ok_def hid_consts)

lemma length_JoystickReport_86: "length (concat (map entry_bytes joystick_entries)) = 86"
  by (simp add: joystick_entries_def entry_bytes_def HID_RI_ENTRY_def)

definition hid_summary :: "hid_limits \<Rightarrow> hid_stop + hid_state \<Rightarrow> u8 \<times> (u8 \<times> u16 option \<times> u16 option)" where
  "hid_summary L r =
     (let sum = (\<lambda>P. (TotalReportItems P, USB_GetHIDReportSize L P 0 HID_REPORT_ITEM_In,
                USB_GetHIDReportSize L P 0 HID_REPORT_ITEM_Out))
      in case r of Inr z \<Rightarrow> (HID_PARSE_Successful, sum (ParserData z))
         | Inl (Return e P) \<Rightarrow> (e, sum P)
         | Inl stop \<Rightarrow> (0xFF, 0, None, None))"


lemma joystick_summary_default:
  "fst (hid_summary default_limits
     (hid_run default_limits
       \<lparr>StateTable_junk = [a, b], UsageList_junk = [u0, u1, u2, u3, u4, u5, u6, u7], NewReportItem_junk = g\<rparr> (\<lambda>_. True)
       joystick_entries (hid_start default_limits
         \<lparr>StateTable_junk = [a, b], UsageList_junk = [u0, u1, u2, u3, u4, u5, u6, u7], NewReportItem_junk = g\<rparr>))) =
   HID_PARSE_InsufficientReportItems"
  by code_simp

lemma default_locals:
  assumes "locals_ok L U" "HID_STATETABLE_STACK_DEPTH L = 2" "HID_USAGE_STACK_DEPTH L = 8"
  obtains a b u0 u1 u2 u3 u4 u5 u6 u7 g where "U = \<lparr>StateTable_junk = [a, b],
    UsageList_junk = [u0, u1, u2, u3, u4, u5, u6, u7], NewReportItem_junk = g\<rparr>"
proof -
  have "length (StateTable_junk U) = Suc (Suc 0)" "length (UsageList_junk U) = Suc (Suc (Suc (Suc (Suc (Suc (Suc (Suc 0)))))))"
    using assms by (simp_all add: locals_ok_def)
  then show thesis using that by (cases U) (auto simp: length_Suc_conv)
qed

lemma JoystickReport_run:
  "USB_ProcessHIDReport L U cb (mem_of JoystickReport) 0 (of_nat (length JoystickReport)) =
    Some (case hid_run L U cb joystick_entries (hid_start L U) of
        Inl stop \<Rightarrow> stop
      | Inr z \<Rightarrow> if TotalReportItems (ParserData z) = 0 then Return HID_PARSE_NoUnfilteredReportItems (ParserData z)
                 else Return HID_PARSE_Successful (ParserData z))"
  unfolding JoystickReport_entries USB_ProcessHIDReport_def
  by (subst hid_loop_entries [OF joystick_entries_ok])
    (simp_all only: length_JoystickReport_86, simp_all add: mem_of_def unat_of_nat_small length_JoystickReport_86)



text \<open>
  With the default limits of the header the parser rejects the report descriptor of the
  firmware: 20 report items are not enough.
\<close>

theorem default_limits_too_small:
  assumes "locals_ok default_limits U"
  shows "\<exists>P. USB_ProcessHIDReport default_limits U (\<lambda>_. True) (mem_of JoystickReport) 0 (of_nat (length JoystickReport)) =
    Some (Return HID_PARSE_InsufficientReportItems P)"
proof -
  obtain a b u0 u1 u2 u3 u4 u5 u6 u7 g where U: "U = \<lparr>StateTable_junk = [a, b],
      UsageList_junk = [u0, u1, u2, u3, u4, u5, u6, u7], NewReportItem_junk = g\<rparr>"
    by (rule default_locals [OF assms]) (simp_all add: default_limits_def)
  note s = joystick_summary_default [of a b u0 u1 u2 u3 u4 u5 u6 u7 g, folded U]
  show ?thesis
    using s unfolding JoystickReport_run
    by (auto simp: hid_summary_def hid_codes split: sum.splits hid_stop.splits)
qed

theorem default_limits_too_small_witness:
  "\<exists>P. USB_ProcessHIDReport default_limits
      \<lparr>StateTable_junk = replicate 2 zero_state, UsageList_junk = replicate 8 7, NewReportItem_junk = zero_item\<rparr>
      (\<lambda>_. True) (mem_of JoystickReport) 0 (of_nat (length JoystickReport)) =
    Some (Return HID_PARSE_InsufficientReportItems P)"
  by (rule default_limits_too_small) (simp add: locals_ok_def default_limits_def)

end
