(* ===== verification/Boot_Flash.thy ===== *)
theory Boot_Flash
  imports PGCon_Prelude
begin

text \<open>
  The self-programming interface of the AVR that the bootloaders of the LUFA library use.
  The functions of \<open>avr/boot.h\<close>, \<open>avr/pgmspace.h\<close> and \<open>avr/eeprom.h\<close> belong to the C library and
  the hardware, so they are a parameter: a record of operations on a state \<open>'f\<close>.
  \<open>spm_flash\<close> states what their documentation promises.  \<open>BootloaderAPI.c\<close> wraps them.
\<close>

record 'f boot =
  boot_page_erase :: "u32 \<Rightarrow> 'f \<Rightarrow> 'f"
  boot_page_fill :: "u32 \<Rightarrow> u16 \<Rightarrow> 'f \<Rightarrow> 'f"
  boot_page_write :: "u32 \<Rightarrow> 'f \<Rightarrow> 'f"
  boot_spm_busy_wait :: "'f \<Rightarrow> 'f"
  boot_rww_enable :: "'f \<Rightarrow> 'f"
  pgm_read_byte :: "u32 \<Rightarrow> 'f \<Rightarrow> u8"
  eeprom_read_byte :: "u16 \<Rightarrow> 'f \<Rightarrow> u8"
  eeprom_update_byte :: "u16 \<Rightarrow> u8 \<Rightarrow> 'f \<Rightarrow> 'f"

section \<open>The wrappers of the bootloader API\<close>

definition BootloaderAPI_ErasePage :: "'f boot \<Rightarrow> u32 \<Rightarrow> 'f \<Rightarrow> 'f" where
  "BootloaderAPI_ErasePage B Address s = boot_rww_enable B (boot_spm_busy_wait B (boot_page_erase B Address s))"

definition BootloaderAPI_WritePage :: "'f boot \<Rightarrow> u32 \<Rightarrow> 'f \<Rightarrow> 'f" where
  "BootloaderAPI_WritePage B Address s = boot_rww_enable B (boot_spm_busy_wait B (boot_page_write B Address s))"

definition BootloaderAPI_FillWord :: "'f boot \<Rightarrow> u32 \<Rightarrow> u16 \<Rightarrow> 'f \<Rightarrow> 'f" where
  "BootloaderAPI_FillWord B Address Word s = boot_page_fill B Address Word s"

section \<open>The documented behaviour of the flash\<close>

text \<open>
  The flash memory is divided into pages of \<open>2 ^ k\<close> bytes; \<open>flash s\<close> is its contents and \<open>buf s\<close> that of the
  page buffer.  Erasing a page sets its bytes to 0xFF.  A word may be filled into the buffer
  at an even address once between two page writes; a page write can only clear bits of the flash and
  empties the buffer.
\<close>

definition spm_flash :: "'f boot \<Rightarrow> nat \<Rightarrow> ('f \<Rightarrow> nat \<Rightarrow> u8) \<Rightarrow> ('f \<Rightarrow> nat \<Rightarrow> u8) \<Rightarrow> bool" where
  "spm_flash B k flash buf \<longleftrightarrow>
     (\<forall>a s. flash (boot_page_erase B a s) = (\<lambda>x. if x div 2 ^ k = unat a div 2 ^ k then 0xFF else flash s x) \<and>
        buf (boot_page_erase B a s) = buf s) \<and>
     (\<forall>a w s. even (unat a) \<longrightarrow> buf s (unat a mod 2 ^ k) = 0xFF \<longrightarrow> buf s (unat a mod 2 ^ k + 1) = 0xFF \<longrightarrow>
        flash (boot_page_fill B a w s) = flash s \<and>
        buf (boot_page_fill B a w s) =
          (buf s)(unat a mod 2 ^ k := ucast w, unat a mod 2 ^ k + 1 := ucast (drop_bit 8 w))) \<and>
     (\<forall>a s. flash (boot_page_write B a s) =
          (\<lambda>x. if x div 2 ^ k = unat a div 2 ^ k then flash s x AND buf s (x mod 2 ^ k) else flash s x) \<and>
        buf (boot_page_write B a s) = (\<lambda>_. 0xFF)) \<and>
     (\<forall>s. flash (boot_spm_busy_wait B s) = flash s \<and> buf (boot_spm_busy_wait B s) = buf s \<and>
        flash (boot_rww_enable B s) = flash s \<and> buf (boot_rww_enable B s) = buf s) \<and>
     (\<forall>a s. pgm_read_byte B a s = flash s (unat a))"

lemma spm_flashD:
  assumes "spm_flash B k flash buf"
  shows "flash (boot_page_erase B a s) = (\<lambda>x. if x div 2 ^ k = unat a div 2 ^ k then 0xFF else flash s x)"
    "buf (boot_page_erase B a s) = buf s"
    "flash (boot_page_write B a s) =
      (\<lambda>x. if x div 2 ^ k = unat a div 2 ^ k then flash s x AND buf s (x mod 2 ^ k) else flash s x)"
    "buf (boot_page_write B a s) = (\<lambda>_. 0xFF)"
    "flash (boot_spm_busy_wait B s) = flash s" "buf (boot_spm_busy_wait B s) = buf s"
    "flash (boot_rww_enable B s) = flash s" "buf (boot_rww_enable B s) = buf s"
    "pgm_read_byte B a s = flash s (unat a)"
  using assms unfolding spm_flash_def by simp_all

lemma spm_flash_fill:
  assumes "spm_flash B k flash buf" "even (unat a)" "buf s (unat a mod 2 ^ k) = 0xFF" "buf s (unat a mod 2 ^ k + 1) = 0xFF"
  shows "flash (boot_page_fill B a w s) = flash s"
    "buf (boot_page_fill B a w s) = (buf s)(unat a mod 2 ^ k := ucast w, unat a mod 2 ^ k + 1 := ucast (drop_bit 8 w))"
  using assms unfolding spm_flash_def by simp_all

text \<open>A flash that behaves so: its contents, the page buffer and the EEPROM.\<close>

definition mem_boot :: "nat \<Rightarrow> ((nat \<Rightarrow> u8) \<times> (nat \<Rightarrow> u8) \<times> (u16 \<Rightarrow> u8)) boot" where
  "mem_boot k = \<lparr>
     boot_page_erase = (\<lambda>a (f, b, e). (\<lambda>x. if x div 2 ^ k = unat a div 2 ^ k then 0xFF else f x, b, e)),
     boot_page_fill = (\<lambda>a w (f, b, e). (f, b(unat a mod 2 ^ k := ucast w, unat a mod 2 ^ k + 1 := ucast (drop_bit 8 w)), e)),
     boot_page_write = (\<lambda>a (f, b, e). (\<lambda>x. if x div 2 ^ k = unat a div 2 ^ k then f x AND b (x mod 2 ^ k) else f x, \<lambda>_. 0xFF, e)),
     boot_spm_busy_wait = (\<lambda>s. s), boot_rww_enable = (\<lambda>s. s),
     pgm_read_byte = (\<lambda>a (f, b, e). f (unat a)),
     eeprom_read_byte = (\<lambda>a (f, b, e). e a),
     eeprom_update_byte = (\<lambda>a v (f, b, e). (f, b, e(a := v)))\<rparr>"

lemma spm_flash_mem: "spm_flash (mem_boot k) k fst (\<lambda>s. fst (snd s))"
  by (auto simp: spm_flash_def mem_boot_def case_prod_beta')

section \<open>Page addresses\<close>

lemma page_address: "unat ((a :: u32) AND NOT (2 ^ k - 1)) = unat a div 2 ^ k * 2 ^ k"
proof -
  have "a AND NOT (2 ^ k - 1) = a AND NOT (mask k)" by (simp add: mask_eq_exp_minus_1)
  moreover have "unat (a AND NOT (mask k)) = push_bit k (drop_bit k (unat a))"
    by (rule bit_eqI) (auto simp: bit_simps dest: bit_imp_le_length)
  ultimately show ?thesis by (simp add: push_bit_eq_mult drop_bit_eq_div)
qed

lemma less_div_mod:
  fixes x n b :: nat
  shows "x < n \<longleftrightarrow> x div b < n div b \<or> x div b = n div b \<and> x mod b < n mod b"
proof
  assume "x < n"
  then have "x div b \<le> n div b" by (simp add: div_le_mono)
  moreover have "x mod b < n mod b" if "x div b = n div b"
    using \<open>x < n\<close> that div_mult_mod_eq [of x b] div_mult_mod_eq [of n b] by (metis nat_add_left_cancel_less)
  ultimately show "x div b < n div b \<or> x div b = n div b \<and> x mod b < n mod b" by linarith
next
  assume "x div b < n div b \<or> x div b = n div b \<and> x mod b < n mod b"
  then show "x < n"
  proof
    assume "x div b < n div b"
    then show "x < n" using div_le_mono [of n x b] by linarith
  next
    assume "x div b = n div b \<and> x mod b < n mod b"
    then show "x < n" using div_mult_mod_eq [of x b] div_mult_mod_eq [of n b] by (metis nat_add_left_cancel_less)
  qed
qed

section \<open>Programming word by word\<close>

lemma page_next:
  fixes m k :: nat
  assumes "even m" "1 \<le> k"
  shows "Suc (Suc m) div 2 ^ k = (if m mod 2 ^ k + 2 = 2 ^ k then Suc (m div 2 ^ k) else m div 2 ^ k)"
    "Suc (Suc m) mod 2 ^ k = (if m mod 2 ^ k + 2 = 2 ^ k then 0 else m mod 2 ^ k + 2)"
    "m mod 2 ^ k + 1 < 2 ^ k" "even (m mod 2 ^ k)"
proof -
  have e: "even (2 ^ k :: nat)" using assms(2) by simp
  show r: "even (m mod 2 ^ k)" using assms e by (metis dvd_mod)
  have l: "m mod 2 ^ k < 2 ^ k" by simp
  with r e show l1: "m mod 2 ^ k + 1 < 2 ^ k" by (metis Suc_eq_plus1 Suc_lessI even_Suc)
  define q where "q = m div 2 ^ k"
  define r' where "r' = m mod 2 ^ k"
  have m: "m = q * 2 ^ k + r'" unfolding q_def r'_def by (rule div_mult_mod_eq [symmetric])
  have s: "Suc (Suc m) = (if r' + 2 = 2 ^ k then Suc q * 2 ^ k else q * 2 ^ k + (r' + 2))" using m by auto
  have b: "r' + 2 \<le> 2 ^ k" using l1 by (simp add: r'_def)
  have next_page: "(q * 2 ^ k + (r' + 2)) div 2 ^ k = q" if "r' + 2 \<noteq> 2 ^ k"
    by (subst div_mult_self3) (use that b in simp_all)
  have next_offset: "(q * 2 ^ k + (r' + 2)) mod 2 ^ k = r' + 2" if "r' + 2 \<noteq> 2 ^ k"
    by (subst mod_mult_self3) (use that b in simp_all)
  show "Suc (Suc m) div 2 ^ k = (if m mod 2 ^ k + 2 = 2 ^ k then Suc (m div 2 ^ k) else m div 2 ^ k)"
    unfolding s q_def [symmetric] r'_def [symmetric] using b next_page by (auto simp del: mult_Suc)
  show "Suc (Suc m) mod 2 ^ k = (if m mod 2 ^ k + 2 = 2 ^ k then 0 else m mod 2 ^ k + 2)"
    unfolding s q_def [symmetric] r'_def [symmetric] using b next_offset by (auto simp del: mult_Suc)
qed

lemma and_0xFF [simp]: "255 AND b = (b :: u8)"
proof -
  have "(255 :: u8) = - 1" by simp
  then show ?thesis by (simp only: and.left_neutral)
qed

text \<open>
  The memory while an image is being written at consecutive addresses from \<open>b\<close> to \<open>a\<close>: the complete pages are in
  the flash, the rest is in the page buffer and its page is erased.
\<close>

definition programmed ::
  "nat \<Rightarrow> ('f \<Rightarrow> nat \<Rightarrow> u8) \<Rightarrow> ('f \<Rightarrow> nat \<Rightarrow> u8) \<Rightarrow> (nat \<Rightarrow> u8) \<Rightarrow> nat \<Rightarrow> (nat \<Rightarrow> u8) \<Rightarrow> nat \<Rightarrow> 'f \<Rightarrow> bool" where
  "programmed k flash buf img b f a m \<longleftrightarrow>
     flash m = (\<lambda>x. if b \<le> x \<and> x div 2 ^ k < a div 2 ^ k then img x
       else if a mod 2 ^ k \<noteq> 0 \<and> x div 2 ^ k = a div 2 ^ k then 0xFF else f x) \<and>
     buf m = (\<lambda>o'. if o' < a mod 2 ^ k then img (a div 2 ^ k * 2 ^ k + o') else 0xFF)"

text \<open>
  One word more: the page is erased at its first word, the word goes into the buffer, and the page is written when
  it is complete.  \<open>m1\<close> and \<open>m3\<close> are the memories after the erasure and after the write.
\<close>

lemma program_word:
  assumes f: "spm_flash B k flash buf" and k: "1 \<le> k" and p: "programmed k flash buf img b f a m"
    and b: "b mod 2 ^ k = 0" "b \<le> a" and a: "even a" "unat addr = a" "unat pg div 2 ^ k = a div 2 ^ k"
    and m1: "flash m1 = (\<lambda>x. if a mod 2 ^ k = 0 \<and> x div 2 ^ k = a div 2 ^ k then 0xFF else flash m x)" "buf m1 = buf m"
    and m3: "if a mod 2 ^ k + 2 = 2 ^ k
      then flash m3 = flash (boot_page_write B pg (boot_page_fill B addr (u16_of (img a) (img (Suc a))) m1)) \<and>
        buf m3 = (\<lambda>_. 0xFF)
      else m3 = boot_page_fill B addr (u16_of (img a) (img (Suc a))) m1"
  shows "programmed k flash buf img b f (Suc (Suc a)) m3"
proof -
  note n = page_next [OF a(1) k]
  let ?w = "u16_of (img a) (img (Suc a))"
  have w: "ucast ?w = img a" "ucast (drop_bit 8 ?w) = img (Suc a)"
    using le16_u16_of [of "img a" "img (Suc a)"] by (simp_all add: le16_def)
  have e: "even (unat addr)" using a by simp
  have ff: "buf m1 (unat addr mod 2 ^ k) = 0xFF" "buf m1 (unat addr mod 2 ^ k + 1) = 0xFF"
    using p by (simp_all add: m1 a(2) programmed_def)
  note fill = spm_flash_fill [OF f e ff, where w = ?w, unfolded a(2) w]
  have fm: "flash m1 x = (if b \<le> x \<and> x div 2 ^ k < a div 2 ^ k then img x else if x div 2 ^ k = a div 2 ^ k then 0xFF else f x)" for x
    using p by (auto simp: m1 programmed_def)
  show ?thesis
  proof (cases "a mod 2 ^ k + 2 = 2 ^ k")
    case True
    have full: "buf (boot_page_fill B addr ?w m1) o' = img (a div 2 ^ k * 2 ^ k + o')" if "o' < 2 ^ k" for o'
      using True p that div_mult_mod_eq [of a "2 ^ k"] by (auto simp: fill m1 programmed_def less_Suc_eq)
    have low: "b \<le> x" if "x div 2 ^ k = a div 2 ^ k" for x
    proof -
      have "b div 2 ^ k * 2 ^ k = b" using b(1) div_mult_mod_eq [of b "2 ^ k"] by simp
      moreover have "b div 2 ^ k \<le> x div 2 ^ k" using that b(2) by (simp add: div_le_mono)
      ultimately show ?thesis using div_mult_mod_eq [of x "2 ^ k"] by (metis mult_le_mono1 trans_le_add1)
    qed
    have "flash m3 x = (if b \<le> x \<and> x div 2 ^ k < Suc (a div 2 ^ k) then img x else f x)" for x
      using m3 True full [of "x mod 2 ^ k"] div_mult_mod_eq [of x "2 ^ k"] low [of x] a(3)
      by (auto simp: spm_flashD [OF f] fill fm less_Suc_eq)
    moreover have "buf m3 = (\<lambda>_. 0xFF)" using m3 True by simp
    ultimately show ?thesis using True n by (auto simp: programmed_def fun_eq_iff)
  next
    case False
    with m3 have m3': "m3 = boot_page_fill B addr ?w m1" by simp
    show ?thesis using False p n div_mult_mod_eq [of a "2 ^ k"]
      by (auto simp: programmed_def m3' fill m1 fm fun_eq_iff)
  qed
qed

end
