(* ===== verification/Intel_Hex.thy ===== *)
theory Intel_Hex
  imports Boot_Flash
begin

text \<open>
  The Intel HEX parser of the printer bootloader (\<open>Bootloaders/Printer/BootloaderPrinter.c\<close>): a state machine
  that is fed the characters of a HEX file one by one and programs the flash as it goes.
  The page size and the start of the boot section are parameters of the target.
\<close>

section \<open>The parser\<close>

datatype HEX_Parser_States =
    HEX_PARSE_STATE_WAIT_LINE | HEX_PARSE_STATE_BYTE_COUNT | HEX_PARSE_STATE_ADDRESS_HIGH | HEX_PARSE_STATE_ADDRESS_LOW
  | HEX_PARSE_STATE_RECORD_TYPE | HEX_PARSE_STATE_READ_DATA | HEX_PARSE_STATE_CHECKSUM

text \<open>The record types, which the parser compares with a byte of the file.\<close>

definition HEX_RECORD_TYPE_Data :: u8 where "HEX_RECORD_TYPE_Data = 0"
definition HEX_RECORD_TYPE_EndOfFile :: u8 where "HEX_RECORD_TYPE_EndOfFile = 1"
definition HEX_RECORD_TYPE_ExtendedSegmentAddress :: u8 where "HEX_RECORD_TYPE_ExtendedSegmentAddress = 2"
definition HEX_RECORD_TYPE_ExtendedLinearAddress :: u8 where "HEX_RECORD_TYPE_ExtendedLinearAddress = 4"

lemmas record_types = HEX_RECORD_TYPE_Data_def HEX_RECORD_TYPE_EndOfFile_def
  HEX_RECORD_TYPE_ExtendedSegmentAddress_def HEX_RECORD_TYPE_ExtendedLinearAddress_def

record 'f HEXParser =
  ParserState :: HEX_Parser_States
  PrevData :: u8
  Data_hx :: u8
  ReadMSB :: bool
  RecordType :: u8
  DataRem :: u8
  Checksum :: u8
  PageStartAddress :: u32
  CurrBaseAddress :: u32
  CurrAddress :: u32
  PageDirty :: bool
  RunBootloader :: bool
  boot_mem :: 'f

definition HexToDecimal :: "u8 \<Rightarrow> int" where
  "HexToDecimal Byte =
     (if Byte \<ge> 65 \<and> Byte \<le> 70 then 10 + (uint Byte - 65)
      else if Byte \<ge> 48 \<and> Byte \<le> 57 then uint Byte - 48
      else - 1)"

definition FlushPageIfRequired :: "'f boot \<Rightarrow> nat \<Rightarrow> 'f HEXParser \<Rightarrow> 'f HEXParser" where
  "FlushPageIfRequired B k s =
     (if \<not> PageDirty s then s
      else let NewPageStartAddress = CurrAddress s AND NOT (2 ^ k - 1) in
        if PageStartAddress s \<noteq> NewPageStartAddress
        then s\<lparr>boot_mem := boot_spm_busy_wait B (boot_page_write B (PageStartAddress s) (boot_mem s)),
               PageStartAddress := NewPageStartAddress, PageDirty := False\<rparr>
        else s)"

text \<open>The case of a data byte, after the guard that protects the bootloader.\<close>

definition hex_data_word :: "'f boot \<Rightarrow> nat \<Rightarrow> 'f HEXParser \<Rightarrow> 'f HEXParser" where
  "hex_data_word B k s =
     (let NewDataWord = push_bit 8 (ucast (Data_hx s)) OR ucast (PrevData s) :: u16 in
      if RecordType s = HEX_RECORD_TYPE_Data then
        let s1 = (if \<not> PageDirty s
                  then s\<lparr>boot_mem := boot_spm_busy_wait B (boot_page_erase B (PageStartAddress s) (boot_mem s)), PageDirty := True\<rparr>
                  else s)
        in FlushPageIfRequired B k
             (s1\<lparr>boot_mem := boot_page_fill B (CurrAddress s1) NewDataWord (boot_mem s1), CurrAddress := CurrAddress s1 + 2\<rparr>)
      else if RecordType s = HEX_RECORD_TYPE_ExtendedSegmentAddress then s\<lparr>CurrBaseAddress := push_bit 4 (ucast NewDataWord)\<rparr>
      else if RecordType s = HEX_RECORD_TYPE_ExtendedLinearAddress then s\<lparr>CurrBaseAddress := push_bit 16 (ucast NewDataWord)\<rparr>
      else s)"

definition hex_read_data :: "'f boot \<Rightarrow> nat \<Rightarrow> u32 \<Rightarrow> 'f HEXParser \<Rightarrow> 'f HEXParser" where
  "hex_read_data B k BOOT_START_ADDR s =
     (let s1 = s\<lparr>DataRem := DataRem s - 1\<rparr> in
      if CurrAddress s1 \<ge> BOOT_START_ADDR then s1\<lparr>ParserState := HEX_PARSE_STATE_WAIT_LINE, PageDirty := False\<rparr>
      else if DataRem s1 AND 1 \<noteq> 0 then s1\<lparr>PrevData := Data_hx s1\<rparr>
      else let s2 = hex_data_word B k s1 in
        if DataRem s2 = 0 then s2\<lparr>ParserState := HEX_PARSE_STATE_CHECKSUM\<rparr> else s2)"

definition hex_byte :: "'f boot \<Rightarrow> nat \<Rightarrow> u32 \<Rightarrow> 'f HEXParser \<Rightarrow> 'f HEXParser" where
  "hex_byte B k BOOT_START_ADDR s =
     (let s = (if ParserState s \<noteq> HEX_PARSE_STATE_CHECKSUM then s\<lparr>Checksum := Checksum s + Data_hx s\<rparr> else s) in
      case ParserState s of
        HEX_PARSE_STATE_BYTE_COUNT \<Rightarrow> s\<lparr>DataRem := Data_hx s, ParserState := HEX_PARSE_STATE_ADDRESS_HIGH\<rparr>
      | HEX_PARSE_STATE_ADDRESS_HIGH \<Rightarrow>
          s\<lparr>CurrAddress := CurrAddress s + ucast (push_bit 8 (ucast (Data_hx s)) :: u16),
            ParserState := HEX_PARSE_STATE_ADDRESS_LOW\<rparr>
      | HEX_PARSE_STATE_ADDRESS_LOW \<Rightarrow>
          s\<lparr>CurrAddress := CurrAddress s + ucast (Data_hx s), ParserState := HEX_PARSE_STATE_RECORD_TYPE\<rparr>
      | HEX_PARSE_STATE_RECORD_TYPE \<Rightarrow>
          s\<lparr>RecordType := Data_hx s,
            ParserState := (if DataRem s \<noteq> 0 then HEX_PARSE_STATE_READ_DATA else HEX_PARSE_STATE_CHECKSUM)\<rparr>
      | HEX_PARSE_STATE_READ_DATA \<Rightarrow> hex_read_data B k BOOT_START_ADDR s
      | HEX_PARSE_STATE_CHECKSUM \<Rightarrow>
          (if Data_hx s \<noteq> NOT (Checksum s) + 1 then s
           else let s1 = FlushPageIfRequired B k s in
             if RecordType s1 = HEX_RECORD_TYPE_EndOfFile then s1\<lparr>RunBootloader := False\<rparr> else s1)
      | _ \<Rightarrow> s\<lparr>ParserState := HEX_PARSE_STATE_WAIT_LINE\<rparr>)"

definition ParseIntelHEXByte :: "'f boot \<Rightarrow> nat \<Rightarrow> u32 \<Rightarrow> u8 \<Rightarrow> 'f HEXParser \<Rightarrow> 'f HEXParser" where
  "ParseIntelHEXByte B k BOOT_START_ADDR ReadCharacter s =
     (if ParserState s = HEX_PARSE_STATE_WAIT_LINE \<or> ReadCharacter = 58 then
        let s1 = s\<lparr>Checksum := 0, CurrAddress := CurrBaseAddress s, ReadMSB := False\<rparr> in
        if ReadCharacter = 58 then s1\<lparr>ParserState := HEX_PARSE_STATE_BYTE_COUNT\<rparr> else s1
      else let ReadCharacterDec = HexToDecimal ReadCharacter in
        if ReadCharacterDec < 0 then s
        else let s1 = s\<lparr>Data_hx := push_bit 4 (Data_hx s) OR word_of_int ReadCharacterDec, ReadMSB := \<not> ReadMSB s\<rparr> in
          if ReadMSB s1 then s1 else hex_byte B k BOOT_START_ADDR s1)"

text \<open>The start of the bootloader, and the characters of a file fed to it one after the other.\<close>

definition HEXParser_start :: "'f \<Rightarrow> 'f HEXParser" where
  "HEXParser_start f = \<lparr>ParserState = HEX_PARSE_STATE_WAIT_LINE, PrevData = 0, Data_hx = 0, ReadMSB = False, RecordType = 0,
     DataRem = 0, Checksum = 0, PageStartAddress = 0, CurrBaseAddress = 0, CurrAddress = 0,
     PageDirty = False, RunBootloader = True, boot_mem = f\<rparr>"

definition feed :: "'f boot \<Rightarrow> nat \<Rightarrow> u32 \<Rightarrow> u8 list \<Rightarrow> 'f HEXParser \<Rightarrow> 'f HEXParser" where
  "feed B k BOOT_START_ADDR cs s = fold (ParseIntelHEXByte B k BOOT_START_ADDR) cs s"

section \<open>Intel HEX files\<close>

text \<open>The file format: two digits for a byte, a record with its sum, a file of consecutive data records.\<close>

definition hex_digit :: "u8 \<Rightarrow> u8" where
  "hex_digit d = (if d < 10 then 48 + d else 55 + d)"

definition hex2 :: "u8 \<Rightarrow> u8 list" where
  "hex2 b = [hex_digit (drop_bit 4 b), hex_digit (b AND 15)]"

definition hex_bytes :: "u8 list \<Rightarrow> u8 list" where
  "hex_bytes bs = concat (map hex2 bs)"

definition hex_record :: "u16 \<Rightarrow> u8 \<Rightarrow> u8 list \<Rightarrow> u8 list" where
  "hex_record address type data =
     (let bs = [of_nat (length data), ucast (drop_bit 8 address), ucast address, type] @ data
      in 58 # hex_bytes (bs @ [- sum_list bs]) @ [13, 10])"

fun hex_records :: "nat \<Rightarrow> u8 list list \<Rightarrow> u8 list" where
  "hex_records a [] = []"
| "hex_records a (c # cs) = hex_record (of_nat a) 0 c @ hex_records (a + length c) cs"

definition hex_file :: "u8 list list \<Rightarrow> u8 list" where
  "hex_file chunks = hex_records 0 chunks @ hex_record 0 1 []"

section \<open>Reading digits, bytes and records\<close>

lemma feed_Nil [simp]: "feed B k e [] s = s"
  by (simp add: feed_def)

lemma feed_Cons: "feed B k e (c # cs) s = feed B k e cs (ParseIntelHEXByte B k e c s)"
  by (simp add: feed_def)

lemma feed_append: "feed B k e (cs @ ds) s = feed B k e ds (feed B k e cs s)"
  by (simp add: feed_def)

lemma hex_digit_read:
  assumes "d < 16"
  shows "HexToDecimal (hex_digit d) = uint d \<and> hex_digit d \<noteq> 58"
proof -
  have "\<forall>n \<in> set [0..<16]. HexToDecimal (hex_digit (of_nat n)) = int n \<and> hex_digit (of_nat n) \<noteq> 58" by code_simp
  moreover have "unat d \<in> set [0..<16]" using assms by (simp add: word_less_nat_alt)
  ultimately have "HexToDecimal (hex_digit (of_nat (unat d))) = int (unat d) \<and> hex_digit (of_nat (unat d)) \<noteq> 58" by (rule bspec)
  then show ?thesis by simp
qed

lemma nibbles: "push_bit 4 (drop_bit 4 b) OR (b AND 15) = (b :: u8)"
proof -
  have m: "(15 :: u8) = mask 4" by (simp add: mask_eq_exp_minus_1)
  show ?thesis unfolding m
    by (rule bit_eqI) (auto simp: bit_or_iff bit_and_iff bit_push_bit_iff bit_drop_bit_eq bit_mask_iff dest: bit_imp_le_length)
qed

lemma nibble_small: "drop_bit 4 (b :: u8) < 16" "(b :: u8) AND 15 < 16"
proof -
  have "unat (drop_bit 4 b) = drop_bit 4 (unat b)" by (rule unat_drop_bit_eq)
  then have "unat (drop_bit 4 b) = unat b div 16" by (simp only: drop_bit_eq_div) simp
  moreover have "unat b < 256" using unsigned_less [of b, where 'a = nat] by simp
  ultimately show "drop_bit 4 b < 16" by (simp only: word_less_nat_alt) simp
  have "b AND 15 \<le> 15" by (rule word_and_le1)
  then show "b AND 15 < 16" by (simp add: word_le_nat_alt word_less_nat_alt)
qed

text \<open>Two digits are one byte for the state machine.\<close>

lemma feed_hex2:
  assumes "ParserState s \<noteq> HEX_PARSE_STATE_WAIT_LINE" "\<not> ReadMSB s"
  shows "feed B k e (hex2 b) s = hex_byte B k e (s\<lparr>Data_hx := b\<rparr>)"
  using assms hex_digit_read [OF nibble_small(1), of b] hex_digit_read [OF nibble_small(2), of b]
  by (cases s) (simp add: hex2_def feed_Cons ParseIntelHEXByte_def Let_def nibbles)

text \<open>
  The state in the middle of a file, after the first \<open>m\<close> bytes of the image: the complete pages are in the flash, the
  rest is in the page buffer and its page is erased.
\<close>

definition hex_inv ::
  "nat \<Rightarrow> ('f \<Rightarrow> nat \<Rightarrow> u8) \<Rightarrow> ('f \<Rightarrow> nat \<Rightarrow> u8) \<Rightarrow> u8 list \<Rightarrow> (nat \<Rightarrow> u8) \<Rightarrow> nat \<Rightarrow> 'f HEXParser \<Rightarrow> bool" where
  "hex_inv k flash buf img f m s \<longleftrightarrow>
     CurrBaseAddress s = 0 \<and> unat (PageStartAddress s) = m div 2 ^ k * 2 ^ k \<and> (PageDirty s \<longleftrightarrow> m mod 2 ^ k \<noteq> 0) \<and>
     programmed k flash buf (\<lambda>x. img ! x) 0 f m (boot_mem s)"

lemma unat_plus_2: "m + 2 < 2 ^ 32 \<Longrightarrow> unat (a :: u32) = m \<Longrightarrow> unat (a + 2) = Suc (Suc m)"
  by (simp add: unat_word_ariths(1))

text \<open>A data word: it goes into the buffer, and the page into the flash when it is complete.\<close>

lemma data_word_step:
  assumes f: "spm_flash B k flash buf" and k: "1 \<le> k" and i: "hex_inv k flash buf img f m s"
    and s: "even m" "unat (CurrAddress s) = m" "m + 2 < 2 ^ 32" "RecordType s = 0" "Data_hx s = img ! Suc m" "PrevData s = img ! m"
  shows "hex_inv k flash buf img f (Suc (Suc m)) (hex_data_word B k s) \<and> unat (CurrAddress (hex_data_word B k s)) = Suc (Suc m) \<and>
    hex_data_word B k s = s\<lparr>boot_mem := boot_mem (hex_data_word B k s), PageDirty := PageDirty (hex_data_word B k s),
      PageStartAddress := PageStartAddress (hex_data_word B k s), CurrAddress := CurrAddress s + 2\<rparr>"
proof -
  note p = page_next [OF s(1) k]
  have c: "unat (CurrAddress s + 2) = Suc (Suc m)" using s by (simp add: unat_plus_2)
  define mm where
    "mm = (if PageDirty s then boot_mem s else boot_spm_busy_wait B (boot_page_erase B (PageStartAddress s) (boot_mem s)))"
  have mm: "flash mm = (\<lambda>x. if m mod 2 ^ k = 0 \<and> x div 2 ^ k = m div 2 ^ k then 0xFF else flash (boot_mem s) x)"
    "buf mm = buf (boot_mem s)"
    using i by (auto simp: mm_def hex_inv_def spm_flashD [OF f])
  let ?w = "u16_of (img ! m) (img ! Suc m)"
  define s1 where
    "s1 = s\<lparr>boot_mem := boot_page_fill B (CurrAddress s) ?w mm, CurrAddress := CurrAddress s + 2, PageDirty := True\<rparr>"
  have h: "hex_data_word B k s = FlushPageIfRequired B k s1"
    using s by (cases s) (simp add: hex_data_word_def Let_def record_types mm_def s1_def u16_of_def)
  have page: "PageStartAddress s \<noteq> (CurrAddress s + 2) AND NOT (2 ^ k - 1) \<longleftrightarrow> m mod 2 ^ k + 2 = 2 ^ k"
    using i p by (simp add: hex_inv_def word_unat_eq_iff page_address c)
  have pg: "unat (PageStartAddress s) div 2 ^ k = m div 2 ^ k" "programmed k flash buf (\<lambda>x. img ! x) 0 f m (boot_mem s)"
    using i by (simp_all add: hex_inv_def)
  note step = program_word [OF f k pg(2) mod_0 le0 s(1,2) pg(1) mm]
  show ?thesis
  proof (cases "m mod 2 ^ k + 2 = 2 ^ k")
    case True
    then have g: "hex_data_word B k s = s1\<lparr>boot_mem := boot_spm_busy_wait B (boot_page_write B (PageStartAddress s) (boot_mem s1)),
      PageStartAddress := (CurrAddress s + 2) AND NOT (2 ^ k - 1), PageDirty := False\<rparr>"
      using page by (simp add: h FlushPageIfRequired_def s1_def)
    then show ?thesis using step [of "boot_mem (hex_data_word B k s)"] i p True
      by (simp add: hex_inv_def g s1_def page_address c spm_flashD [OF f])
  next
    case False
    then have "hex_data_word B k s = s1" using page by (simp add: h FlushPageIfRequired_def s1_def)
    then show ?thesis using step [of "boot_mem s1"] False p i by (simp add: s1_def hex_inv_def c)
  qed
qed

lemma and_1_odd: "(w :: u8) AND 1 \<noteq> 0 \<longleftrightarrow> odd (unat w)"
  using and_bv_0 [of w 0] by (simp add: bv_0 bit_0 [symmetric] bit_unsigned_iff)

lemma unat_minus_1: "0 < unat (w :: u8) \<Longrightarrow> unat (w - 1) = unat w - 1"
  by (simp add: unat_minus_one unat_gt_0)

text \<open>The data of a record, two bytes at a time.\<close>

lemma feed_data_pair:
  assumes f: "spm_flash B k flash buf" and k: "1 \<le> k" and i: "hex_inv k flash buf img f m s"
    and s: "ParserState s = HEX_PARSE_STATE_READ_DATA" "\<not> ReadMSB s" "RecordType s = 0" "unat (DataRem s) = Suc (Suc n)" "even n"
    and m: "even m" "unat (CurrAddress s) = m" "Suc (Suc m) \<le> unat e" "img ! m = b1" "img ! Suc m = b2"
  defines "s' \<equiv> feed B k e (hex2 b1 @ hex2 b2) s"
  shows "ParserState s' = (if n = 0 then HEX_PARSE_STATE_CHECKSUM else HEX_PARSE_STATE_READ_DATA) \<and> \<not> ReadMSB s' \<and>
    RecordType s' = 0 \<and> unat (DataRem s') = n \<and> hex_inv k flash buf img f (Suc (Suc m)) s' \<and>
    unat (CurrAddress s') = Suc (Suc m) \<and> Checksum s' = Checksum s + b1 + b2 \<and> RunBootloader s' = RunBootloader s"
proof -
  have "unat (DataRem s - 1) = Suc n" using s(4) by (simp add: unat_minus_1)
  then have rem: "unat (DataRem s - 1) = Suc n" "unat (DataRem s - 2) = n" using unat_minus_1 [of "DataRem s - 1"] by simp_all
  then have rem0: "DataRem s - 2 = 0 \<longleftrightarrow> n = 0" by (metis unat_eq_0)
  have b: "\<not> e \<le> CurrAddress s" using m by (simp add: word_le_nat_alt)
  let ?s1 = "s\<lparr>Data_hx := b1, Checksum := Checksum s + b1, DataRem := DataRem s - 1, PrevData := b1\<rparr>"
  have s1: "feed B k e (hex2 b1) s = ?s1"
    using s b rem and_1_odd [of "DataRem s - 1"] by (simp add: feed_hex2 hex_byte_def hex_read_data_def Let_def)
  let ?s2 = "?s1\<lparr>Data_hx := b2, Checksum := Checksum s + b1 + b2, DataRem := DataRem s - 2\<rparr>"
  have i2: "hex_inv k flash buf img f m ?s2" using i by (simp add: hex_inv_def)
  have l: "m + 2 < 2 ^ 32" using m(3) unsigned_less [of e, where 'a = nat] by simp
  have "feed B k e (hex2 b2) ?s1 = (let s3 = hex_data_word B k ?s2 in
      if DataRem s3 = 0 then s3\<lparr>ParserState := HEX_PARSE_STATE_CHECKSUM\<rparr> else s3)"
    using s b rem and_1_odd [of "DataRem s - 2"] by (simp add: feed_hex2 hex_byte_def hex_read_data_def Let_def)
  then have s': "s' = (let s3 = hex_data_word B k ?s2 in if DataRem s3 = 0 then s3\<lparr>ParserState := HEX_PARSE_STATE_CHECKSUM\<rparr> else s3)"
    by (simp add: s'_def feed_append s1)
  have "unat (CurrAddress ?s2) = m" "RecordType ?s2 = 0" "Data_hx ?s2 = img ! Suc m" "PrevData ?s2 = img ! m"
    using m s by simp_all
  note w = data_word_step [OF f k i2 m(1) this(1) l this(2,3,4)]
  then obtain mem d ps where w3: "hex_data_word B k ?s2 = ?s2\<lparr>boot_mem := mem, PageDirty := d, PageStartAddress := ps, CurrAddress := CurrAddress ?s2 + 2\<rparr>"
    by blast
  from w have "hex_inv k flash buf img f (Suc (Suc m)) (hex_data_word B k ?s2)" "unat (CurrAddress (hex_data_word B k ?s2)) = Suc (Suc m)"
    by blast+
  then show ?thesis using rem rem0 s unfolding s' w3 by (simp add: Let_def hex_inv_def)
qed

lemma hex_bytes_simps [simp]: "hex_bytes [] = []" "hex_bytes (b # bs) = hex2 b @ hex_bytes bs"
  by (simp_all add: hex_bytes_def)

lemma feed_data:
  assumes "spm_flash B k flash buf" "1 \<le> k" "hex_inv k flash buf img f m s"
    and "ParserState s = HEX_PARSE_STATE_READ_DATA" "\<not> ReadMSB s" "RecordType s = 0" "unat (DataRem s) = length c"
    and "even (length c)" "c \<noteq> []" "even m" "unat (CurrAddress s) = m" "m + length c \<le> unat e"
    and "\<And>i. i < length c \<Longrightarrow> img ! (m + i) = c ! i"
  shows "let s' = feed B k e (hex_bytes c) s in ParserState s' = HEX_PARSE_STATE_CHECKSUM \<and> \<not> ReadMSB s' \<and>
    RecordType s' = 0 \<and> hex_inv k flash buf img f (m + length c) s' \<and> unat (CurrAddress s') = m + length c \<and>
    Checksum s' = Checksum s + sum_list c \<and> RunBootloader s' = RunBootloader s"
  using assms(3-)
proof (induction c arbitrary: m s rule: induct_list012)
  case (3 b1 b2 c)
  define s1 where "s1 = feed B k e (hex2 b1 @ hex2 b2) s"
  have b: "img ! m = b1" "img ! Suc m = b2" using "3.prems"(11) [of 0] "3.prems"(11) [of 1] by simp_all
  have s1: "ParserState s1 = (if length c = 0 then HEX_PARSE_STATE_CHECKSUM else HEX_PARSE_STATE_READ_DATA) \<and> \<not> ReadMSB s1 \<and>
    RecordType s1 = 0 \<and> unat (DataRem s1) = length c \<and> hex_inv k flash buf img f (Suc (Suc m)) s1 \<and>
    unat (CurrAddress s1) = Suc (Suc m) \<and> Checksum s1 = Checksum s + b1 + b2 \<and> RunBootloader s1 = RunBootloader s"
    unfolding s1_def
    by (rule feed_data_pair [OF assms(1,2) "3.prems"(1-4) _ _ "3.prems"(8,9) _ b]) (use "3.prems" in simp_all)
  have f: "feed B k e (hex_bytes (b1 # b2 # c)) s = feed B k e (hex_bytes c) s1"
    by (simp add: s1_def feed_append)
  show ?case
  proof (cases "c = []")
    case True
    with s1 show ?thesis unfolding f by (simp add: Let_def add.assoc)
  next
    case False
    have "img ! (Suc (Suc m) + i) = c ! i" if "i < length c" for i using "3.prems"(11) [of "Suc (Suc i)"] that by simp
    with "3.IH"(1) [of "Suc (Suc m)" s1] s1 False "3.prems" show ?thesis unfolding f by (simp add: Let_def add.assoc)
  qed
qed simp_all

lemma address_join:
  "b + (ucast (push_bit 8 (ucast (ucast (drop_bit 8 a) :: u8)) :: u16) :: u32) + ucast (ucast (a :: u16) :: u8) = b + ucast a"
proof -
  let ?h = "ucast (push_bit 8 (ucast (ucast (drop_bit 8 a) :: u8)) :: u16) :: u32" and ?l = "ucast (ucast a :: u8) :: u32"
  have "?h + ?l = ?h OR ?l" by (rule disjunctive_add) (auto simp: bit_simps)
  also have "\<dots> = ucast a" by (rule bit_eqI) (auto simp: bit_simps dest: bit_imp_le_length)
  finally show ?thesis by (simp add: add.assoc)
qed

text \<open>The state after the four bytes of a record's header, whatever the state before.\<close>

definition hex_header :: "u16 \<Rightarrow> u8 \<Rightarrow> u8 \<Rightarrow> 'f HEXParser \<Rightarrow> 'f HEXParser" where
  "hex_header a t n s = s\<lparr>Data_hx := t, ReadMSB := False, RecordType := t, DataRem := n,
     Checksum := sum_list [n, ucast (drop_bit 8 a), ucast a, t], CurrAddress := CurrBaseAddress s + ucast a,
     ParserState := (if n \<noteq> 0 then HEX_PARSE_STATE_READ_DATA else HEX_PARSE_STATE_CHECKSUM)\<rparr>"

lemma hex_bytes_append: "hex_bytes (bs @ cs) = hex_bytes bs @ hex_bytes cs"
  by (simp add: hex_bytes_def)

lemma hex_record_feed:
  "feed B k e (hex_record a t c) s =
     (let n = of_nat (length c); sum = sum_list [n, ucast (drop_bit 8 a), ucast a, t] + sum_list c
      in feed B k e [13, 10] (feed B k e (hex2 (- sum)) (feed B k e (hex_bytes c) (hex_header a t n s))))"
  by (cases s) (simp add: hex_record_def Let_def feed_append feed_Cons [of B k e 58] ParseIntelHEXByte_def [of B k e 58] feed_hex2
      hex_byte_def hex_bytes_append address_join hex_header_def add.assoc [symmetric])

lemma feed_newline: "ParserState s \<noteq> HEX_PARSE_STATE_WAIT_LINE \<Longrightarrow> feed B k e [13, 10] s = s"
  by (simp add: feed_Cons ParseIntelHEXByte_def HexToDecimal_def)

lemma flush_same_page:
  "hex_inv k flash buf img f m s \<Longrightarrow> unat (CurrAddress s) = m \<Longrightarrow> FlushPageIfRequired B k s = s"
  by (simp add: FlushPageIfRequired_def Let_def hex_inv_def word_unat_eq_iff page_address)

lemma checksum_ok: "- c = NOT c + (1 :: u8)"
  by (simp add: minus_eq_not_plus_1)

text \<open>A data record adds its data to the image.\<close>

lemma feed_record:
  assumes "spm_flash B k flash buf" "1 \<le> k" "hex_inv k flash buf img f m s"
    and "even (length c)" "c \<noteq> []" "length c < 256" "even m" "m < 65536" "m + length c \<le> unat e"
    and "\<And>i. i < length c \<Longrightarrow> img ! (m + i) = c ! i"
  defines "s' \<equiv> feed B k e (hex_record (of_nat m) 0 c) s"
  shows "hex_inv k flash buf img f (m + length c) s' \<and> RunBootloader s' = RunBootloader s"
proof -
  let ?bs = "[of_nat (length c), ucast (drop_bit 8 (of_nat m :: u16)), ucast (of_nat m :: u16), 0] :: u8 list"
  let ?s1 = "hex_header (of_nat m) 0 (of_nat (length c)) s"
  have l: "unat (of_nat (length c) :: u8) = length c" using assms(6) by (simp add: unat_of_nat_small)
  then have l0: "(of_nat (length c) :: u8) \<noteq> 0" using assms(5) by (metis length_0_conv unat_0)
  have a: "unat (CurrBaseAddress s + ucast (of_nat m :: u16)) = m"
    using assms(3,8) by (simp add: hex_inv_def unsigned_ucast_eq unsigned_of_nat take_bit_nat_eq_self)
  define s2 where "s2 = feed B k e (hex_bytes c) ?s1"
  have "let s' = s2 in ParserState s' = HEX_PARSE_STATE_CHECKSUM \<and> \<not> ReadMSB s' \<and>
    RecordType s' = 0 \<and> hex_inv k flash buf img f (m + length c) s' \<and> unat (CurrAddress s') = m + length c \<and>
    Checksum s' = Checksum ?s1 + sum_list c \<and> RunBootloader s' = RunBootloader ?s1"
    unfolding s2_def by (rule feed_data [OF assms(1,2)]) (use assms l l0 a in \<open>simp_all add: hex_inv_def hex_header_def\<close>)
  then have s2: "ParserState s2 = HEX_PARSE_STATE_CHECKSUM" "\<not> ReadMSB s2" "RecordType s2 = 0"
    "hex_inv k flash buf img f (m + length c) s2" "unat (CurrAddress s2) = m + length c"
    "Checksum s2 = sum_list ?bs + sum_list c" "RunBootloader s2 = RunBootloader s"
    by (simp_all add: Let_def hex_header_def)
  let ?d = "- (sum_list ?bs + sum_list c)"
  have i: "hex_inv k flash buf img f (m + length c) (s2\<lparr>Data_hx := ?d\<rparr>)" using s2(4) by (simp add: hex_inv_def)
  have "feed B k e (hex2 ?d) s2 = s2\<lparr>Data_hx := ?d\<rparr>"
    using s2 flush_same_page [OF i, of B] checksum_ok [of "Checksum s2"]
    by (simp add: feed_hex2 hex_byte_def record_types Let_def)
  then have "s' = s2\<lparr>Data_hx := ?d\<rparr>"
    unfolding s'_def hex_record_feed s2_def [symmetric] Let_def using s2(1) by (simp add: feed_newline)
  with i s2 show ?thesis by simp
qed

definition good_chunk :: "u8 list \<Rightarrow> bool" where
  "good_chunk c \<longleftrightarrow> even (length c) \<and> c \<noteq> [] \<and> length c < 256"

lemma feed_records:
  assumes "spm_flash B k flash buf" "1 \<le> k" "hex_inv k flash buf img f m s" "list_all good_chunk chunks" "even m"
    and "m + length (concat chunks) \<le> 65536" "m + length (concat chunks) \<le> unat e"
    and "\<And>i. i < length (concat chunks) \<Longrightarrow> img ! (m + i) = concat chunks ! i"
  shows "let s' = feed B k e (hex_records m chunks) s in
    hex_inv k flash buf img f (m + length (concat chunks)) s' \<and> RunBootloader s' = RunBootloader s"
  using assms(3-)
proof (induction chunks arbitrary: m s)
  case (Cons c cs)
  let ?s1 = "feed B k e (hex_record (of_nat m) 0 c) s"
  from Cons.prems have c: "even (length c)" "c \<noteq> []" "length c < 256" "m < 65536" "m + length c \<le> unat e"
    by (auto simp: good_chunk_def neq_Nil_conv)
  have i: "img ! (m + i) = c ! i" if "i < length c" for i using Cons.prems(6) [of i] that by (simp add: nth_append)
  have s1: "hex_inv k flash buf img f (m + length c) ?s1 \<and> RunBootloader ?s1 = RunBootloader s"
    by (rule feed_record [OF assms(1,2) Cons.prems(1) c(1-3) Cons.prems(3) c(4,5) i])
  have "img ! (m + length c + i) = concat cs ! i" if "i < length (concat cs)" for i
    using Cons.prems(6) [of "length c + i"] that by (simp add: nth_append add.assoc)
  with Cons.IH [of "m + length c" ?s1] s1 c Cons.prems show ?case by (simp add: feed_append Let_def add.assoc)
qed simp

lemma feed_end_of_file:
  assumes f: "spm_flash B k flash buf" and i: "hex_inv k flash buf img f m s"
  shows "\<not> RunBootloader (feed B k e (hex_record 0 1 []) s) \<and>
    flash (boot_mem (feed B k e (hex_record 0 1 []) s)) = (\<lambda>x. if x div 2 ^ k < m div 2 ^ k then img ! x
      else if m mod 2 ^ k \<noteq> 0 \<and> x div 2 ^ k = m div 2 ^ k
      then (if 0 < m div 2 ^ k \<and> x mod 2 ^ k < m mod 2 ^ k then img ! x else 0xFF) else f x)"
proof -
  define s1 where "s1 = (hex_header 0 1 0 s)\<lparr>Data_hx := - 1\<rparr>"
  have h: "feed B k e (hex_record 0 1 []) s = (FlushPageIfRequired B k s1)\<lparr>RunBootloader := False\<rparr>"
    by (simp add: hex_record_feed feed_hex2 hex_header_def hex_byte_def record_types feed_newline s1_def Let_def FlushPageIfRequired_def)
  have s1: "unat (PageStartAddress s1) = m div 2 ^ k * 2 ^ k" "PageDirty s1 \<longleftrightarrow> m mod 2 ^ k \<noteq> 0" "CurrAddress s1 = 0"
    "boot_mem s1 = boot_mem s"
    using i by (simp_all add: hex_inv_def s1_def hex_header_def)
  have p: "PageStartAddress s1 \<noteq> 0 AND NOT (2 ^ k - 1) \<longleftrightarrow> m div 2 ^ k \<noteq> 0"
    using s1(1) by (simp add: word_unat_eq_iff)
  have x: "x div 2 ^ k = m div 2 ^ k \<Longrightarrow> m div 2 ^ k * 2 ^ k + x mod 2 ^ k = x" for x
    by (metis div_mult_mod_eq)
  show ?thesis
    using i s1 p x by (auto simp: h FlushPageIfRequired_def Let_def spm_flashD [OF f] hex_inv_def programmed_def fun_eq_iff)
qed

text \<open>
  C18: uploading a program works: when the characters of an Intel HEX file are fed to the bootloader's parser, the flash
  holds the image that the file encodes, the rest of its last page is blank and no other byte of the
  flash has changed, and the bootloader leaves at the end of the file.  This is so for an image that starts
  at address 0, ends before the boot section, has records with an even number of bytes
  and fills at least one page; an image that is smaller than a page is not written, although page 0 has been erased.
\<close>

theorem hex_file_programmed:
  assumes "spm_flash B k flash buf" "1 \<le> k" "buf mem = (\<lambda>_. 0xFF)" "list_all good_chunk chunks"
    and "length (concat chunks) \<le> 65536" "length (concat chunks) \<le> unat BOOT_START_ADDR"
  defines "s \<equiv> feed B k BOOT_START_ADDR (hex_file chunks) (HEXParser_start mem)" and "n \<equiv> length (concat chunks)"
  shows "\<not> RunBootloader s \<and>
    (\<forall>x. flash (boot_mem s) x =
      (if x < n then (if n < 2 ^ k then 0xFF else concat chunks ! x)
       else if n mod 2 ^ k \<noteq> 0 \<and> x div 2 ^ k = n div 2 ^ k then 0xFF else flash mem x))"
proof -
  let ?img = "concat chunks"
  define s1 where "s1 = feed B k BOOT_START_ADDR (hex_records 0 chunks) (HEXParser_start mem)"
  have "hex_inv k flash buf ?img (flash mem) 0 (HEXParser_start mem)"
    using assms(3) by (simp add: hex_inv_def programmed_def HEXParser_start_def)
  from feed_records [OF assms(1,2) this assms(4), of BOOT_START_ADDR] assms(5,6)
  have "hex_inv k flash buf ?img (flash mem) n s1" by (simp add: n_def s1_def Let_def)
  from feed_end_of_file [OF assms(1) this, of BOOT_START_ADDR]
  have s: "\<not> RunBootloader s" "flash (boot_mem s) = (\<lambda>x. if x div 2 ^ k < n div 2 ^ k then ?img ! x
      else if n mod 2 ^ k \<noteq> 0 \<and> x div 2 ^ k = n div 2 ^ k
      then (if 0 < n div 2 ^ k \<and> x mod 2 ^ k < n mod 2 ^ k then ?img ! x else 0xFF) else flash mem x)"
    by (simp_all add: s_def s1_def hex_file_def feed_append)
  have small: "n < 2 ^ k \<longleftrightarrow> n div 2 ^ k = 0" by (simp add: div_eq_0_iff)
  show ?thesis using s unfolding small using less_div_mod [of _ n "2 ^ k"] by auto
qed

theorem hex_file_programmed_witness:
  "fst (boot_mem (feed (mem_boot 1) 1 0x7000 (hex_file [[1, 2], [3, 4]]) (HEXParser_start (\<lambda>_. 0, \<lambda>_. 0xFF, \<lambda>_. 0)))) 2 = 3"
  using hex_file_programmed [OF spm_flash_mem, of 1 "(\<lambda>_. 0, \<lambda>_. 0xFF, \<lambda>_. 0)" "[[1, 2], [3, 4]]" "0x7000"]
  by (simp add: good_chunk_def)

lemma hex_data_word_frame [simp]:
  "DataRem (hex_data_word B k s) = DataRem s" "Checksum (hex_data_word B k s) = Checksum s"
  "ReadMSB (hex_data_word B k s) = ReadMSB s" "RecordType (hex_data_word B k s) = RecordType s"
  by (simp_all add: hex_data_word_def FlushPageIfRequired_def Let_def)

lemma feed_checksum:
  assumes "ParserState s = HEX_PARSE_STATE_CHECKSUM" "\<not> ReadMSB s" "RecordType s = 0"
  shows "feed B k e (hex2 (- Checksum s)) s = FlushPageIfRequired B k (s\<lparr>Data_hx := - Checksum s\<rparr>)"
  using assms checksum_ok [of "Checksum s"]
  by (simp add: feed_hex2 hex_byte_def record_types Let_def) (simp add: FlushPageIfRequired_def Let_def)

text \<open>A record with one data word, in whatever state the parser is.\<close>

lemma feed_word_record:
  assumes "ucast a < e" "CurrBaseAddress s = 0"
  shows "\<exists>s1. feed B k e (hex_record a 0 [w0, w1]) s = FlushPageIfRequired B k s1 \<and>
    (\<exists>s0. PageStartAddress s0 = PageStartAddress s \<and> PageDirty s0 = PageDirty s \<and> CurrBaseAddress s0 = 0 \<and>
      CurrAddress s0 = ucast a \<and> boot_mem s0 = boot_mem s \<and> RecordType s0 = 0 \<and> PrevData s0 = w0 \<and> Data_hx s0 = w1 \<and>
      PageStartAddress s1 = PageStartAddress (hex_data_word B k s0) \<and> PageDirty s1 = PageDirty (hex_data_word B k s0) \<and>
      CurrBaseAddress s1 = CurrBaseAddress (hex_data_word B k s0) \<and>
      CurrAddress s1 = CurrAddress (hex_data_word B k s0) \<and> boot_mem s1 = boot_mem (hex_data_word B k s0))"
proof -
  let ?h = "hex_header a 0 2 s"
  let ?sum = "Checksum ?h + w0 + w1"
  let ?s0 = "?h\<lparr>Data_hx := w1, PrevData := w0, Checksum := ?sum, DataRem := 0\<rparr>"
  let ?s1 = "(hex_data_word B k ?s0)\<lparr>ParserState := HEX_PARSE_STATE_CHECKSUM, Data_hx := - ?sum\<rparr>"
  have r: "feed B k e (hex_record a 0 [w0, w1]) s =
    feed B k e [13, 10] (feed B k e (hex2 (- ?sum)) (feed B k e (hex2 w1) (feed B k e (hex2 w0) ?h)))"
    by (simp add: hex_record_feed feed_append hex_header_def Let_def add.assoc)
  have 1: "feed B k e (hex2 w0) ?h = ?h\<lparr>Data_hx := w0, PrevData := w0, Checksum := Checksum ?h + w0, DataRem := 1\<rparr>"
    using assms by (simp add: feed_hex2 hex_header_def hex_byte_def hex_read_data_def Let_def)
  have 2: "feed B k e (hex2 w1) (?h\<lparr>Data_hx := w0, PrevData := w0, Checksum := Checksum ?h + w0, DataRem := 1\<rparr>) =
    (hex_data_word B k ?s0)\<lparr>ParserState := HEX_PARSE_STATE_CHECKSUM\<rparr>"
    using assms by (cases s) (simp add: hex_header_def feed_hex2 hex_byte_def hex_read_data_def Let_def)
  have 3: "feed B k e (hex2 (- ?sum)) ((hex_data_word B k ?s0)\<lparr>ParserState := HEX_PARSE_STATE_CHECKSUM\<rparr>) = FlushPageIfRequired B k ?s1"
    using feed_checksum [of "(hex_data_word B k ?s0)\<lparr>ParserState := HEX_PARSE_STATE_CHECKSUM\<rparr>" B k e] by (simp add: hex_header_def)
  have 4: "feed B k e [13, 10] (FlushPageIfRequired B k ?s1) = FlushPageIfRequired B k ?s1"
    by (rule feed_newline) (simp add: FlushPageIfRequired_def Let_def)
  show ?thesis unfolding r 1 2 3 4
    by (rule exI [of _ ?s1], rule conjI [OF refl], rule exI [of _ ?s0]) (use assms in \<open>simp add: hex_header_def\<close>)
qed

text \<open>
  C40: the guard that shall protect the bootloader against being overwritten does not: two data records, each within the
  application section, make the parser erase the first page of the boot section and write the data of the second record
  there, because a page is erased and written at the start address left by the previous flush and not at the address
  of the data.
\<close>

theorem hex_file_overwrites_bootloader:
  assumes f: "spm_flash B 7 flash buf" and b: "buf mem = (\<lambda>_. 0xFF)" and x: "0x7000 \<le> x" "x < 0x7080"
  shows "flash (boot_mem (feed B 7 0x7000 (hex_record 0x6FFE 0 [w0, w1] @ hex_record 0 0 [w2, w3]) (HEXParser_start mem))) x =
    (if x = 0x7000 then w2 else if x = 0x7001 then w3 else 0xFF)"
proof -
  let ?f = "\<lambda>a w m. boot_page_fill B a w (boot_spm_busy_wait B m)"
  define m1 where "m1 = boot_spm_busy_wait B (boot_page_write B 0 (?f 0x6FFE (u16_of w0 w1) (boot_page_erase B 0 mem)))"
  define m2 where "m2 = boot_spm_busy_wait B (boot_page_write B 0x7000 (?f 0 (u16_of w2 w3) (boot_page_erase B 0x7000 m1)))"
  note flush = FlushPageIfRequired_def hex_data_word_def Let_def record_types u16_of_def
  define s1 where "s1 = feed B 7 0x7000 (hex_record 0x6FFE 0 [w0, w1]) (HEXParser_start mem)"
  have s1: "PageStartAddress s1 = 0x7000 \<and> \<not> PageDirty s1 \<and> CurrBaseAddress s1 = 0 \<and> boot_mem s1 = m1"
    using feed_word_record [of "0x6FFE" "0x7000" "HEXParser_start mem" B 7 w0 w1]
    by (auto simp: s1_def HEXParser_start_def m1_def flush)
  then have s2: "boot_mem (feed B 7 0x7000 (hex_record 0 0 [w2, w3]) s1) = m2"
    using feed_word_record [of 0 "0x7000" s1 B 7 w2 w3] by (auto simp: m2_def flush)
  have m1: "buf m1 = (\<lambda>_. 0xFF)" by (simp add: m1_def spm_flashD [OF f])
  have w: "ucast (u16_of w2 w3) = w2" "ucast (drop_bit 8 (u16_of w2 w3)) = w3"
    using le16_u16_of [of w2 w3] by (simp_all add: le16_def)
  have p: "x div 128 = 224" using x by (simp add: div_nat_eqI)
  have fill: "flash (?f 0 (u16_of w2 w3) (boot_page_erase B 0x7000 m1)) = flash (boot_page_erase B 0x7000 m1)"
    "buf (?f 0 (u16_of w2 w3) (boot_page_erase B 0x7000 m1)) = (\<lambda>_. 0xFF)(0 := w2, 1 := w3)"
    using spm_flash_fill [OF f, of 0 "boot_spm_busy_wait B (boot_page_erase B 0x7000 m1)" "u16_of w2 w3"]
    by (simp_all add: spm_flashD [OF f] m1 w)
  have "x mod 128 = x - 0x7000" using p div_mult_mod_eq [of x 128] by simp
  then show ?thesis using s2 x p fill by (auto simp: feed_append s1_def [symmetric] m2_def spm_flashD [OF f])
qed

theorem hex_file_overwrites_bootloader_witness:
  "fst (boot_mem (feed (mem_boot 7) 7 0x7000 (hex_record 0x6FFE 0 [1, 2] @ hex_record 0 0 [3, 4])
     (HEXParser_start (\<lambda>_. 0x55, \<lambda>_. 0xFF, \<lambda>_. 0)))) 0x7001 = 4"
  using hex_file_overwrites_bootloader [OF spm_flash_mem, of "(\<lambda>_. 0x55, \<lambda>_. 0xFF, \<lambda>_. 0)" "0x7001" 1 2 3 4] by simp

end
