(* ===== verification/Virtual_FAT.thy ===== *)
theory Virtual_FAT
  imports Boot_Flash Endpoint_Stream
begin

text \<open>
  The virtual disk of the mass storage bootloader (\<open>Bootloaders/MassStorage/Lib/VirtualFAT.c\<close>): a FAT12 volume
  whose blocks are made up when the host reads them, with the flash and the EEPROM as its two files.  The sizes of
  the memories are parameters of the target, the flash and the EEPROM those of \<open>Boot_Flash\<close>.
\<close>

section \<open>Geometry\<close>

record target =
  FLASHEND :: nat
  BOOT_START_ADDR :: nat
  AUX_BOOT_SECTION_SIZE :: nat
  E2END :: nat
  SPM_PAGESIZE :: u32

definition FLASH_FILE_SIZE_BYTES :: "target \<Rightarrow> nat" where
  "FLASH_FILE_SIZE_BYTES T = FLASHEND T - (FLASHEND T - BOOT_START_ADDR T) - AUX_BOOT_SECTION_SIZE T"

definition EEPROM_FILE_SIZE_BYTES :: "target \<Rightarrow> nat" where
  "EEPROM_FILE_SIZE_BYTES T = E2END T"

definition SECTOR_PER_CLUSTER :: nat where "SECTOR_PER_CLUSTER = 4"
definition SECTOR_SIZE_BYTES :: nat where "SECTOR_SIZE_BYTES = 512"
definition CLUSTER_SIZE_BYTES :: nat where "CLUSTER_SIZE_BYTES = SECTOR_PER_CLUSTER * SECTOR_SIZE_BYTES"

lemmas disk_sizes = SECTOR_PER_CLUSTER_def SECTOR_SIZE_BYTES_def CLUSTER_SIZE_BYTES_def

definition FILE_SECTORS :: "nat \<Rightarrow> nat" where
  "FILE_SECTORS sz = sz div SECTOR_SIZE_BYTES + (if sz mod SECTOR_SIZE_BYTES \<noteq> 0 then 1 else 0)"

definition FILE_CLUSTERS :: "nat \<Rightarrow> nat" where
  "FILE_CLUSTERS sz = sz div CLUSTER_SIZE_BYTES + (if sz mod CLUSTER_SIZE_BYTES \<noteq> 0 then 1 else 0)"

definition LUN_MEDIA_BLOCKS :: "target \<Rightarrow> nat" where
  "LUN_MEDIA_BLOCKS T = FILE_SECTORS (FLASH_FILE_SIZE_BYTES T) + FILE_SECTORS (EEPROM_FILE_SIZE_BYTES T) + 32"

definition FAT_TIME :: "nat \<Rightarrow> nat \<Rightarrow> nat \<Rightarrow> nat" where
  "FAT_TIME hh mm ss = push_bit 11 hh OR push_bit 5 mm OR drop_bit 1 ss"

definition FAT_DATE :: "nat \<Rightarrow> nat \<Rightarrow> nat \<Rightarrow> nat" where
  "FAT_DATE dd mm yyyy = push_bit 9 (yyyy - 1980) OR push_bit 5 mm OR push_bit 0 dd"

definition ROT8 :: "nat \<Rightarrow> nat" where
  "ROT8 x = drop_bit 1 (x AND 0xFE) OR (if x AND 1 \<noteq> 0 then 0x80 else 0)"

definition FAT_CHECKSUM :: "nat list \<Rightarrow> u8" where
  "FAT_CHECKSUM cs = of_nat (foldl (\<lambda>a c. ROT8 a + c) (hd cs) (tl cs))"

abbreviation (input) "FAT_FLAG_VOLUME_NAME \<equiv> bv 3 :: u8"
abbreviation (input) "FAT_FLAG_LONG_FILE_NAME \<equiv> 0x0F :: u8"
abbreviation (input) "FAT_ORDINAL_LAST_ENTRY \<equiv> bv 6 :: u8"

abbreviation (input) "DISK_BLOCK_BootBlock \<equiv> 0 :: u16"
abbreviation (input) "DISK_BLOCK_FATBlock1 \<equiv> 1 :: u16"
abbreviation (input) "DISK_BLOCK_FATBlock2 \<equiv> 2 :: u16"
abbreviation (input) "DISK_BLOCK_RootFilesBlock \<equiv> 3 :: u16"
abbreviation (input) "DISK_BLOCK_DataStartBlock \<equiv> 4 :: u16"

section \<open>The boot block and the directory\<close>

definition ascii :: "string \<Rightarrow> u8 list" where
  "ascii cs = map (\<lambda>c. of_nat (of_char c)) cs"

text \<open>The bytes of \<open>BootBlock\<close> in memory, in the order of the fields of \<open>FATBootBlock_t\<close>.\<close>

definition BootBlock :: "target \<Rightarrow> u8 list" where
  "BootBlock T =
     [0xEB, 0x3C, 0x90] @ ascii ''mkdosfs'' @ [0] @
     le16 (of_nat SECTOR_SIZE_BYTES) @ [of_nat SECTOR_PER_CLUSTER] @ le16 1 @ [2] @
     le16 (of_nat (SECTOR_SIZE_BYTES div 32)) @ le16 (of_nat (LUN_MEDIA_BLOCKS T)) @ [0xF8] @
     le16 1 @ le16 (of_nat (LUN_MEDIA_BLOCKS T mod 64)) @ le16 (of_nat (LUN_MEDIA_BLOCKS T div 64)) @
     le32 0 @ le32 0 @ le16 0 @ [0x29] @ le32 0x12345678 @ ascii ''LUFA BOOT  '' @ ascii ''FAT12   ''"

definition MSDOS_Directory :: "u8 list \<Rightarrow> u8 \<Rightarrow> u8 list" where
  "MSDOS_Directory Name Attributes = Name @ [Attributes] @ replicate 10 0 @ le16 0 @ le16 0 @ le16 0 @ le32 0"

definition VFAT_LongFileName :: "u8 \<Rightarrow> u8 \<Rightarrow> u16 list \<Rightarrow> u8 list" where
  "VFAT_LongFileName Ordinal Checksum Unicode =
     [Ordinal] @ concat (map le16 (take 5 Unicode)) @ [FAT_FLAG_LONG_FILE_NAME, 0, Checksum] @
     concat (map le16 (take 6 (drop 5 Unicode))) @ le16 0 @ concat (map le16 (drop 11 Unicode))"

definition MSDOS_File :: "u8 list \<Rightarrow> u8 list \<Rightarrow> u16 \<Rightarrow> u32 \<Rightarrow> u8 list" where
  "MSDOS_File Filename Extension StartingCluster FileSizeBytes =
     Filename @ Extension @ [0] @ replicate 10 0 @ le16 (of_nat (FAT_TIME 1 1 0)) @ le16 (of_nat (FAT_DATE 14 2 1989)) @
     le16 StartingCluster @ le32 FileSizeBytes"

text \<open>The initial contents of \<open>FirmwareFileEntries\<close>: five entries of 32 bytes.\<close>

definition wide13 :: "string \<Rightarrow> u16 list" where
  "wide13 cs = map (\<lambda>c. of_nat (of_char c)) cs @ replicate (13 - length cs) 0"

definition FirmwareFileEntries_init :: "target \<Rightarrow> u8 list" where
  "FirmwareFileEntries_init T =
     MSDOS_Directory (ascii ''LUFA BOOT  '') FAT_FLAG_VOLUME_NAME @
     VFAT_LongFileName (1 OR FAT_ORDINAL_LAST_ENTRY) (FAT_CHECKSUM (map of_char ''FLASH   BIN'')) (wide13 ''FLASH.BIN'') @
     MSDOS_File (ascii ''FLASH   '') (ascii ''BIN'') 2 (of_nat (FLASH_FILE_SIZE_BYTES T)) @
     VFAT_LongFileName (1 OR FAT_ORDINAL_LAST_ENTRY) (FAT_CHECKSUM (map of_char ''EEPROM  BIN'')) (wide13 ''EEPROM.BIN'') @
     MSDOS_File (ascii ''EEPROM  '') (ascii ''BIN'') (of_nat (2 + FILE_CLUSTERS (FLASH_FILE_SIZE_BYTES T)))
       (of_nat (EEPROM_FILE_SIZE_BYTES T))"

text \<open>The globals: the directory and the memories.\<close>

record 'f fat =
  FirmwareFileEntries :: "u8 list"
  fat_mem :: 'f

definition FLASHFileStartCluster :: "'f fat \<Rightarrow> u16" where
  "FLASHFileStartCluster s = u16_of (FirmwareFileEntries s ! (2 * 32 + 26)) (FirmwareFileEntries s ! (2 * 32 + 27))"

definition EEPROMFileStartCluster :: "'f fat \<Rightarrow> u16" where
  "EEPROMFileStartCluster s = u16_of (FirmwareFileEntries s ! (4 * 32 + 26)) (FirmwareFileEntries s ! (4 * 32 + 27))"

section \<open>The allocation table\<close>

definition UpdateFAT12ClusterEntry :: "u16 \<Rightarrow> u16 \<Rightarrow> u8 list \<Rightarrow> u8 list" where
  "UpdateFAT12ClusterEntry Index ChainEntry FATTable =
     (let FATOffset = unat (ucast (Index + drop_bit 1 Index) :: u8);
          UpperNibble = Index AND 1 \<noteq> 0
      in if UpperNibble then
           let t = FATTable[FATOffset := (FATTable ! FATOffset AND 0x0F) OR ucast (push_bit 4 (ChainEntry AND 0x0F))]
           in t[FATOffset + 1 := ucast (drop_bit 4 ChainEntry)]
         else
           let t = FATTable[FATOffset := ucast ChainEntry]
           in t[FATOffset + 1 := (t ! FATOffset AND 0xF0) OR ucast (drop_bit 8 ChainEntry)])"

function FAT12Chain_loop :: "u16 \<Rightarrow> u8 \<Rightarrow> u8 \<Rightarrow> u8 list \<Rightarrow> u8 list" where
  "FAT12Chain_loop Index ChainLength i FATTable =
     (if i < ChainLength then
        let CurrentCluster = Index + ucast i;
            NextCluster = (if uint i = uint ChainLength - 1 then 0xFFF else CurrentCluster + 1)
        in FAT12Chain_loop Index ChainLength (i + 1) (UpdateFAT12ClusterEntry CurrentCluster NextCluster FATTable)
      else FATTable)"
  by pat_completeness auto
termination by (relation "measure (\<lambda>(Index, ChainLength, i, FATTable). unat ChainLength - unat i)") (auto simp: count_up_measure)

declare FAT12Chain_loop.simps [simp del]

definition UpdateFAT12ClusterChain :: "u16 \<Rightarrow> u8 \<Rightarrow> u8 list \<Rightarrow> u8 list" where
  "UpdateFAT12ClusterChain Index ChainLength FATTable = FAT12Chain_loop Index ChainLength 0 FATTable"

section \<open>The two files\<close>

definition ReadEEPROMByte :: "'f boot \<Rightarrow> u16 \<Rightarrow> 'f \<Rightarrow> u8" where
  "ReadEEPROMByte B Address m = eeprom_read_byte B Address m"

definition WriteEEPROMByte :: "'f boot \<Rightarrow> u16 \<Rightarrow> u8 \<Rightarrow> 'f \<Rightarrow> 'f" where
  "WriteEEPROMByte B Address Data m = eeprom_update_byte B Address Data m"

definition file_range :: "u16 \<Rightarrow> nat \<Rightarrow> u16 \<Rightarrow> u16 option" where
  "file_range StartCluster sz BlockNumber =
     (let FileStartBlock = DISK_BLOCK_DataStartBlock + (StartCluster - 2) * of_nat SECTOR_PER_CLUSTER;
          FileEndBlock = FileStartBlock + (of_nat (FILE_SECTORS sz) - 1)
      in if BlockNumber \<ge> FileStartBlock \<and> BlockNumber \<le> FileEndBlock then Some (BlockNumber - FileStartBlock) else None)"

text \<open>
  The addresses have 32 bits where the flash is larger than 64 kB, and 16 bits otherwise.  A block starts at a multiple of
  its size, so a 16-bit address can only wrap behind its last byte; the loops count in 32 bits in both cases.
\<close>

definition flash_address :: "target \<Rightarrow> u16 \<Rightarrow> u32" where
  "flash_address T n =
     (if FLASHEND T > 0xFFFF then ucast n * of_nat SECTOR_SIZE_BYTES else ucast (n * of_nat SECTOR_SIZE_BYTES))"

fun flash_read_loop :: "'f boot \<Rightarrow> nat \<Rightarrow> u32 \<Rightarrow> 'f \<Rightarrow> u8 list" where
  "flash_read_loop B 0 FlashAddress m = []"
| "flash_read_loop B (Suc n) FlashAddress m = pgm_read_byte B FlashAddress m # flash_read_loop B n (FlashAddress + 1) m"

fun flash_write_loop :: "'f boot \<Rightarrow> target \<Rightarrow> u8 list \<Rightarrow> u32 \<Rightarrow> 'f \<Rightarrow> 'f" where
  "flash_write_loop B T (b0 # b1 # bs) FlashAddress m =
     (let m1 = (if FlashAddress mod SPM_PAGESIZE T = 0 then BootloaderAPI_ErasePage B FlashAddress m else m);
          m2 = BootloaderAPI_FillWord B FlashAddress (push_bit 8 (ucast b1) OR ucast b0) m1;
          FlashAddress' = FlashAddress + 2;
          m3 = (if FlashAddress' mod SPM_PAGESIZE T = 0 then BootloaderAPI_WritePage B (FlashAddress' - SPM_PAGESIZE T) m2 else m2)
      in flash_write_loop B T bs FlashAddress' m3)"
| "flash_write_loop B T bs FlashAddress m = m"

definition ReadWriteFLASHFileBlock ::
  "'f boot \<Rightarrow> target \<Rightarrow> u16 \<Rightarrow> u8 list \<Rightarrow> bool \<Rightarrow> 'f fat \<Rightarrow> u8 list \<times> 'f fat" where
  "ReadWriteFLASHFileBlock B T BlockNumber BlockBuffer Read s =
     (case file_range (FLASHFileStartCluster s) (FLASH_FILE_SIZE_BYTES T) BlockNumber of
        None \<Rightarrow> (BlockBuffer, s)
      | Some n \<Rightarrow>
          if Read then (flash_read_loop B SECTOR_SIZE_BYTES (flash_address T n) (fat_mem s), s)
          else (BlockBuffer, s\<lparr>fat_mem := flash_write_loop B T BlockBuffer (flash_address T n) (fat_mem s)\<rparr>))"

fun eeprom_read_loop :: "'f boot \<Rightarrow> nat \<Rightarrow> u16 \<Rightarrow> 'f \<Rightarrow> u8 list" where
  "eeprom_read_loop B 0 EEPROMAddress m = []"
| "eeprom_read_loop B (Suc n) EEPROMAddress m = ReadEEPROMByte B EEPROMAddress m # eeprom_read_loop B n (EEPROMAddress + 1) m"

fun eeprom_write_loop :: "'f boot \<Rightarrow> u8 list \<Rightarrow> u16 \<Rightarrow> 'f \<Rightarrow> 'f" where
  "eeprom_write_loop B [] EEPROMAddress m = m"
| "eeprom_write_loop B (b # bs) EEPROMAddress m = eeprom_write_loop B bs (EEPROMAddress + 1) (WriteEEPROMByte B EEPROMAddress b m)"

definition ReadWriteEEPROMFileBlock ::
  "'f boot \<Rightarrow> target \<Rightarrow> u16 \<Rightarrow> u8 list \<Rightarrow> bool \<Rightarrow> 'f fat \<Rightarrow> u8 list \<times> 'f fat" where
  "ReadWriteEEPROMFileBlock B T BlockNumber BlockBuffer Read s =
     (case file_range (EEPROMFileStartCluster s) (EEPROM_FILE_SIZE_BYTES T) BlockNumber of
        None \<Rightarrow> (BlockBuffer, s)
      | Some n \<Rightarrow>
          let EEPROMAddress = n * of_nat SECTOR_SIZE_BYTES in
          if Read then (eeprom_read_loop B SECTOR_SIZE_BYTES EEPROMAddress (fat_mem s), s)
          else (BlockBuffer, s\<lparr>fat_mem := eeprom_write_loop B BlockBuffer EEPROMAddress (fat_mem s)\<rparr>))"

section \<open>Blocks\<close>

text \<open>What a block reads as and what storing one does; the streams to and from the host are around them.\<close>

definition overwrite :: "u8 list \<Rightarrow> u8 list \<Rightarrow> u8 list" where
  "overwrite src dst = src @ drop (length src) dst"

definition block_contents :: "'f boot \<Rightarrow> target \<Rightarrow> u16 \<Rightarrow> 'f fat \<Rightarrow> u8 list" where
  "block_contents B T BlockNumber s =
     (let BlockBuffer = replicate SECTOR_SIZE_BYTES 0 in
      if BlockNumber = DISK_BLOCK_BootBlock then
        (overwrite (BootBlock T) BlockBuffer)[SECTOR_SIZE_BYTES - 2 := 0x55, SECTOR_SIZE_BYTES - 1 := 0xAA]
      else if BlockNumber = DISK_BLOCK_FATBlock1 \<or> BlockNumber = DISK_BLOCK_FATBlock2 then
        (let b0 = UpdateFAT12ClusterEntry 0 (0xF00 OR ucast (BootBlock T ! 21)) BlockBuffer;
             b1 = UpdateFAT12ClusterEntry 1 0xFFF b0;
             b2 = UpdateFAT12ClusterChain (FLASHFileStartCluster s) (of_nat (FILE_CLUSTERS (FLASH_FILE_SIZE_BYTES T))) b1
         in UpdateFAT12ClusterChain (EEPROMFileStartCluster s) (of_nat (FILE_CLUSTERS (EEPROM_FILE_SIZE_BYTES T))) b2)
      else if BlockNumber = DISK_BLOCK_RootFilesBlock then overwrite (FirmwareFileEntries s) BlockBuffer
      else
        let (b1, s1) = ReadWriteFLASHFileBlock B T BlockNumber BlockBuffer True s;
            (b2, s2) = ReadWriteEEPROMFileBlock B T BlockNumber b1 True s1
        in b2)"

definition store_block :: "'f boot \<Rightarrow> target \<Rightarrow> u16 \<Rightarrow> u8 list \<Rightarrow> 'f fat \<Rightarrow> 'f fat" where
  "store_block B T BlockNumber BlockBuffer s =
     (if BlockNumber = DISK_BLOCK_BootBlock \<or> BlockNumber = DISK_BLOCK_FATBlock1 \<or> BlockNumber = DISK_BLOCK_FATBlock2 then s
      else if BlockNumber = DISK_BLOCK_RootFilesBlock
      then s\<lparr>FirmwareFileEntries := take (5 * 32) BlockBuffer\<rparr>
      else
        let (b1, s1) = ReadWriteFLASHFileBlock B T BlockNumber BlockBuffer False s;
            (b2, s2) = ReadWriteEEPROMFileBlock B T BlockNumber b1 False s1
        in s2)"

definition VirtualFAT_ReadBlock ::
  "'e hw \<Rightarrow> ('e, 'p) app \<Rightarrow> 'f boot \<Rightarrow> target \<Rightarrow> u16 \<Rightarrow> 'f fat \<Rightarrow> ('e, 'p) usb_scheme \<Rightarrow> ('f fat \<times> ('e, 'p) usb_scheme) option" where
  "VirtualFAT_ReadBlock H A B T BlockNumber s u = do {
     (e, n, buf, u1) \<leftarrow> Endpoint_Write_Stream_LE H A (mem_of (block_contents B T BlockNumber s)) (of_nat SECTOR_SIZE_BYTES) None u;
     Some (s, Endpoint_ClearIN H u1) }"

text \<open>The buffer is on the stack: \<open>junk\<close> is what it holds before.\<close>

definition VirtualFAT_WriteBlock ::
  "'e hw \<Rightarrow> ('e, 'p) app \<Rightarrow> mem \<Rightarrow> 'f boot \<Rightarrow> target \<Rightarrow> u16 \<Rightarrow> 'f fat \<Rightarrow> ('e, 'p) usb_scheme \<Rightarrow>
   ('f fat \<times> ('e, 'p) usb_scheme) option" where
  "VirtualFAT_WriteBlock H A junk B T BlockNumber s u = do {
     (e, n, buf, u1) \<leftarrow> Endpoint_Read_Stream_LE H A junk (of_nat SECTOR_SIZE_BYTES) None u;
     let BlockBuffer = map (\<lambda>i. buf (of_nat i)) [0..<SECTOR_SIZE_BYTES];
     Some (store_block B T BlockNumber BlockBuffer s, Endpoint_ClearOUT H u1) }"

end
