(* ===== verification/Mass_Storage.thy ===== *)
theory Mass_Storage
  imports Virtual_FAT Byte_Order
begin

text \<open>
  The mass storage bootloader above the virtual disk: the device-side Mass Storage class driver of the library
  (\<open>Class/Device/MassStorageClassDevice.c\<close>), the SCSI commands of the bootloader
  (\<open>Bootloaders/MassStorage/Lib/SCSI.c\<close>) and its main loop and callbacks (\<open>BootloaderMassStorage.c\<close>).

  The library is the one of the other theories, with the control endpoint polled by \<open>USB_USBTask\<close>; in the
  bootloader's own configuration an interrupt serves it instead.  The status LEDs, which are only ever written, have no model.
  Descriptors of the bootloader are the parameter \<open>desc\<close> of \<open>ms_app\<close>.
\<close>

section \<open>Constants\<close>

text \<open>\<open>Class/Common/MassStorageClassCommon.h\<close>\<close>

abbreviation (input) "MS_CBW_SIGNATURE \<equiv> 0x43425355 :: u32"
abbreviation (input) "MS_CSW_SIGNATURE \<equiv> 0x53425355 :: u32"
abbreviation (input) "MS_COMMAND_DIR_DATA_IN \<equiv> 0x80 :: u8"
abbreviation (input) "MS_REQ_GetMaxLUN \<equiv> 0xFE :: u8"
abbreviation (input) "MS_REQ_MassStorageReset \<equiv> 0xFF :: u8"
abbreviation (input) "MS_SCSI_COMMAND_Pass \<equiv> 0 :: u8"
abbreviation (input) "MS_SCSI_COMMAND_Fail \<equiv> 1 :: u8"
abbreviation (input) "SCSI_CMD_INQUIRY \<equiv> 0x12 :: u8"
abbreviation (input) "SCSI_CMD_REQUEST_SENSE \<equiv> 0x03 :: u8"
abbreviation (input) "SCSI_CMD_TEST_UNIT_READY \<equiv> 0x00 :: u8"
abbreviation (input) "SCSI_CMD_READ_CAPACITY_10 \<equiv> 0x25 :: u8"
abbreviation (input) "SCSI_CMD_START_STOP_UNIT \<equiv> 0x1B :: u8"
abbreviation (input) "SCSI_CMD_SEND_DIAGNOSTIC \<equiv> 0x1D :: u8"
abbreviation (input) "SCSI_CMD_PREVENT_ALLOW_MEDIUM_REMOVAL \<equiv> 0x1E :: u8"
abbreviation (input) "SCSI_CMD_WRITE_10 \<equiv> 0x2A :: u8"
abbreviation (input) "SCSI_CMD_READ_10 \<equiv> 0x28 :: u8"
abbreviation (input) "SCSI_CMD_VERIFY_10 \<equiv> 0x2F :: u8"
abbreviation (input) "SCSI_CMD_MODE_SENSE_6 \<equiv> 0x1A :: u8"
abbreviation (input) "SCSI_SENSE_KEY_GOOD \<equiv> 0x00 :: u8"
abbreviation (input) "SCSI_SENSE_KEY_ILLEGAL_REQUEST \<equiv> 0x05 :: u8"
abbreviation (input) "SCSI_ASENSE_NO_ADDITIONAL_INFORMATION \<equiv> 0x00 :: u8"
abbreviation (input) "SCSI_ASENSE_INVALID_FIELD_IN_CDB \<equiv> 0x24 :: u8"
abbreviation (input) "SCSI_ASENSE_INVALID_COMMAND \<equiv> 0x20 :: u8"
abbreviation (input) "SCSI_ASENSE_LOGICAL_BLOCK_ADDRESS_OUT_OF_RANGE \<equiv> 0x21 :: u8"
abbreviation (input) "SCSI_ASENSEQ_NO_QUALIFIER \<equiv> 0x00 :: u8"

text \<open>\<open>EndpointTypes\<close> and the bootloader's \<open>Descriptors.h\<close>\<close>

abbreviation (input) "EP_TYPE_BULK \<equiv> 2 :: u8"
abbreviation (input) "MASS_STORAGE_IN_EPADDR \<equiv> 0x83 :: u8"
abbreviation (input) "MASS_STORAGE_OUT_EPADDR \<equiv> 0x04 :: u8"
abbreviation (input) "MASS_STORAGE_IO_EPSIZE \<equiv> 64 :: u16"

section \<open>State\<close>

text \<open>The \<open>Config\<close> part of \<open>USB_ClassInfo_MS_Device_t\<close>, and the bootloader's instance.\<close>

record MS_Config =
  InterfaceNumber :: u8
  DataINEndpoint :: USB_Endpoint_Table_t
  DataOUTEndpoint :: USB_Endpoint_Table_t
  TotalLUNs :: u8

definition Disk_MS_Interface :: MS_Config where
  "Disk_MS_Interface =
     \<lparr>InterfaceNumber = 0,
      DataINEndpoint = \<lparr>Address_tbl = MASS_STORAGE_IN_EPADDR, Size_tbl = MASS_STORAGE_IO_EPSIZE, Type_tbl = 0, Banks_tbl = 1\<rparr>,
      DataOUTEndpoint = \<lparr>Address_tbl = MASS_STORAGE_OUT_EPADDR, Size_tbl = MASS_STORAGE_IO_EPSIZE, Type_tbl = 0, Banks_tbl = 1\<rparr>,
      TotalLUNs = 1\<rparr>"

text \<open>
  The globals of the bootloader.  \<open>CommandBlock\<close> and \<open>CommandStatus\<close> are the bytes of the packed structures
  \<open>MS_CommandBlockWrapper_t\<close> (31 bytes) and \<open>MS_CommandStatusWrapper_t\<close> (13 bytes), \<open>SenseData\<close> those of
  \<open>SCSI_Request_Sense_Response_t\<close>.  \<open>StateClears\<close> is not in the code: it counts how often \<open>MS_Device_ConfigureEndpoints\<close> has
  cleared the structures, so that a stream into \<open>CommandBlock\<close> can tell whether that has happened meanwhile.
\<close>

record ('e, 'f) bootloader = "'e usb" +
  CommandBlock :: mem
  CommandStatus :: "u8 list"
  IsMassStoreReset :: bool
  StateClears :: nat
  SenseData :: "u8 list"
  RunBootloader :: bool
  TicksSinceLastCommand :: u8
  disk :: "'f fat"

definition cb_u32 :: "mem \<Rightarrow> u16 \<Rightarrow> u32" where
  "cb_u32 m a = u32_of (m a) (m (a + 1)) (m (a + 2)) (m (a + 3))"

abbreviation (input) "cb_Signature m \<equiv> cb_u32 m 0"
abbreviation (input) "cb_Tag m \<equiv> cb_u32 m 4"
abbreviation (input) "cb_DataTransferLength m \<equiv> cb_u32 m 8"
abbreviation (input) "cb_Flags m \<equiv> m 12 :: u8"
abbreviation (input) "cb_LUN m \<equiv> m 13 :: u8"
abbreviation (input) "cb_SCSICommandLength m \<equiv> m 14 :: u8"
abbreviation (input) "SCSICommandData s i \<equiv> CommandBlock s (15 + i)"

text \<open>\<open>DataTransferLength -= n\<close> and \<open>DataTransferLength = n\<close>\<close>

definition set_DataTransferLength :: "u32 \<Rightarrow> ('e, 'f) bootloader \<Rightarrow> ('e, 'f) bootloader" where
  "set_DataTransferLength n s = s\<lparr>CommandBlock := (CommandBlock s)
     (8 := ucast n, 9 := ucast (drop_bit 8 n), 10 := ucast (drop_bit 16 n), 11 := ucast (drop_bit 24 n))\<rparr>"

abbreviation (input) "transferred n s \<equiv> set_DataTransferLength (cb_DataTransferLength (CommandBlock s) - n) s"

section \<open>SCSI commands\<close>

text \<open>The bytes of \<open>SCSI_Inquiry_Response_t\<close>; the first character of a bit field is its least significant bit.\<close>

definition InquiryData :: "u8 list" where
  "InquiryData = [0x00, bv 7, 0, 2, 0x1F, 0, 0, 0] @ ascii ''LUFA'' @ replicate 4 0 @ ascii ''Bootloader'' @ replicate 6 0 @ ascii ''0.00''"

definition SenseData_init :: "u8 list" where
  "SenseData_init = [0x70, 0, 0, 0, 0, 0, 0, 0x0A, 0, 0, 0, 0, 0, 0, 0, 0, 0, 0]"

definition SCSI_SET_SENSE :: "u8 \<Rightarrow> u8 \<Rightarrow> u8 \<Rightarrow> ('e, 'f) bootloader \<Rightarrow> ('e, 'f) bootloader" where
  "SCSI_SET_SENSE Key Acode Aqual s =
     s\<lparr>SenseData := (SenseData s)[2 := (SenseData s ! 2 AND 0xF0) OR (Key AND 0x0F), 12 := Acode, 13 := Aqual]\<rparr>"

type_synonym ('e, 'f) bl_app = "('e, ('f, unit) bootloader_ext) app"

definition SCSI_Command_Inquiry ::
  "'e hw \<Rightarrow> ('e, 'f) bl_app \<Rightarrow> ('e, 'f) bootloader \<Rightarrow> (bool \<times> ('e, 'f) bootloader) option" where
  "SCSI_Command_Inquiry H A s =
     (let AllocationLength = SwapEndian_16 False (u16_of (SCSICommandData s 3) (SCSICommandData s 4));
          BytesTransferred = min AllocationLength (of_nat (length InquiryData))
      in if SCSICommandData s 1 AND (bv 0 OR bv 1) \<noteq> 0 \<or> SCSICommandData s 2 \<noteq> 0
         then Some (False, SCSI_SET_SENSE SCSI_SENSE_KEY_ILLEGAL_REQUEST SCSI_ASENSE_INVALID_FIELD_IN_CDB SCSI_ASENSEQ_NO_QUALIFIER s)
         else do {
           (_, _, _, s1) \<leftarrow> Endpoint_Write_Stream_LE H A (mem_of InquiryData) BytesTransferred None s;
           (_, _, s2) \<leftarrow> Endpoint_Null_Stream H (AllocationLength - BytesTransferred) None s1;
           let s3 = Endpoint_ClearIN H s2;
           Some (True, transferred (ucast BytesTransferred) s3)
         })"

definition SCSI_Command_Request_Sense ::
  "'e hw \<Rightarrow> ('e, 'f) bl_app \<Rightarrow> ('e, 'f) bootloader \<Rightarrow> (bool \<times> ('e, 'f) bootloader) option" where
  "SCSI_Command_Request_Sense H A s =
     (let AllocationLength = SCSICommandData s 4;
          BytesTransferred = min AllocationLength (of_nat (length SenseData_init))
      in do {
        (_, _, _, s1) \<leftarrow> Endpoint_Write_Stream_LE H A (mem_of (SenseData s)) (ucast BytesTransferred) None s;
        (_, _, s2) \<leftarrow> Endpoint_Null_Stream H (ucast (AllocationLength - BytesTransferred)) None s1;
        let s3 = Endpoint_ClearIN H s2;
        Some (True, transferred (ucast BytesTransferred) s3)
      })"

definition SCSI_Command_Read_Capacity_10 :: "'e hw \<Rightarrow> target \<Rightarrow> ('e, 'f) bootloader \<Rightarrow> (bool \<times> ('e, 'f) bootloader) option" where
  "SCSI_Command_Read_Capacity_10 H T s =
     (let s1 = Endpoint_Write_32_BE H (of_nat (LUN_MEDIA_BLOCKS T - 1)) s;
          s2 = Endpoint_Write_32_BE H (of_nat SECTOR_SIZE_BYTES) s1;
          s3 = Endpoint_ClearIN H s2
      in Some (True, transferred 8 s3))"

text \<open>
  The loop over the blocks; the last argument is the number of iterations left.  \<open>junk\<close> is what the block buffer of
  \<open>VirtualFAT_WriteBlock\<close> holds before, on the stack.
\<close>

fun ReadWrite_10_loop ::
  "'e hw \<Rightarrow> ('e, 'f) bl_app \<Rightarrow> mem \<Rightarrow> 'f boot \<Rightarrow> target \<Rightarrow> bool \<Rightarrow> u16 \<Rightarrow> u16 \<Rightarrow> nat \<Rightarrow> ('e, 'f) bootloader \<Rightarrow>
   ('e, 'f) bootloader option" where
  "ReadWrite_10_loop H A junk B T IsDataRead BlockAddress i 0 s = Some s"
| "ReadWrite_10_loop H A junk B T IsDataRead BlockAddress i (Suc n) s = do {
     (d, s1) \<leftarrow> (if IsDataRead then VirtualFAT_ReadBlock H A B T (BlockAddress + i) (disk s) s
                 else VirtualFAT_WriteBlock H A junk B T (BlockAddress + i) (disk s) s);
     ReadWrite_10_loop H A junk B T IsDataRead BlockAddress (i + 1) n (s1\<lparr>disk := d\<rparr>) }"

definition SCSI_Command_ReadWrite_10 ::
  "'e hw \<Rightarrow> ('e, 'f) bl_app \<Rightarrow> mem \<Rightarrow> 'f boot \<Rightarrow> target \<Rightarrow> bool \<Rightarrow> ('e, 'f) bootloader \<Rightarrow> (bool \<times> ('e, 'f) bootloader) option" where
  "SCSI_Command_ReadWrite_10 H A junk B T IsDataRead s =
     (let BlockAddress = ucast (SwapEndian_32 False (cb_u32 (CommandBlock s) (15 + 2))) :: u16;
          TotalBlocks = SwapEndian_16 False (u16_of (SCSICommandData s 7) (SCSICommandData s 8))
      in if unat BlockAddress \<ge> LUN_MEDIA_BLOCKS T
         then Some (False, SCSI_SET_SENSE SCSI_SENSE_KEY_ILLEGAL_REQUEST
                SCSI_ASENSE_LOGICAL_BLOCK_ADDRESS_OUT_OF_RANGE SCSI_ASENSEQ_NO_QUALIFIER s)
         else do {
           s1 \<leftarrow> ReadWrite_10_loop H A junk B T IsDataRead BlockAddress 0 (unat TotalBlocks) s;
           Some (True, transferred (ucast TotalBlocks * of_nat SECTOR_SIZE_BYTES) s1)
         })"

definition SCSI_Command_ModeSense_6 :: "'e hw \<Rightarrow> ('e, 'f) bootloader \<Rightarrow> (bool \<times> ('e, 'f) bootloader) option" where
  "SCSI_Command_ModeSense_6 H s = Some (True, transferred 4 (Endpoint_ClearIN H (Endpoint_Write_32_LE H 0 s)))"

definition SCSI_DecodeSCSICommand ::
  "'e hw \<Rightarrow> ('e, 'f) bl_app \<Rightarrow> mem \<Rightarrow> 'f boot \<Rightarrow> target \<Rightarrow> ('e, 'f) bootloader \<Rightarrow> (bool \<times> ('e, 'f) bootloader) option" where
  "SCSI_DecodeSCSICommand H A junk B T s =
     (let cmd = SCSICommandData s 0 in do {
        (CommandSuccess, s1) \<leftarrow>
          (if cmd = SCSI_CMD_INQUIRY then SCSI_Command_Inquiry H A s
           else if cmd = SCSI_CMD_REQUEST_SENSE then SCSI_Command_Request_Sense H A s
           else if cmd = SCSI_CMD_READ_CAPACITY_10 then SCSI_Command_Read_Capacity_10 H T s
           else if cmd = SCSI_CMD_WRITE_10 then SCSI_Command_ReadWrite_10 H A junk B T False s
           else if cmd = SCSI_CMD_READ_10 then SCSI_Command_ReadWrite_10 H A junk B T True s
           else if cmd = SCSI_CMD_MODE_SENSE_6 then SCSI_Command_ModeSense_6 H s
           else if cmd = SCSI_CMD_START_STOP_UNIT then
             Some (True, set_DataTransferLength 0 (s\<lparr>RunBootloader := (SCSICommandData s 4 AND 0x03 \<noteq> 0x02)\<rparr>))
           else if cmd = SCSI_CMD_SEND_DIAGNOSTIC \<or> cmd = SCSI_CMD_TEST_UNIT_READY \<or>
                   cmd = SCSI_CMD_PREVENT_ALLOW_MEDIUM_REMOVAL \<or> cmd = SCSI_CMD_VERIFY_10 then
             Some (True, set_DataTransferLength 0 s)
           else Some (False, SCSI_SET_SENSE SCSI_SENSE_KEY_ILLEGAL_REQUEST SCSI_ASENSE_INVALID_COMMAND SCSI_ASENSEQ_NO_QUALIFIER s));
        if CommandSuccess
        then Some (True, SCSI_SET_SENSE SCSI_SENSE_KEY_GOOD SCSI_ASENSE_NO_ADDITIONAL_INFORMATION SCSI_ASENSEQ_NO_QUALIFIER s1)
        else Some (False, s1)
      })"

section \<open>The bootloader's callback\<close>

definition CALLBACK_MS_Device_SCSICommandReceived ::
  "'e hw \<Rightarrow> ('e, 'f) bl_app \<Rightarrow> mem \<Rightarrow> 'f boot \<Rightarrow> target \<Rightarrow> ('e, 'f) bootloader \<Rightarrow> (bool \<times> ('e, 'f) bootloader) option" where
  "CALLBACK_MS_Device_SCSICommandReceived H A junk B T s = do {
     (CommandSuccess, s1) \<leftarrow> SCSI_DecodeSCSICommand H A junk B T s;
     Some (CommandSuccess, s1\<lparr>TicksSinceLastCommand := 0\<rparr>) }"

section \<open>The class driver\<close>

definition MS_Device_ProcessControlRequest :: "'e hw \<Rightarrow> MS_Config \<Rightarrow> ('e, 'f) bootloader \<Rightarrow> ('e, 'f) bootloader option" where
  "MS_Device_ProcessControlRequest H C s =
     (let (setup, s0) = Endpoint_IsSETUPReceived H s; req = USB_ControlRequest s0
      in if \<not> setup then Some s0
         else if wIndex req \<noteq> ucast (InterfaceNumber C) then Some s0
         else if bRequest req = MS_REQ_MassStorageReset then
           (if bmRequestType req = (REQDIR_HOSTTODEVICE OR REQTYPE_CLASS OR REQREC_INTERFACE)
            then do {
              s1 \<leftarrow> Endpoint_ClearStatusStage H (Endpoint_ClearSETUP H s0);
              Some (s1\<lparr>IsMassStoreReset := True\<rparr>)
            }
            else Some s0)
         else if bRequest req = MS_REQ_GetMaxLUN then
           (if bmRequestType req = (REQDIR_DEVICETOHOST OR REQTYPE_CLASS OR REQREC_INTERFACE)
            then do {
              s1 \<leftarrow> wait_irq H (Endpoint_IsINReady H) (Endpoint_ClearSETUP H s0);
              let s2 = Endpoint_ClearIN H (Endpoint_Write_8 H (TotalLUNs C - 1) s1);
              Endpoint_ClearStatusStage H s2
            }
            else Some s0)
         else Some s0)"

definition MS_Device_ConfigureEndpoints ::
  "'e hw \<Rightarrow> MS_Config \<Rightarrow> ('e, 'f) bootloader \<Rightarrow> (bool \<times> ('e, 'f) bootloader) option" where
  "MS_Device_ConfigureEndpoints H C s =
     (let s0 = s\<lparr>CommandBlock := (\<lambda>_. 0), CommandStatus := replicate 13 0, IsMassStoreReset := False,
                 StateClears := Suc (StateClears s)\<rparr>
      in do {
        (ok, s1) \<leftarrow> Endpoint_ConfigureEndpointTable H [(DataINEndpoint C)\<lparr>Type_tbl := EP_TYPE_BULK\<rparr>] s0;
        if \<not> ok then Some (False, s1)
        else do {
          (ok, s2) \<leftarrow> Endpoint_ConfigureEndpointTable H [(DataOUTEndpoint C)\<lparr>Type_tbl := EP_TYPE_BULK\<rparr>] s1;
          if \<not> ok then Some (False, s2) else Some (True, s2)
        }
      })"

text \<open>What the library calls: the two events of \<open>BootloaderMassStorage.c\<close> and the descriptors.\<close>

definition ms_app :: "'e hw \<Rightarrow> (u16 \<Rightarrow> u16 \<Rightarrow> u16 \<times> mem) \<Rightarrow> ('e, 'f) bl_app" where
  "ms_app H desc =
     \<lparr>ev_ControlRequest = MS_Device_ProcessControlRequest H Disk_MS_Interface,
      ev_ConfigurationChanged = (\<lambda>s. map_option snd (MS_Device_ConfigureEndpoints H Disk_MS_Interface s)),
      cb_GetDescriptor = desc\<rparr>"

text \<open>
  The two loops that read into \<open>CommandBlock\<close>, from offset \<open>ofs\<close> on; the Boolean is false when the host has requested a
  reset.  The USB task is the last thing an incomplete stream does, so when the structure was cleared meanwhile its bytes are zero.
\<close>

definition read_CommandBlock ::
  "'e hw \<Rightarrow> ('e, 'f) bl_app \<Rightarrow> u16 \<Rightarrow> u16 \<Rightarrow> ('e, 'f) bootloader \<Rightarrow> (bool \<times> ('e, 'f) bootloader) option" where
  "read_CommandBlock H A ofs Length s = loop (\<lambda>(BytesProcessed, s). do {
     (ErrorCode, n, buf, s1) \<leftarrow> Endpoint_Read_Stream_LE H A (\<lambda>i. CommandBlock s (ofs + i)) Length (Some BytesProcessed) s;
     let s2 = (if StateClears s1 \<noteq> StateClears s then s1
               else s1\<lparr>CommandBlock := (\<lambda>i. if i < ofs then CommandBlock s1 i else buf (i - ofs))\<rparr>);
     if ErrorCode \<noteq> ENDPOINT_RWSTREAM_IncompleteTransfer then leave (True, s2)
     else if IsMassStoreReset s2 then leave (False, s2)
     else continue (the n, s2)
   }) (0, s)"

definition MS_Device_ReadInCommandBlock ::
  "'e hw \<Rightarrow> ('e, 'f) bl_app \<Rightarrow> MS_Config \<Rightarrow> ('e, 'f) bootloader \<Rightarrow> (bool \<times> ('e, 'f) bootloader) option" where
  "MS_Device_ReadInCommandBlock H A C s = do {
     (ok, s1) \<leftarrow> read_CommandBlock H A 0 (31 - 16) (Endpoint_SelectEndpoint H (Address_tbl (DataOUTEndpoint C)) s);
     if \<not> ok then Some (False, s1)
     else let cb = CommandBlock s1 in
       if cb_Signature cb \<noteq> MS_CBW_SIGNATURE \<or> cb_LUN cb \<ge> TotalLUNs C \<or> cb_Flags cb AND 0x1F \<noteq> 0 \<or>
          cb_SCSICommandLength cb = 0 \<or> cb_SCSICommandLength cb > 16
       then let s2 = Endpoint_StallTransaction H s1;
                s3 = Endpoint_SelectEndpoint H (Address_tbl (DataINEndpoint C)) s2
            in Some (False, Endpoint_StallTransaction H s3)
       else do {
         (ok, s2) \<leftarrow> read_CommandBlock H A 15 (ucast (cb_SCSICommandLength cb)) s1;
         if \<not> ok then Some (False, s2) else Some (True, Endpoint_ClearOUT H s2)
       }
   }"

text \<open>\<open>while (Endpoint_IsStalled()) { USB_USBTask(); if (IsMassStoreReset) return; }\<close>: false when it returns there.\<close>

definition wait_unstalled :: "'e hw \<Rightarrow> ('e, 'f) bl_app \<Rightarrow> ('e, 'f) bootloader \<Rightarrow> (bool \<times> ('e, 'f) bootloader) option" where
  "wait_unstalled H A = loop (\<lambda>s. do {
     s0 \<leftarrow> irq_poll H s;
     let (stalled, s1) = Endpoint_IsStalled H s0;
     if \<not> stalled then leave (True, s1)
     else do {
       s2 \<leftarrow> USB_USBTask H A s1;
       if IsMassStoreReset s2 then leave (False, s2) else continue s2
     }
   })"

definition write_CommandStatus :: "'e hw \<Rightarrow> ('e, 'f) bl_app \<Rightarrow> ('e, 'f) bootloader \<Rightarrow> (bool \<times> ('e, 'f) bootloader) option" where
  "write_CommandStatus H A s = loop (\<lambda>(BytesProcessed, s). do {
     (ErrorCode, n, buf, s1) \<leftarrow> Endpoint_Write_Stream_LE H A (mem_of (CommandStatus s)) 13 (Some BytesProcessed) s;
     if ErrorCode \<noteq> ENDPOINT_RWSTREAM_IncompleteTransfer then leave (True, s1)
     else if IsMassStoreReset s1 then leave (False, s1)
     else continue (the n, s1)
   }) (0, s)"

definition MS_Device_ReturnCommandStatus ::
  "'e hw \<Rightarrow> ('e, 'f) bl_app \<Rightarrow> MS_Config \<Rightarrow> ('e, 'f) bootloader \<Rightarrow> ('e, 'f) bootloader option" where
  "MS_Device_ReturnCommandStatus H A C s = do {
     (ok, s1) \<leftarrow> wait_unstalled H A (Endpoint_SelectEndpoint H (Address_tbl (DataOUTEndpoint C)) s);
     if \<not> ok then Some s1
     else do {
       (ok, s2) \<leftarrow> wait_unstalled H A (Endpoint_SelectEndpoint H (Address_tbl (DataINEndpoint C)) s1);
       if \<not> ok then Some s2
       else do {
         (ok, s3) \<leftarrow> write_CommandStatus H A s2;
         if \<not> ok then Some s3 else Some (Endpoint_ClearIN H s3)
       }
     }
   }"

text \<open>The part of \<open>MS_Device_USBTask\<close> that runs a command and reports its status, after the command block has been read.\<close>

definition MS_run_command ::
  "'e hw \<Rightarrow> ('e, 'f) bl_app \<Rightarrow> MS_Config \<Rightarrow> mem \<Rightarrow> 'f boot \<Rightarrow> target \<Rightarrow> ('e, 'f) bootloader \<Rightarrow> ('e, 'f) bootloader option" where
  "MS_run_command H A C junk B T s = do {
     let s1 = (if cb_Flags (CommandBlock s) AND MS_COMMAND_DIR_DATA_IN \<noteq> 0
               then Endpoint_SelectEndpoint H (Address_tbl (DataINEndpoint C)) s else s);
     (SCSICommandResult, s2) \<leftarrow> CALLBACK_MS_Device_SCSICommandReceived H A junk B T s1;
     let residue = cb_DataTransferLength (CommandBlock s2);
     let s3 = s2\<lparr>CommandStatus := le32 MS_CSW_SIGNATURE @ le32 (cb_Tag (CommandBlock s2)) @ le32 residue @
                [if SCSICommandResult then MS_SCSI_COMMAND_Pass else MS_SCSI_COMMAND_Fail]\<rparr>;
     let s4 = (if \<not> SCSICommandResult \<and> residue \<noteq> 0 then Endpoint_StallTransaction H s3 else s3);
     MS_Device_ReturnCommandStatus H A C s4 }"

definition MS_reset_endpoints :: "'e hw \<Rightarrow> MS_Config \<Rightarrow> ('e, 'f) bootloader \<Rightarrow> ('e, 'f) bootloader" where
  "MS_reset_endpoints H C s =
     (let out = Address_tbl (DataOUTEndpoint C); inn = Address_tbl (DataINEndpoint C);
          s1 = Endpoint_ResetEndpoint H inn (Endpoint_ResetEndpoint H out s);
          s2 = Endpoint_ResetDataToggle H (Endpoint_ClearStall H (Endpoint_SelectEndpoint H out s1));
          s3 = Endpoint_ResetDataToggle H (Endpoint_ClearStall H (Endpoint_SelectEndpoint H inn s2))
      in s3\<lparr>IsMassStoreReset := False\<rparr>)"

definition MS_Device_USBTask ::
  "'e hw \<Rightarrow> ('e, 'f) bl_app \<Rightarrow> MS_Config \<Rightarrow> mem \<Rightarrow> 'f boot \<Rightarrow> target \<Rightarrow> ('e, 'f) bootloader \<Rightarrow> ('e, 'f) bootloader option" where
  "MS_Device_USBTask H A C junk B T s =
     (if USB_DeviceState s \<noteq> DEVICE_STATE_Configured then Some s
      else do {
        let (out, s1) = Endpoint_IsOUTReceived H (Endpoint_SelectEndpoint H (Address_tbl (DataOUTEndpoint C)) s);
        s2 \<leftarrow> (if out then do {
                  (ok, t) \<leftarrow> MS_Device_ReadInCommandBlock H A C s1;
                  if ok then MS_run_command H A C junk B T t else Some t
                } else Some s1);
        Some (if IsMassStoreReset s2 then MS_reset_endpoints H C s2 else s2)
      })"

section \<open>The main loop\<close>

text \<open>\<open>while (RunBootloader || TicksSinceLastCommand++ < 0xFF)\<close>, with interrupts between the calls: one evaluation of the
  condition with the body, and the loop.\<close>

definition bootloader_round ::
  "'e hw \<Rightarrow> ('e, 'f) bl_app \<Rightarrow> mem \<Rightarrow> 'f boot \<Rightarrow> target \<Rightarrow> ('e, 'f) bootloader \<Rightarrow>
   (('e, 'f) bootloader + ('e, 'f) bootloader) option" where
  "bootloader_round H A junk B T s =
     (let n = TicksSinceLastCommand s; s0 = (if RunBootloader s then s else s\<lparr>TicksSinceLastCommand := n + 1\<rparr>)
      in if RunBootloader s \<or> n < 0xFF then do {
           s1 \<leftarrow> irq_poll H s0;
           s2 \<leftarrow> MS_Device_USBTask H A Disk_MS_Interface junk B T s1;
           s3 \<leftarrow> irq_poll H s2;
           s4 \<leftarrow> USB_USBTask H A s3;
           continue s4
         }
         else leave s0)"

definition bootloader_loop ::
  "'e hw \<Rightarrow> ('e, 'f) bl_app \<Rightarrow> mem \<Rightarrow> 'f boot \<Rightarrow> target \<Rightarrow> ('e, 'f) bootloader \<Rightarrow> ('e, 'f) bootloader option" where
  "bootloader_loop H A junk B T = loop (bootloader_round H A junk B T)"

end
