(* ===== verification/Virtual_FAT_Spec.thy ===== *)
theory Virtual_FAT_Spec
  imports Virtual_FAT
begin

text \<open>
  What the virtual disk shows to a host: the entries of the allocation table, the boot block and the directory make up
  a FAT12 volume, and a host that follows them reads the memories; and what writing a block of the flash file does.
\<close>

section \<open>Entries of the table\<close>

text \<open>The entry of a cluster, as a host reads it from the table.\<close>

definition fat12_entry :: "u8 list \<Rightarrow> nat \<Rightarrow> u16" where
  "fat12_entry t i =
     (if odd i then ucast (drop_bit 4 (t ! (i + i div 2))) OR push_bit 4 (ucast (t ! (i + i div 2 + 1)))
      else ucast (t ! (i + i div 2)) OR push_bit 8 (ucast (t ! (i + i div 2 + 1) AND 0x0F)))"

lemma fat_offset:
  assumes "i \<le> 170"
  shows "unat (ucast ((of_nat i :: u16) + drop_bit 1 (of_nat i)) :: u8) = i + i div 2"
proof -
  have "unat (drop_bit 1 (of_nat i :: u16)) = i div 2"
    using assms by (simp only: unat_drop_bit_eq) (simp add: unat_of_nat_small drop_bit_eq_div)
  then have "drop_bit 1 (of_nat i :: u16) = of_nat (i div 2)" using assms by (simp only: word_unat_eq_iff) (simp add: unat_of_nat_small)
  then have o: "(of_nat i :: u16) + drop_bit 1 (of_nat i) = of_nat (i + i div 2)" by simp
  show ?thesis unfolding o unsigned_ucast_eq unsigned_of_nat using assms by (simp add: take_bit_nat_eq_self)
qed

lemma fat_parity: "(of_nat i :: u16) AND 1 \<noteq> 0 \<longleftrightarrow> odd i"
  using and_bv_0 [of "of_nat i :: u16" 0] by (simp add: bv_0 bit_0)

lemma update_entry_eq:
  assumes "i \<le> 170"
  shows "UpdateFAT12ClusterEntry (of_nat i) c t =
    (let o1 = i + i div 2 in
     if odd i then t[o1 := (t ! o1 AND 0x0F) OR ucast (push_bit 4 (c AND 0x0F)), o1 + 1 := ucast (drop_bit 4 c)]
     else t[o1 := ucast c, o1 + 1 := (t[o1 := ucast c] ! o1 AND 0xF0) OR ucast (drop_bit 8 c)])"
  unfolding UpdateFAT12ClusterEntry_def Let_def fat_offset [OF assms] fat_parity by (rule refl)

lemma length_update_entry [simp]: "length (UpdateFAT12ClusterEntry i c t) = length t"
  by (simp add: UpdateFAT12ClusterEntry_def Let_def)

lemma low_masks: "(0x0F :: u8) = mask 4" "(0x0F :: u16) = mask 4" "(0xF0 :: u8) = NOT (mask 4)"
  by (simp_all add: mask_eq_exp_minus_1)

lemma diff_less: "0 < k \<Longrightarrow> n - m < k \<longleftrightarrow> n < k + (m :: nat)"
  by arith

lemma update_entry_same:
  assumes "i \<le> 170" "length t = 512" "c < 0x1000"
  shows "fat12_entry (UpdateFAT12ClusterEntry (of_nat i) c t) i = c"
proof -
  have "unat c < 2 ^ 12" using assms(3) by (simp add: word_less_nat_alt)
  then have "take_bit 12 (unat c) = unat c" by (rule take_bit_nat_eq_self)
  then have "take_bit 12 c = c" by (simp only: word_unat_eq_iff unsigned_take_bit_eq)
  then have c: "bit c n \<Longrightarrow> n < 12" for n by (metis bit_take_bit_iff)
  show ?thesis
  proof (rule bit_eqI)
    fix n
    assume "possible_bit TYPE(16 word) n"
    then show "bit (fat12_entry (UpdateFAT12ClusterEntry (of_nat i) c t) i) n = bit c n"
      using assms(1,2) c [of n]
      by (cases "odd i"; cases "n < 4"; cases "n < 8")
        (auto simp: update_entry_eq fat12_entry_def Let_def low_masks bit_simps diff_less)
  qed
qed

lemma entry_offsets:
  assumes "j < i"
  shows "j + j div 2 + 1 < i + i div 2 \<or> odd i \<and> i = Suc j"
proof (cases "i = Suc j")
  case True
  then show ?thesis by (cases "even j") (auto elim!: evenE oddE)
next
  case False
  then have "Suc (Suc j) \<le> i" using assms by simp
  then have "Suc (Suc j) div 2 \<le> i div 2" by (rule div_le_mono)
  with \<open>Suc (Suc j) \<le> i\<close> show ?thesis by simp
qed

text \<open>An entry shares a byte with the one before it, whose nibble is kept.\<close>

lemma update_entry_neighbour:
  assumes "Suc j \<le> 170" "length t = 512" "even j"
  shows "fat12_entry (UpdateFAT12ClusterEntry (of_nat (Suc j)) c t) j = fat12_entry t j"
proof -
  have o: "Suc j + Suc j div 2 = j + j div 2 + 1" using assms(3) by (auto elim: evenE)
  have "odd (Suc j)" using assms(3) by simp
  moreover have "j + j div 2 + 1 < length t" using assms(1,2) by simp
  ultimately show ?thesis unfolding update_entry_eq [OF assms(1)] fat12_entry_def Let_def o low_masks
    using assms(3) by (auto intro!: bit_eqI simp: bit_simps)
qed

lemma update_entry_below:
  assumes "i \<le> 170" "length t = 512" "j < i"
  shows "fat12_entry (UpdateFAT12ClusterEntry (of_nat i) c t) j = fat12_entry t j"
  using entry_offsets [OF assms(3)]
proof
  assume "j + j div 2 + 1 < i + i div 2"
  then show ?thesis using assms(1,2) by (simp add: update_entry_eq fat12_entry_def Let_def)
next
  assume "odd i \<and> i = Suc j"
  then show ?thesis using update_entry_neighbour [of j t c] assms(1,2) by (metis even_Suc)
qed

lemma length_chain [simp]: "length (FAT12Chain_loop I L i t) = length t"
  by (induction I L i t rule: FAT12Chain_loop.induct) (subst FAT12Chain_loop.simps, simp add: Let_def)

text \<open>A chain: the entries below it are kept, and its own link each cluster to the next one.\<close>

lemma chain_loop_entries:
  assumes "a + n \<le> 171" "i \<le> n" "n < 256" "length t = 512"
  defines "t' \<equiv> FAT12Chain_loop (of_nat a) (of_nat n) (of_nat i) t"
  shows "(\<forall>j < a + i. fat12_entry t' j = fat12_entry t j) \<and>
    (\<forall>j. i \<le> j \<longrightarrow> j < n \<longrightarrow> fat12_entry t' (a + j) = (if Suc j = n then 0xFFF else of_nat (Suc (a + j))))"
  using assms(2,4) unfolding t'_def
proof (induction "n - i" arbitrary: i t)
  case 0
  then have "FAT12Chain_loop (of_nat a) (of_nat n) (of_nat i) t = t" by (subst FAT12Chain_loop.simps) simp
  with 0 show ?case by auto
next
  case (Suc d)
  then have i: "i < n" "d = n - Suc i" by auto
  let ?c = "if Suc i = n then 0xFFF else of_nat (Suc (a + i)) :: u16"
  let ?t = "UpdateFAT12ClusterEntry (of_nat (a + i)) ?c t"
  have u: "unat (of_nat i :: u8) = i" "unat (of_nat n :: u8) = n" using i assms(3) by (simp_all add: unat_of_nat_small)
  have less: "(of_nat i :: u8) < of_nat n" using u i by (simp add: word_less_nat_alt)
  have last: "uint (of_nat i :: u8) = uint (of_nat n :: u8) - 1 \<longleftrightarrow> Suc i = n" using u by (simp add: uint_nat) arith
  have "ucast (of_nat i :: u8) = (of_nat i :: u16)"
    using u(1) i assms(3) by (simp only: word_unat_eq_iff unsigned_ucast_eq) (simp add: unat_of_nat_small take_bit_nat_eq_self)
  then have idx: "of_nat a + ucast (of_nat i :: u8) = (of_nat (a + i) :: u16)" by simp
  have step: "FAT12Chain_loop (of_nat a) (of_nat n) (of_nat i) t = FAT12Chain_loop (of_nat a) (of_nat n) (of_nat (Suc i)) ?t"
    by (subst FAT12Chain_loop.simps) (simp add: less last idx Let_def add.commute)
  have "unat (of_nat (Suc (a + i)) :: u16) = Suc (a + i)" by (rule unat_of_nat_small) (use i assms(1) in simp)
  then have c: "?c < 0x1000" using i assms(1) by (simp add: word_less_nat_alt del: of_nat_Suc)
  have ai: "a + i \<le> 170" using i assms(1) by simp
  note IH = Suc.hyps(1) [OF i(2), of ?t]
  have t: "length ?t = 512" using Suc.prems by simp
  have IH: "\<forall>j < a + Suc i. fat12_entry (FAT12Chain_loop (of_nat a) (of_nat n) (of_nat (Suc i)) ?t) j = fat12_entry ?t j"
    "\<forall>j. Suc i \<le> j \<longrightarrow> j < n \<longrightarrow> fat12_entry (FAT12Chain_loop (of_nat a) (of_nat n) (of_nat (Suc i)) ?t) (a + j) =
      (if Suc j = n then 0xFFF else of_nat (Suc (a + j)))"
    using Suc.hyps(1) [OF i(2) _ t] i(1) by simp_all
  have here: "fat12_entry ?t (a + i) = ?c" by (rule update_entry_same [OF ai Suc.prems(2) c])
  have below: "fat12_entry ?t j = fat12_entry t j" if "j < a + i" for j by (rule update_entry_below [OF ai Suc.prems(2) that])
  show ?case unfolding step
  proof (intro conjI allI impI)
    fix j
    assume "j < a + i"
    then show "fat12_entry (FAT12Chain_loop (of_nat a) (of_nat n) (of_nat (Suc i)) ?t) j = fat12_entry t j"
      using IH(1) below by simp
  next
    fix j
    assume "i \<le> j" "j < n"
    then show "fat12_entry (FAT12Chain_loop (of_nat a) (of_nat n) (of_nat (Suc i)) ?t) (a + j) =
      (if Suc j = n then 0xFFF else of_nat (Suc (a + j)))"
      using IH here by (cases "i = j") auto
  qed
qed

section \<open>A host that reads the disk\<close>

text \<open>
  A host following the FAT specification: it takes the geometry from the boot block, looks the name up in the root
  directory, follows the cluster chain from the file's first cluster and reads the sectors of the clusters.
\<close>

definition w16 :: "u8 list \<Rightarrow> nat \<Rightarrow> nat" where
  "w16 bs i = unat (u16_of (bs ! i) (bs ! (i + 1)))"

fun host_chain :: "(nat \<Rightarrow> u16) \<Rightarrow> nat \<Rightarrow> nat \<Rightarrow> nat list" where
  "host_chain fat 0 c = []"
| "host_chain fat (Suc n) c = c # (if fat c \<ge> 0xFF8 then [] else host_chain fat n (unat (fat c)))"

definition host_read_file :: "(u16 \<Rightarrow> u8 list) \<Rightarrow> u8 list \<Rightarrow> u8 list option" where
  "host_read_file read name =
     (let boot = read 0;
          bytes_per_sector = w16 boot 11; sectors_per_cluster = unat (boot ! 13); reserved = w16 boot 14;
          fats = unat (boot ! 16); root_entries = w16 boot 17; sectors_per_fat = w16 boot 22;
          root = reserved + fats * sectors_per_fat;
          data = root + root_entries * 32 div bytes_per_sector;
          dir = read (of_nat root);
          table = read (of_nat reserved)
      in case find (\<lambda>e. take 11 e = name) (map (\<lambda>k. take 32 (drop (32 * k) dir)) [0..<root_entries]) of
           None \<Rightarrow> None
         | Some e \<Rightarrow>
             let file_size = unat (u32_of (e ! 28) (e ! 29) (e ! 30) (e ! 31));
                 clusters = host_chain (fat12_entry table) 4096 (w16 e 26);
                 sectors = concat (map (\<lambda>c. map (\<lambda>j. data + (c - 2) * sectors_per_cluster + j) [0..<sectors_per_cluster]) clusters)
             in Some (take file_size (concat (map (\<lambda>b. read (of_nat b)) sectors))))"

definition fat_init :: "target \<Rightarrow> 'f \<Rightarrow> 'f fat" where
  "fat_init T m = \<lparr>FirmwareFileEntries = FirmwareFileEntries_init T, fat_mem = m\<rparr>"

definition target_ok :: "target \<Rightarrow> bool" where
  "target_ok T \<longleftrightarrow> 0 < FLASH_FILE_SIZE_BYTES T \<and> 0 < EEPROM_FILE_SIZE_BYTES T \<and> EEPROM_FILE_SIZE_BYTES T \<le> 65536 \<and>
     2 + FILE_CLUSTERS (FLASH_FILE_SIZE_BYTES T) + FILE_CLUSTERS (EEPROM_FILE_SIZE_BYTES T) \<le> 171 \<and>
     (FLASHEND T > 0xFFFF \<or> FLASH_FILE_SIZE_BYTES T \<le> 65536)"

subsection \<open>Lists of blocks\<close>

lemma concat_nth:
  assumes "\<forall>x \<in> set xs. length x = m" "i < m * length xs"
  shows "concat xs ! i = xs ! (i div m) ! (i mod m)"
  using assms
proof (induction xs arbitrary: i)
  case (Cons x xs)
  then have m: "0 < m" by (cases m) auto
  show ?case
  proof (cases "i < m")
    case False
    then have "i div m = Suc ((i - m) div m)" "i mod m = (i - m) mod m" using m by (simp_all add: le_div_geq le_mod_geq)
    with Cons False show ?thesis by (simp add: nth_append)
  qed (use Cons in \<open>simp add: nth_append\<close>)
qed simp

lemma take_concat:
  assumes "\<And>q. q < n \<Longrightarrow> length (f q) = m" "k \<le> m * n" "\<And>i. i < k \<Longrightarrow> f (i div m) ! (i mod m) = g i" "0 < m"
  shows "take k (concat (map f [0..<n])) = map g [0..<k]"
proof (rule nth_equalityI)
  have l: "length (concat (map f [0..<n])) = m * n"
    using assms(1) by (induction n) simp_all
  then show "length (take k (concat (map f [0..<n]))) = length (map g [0..<k])" using assms(2) by simp
  fix i
  assume "i < length (take k (concat (map f [0..<n])))"
  then have i: "i < k" "i < m * n" using l assms(2) by simp_all
  then have "i div m < n" using assms(4) by (metis less_mult_imp_div_less mult.commute)
  with i show "take k (concat (map f [0..<n])) ! i = map g [0..<k] ! i"
    using assms(1,3) concat_nth [of "map f [0..<n]" m i] by simp
qed

lemma cluster_sectors:
  assumes "2 \<le> a"
  shows "concat (map (\<lambda>c. map (\<lambda>j. d + (c - 2) * k + j) [0..<k]) [a..<a + n]) = map (\<lambda>j. d + (a - 2) * k + j) [0..<n * k]"
proof (induction n)
  case (Suc n)
  obtain a' where a: "a = a' + 2" using assms by (metis add.commute le_Suc_ex)
  have "[0..<n * k + k] = [0..<n * k] @ map (\<lambda>j. j + n * k) [0..<k]"
    using upt_add_eq_append [of 0 "n * k" k] map_add_upt [of "n * k" k] by (simp only: add.commute [of k] le0 simp_thms)
  moreover have "Suc n * k = n * k + k" by simp
  ultimately have "map (\<lambda>j. d + (a - 2) * k + j) [0..<Suc n * k] =
    map (\<lambda>j. d + (a - 2) * k + j) [0..<n * k] @ map (\<lambda>j. d + (a - 2) * k + (j + n * k)) [0..<k]"
    by (simp only: map_append map_map o_def)
  moreover have "d + (a - 2) * k + (j + n * k) = d + (a + n - 2) * k + j" for j by (simp add: a distrib_right)
  ultimately show ?case using Suc by simp
qed simp

lemma host_chain_linear:
  assumes "0 < n" "n \<le> fuel" "a + n < 0xFF0"
    and "\<And>j. j < n \<Longrightarrow> fat (a + j) = (if Suc j = n then 0xFFF else of_nat (Suc (a + j)))"
  shows "host_chain fat fuel a = [a..<a + n]"
  using assms
proof (induction n arbitrary: a fuel)
  case (Suc n)
  then obtain fuel' where f: "fuel = Suc fuel'" by (cases fuel) auto
  show ?case
  proof (cases "n = 0")
    case True
    then show ?thesis using Suc.prems(4) [of 0] by (simp add: f)
  next
    case False
    have u: "unat (of_nat (Suc a) :: u16) = Suc a" by (rule unat_of_nat_small) (use Suc.prems in simp)
    have fa: "fat a = of_nat (Suc a)" using Suc.prems(4) [of 0] False by simp
    then have "\<not> fat a \<ge> 0xFF8" using u Suc.prems(3) by (simp add: word_le_nat_alt del: of_nat_Suc)
    moreover have "fat (Suc a + j) = (if Suc j = n then 0xFFF else of_nat (Suc (Suc a + j)))" if "j < n" for j
      using Suc.prems(4) [of "Suc j"] that by simp
    then have "host_chain fat fuel' (Suc a) = [Suc a..<Suc a + n]"
      by (rule Suc.IH [of fuel' "Suc a", rotated 3]) (use Suc.prems False f in simp_all)
    ultimately show ?thesis using fa u by (simp add: f upt_conv_Cons del: of_nat_Suc)
  qed
qed simp

subsection \<open>The directory and the boot block\<close>

lemma replicate_num: "replicate (numeral n) x = x # replicate (pred_numeral n) x"
  by (simp add: numeral_eq_Suc)

lemmas layout = ascii_def wide13_def le16_def le32_def MSDOS_Directory_def VFAT_LongFileName_def MSDOS_File_def replicate_num
  of_char_def bv_eval

definition dir_entry :: "target \<Rightarrow> nat \<Rightarrow> u8 list" where
  "dir_entry T k = [MSDOS_Directory (ascii ''LUFA BOOT  '') FAT_FLAG_VOLUME_NAME,
     VFAT_LongFileName (1 OR FAT_ORDINAL_LAST_ENTRY) (FAT_CHECKSUM (map of_char ''FLASH   BIN'')) (wide13 ''FLASH.BIN''),
     MSDOS_File (ascii ''FLASH   '') (ascii ''BIN'') 2 (of_nat (FLASH_FILE_SIZE_BYTES T)),
     VFAT_LongFileName (1 OR FAT_ORDINAL_LAST_ENTRY) (FAT_CHECKSUM (map of_char ''EEPROM  BIN'')) (wide13 ''EEPROM.BIN''),
     MSDOS_File (ascii ''EEPROM  '') (ascii ''BIN'') (of_nat (2 + FILE_CLUSTERS (FLASH_FILE_SIZE_BYTES T)))
       (of_nat (EEPROM_FILE_SIZE_BYTES T))] ! k"

lemma dir_entries: "FirmwareFileEntries_init T = concat (map (dir_entry T) [0, 1, 2, 3, 4])"
  by (simp add: FirmwareFileEntries_init_def dir_entry_def)

lemma length_dir_entry: "k \<in> {0, 1, 2, 3, 4} \<Longrightarrow> length (dir_entry T k) = 32"
  by (auto simp: dir_entry_def layout)

lemma MSDOS_File_fields:
  assumes "length f = 8" "length e = 3"
  shows "u16_of (MSDOS_File f e c z ! 26) (MSDOS_File f e c z ! 27) = c"
    "u32_of (MSDOS_File f e c z ! 28) (MSDOS_File f e c z ! 29) (MSDOS_File f e c z ! 30) (MSDOS_File f e c z ! 31) = z"
  using assms by (simp_all add: MSDOS_File_def nth_append le16_def le32_def u16_of_le16 u32_of_le32)

lemma dir_entry_24: "dir_entry T 2 = MSDOS_File (ascii ''FLASH   '') (ascii ''BIN'') 2 (of_nat (FLASH_FILE_SIZE_BYTES T))"
  "dir_entry T 4 = MSDOS_File (ascii ''EEPROM  '') (ascii ''BIN'') (of_nat (2 + FILE_CLUSTERS (FLASH_FILE_SIZE_BYTES T)))
       (of_nat (EEPROM_FILE_SIZE_BYTES T))"
  unfolding dir_entry_def by simp_all

lemma length_ascii [simp]: "length (ascii cs) = length cs"
  by (simp add: ascii_def)

lemma dir_entry_fields:
  "u16_of (dir_entry T 2 ! 26) (dir_entry T 2 ! 27) = 2"
  "u32_of (dir_entry T 2 ! 28) (dir_entry T 2 ! 29) (dir_entry T 2 ! 30) (dir_entry T 2 ! 31) = of_nat (FLASH_FILE_SIZE_BYTES T)"
  "u16_of (dir_entry T 4 ! 26) (dir_entry T 4 ! 27) = of_nat (2 + FILE_CLUSTERS (FLASH_FILE_SIZE_BYTES T))"
  "u32_of (dir_entry T 4 ! 28) (dir_entry T 4 ! 29) (dir_entry T 4 ! 30) (dir_entry T 4 ! 31) = of_nat (EEPROM_FILE_SIZE_BYTES T)"
  unfolding dir_entry_24 by (rule MSDOS_File_fields; simp)+

lemma boot_layout:
  "\<exists>a b c. BootBlock T = [0xEB, 0x3C, 0x90] @ ascii ''mkdosfs'' @ [0] @ le16 512 @ [4] @ le16 1 @ [2] @ le16 16 @ le16 a @ [0xF8] @
     le16 1 @ le16 b @ le16 c @ le32 0 @ le32 0 @ le16 0 @ [0x29] @ le32 0x12345678 @ ascii ''LUFA BOOT  '' @ ascii ''FAT12   ''"
  unfolding BootBlock_def disk_sizes by (intro exI) simp

lemma boot_fields:
  "length (BootBlock T) = 62" "u16_of (BootBlock T ! 11) (BootBlock T ! 12) = 512" "BootBlock T ! 13 = 4"
  "u16_of (BootBlock T ! 14) (BootBlock T ! 15) = 1" "BootBlock T ! 16 = 2" "u16_of (BootBlock T ! 17) (BootBlock T ! 18) = 16"
  "BootBlock T ! 21 = 0xF8" "u16_of (BootBlock T ! 22) (BootBlock T ! 23) = 1"
proof -
  obtain a b c where "BootBlock T = [0xEB, 0x3C, 0x90] @ ascii ''mkdosfs'' @ [0] @ le16 512 @ [4] @ le16 1 @ [2] @ le16 16 @ le16 a @ [0xF8] @
     le16 1 @ le16 b @ le16 c @ le32 0 @ le32 0 @ le16 0 @ [0x29] @ le32 0x12345678 @ ascii ''LUFA BOOT  '' @ ascii ''FAT12   ''"
    using boot_layout by blast
  then show "length (BootBlock T) = 62" "u16_of (BootBlock T ! 11) (BootBlock T ! 12) = 512" "BootBlock T ! 13 = 4"
    "u16_of (BootBlock T ! 14) (BootBlock T ! 15) = 1" "BootBlock T ! 16 = 2" "u16_of (BootBlock T ! 17) (BootBlock T ! 18) = 16"
    "BootBlock T ! 21 = 0xF8" "u16_of (BootBlock T ! 22) (BootBlock T ! 23) = 1"
    by (simp_all add: layout u16_of_def)
qed

lemma entries_nth:
  assumes "k \<in> {0, 1, 2, 3, 4}" "j < 32"
  shows "FirmwareFileEntries_init T ! (k * 32 + j) = dir_entry T k ! j"
proof -
  have "\<forall>x \<in> set (map (dir_entry T) [0, 1, 2, 3, 4]). length x = 32" by (simp add: length_dir_entry)
  then have "FirmwareFileEntries_init T ! (k * 32 + j) = map (dir_entry T) [0, 1, 2, 3, 4] ! ((k * 32 + j) div 32) ! ((k * 32 + j) mod 32)"
    unfolding dir_entries by (rule concat_nth) (use assms in auto)
  moreover have "(k * 32 + j) div 32 = k" "(k * 32 + j) mod 32 = j" using assms(2) by simp_all
  ultimately show ?thesis using assms(1) by auto
qed

lemma start_clusters:
  "FLASHFileStartCluster (fat_init T m) = 2"
  "EEPROMFileStartCluster (fat_init T m) = of_nat (2 + FILE_CLUSTERS (FLASH_FILE_SIZE_BYTES T))"
  using entries_nth [of 2 26 T] entries_nth [of 2 27 T] entries_nth [of 4 26 T] entries_nth [of 4 27 T]
  by (simp_all add: FLASHFileStartCluster_def EEPROMFileStartCluster_def fat_init_def dir_entry_fields [simplified])

lemma length_entries: "length (FirmwareFileEntries_init T) = 160"
  by (simp add: dir_entries length_dir_entry [of 0, simplified] length_dir_entry)

subsection \<open>The table\<close>

lemma clusters_bound:
  assumes "target_ok T"
  shows "0 < FILE_CLUSTERS (FLASH_FILE_SIZE_BYTES T)" "0 < FILE_CLUSTERS (EEPROM_FILE_SIZE_BYTES T)"
    "2 + FILE_CLUSTERS (FLASH_FILE_SIZE_BYTES T) + FILE_CLUSTERS (EEPROM_FILE_SIZE_BYTES T) \<le> 171"
  using assms by (auto simp: target_ok_def FILE_CLUSTERS_def)

lemma table_entries:
  fixes B :: "'f boot" and m :: 'f
  assumes "target_ok T" "b = DISK_BLOCK_FATBlock1 \<or> b = DISK_BLOCK_FATBlock2"
  defines "t \<equiv> block_contents B T b (fat_init T m)"
    and "nF \<equiv> FILE_CLUSTERS (FLASH_FILE_SIZE_BYTES T)" and "nE \<equiv> FILE_CLUSTERS (EEPROM_FILE_SIZE_BYTES T)"
  shows "fat12_entry t 0 = 0xFF8" "fat12_entry t 1 = 0xFFF"
    "j < nF \<Longrightarrow> fat12_entry t (2 + j) = (if Suc j = nF then 0xFFF else of_nat (Suc (2 + j)))"
    "j < nE \<Longrightarrow> fat12_entry t (2 + nF + j) = (if Suc j = nE then 0xFFF else of_nat (Suc (2 + nF + j)))"
proof -
  note n = clusters_bound [OF assms(1), folded nF_def nE_def]
  define t0 where "t0 = UpdateFAT12ClusterEntry (of_nat 0) 0xFF8 (replicate 512 0)"
  define t1 where "t1 = UpdateFAT12ClusterEntry (of_nat 1) 0xFFF t0"
  define t2 where "t2 = FAT12Chain_loop (of_nat 2) (of_nat nF) (of_nat 0) t1"
  have l: "length t0 = 512" "length t1 = 512" "length t2 = 512" by (simp_all add: t0_def t1_def t2_def)
  have t: "t = FAT12Chain_loop (of_nat (2 + nF)) (of_nat nE) (of_nat 0) t2"
    using assms(2) by (auto simp: t_def block_contents_def Let_def UpdateFAT12ClusterChain_def start_clusters
        boot_fields t0_def t1_def t2_def nF_def nE_def disk_sizes)
  have 0: "fat12_entry t0 0 = 0xFF8" unfolding t0_def by (rule update_entry_same) simp_all
  have 1: "fat12_entry t1 1 = 0xFFF" "fat12_entry t1 0 = 0xFF8"
    unfolding t1_def using update_entry_same [of 1 t0 "0xFFF"] update_entry_below [of 1 t0 0 "0xFFF"] 0 l by simp_all
  note 2 = chain_loop_entries [of 2 nF 0 t1, folded t2_def]
  note 3 = chain_loop_entries [of "2 + nF" nE 0 t2, folded t]
  show "fat12_entry t 0 = 0xFF8" "fat12_entry t 1 = 0xFFF"
    "j < nF \<Longrightarrow> fat12_entry t (2 + j) = (if Suc j = nF then 0xFFF else of_nat (Suc (2 + j)))"
    "j < nE \<Longrightarrow> fat12_entry t (2 + nF + j) = (if Suc j = nE then 0xFFF else of_nat (Suc (2 + nF + j)))"
    using 1 2 3 n l by simp_all
qed

subsection \<open>The blocks of the files\<close>

lemma sectors_clusters: "FILE_SECTORS n \<le> 4 * FILE_CLUSTERS n" "i < n \<Longrightarrow> i div 512 < FILE_SECTORS n" "0 < n \<Longrightarrow> 0 < FILE_SECTORS n"
proof -
  show lt: "i < n \<Longrightarrow> i div 512 < FILE_SECTORS n" for i
    using less_div_mod [of i n 512] by (auto simp: FILE_SECTORS_def disk_sizes)
  then show "0 < n \<Longrightarrow> 0 < FILE_SECTORS n" by fastforce
  have "n div 2048 = n div 512 div 4" using div_mult2_eq [of n 512 4] by simp
  moreover have "n mod 2048 = 512 * (n div 512 mod 4) + n mod 512" using mod_mult2_eq [of n 512 4] by simp
  moreover have "q \<le> 3 + 4 * (q div 4)" for q :: nat using mod_less_divisor [of 4 q] mult_div_mod_eq [of 4 q] by linarith
  ultimately show "FILE_SECTORS n \<le> 4 * FILE_CLUSTERS n"
    unfolding FILE_SECTORS_def FILE_CLUSTERS_def disk_sizes by (cases "n mod 2048 = 0") auto
qed

lemma file_range_nat:
  assumes "2 \<le> c" "0 < FILE_SECTORS n" "4 + (c - 2) * 4 + FILE_SECTORS n \<le> 65536" "b < 65536"
  shows "file_range (of_nat c) n (of_nat b) =
    (if 4 + (c - 2) * 4 \<le> b \<and> b < 4 + (c - 2) * 4 + FILE_SECTORS n then Some (of_nat (b - (4 + (c - 2) * 4))) else None)"
proof -
  let ?st = "4 + (c - 2) * 4" and ?S = "FILE_SECTORS n"
  have st: "DISK_BLOCK_DataStartBlock + (of_nat c - 2) * of_nat SECTOR_PER_CLUSTER = (of_nat ?st :: u16)"
    using assms(1) by (simp add: disk_sizes of_nat_diff)
  have en: "(of_nat ?st :: u16) + (of_nat ?S - 1) = of_nat (?st + ?S - 1)" using assms(2) by (simp add: of_nat_diff)
  have u: "unat (of_nat ?st :: u16) = ?st" "unat (of_nat (?st + ?S - 1) :: u16) = ?st + ?S - 1" "unat (of_nat b :: u16) = b"
    using assms by (intro unat_of_nat_small; simp)+
  have d: "of_nat b - (of_nat ?st :: u16) = of_nat (b - ?st)" if "?st \<le> b" using that by (simp add: of_nat_diff)
  show ?thesis unfolding file_range_def Let_def st en word_le_nat_alt u using assms(2) d by auto
qed

lemma flash_read_map: "flash_read_loop B n a m = map (\<lambda>i. pgm_read_byte B (a + of_nat i) m) [0..<n]"
  by (induction n arbitrary: a) (simp_all add: map_upt_Suc add.assoc del: upt_Suc)

lemma eeprom_read_map: "eeprom_read_loop B n a m = map (\<lambda>i. eeprom_read_byte B (a + of_nat i) m) [0..<n]"
  by (induction n arbitrary: a) (simp_all add: map_upt_Suc add.assoc ReadEEPROMByte_def del: upt_Suc)

text \<open>The bounds that a target gives, in sectors.\<close>

lemma target_sectors:
  assumes "target_ok T"
  defines "nF \<equiv> FILE_CLUSTERS (FLASH_FILE_SIZE_BYTES T)" and "nE \<equiv> FILE_CLUSTERS (EEPROM_FILE_SIZE_BYTES T)"
    and "sF \<equiv> FILE_SECTORS (FLASH_FILE_SIZE_BYTES T)" and "sE \<equiv> FILE_SECTORS (EEPROM_FILE_SIZE_BYTES T)"
  shows "0 < sF" "0 < sE" "sF \<le> 4 * nF" "sE \<le> 4 * nE" "nF + nE \<le> 169" "0 < nF" "0 < nE"
  using assms sectors_clusters clusters_bound [OF assms(1)] by (auto simp: target_ok_def)

lemma flash_range:
  assumes "target_ok T" "b < 65536"
  shows "file_range 2 (FLASH_FILE_SIZE_BYTES T) (of_nat b) =
    (if 4 \<le> b \<and> b < 4 + FILE_SECTORS (FLASH_FILE_SIZE_BYTES T) then Some (of_nat (b - 4)) else None)"
  using file_range_nat [of 2 "FLASH_FILE_SIZE_BYTES T" b] target_sectors [OF assms(1)] assms(2) by simp

lemma eeprom_range:
  assumes "target_ok T" "b < 65536"
  defines "nF \<equiv> FILE_CLUSTERS (FLASH_FILE_SIZE_BYTES T)"
  shows "file_range (of_nat (2 + nF)) (EEPROM_FILE_SIZE_BYTES T) (of_nat b) =
    (if 4 + nF * 4 \<le> b \<and> b < 4 + nF * 4 + FILE_SECTORS (EEPROM_FILE_SIZE_BYTES T) then Some (of_nat (b - (4 + nF * 4))) else None)"
  using file_range_nat [of "2 + nF" "EEPROM_FILE_SIZE_BYTES T" b] target_sectors [OF assms(1)] assms(2)
  by (simp add: nF_def)

lemma block_of_nat: "b < 65536 \<Longrightarrow> 4 \<le> b \<Longrightarrow> (of_nat b :: u16) \<notin> {0, 1, 2, 3}"
proof -
  assume b: "b < 65536" "4 \<le> b"
  then have "unat (of_nat b :: u16) = b" by (simp add: unat_of_nat_small)
  with b show ?thesis by auto
qed

lemma ucast_of_nat_16: "n < 65536 \<Longrightarrow> ucast (of_nat n :: u16) = (of_nat n :: u32)"
  by (simp only: word_unat_eq_iff unsigned_ucast_eq) (simp add: unat_of_nat_small take_bit_nat_eq_self)

lemma flash_address_unat:
  assumes "FLASHEND T > 0xFFFF \<or> 512 * q + 511 < 65536" "q < 65536" "i < 512"
  shows "unat (flash_address T (of_nat q) + of_nat i) = 512 * q + i"
proof -
  have "flash_address T (of_nat q) = of_nat (512 * q)"
  proof (cases "FLASHEND T > 0xFFFF")
    case True
    then show ?thesis using ucast_of_nat_16 [OF assms(2)] by (simp add: flash_address_def disk_sizes mult.commute)
  next
    case False
    then have "ucast (of_nat (512 * q) :: u16) = (of_nat (512 * q) :: u32)" using assms(1) by (intro ucast_of_nat_16) simp
    with False show ?thesis by (simp add: flash_address_def disk_sizes mult.commute)
  qed
  then have a: "flash_address T (of_nat q) + of_nat i = of_nat (512 * q + i)" by simp
  show ?thesis unfolding a by (rule unat_of_nat_small) (use assms(2,3) in simp)
qed

lemma sector_start: "q < FILE_SECTORS n \<Longrightarrow> 512 * q < n"
  using less_div_mod [of "512 * q" n 512] by (auto simp: FILE_SECTORS_def disk_sizes split: if_splits)

lemma block_data:
  assumes "b \<notin> {0, 1, 2, 3}"
  shows "block_contents B T b s = (case file_range (EEPROMFileStartCluster s) (EEPROM_FILE_SIZE_BYTES T) b of
     Some n \<Rightarrow> eeprom_read_loop B 512 (n * 512) (fat_mem s)
   | None \<Rightarrow> (case file_range (FLASHFileStartCluster s) (FLASH_FILE_SIZE_BYTES T) b of
       Some n \<Rightarrow> flash_read_loop B 512 (flash_address T n) (fat_mem s) | None \<Rightarrow> replicate 512 0))"
  using assms by (simp add: block_contents_def Let_def ReadWriteFLASHFileBlock_def ReadWriteEEPROMFileBlock_def
      disk_sizes split: option.split)

lemma fat_mem_init [simp]: "fat_mem (fat_init T m) = m" "FirmwareFileEntries (fat_init T m) = FirmwareFileEntries_init T"
  by (simp_all add: fat_init_def)

lemma sector_addresses:
  assumes "target_ok T" "q < FILE_SECTORS (FLASH_FILE_SIZE_BYTES T)"
  shows "FLASHEND T > 0xFFFF \<or> 512 * q + 511 < 65536"
proof -
  have "FLASHEND T > 0xFFFF \<or> 512 * q < 65536" using sector_start [OF assms(2)] assms(1) by (auto simp: target_ok_def)
  then have "FLASHEND T > 0xFFFF \<or> q < 128" by linarith
  then show ?thesis by linarith
qed

lemma block_flash:
  assumes f: "spm_flash B k flash buf" and T: "target_ok T" and q: "q < FILE_SECTORS (FLASH_FILE_SIZE_BYTES T)"
  shows "block_contents B T (of_nat (4 + q)) (fat_init T m) = map (\<lambda>i. flash m (512 * q + i)) [0..<512]"
proof -
  note t = target_sectors [OF T]
  have b: "4 + q < 65536" using t q by simp
  note q' = sector_addresses [OF T q]
  have "flash_read_loop B 512 (flash_address T (of_nat q)) m = map (\<lambda>i. flash m (512 * q + i)) [0..<512]"
    unfolding flash_read_map using q' b by (simp add: spm_flashD [OF f] flash_address_unat)
  then show ?thesis
    unfolding block_data [OF block_of_nat [OF b le_add1]] start_clusters flash_range [OF T b] eeprom_range [OF T b]
    using q t by simp
qed

lemma block_eeprom:
  assumes T: "target_ok T" and q: "q < FILE_SECTORS (EEPROM_FILE_SIZE_BYTES T)"
  shows "block_contents B T (of_nat (4 + FILE_CLUSTERS (FLASH_FILE_SIZE_BYTES T) * 4 + q)) (fat_init T m) =
    map (\<lambda>i. eeprom_read_byte B (of_nat (512 * q + i)) m) [0..<512]"
proof -
  note t = target_sectors [OF T]
  have b: "4 + FILE_CLUSTERS (FLASH_FILE_SIZE_BYTES T) * 4 + q < 65536" "4 \<le> 4 + FILE_CLUSTERS (FLASH_FILE_SIZE_BYTES T) * 4 + q"
    using t q by simp_all
  show ?thesis
    unfolding block_data [OF block_of_nat [OF b]] start_clusters flash_range [OF T b(1)] eeprom_range [OF T b(1)] eeprom_read_map
    using q t by (simp add: mult.commute)
qed

lemma length_block: "length (block_contents B T b (fat_init T m)) = 512"
  by (auto simp: block_contents_def Let_def disk_sizes overwrite_def boot_fields length_entries UpdateFAT12ClusterChain_def
      ReadWriteFLASHFileBlock_def ReadWriteEEPROMFileBlock_def flash_read_map eeprom_read_map split: option.split)

subsection \<open>The host finds the files\<close>

lemma boot_block_nth: "i < 62 \<Longrightarrow> block_contents B T 0 s ! i = BootBlock T ! i"
  by (simp add: block_contents_def disk_sizes overwrite_def nth_append boot_fields)

lemma boot_geometry:
  "w16 (block_contents B T 0 s) 11 = 512" "block_contents B T 0 s ! 13 = 4" "w16 (block_contents B T 0 s) 14 = 1"
  "block_contents B T 0 s ! 16 = 2" "w16 (block_contents B T 0 s) 17 = 16" "w16 (block_contents B T 0 s) 22 = 1"
  by (simp_all add: w16_def boot_block_nth boot_fields [simplified])

lemma dir_block_entry:
  assumes "k \<in> {0, 1, 2, 3, 4}"
  shows "take 32 (drop (32 * k) (block_contents B T 3 (fat_init T m))) = dir_entry T k"
proof (rule nth_equalityI)
  have l: "length (block_contents B T 3 (fat_init T m)) = 512" by (rule length_block)
  then show "length (take 32 (drop (32 * k) (block_contents B T 3 (fat_init T m)))) = length (dir_entry T k)"
    using assms length_dir_entry [OF assms] by auto
  fix j
  assume "j < length (take 32 (drop (32 * k) (block_contents B T 3 (fat_init T m))))"
  then have j: "j < 32" by simp
  have "block_contents B T 3 (fat_init T m) ! (k * 32 + j) = FirmwareFileEntries_init T ! (k * 32 + j)"
    using assms j by (auto simp: block_contents_def overwrite_def nth_append length_entries)
  then show "take 32 (drop (32 * k) (block_contents B T 3 (fat_init T m))) ! j = dir_entry T k ! j"
    using assms j l entries_nth [OF assms j] by (auto simp: mult.commute)
qed

lemma dir_entry_names:
  "take 11 (dir_entry T 2) = ascii ''FLASH   BIN''" "take 11 (dir_entry T 4) = ascii ''EEPROM  BIN''"
  by (simp_all add: dir_entry_def layout)

lemma dir_entry_others:
  "take 11 (dir_entry T 0) = ascii ''FLASH   BIN'' \<longleftrightarrow> False" "take 11 (dir_entry T 1) = ascii ''FLASH   BIN'' \<longleftrightarrow> False"
  "take 11 (dir_entry T 0) = ascii ''EEPROM  BIN'' \<longleftrightarrow> False" "take 11 (dir_entry T 1) = ascii ''EEPROM  BIN'' \<longleftrightarrow> False"
  "ascii ''FLASH   BIN'' = ascii ''EEPROM  BIN'' \<longleftrightarrow> False" "take 11 (dir_entry T 3) = ascii ''EEPROM  BIN'' \<longleftrightarrow> False"
  by (simp_all add: dir_entry_def layout)

lemma find_entries:
  defines "es \<equiv> \<lambda>B T m. map (\<lambda>k. take 32 (drop (32 * k) (block_contents B T 3 (fat_init T m)))) [0..<16]"
  shows "find (\<lambda>e. take 11 e = ascii ''FLASH   BIN'') (es B T m) = Some (dir_entry T 2)"
    "find (\<lambda>e. take 11 e = ascii ''EEPROM  BIN'') (es B T m) = Some (dir_entry T 4)"
proof -
  have "[0..<16] = [0, 1, 2, 3, 4] @ [5..<16]" by (simp add: upt_rec)
  then have es: "es B T m = dir_entry T 0 # dir_entry T 1 # dir_entry T 2 # dir_entry T 3 # dir_entry T 4 #
    map (\<lambda>k. take 32 (drop (32 * k) (block_contents B T 3 (fat_init T m)))) [5..<16]"
    using dir_block_entry [of 0 B T m] dir_block_entry [of 1 B T m] dir_block_entry [of 2 B T m] dir_block_entry [of 3 B T m]
      dir_block_entry [of 4 B T m] by (simp add: es_def del: upt_rec_numeral)
  show "find (\<lambda>e. take 11 e = ascii ''FLASH   BIN'') (es B T m) = Some (dir_entry T 2)"
    "find (\<lambda>e. take 11 e = ascii ''EEPROM  BIN'') (es B T m) = Some (dir_entry T 4)"
    unfolding es by (simp_all only: find.simps dir_entry_names dir_entry_others if_True if_False refl)
qed

lemma clusters_size: "n \<le> 2048 * FILE_CLUSTERS n"
proof -
  have e: "2048 * (n div 2048) + n mod 2048 = n" by (rule mult_div_mod_eq)
  have l: "n mod 2048 < 2048" by simp
  have "n mod 2048 = 0 \<and> FILE_CLUSTERS n = n div 2048 \<or> FILE_CLUSTERS n = n div 2048 + 1"
    by (simp add: FILE_CLUSTERS_def disk_sizes)
  with e l show ?thesis by linarith
qed

lemma host_file:
  assumes "find (\<lambda>e. take 11 e = name) (map (\<lambda>k. take 32 (drop (32 * k) (block_contents B T 3 (fat_init T m)))) [0..<16]) = Some e"
    and "u32_of (e ! 28) (e ! 29) (e ! 30) (e ! 31) = of_nat n" "n < 2 ^ 32" "w16 e 26 = a"
    and "host_chain (fat12_entry (block_contents B T 1 (fat_init T m))) 4096 a = [a..<a + c]" "2 \<le> a" "n \<le> 2048 * c"
    and "\<And>i. i < n \<Longrightarrow> block_contents B T (of_nat (4 + (a - 2) * 4 + i div 512)) (fat_init T m) ! (i mod 512) = g i"
  shows "host_read_file (\<lambda>b. block_contents B T b (fat_init T m)) name = Some (map g [0..<n])"
proof -
  let ?rd = "\<lambda>b. block_contents B T b (fat_init T m)"
  have n: "unat (of_nat n :: u32) = n" using assms(3) by (simp add: unat_of_nat_small)
  have "take n (concat (map (\<lambda>q. ?rd (of_nat (4 + (a - 2) * 4 + q))) [0..<c * 4])) = map g [0..<n]"
    by (rule take_concat) (use assms(7,8) length_block in auto)
  moreover have "map (\<lambda>q. ?rd (of_nat (4 + (a - 2) * 4 + q))) [0..<c * 4] =
    map (\<lambda>b. ?rd (of_nat b)) (concat (map (\<lambda>c. map (\<lambda>j. 4 + (c - 2) * 4 + j) [0..<4]) [a..<a + c]))"
    unfolding cluster_sectors [OF assms(6)] map_map o_def by (rule refl)
  moreover have g: "(1 :: nat) + unat (2 :: u8) * 1 + 16 * 32 div 512 = 4" "of_nat (1 + unat (2 :: u8) * 1) = (3 :: u16)"
    "of_nat 1 = (1 :: u16)" "unat (4 :: u8) = 4" by simp_all
  ultimately show ?thesis
    unfolding host_read_file_def Let_def boot_geometry g assms(1) option.case assms(2) n assms(4,5) by (simp only: option.inject)
qed

text \<open>
  C11: the virtual disk is a correct FAT12 volume: a host that reads the boot block, looks up the name in the root
  directory, follows the cluster chain in the allocation table and reads the sectors gets, as \<open>FLASH.BIN\<close>, exactly the
  contents of the application section of the flash, and as \<open>EEPROM.BIN\<close> exactly the contents of the EEPROM up to
  the announced size.  This is so for every target whose files have at most 169 clusters together.
\<close>

theorem host_reads_files:
  assumes f: "spm_flash B k flash buf" and T: "target_ok T"
  shows "host_read_file (\<lambda>b. block_contents B T b (fat_init T m)) (ascii ''FLASH   BIN'') =
      Some (map (flash m) [0..<FLASH_FILE_SIZE_BYTES T]) \<and>
    host_read_file (\<lambda>b. block_contents B T b (fat_init T m)) (ascii ''EEPROM  BIN'') =
      Some (map (\<lambda>i. eeprom_read_byte B (of_nat i) m) [0..<EEPROM_FILE_SIZE_BYTES T])"
proof
  note t = target_sectors [OF T]
  let ?nF = "FILE_CLUSTERS (FLASH_FILE_SIZE_BYTES T)" and ?nE = "FILE_CLUSTERS (EEPROM_FILE_SIZE_BYTES T)"
  have b1: "1 = DISK_BLOCK_FATBlock1 \<or> 1 = DISK_BLOCK_FATBlock2" by simp
  have size: "n \<le> 2048 * FILE_CLUSTERS n" for n by (rule clusters_size)
  have n: "FLASH_FILE_SIZE_BYTES T < 2 ^ 32" "EEPROM_FILE_SIZE_BYTES T < 2 ^ 32"
    using size [of "FLASH_FILE_SIZE_BYTES T"] size [of "EEPROM_FILE_SIZE_BYTES T"] t by simp_all
  have uF: "unat (of_nat (2 + ?nF) :: u16) = 2 + ?nF" by (rule unat_of_nat_small) (use t in simp)
  show "host_read_file (\<lambda>b. block_contents B T b (fat_init T m)) (ascii ''FLASH   BIN'') =
      Some (map (flash m) [0..<FLASH_FILE_SIZE_BYTES T])"
  proof (rule host_file [OF find_entries(1) dir_entry_fields(2) n(1), where a = 2 and c = ?nF])
    show "host_chain (fat12_entry (block_contents B T 1 (fat_init T m))) 4096 2 = [2..<2 + ?nF]"
      using t table_entries(3) [OF T b1, of _ B m] by (intro host_chain_linear) auto
    show "block_contents B T (of_nat (4 + (2 - 2) * 4 + i div 512)) (fat_init T m) ! (i mod 512) = flash m i"
      if "i < FLASH_FILE_SIZE_BYTES T" for i
      using block_flash [OF f T sectors_clusters(2) [OF that], of m] by simp
  qed (use dir_entry_fields(1) [of T] size in \<open>simp_all add: w16_def\<close>)
  show "host_read_file (\<lambda>b. block_contents B T b (fat_init T m)) (ascii ''EEPROM  BIN'') =
      Some (map (\<lambda>i. eeprom_read_byte B (of_nat i) m) [0..<EEPROM_FILE_SIZE_BYTES T])"
  proof (rule host_file [OF find_entries(2) dir_entry_fields(4) n(2), where a = "2 + ?nF" and c = ?nE])
    show "host_chain (fat12_entry (block_contents B T 1 (fat_init T m))) 4096 (2 + ?nF) = [2 + ?nF..<2 + ?nF + ?nE]"
      using t table_entries(4) [OF T b1, of _ B m] by (intro host_chain_linear) auto
    show "block_contents B T (of_nat (4 + (2 + ?nF - 2) * 4 + i div 512)) (fat_init T m) ! (i mod 512) = eeprom_read_byte B (of_nat i) m"
      if "i < EEPROM_FILE_SIZE_BYTES T" for i
    proof -
      have "block_contents B T (of_nat (4 + ?nF * 4 + i div 512)) (fat_init T m) ! (i mod 512) =
        eeprom_read_byte B (of_nat (512 * (i div 512) + i mod 512)) m"
        unfolding block_eeprom [OF T sectors_clusters(2) [OF that]] by (subst nth_map) simp_all
      then show ?thesis by (simp only: mult_div_mod_eq add_diff_cancel_left')
    qed
  qed (use dir_entry_fields(3) [of T] size uF in \<open>simp_all add: w16_def\<close>)
qed

section \<open>Writing a file\<close>

lemma page_size_unat:
  assumes "1 \<le> k" "k \<le> 9" "SPM_PAGESIZE T = 2 ^ k"
  shows "unat (SPM_PAGESIZE T) = 2 ^ k"
proof -
  have p: "SPM_PAGESIZE T = of_nat (2 ^ k)" using assms(3) by simp
  have "(2 :: nat) ^ k \<le> 2 ^ 9" using assms(2) by (intro power_increasing) simp_all
  then show ?thesis unfolding p by (intro unat_of_nat_small) simp
qed

lemma flash_write_programmed:
  assumes f: "spm_flash B k flash buf" and k: "1 \<le> k" "k \<le> 9" "SPM_PAGESIZE T = 2 ^ k" and b: "b mod 2 ^ k = 0"
    and "programmed k flash buf img b g a m" "b \<le> a" "even a" "unat addr = a" "even (length bs)" "a + length bs < 2 ^ 32"
    and "\<And>i. i < length bs \<Longrightarrow> bs ! i = img (a + i)"
  shows "programmed k flash buf img b g (a + length bs) (flash_write_loop B T bs addr m)"
  using assms(6-)
proof (induction bs arbitrary: a addr m rule: induct_list012)
  case (3 b0 b1 bs)
  have bytes: "b0 = img a" "b1 = img (Suc a)" using "3.prems"(7) [of 0] "3.prems"(7) [of 1] by simp_all
  have P: "unat (SPM_PAGESIZE T) = 2 ^ k" using k by (rule page_size_unat)
  have a2: "unat (addr + 2) = Suc (Suc a)" using "3.prems"(4,6) by (simp add: unat_word_ariths(1))
  note n = page_next [OF "3.prems"(3) k(1)]
  have first: "addr mod SPM_PAGESIZE T = 0 \<longleftrightarrow> a mod 2 ^ k = 0"
    by (simp only: word_unat_eq_iff unat_mod_distrib P "3.prems"(4)) simp
  have last: "(addr + 2) mod SPM_PAGESIZE T = 0 \<longleftrightarrow> a mod 2 ^ k + 2 = 2 ^ k"
    using n by (simp only: word_unat_eq_iff unat_mod_distrib P a2) simp
  define m1 where "m1 = (if a mod 2 ^ k = 0 then BootloaderAPI_ErasePage B addr m else m)"
  define m2 where "m2 = boot_page_fill B addr (u16_of (img a) (img (Suc a))) m1"
  define m3 where "m3 = (if a mod 2 ^ k + 2 = 2 ^ k then BootloaderAPI_WritePage B (addr + 2 - SPM_PAGESIZE T) m2 else m2)"
  have step: "flash_write_loop B T (b0 # b1 # bs) addr m = flash_write_loop B T bs (addr + 2) m3"
    by (simp add: Let_def first last m1_def m2_def m3_def bytes BootloaderAPI_FillWord_def u16_of_def)
  have m1: "flash m1 = (\<lambda>x. if a mod 2 ^ k = 0 \<and> x div 2 ^ k = a div 2 ^ k then 0xFF else flash m x)" "buf m1 = buf m"
    using "3.prems"(4) by (auto simp: m1_def BootloaderAPI_ErasePage_def spm_flashD [OF f])
  define pg where "pg = (if a mod 2 ^ k + 2 = 2 ^ k then addr + 2 - SPM_PAGESIZE T else addr)"
  have pg: "unat pg div 2 ^ k = a div 2 ^ k"
  proof (cases "a mod 2 ^ k + 2 = 2 ^ k")
    case True
    then have e: "Suc (Suc a) = Suc (a div 2 ^ k) * 2 ^ k"
      using n(1,2) div_mult_mod_eq [of "Suc (Suc a)" "2 ^ k"] by simp
    then have "SPM_PAGESIZE T \<le> addr + 2" by (simp add: word_le_nat_alt P a2)
    then have "unat (addr + 2 - SPM_PAGESIZE T) = a div 2 ^ k * 2 ^ k" using e by (simp add: unat_sub P a2)
    with True show ?thesis by (simp add: pg_def)
  qed (simp add: pg_def "3.prems"(4))
  have "programmed k flash buf img b g (Suc (Suc a)) m3"
    by (rule program_word [OF f k(1) "3.prems"(1) b "3.prems"(2,3,4) pg m1])
      (auto simp: m3_def m2_def pg_def BootloaderAPI_WritePage_def spm_flashD [OF f])
  note IH = "3.IH"(1) [OF this _ _ a2]
  have "bs ! i = img (Suc (Suc a) + i)" if "i < length bs" for i using "3.prems"(7) [of "Suc (Suc i)"] that by simp
  with IH "3.prems" show ?case unfolding step by simp
qed simp_all

text \<open>A block of the file in the flash: exactly its bytes change, and the page buffer is empty afterwards.\<close>

lemma flash_write_block:
  assumes f: "spm_flash B k flash buf" and k: "1 \<le> k" "k \<le> 9" "SPM_PAGESIZE T = 2 ^ k" and T: "target_ok T"
    and q: "q < FILE_SECTORS (FLASH_FILE_SIZE_BYTES T)" and d: "length data = 512" and m: "buf m = (\<lambda>_. 0xFF)"
  defines "m' \<equiv> flash_write_loop B T data (flash_address T (of_nat q)) m"
  shows "flash m' = (\<lambda>x. if 512 * q \<le> x \<and> x < 512 * q + 512 then data ! (x - 512 * q) else flash m x)" "buf m' = (\<lambda>_. 0xFF)"
proof -
  let ?b = "512 * q" and ?img = "\<lambda>x. data ! (x - 512 * q)"
  have "(512 :: nat) = 2 ^ k * 2 ^ (9 - k)" using k(2) by (simp flip: power_add)
  then have al: "?b mod 2 ^ k = 0" "(?b + 512) mod 2 ^ k = 0" by (simp_all only: mult.assoc flip: distrib_left mult_Suc_right) simp_all
  have sm: "q < 65536" using target_sectors [OF T] q by simp
  have addr: "unat (flash_address T (of_nat q)) = ?b"
    using flash_address_unat [OF sector_addresses [OF T q] sm, of 0] by simp
  have "programmed k flash buf ?img ?b (flash m) ?b m" using m al(1) by (auto simp: programmed_def fun_eq_iff dest: div_le_mono [of _ _ "2 ^ k"])
  from flash_write_programmed [OF f k al(1) this order_refl _ addr, of data] d sm
  have "programmed k flash buf ?img ?b (flash m) (?b + 512) m'" by (simp add: m'_def)
  then show "flash m' = (\<lambda>x. if ?b \<le> x \<and> x < ?b + 512 then ?img x else flash m x)" "buf m' = (\<lambda>_. 0xFF)"
    using al(2) less_div_mod [of _ "?b + 512" "2 ^ k"] by (auto simp: programmed_def fun_eq_iff)
qed

lemma fat_init_update [simp]: "(fat_init T m)\<lparr>fat_mem := m'\<rparr> = fat_init T m'"
  by (simp add: fat_init_def)

lemma store_flash:
  assumes T: "target_ok T" and q: "q < FILE_SECTORS (FLASH_FILE_SIZE_BYTES T)"
  shows "store_block B T (of_nat (4 + q)) data (fat_init T m) = fat_init T (flash_write_loop B T data (flash_address T (of_nat q)) m)"
proof -
  note t = target_sectors [OF T]
  have b: "4 + q < 65536" using t q by simp
  show ?thesis
    using block_of_nat [OF b le_add1] t q
    by (simp add: store_block_def ReadWriteFLASHFileBlock_def ReadWriteEEPROMFileBlock_def start_clusters
        start_clusters(2) [simplified] flash_range [OF T b, simplified] eeprom_range [OF T b, simplified] Let_def)
qed

text \<open>
  C32: writing a block of \<open>FLASH.BIN\<close> programs the flash: exactly the 512 bytes of the block change, whatever the
  page size of the flash, the directory is as it was, the page buffer is left empty for the next
  block, and reading the block back gives the bytes that were written.
\<close>

theorem flash_block_written:
  assumes f: "spm_flash B k flash buf" and k: "1 \<le> k" "k \<le> 9" "SPM_PAGESIZE T = 2 ^ k" and T: "target_ok T"
    and q: "q < FILE_SECTORS (FLASH_FILE_SIZE_BYTES T)" and d: "length data = 512" and m: "buf m = (\<lambda>_. 0xFF)"
  defines "s \<equiv> store_block B T (of_nat (4 + q)) data (fat_init T m)"
  shows "flash (fat_mem s) = (\<lambda>x. if 512 * q \<le> x \<and> x < 512 * q + 512 then data ! (x - 512 * q) else flash m x) \<and>
    buf (fat_mem s) = (\<lambda>_. 0xFF) \<and> FirmwareFileEntries s = FirmwareFileEntries_init T \<and>
    block_contents B T (of_nat (4 + q)) s = data"
proof -
  define m' where "m' = flash_write_loop B T data (flash_address T (of_nat q)) m"
  have s: "s = fat_init T m'" using store_flash [OF T q] by (simp add: s_def m'_def)
  note m' = flash_write_block [OF f k T q d m, folded m'_def]
  have "block_contents B T (of_nat (4 + q)) (fat_init T m') = data"
    unfolding block_flash [OF f T q] m' using d by (auto intro!: nth_equalityI)
  with m' show ?thesis by (simp add: s)
qed

text \<open>The bootloader's default target: 128 kB of flash with 8 kB for the bootloader, 4 kB of EEPROM.\<close>

definition at90usb1287 :: target where
  "at90usb1287 = \<lparr>FLASHEND = 0x1FFFF, BOOT_START_ADDR = 0x1E000, AUX_BOOT_SECTION_SIZE = 0, E2END = 0xFFF, SPM_PAGESIZE = 2 ^ 8\<rparr>"

lemma at90usb1287_sizes: "FLASH_FILE_SIZE_BYTES at90usb1287 = 0x1E000" "EEPROM_FILE_SIZE_BYTES at90usb1287 = 0xFFF"
  "target_ok at90usb1287" "SPM_PAGESIZE at90usb1287 = 2 ^ 8" "FILE_SECTORS (FLASH_FILE_SIZE_BYTES at90usb1287) = 240"
  by (simp_all add: at90usb1287_def FLASH_FILE_SIZE_BYTES_def EEPROM_FILE_SIZE_BYTES_def target_ok_def FILE_CLUSTERS_def
      FILE_SECTORS_def disk_sizes)

theorem host_reads_files_witness:
  "map_option length (host_read_file (\<lambda>b. block_contents (mem_boot 8) at90usb1287 b (fat_init at90usb1287 (\<lambda>x. of_nat x, \<lambda>_. 0xFF, \<lambda>_. 0)))
     (ascii ''FLASH   BIN'')) = Some 0x1E000"
  using host_reads_files [OF spm_flash_mem at90usb1287_sizes(3), of 8 "(\<lambda>x. of_nat x, \<lambda>_. 0xFF, \<lambda>_. 0)"]
  by (simp add: at90usb1287_sizes del: upt_rec_numeral)

theorem flash_block_written_witness:
  "block_contents (mem_boot 8) at90usb1287 (of_nat (4 + 7)) (store_block (mem_boot 8) at90usb1287 (of_nat (4 + 7)) (replicate 512 0xA5)
     (fat_init at90usb1287 (\<lambda>_. 0, \<lambda>_. 0xFF, \<lambda>_. 0))) = replicate 512 0xA5"
  using flash_block_written [OF spm_flash_mem _ _ at90usb1287_sizes(4,3), of 7 "replicate 512 0xA5" "(\<lambda>_. 0, \<lambda>_. 0xFF, \<lambda>_. 0)"]
  by (simp add: at90usb1287_sizes FILE_SECTORS_def disk_sizes)

end
