(* ===== verification/Bulk_Pipe.thy ===== *)
theory Bulk_Pipe
  imports Endpoint_Stream
begin

text \<open>
  The two bulk endpoints of a mass storage device as the host and the program see them, and what the streams of the library do
  on them: bytes written go out in full packets in order, bytes read are those the host has sent.
\<close>

section \<open>The bulk endpoints\<close>

text \<open>
  What is in the endpoints: the bank of the IN endpoint that the program fills, the packets already handed to the host, the
  packets the host has sent to the OUT endpoint, the first of them in the bank, and which endpoints are stalled.
\<close>

record bulk =
  in_bank :: "u8 list"
  in_sent :: "u8 list list"
  out_rx :: "u8 list list"
  stalled :: "u8 \<Rightarrow> bool"

text \<open>
  \<open>bulk_pipe H v\<close>: the hardware has the two endpoints of the bootloader with banks of 64 bytes, as the controller's
  documentation describes the flags and the FIFO; \<open>v\<close> reads their contents from the hidden state.  The host takes a packet
  as soon as it is ready, there is no control request and no interrupt.
\<close>

definition bulk_pipe :: "'e hw \<Rightarrow> ('e ctl_scheme \<Rightarrow> bulk) \<Rightarrow> bool" where
  "bulk_pipe H v \<longleftrightarrow> plain H (G UENUM) \<and> (\<forall>c. \<not> irq H c) \<and>
     (\<forall>c g e. v (c\<lparr>gregs := g\<rparr>) = v c \<and> v (c\<lparr>eregs := e\<rparr>) = v c) \<and>
     (\<forall>p \<in> {E UEINTX, E UECFG0X, E UECONX, G UDFNUML, G UDFNUMH}. \<forall>c.
        v (pre_rd H p c) = v c \<and> gregs (pre_rd H p c) UENUM = gregs c UENUM) \<and>
     (\<forall>c. gregs c UENUM = 0 \<longrightarrow> \<not> tst (eregs (pre_rd H (E UEINTX) c) 0 UEINTX) RXSTPI) \<and>
     (\<forall>c. gregs c UENUM = 3 \<longrightarrow> tst (eregs (pre_rd H (E UECFG0X) c) 3 UECFG0X) EPDIR) \<and>
     (\<forall>c. gregs c UENUM = 4 \<longrightarrow> \<not> tst (eregs (pre_rd H (E UECFG0X) c) 4 UECFG0X) EPDIR) \<and>
     (\<forall>c. tst (eregs (pre_rd H (E UECONX) c) (gregs c UENUM) UECONX) STALLRQ \<longleftrightarrow> stalled (v c) (gregs c UENUM)) \<and>
     (\<forall>c. gregs c UENUM = 3 \<longrightarrow> (let x = eregs (pre_rd H (E UEINTX) c) 3 UEINTX in
        tst x TXINI \<and> (tst x RWAL \<longleftrightarrow> length (in_bank (v c)) < 64))) \<and>
     (\<forall>c. gregs c UENUM = 4 \<longrightarrow> (let x = eregs (pre_rd H (E UEINTX) c) 4 UEINTX in
        (tst x RXOUTI \<longleftrightarrow> out_rx (v c) \<noteq> []) \<and> (tst x RWAL \<longleftrightarrow> out_rx (v c) \<noteq> [] \<and> hd (out_rx (v c)) \<noteq> []))) \<and>
     (\<forall>c. gregs c UENUM = 3 \<longrightarrow> (let c' = post_wr H (E UEDATX) c in
        gregs c' UENUM = 3 \<and> v c' = (v c)\<lparr>in_bank := in_bank (v c) @ [eregs c 3 UEDATX]\<rparr>)) \<and>
     (\<forall>c. gregs c UENUM = 3 \<and> \<not> tst (eregs c 3 UEINTX) TXINI \<longrightarrow> (let c' = post_wr H (E UEINTX) c in
        gregs c' UENUM = 3 \<and> v c' = (v c)\<lparr>in_bank := [], in_sent := in_sent (v c) @ [in_bank (v c)]\<rparr>)) \<and>
     (\<forall>c. gregs c UENUM = 4 \<and> \<not> tst (eregs c 4 UEINTX) RXOUTI \<longrightarrow> (let c' = post_wr H (E UEINTX) c in
        gregs c' UENUM = 4 \<and> v c' = (v c)\<lparr>out_rx := tl (out_rx (v c))\<rparr>)) \<and>
     (\<forall>c x xs q. gregs c UENUM = 4 \<and> out_rx (v c) = (x # xs) # q \<longrightarrow> (let c' = pre_rd H (E UEDATX) c in
        gregs c' UENUM = 4 \<and> eregs c' 4 UEDATX = x \<and> v c' = (v c)\<lparr>out_rx := xs # q\<rparr>)) \<and>
     (\<forall>c. tst (eregs c (gregs c UENUM) UECONX) STALLRQ \<longrightarrow> (let c' = post_wr H (E UECONX) c in
        gregs c' UENUM = gregs c UENUM \<and> v c' = (v c)\<lparr>stalled := (stalled (v c))(gregs c UENUM := True)\<rparr>))"

text \<open>The endpoint \<open>ep\<close> is selected, the contents are \<open>w\<close>, and the variables those of \<open>t\<close>.\<close>

definition on :: "('e ctl_scheme \<Rightarrow> bulk) \<Rightarrow> u8 \<Rightarrow> bulk \<Rightarrow> ('e, 'p) usb_scheme \<Rightarrow> ('e, 'p) usb_scheme \<Rightarrow> bool" where
  "on v ep w t s \<longleftrightarrow> gregs (ctl s) UENUM = ep \<and> v (ctl s) = w \<and> vars s = vars t"

lemma bulk_irq: "bulk_pipe H v \<Longrightarrow> irq_poll H s = Some s"
  by (simp add: bulk_pipe_def irq_poll_def)

lemma bulk_select:
  assumes "bulk_pipe H v" "on v ep w t s"
  shows "on v (a AND ENDPOINT_EPNUM_MASK) w t (Endpoint_SelectEndpoint H a s)"
  using assms by (simp add: bulk_pipe_def on_def Endpoint_SelectEndpoint_def plain_access vars_def)

lemmas bulk_access = Endpoint_IsINReady_def Endpoint_IsReadWriteAllowed_def Endpoint_IsOUTReceived_def
  Endpoint_GetEndpointDirection_def USB_Device_GetFrameNumber_def Endpoint_Write_8_def Endpoint_ClearIN_def Endpoint_ClearOUT_def
  Endpoint_Read_8_def Endpoint_IsStalled_def Endpoint_StallTransaction_def Endpoint_IsSETUPReceived_def
  erd_bit_def erd_def ewr_def rd_def ermw_def Let_def vars_def bits bit_and_iff bit_not_iff bit_or_iff

lemma bulk_in:
  assumes "bulk_pipe H v" "on v 3 w t s"
  shows "\<exists>s'. Endpoint_IsINReady H s = (True, s') \<and> on v 3 w t s'"
    "\<exists>s'. Endpoint_IsReadWriteAllowed H s = (length (in_bank w) < 64, s') \<and> on v 3 w t s'"
    "\<exists>s'. Endpoint_GetEndpointDirection H s = (ENDPOINT_DIR_IN, s') \<and> on v 3 w t s'"
    "on v 3 (w\<lparr>in_bank := in_bank w @ [x]\<rparr>) t (Endpoint_Write_8 H x s)"
    "on v 3 (w\<lparr>in_bank := [], in_sent := in_sent w @ [in_bank w]\<rparr>) t (Endpoint_ClearIN H s)"
  using assms by (auto simp: bulk_pipe_def on_def bulk_access)

lemma bulk_out:
  assumes "bulk_pipe H v" "on v 4 w t s"
  shows "\<exists>s'. Endpoint_IsOUTReceived H s = (out_rx w \<noteq> [], s') \<and> on v 4 w t s'"
    "\<exists>s'. Endpoint_IsReadWriteAllowed H s = (out_rx w \<noteq> [] \<and> hd (out_rx w) \<noteq> [], s') \<and> on v 4 w t s'"
    "\<exists>s'. Endpoint_GetEndpointDirection H s = (ENDPOINT_DIR_OUT, s') \<and> on v 4 w t s'"
    "out_rx w = (x # xs) # q \<Longrightarrow> \<exists>s'. Endpoint_Read_8 H s = (x, s') \<and> on v 4 (w\<lparr>out_rx := xs # q\<rparr>) t s'"
    "on v 4 (w\<lparr>out_rx := tl (out_rx w)\<rparr>) t (Endpoint_ClearOUT H s)"
  using assms by (auto simp: bulk_pipe_def on_def bulk_access)

lemma bulk_any:
  assumes "bulk_pipe H v" "on v ep w t s"
  shows "\<exists>n s'. USB_Device_GetFrameNumber H s = (n, s') \<and> on v ep w t s'"
    "\<exists>s'. Endpoint_IsStalled H s = (stalled w ep, s') \<and> on v ep w t s'"
    "on v ep (w\<lparr>stalled := (stalled w)(ep := True)\<rparr>) t (Endpoint_StallTransaction H s)"
    "ep = 0 \<Longrightarrow> \<exists>s'. Endpoint_IsSETUPReceived H s = (False, s') \<and> on v 0 w t s'"
  using assms by (auto simp: bulk_pipe_def on_def bulk_access)

lemma bulk_eps [simp]: "(3 :: u8) AND ENDPOINT_EPNUM_MASK = 3" "(4 :: u8) AND ENDPOINT_EPNUM_MASK = 4"
  "(0x83 :: u8) AND ENDPOINT_EPNUM_MASK = 3"
  by (simp_all add: ep_consts)

lemma bulk_current:
  assumes "bulk_pipe H v" "on v ep w t s" "ep \<in> {3, 4}"
  shows "\<exists>a s'. Endpoint_GetCurrentEndpoint H s = (a, s') \<and> a AND ENDPOINT_EPNUM_MASK = ep \<and> on v ep w t s'"
proof -
  have "Endpoint_GetCurrentEndpoint H s = (let (d, s') = Endpoint_GetEndpointDirection H s in (ep OR d, s'))"
    using assms by (auto simp: bulk_pipe_def on_def Endpoint_GetCurrentEndpoint_def plain_access Let_def ep_consts)
  with assms show ?thesis
    using bulk_in(3) [of H v w t s] bulk_out(3) [of H v w t s] by (auto simp: ep_consts)
qed

lemma bulk_task:
  assumes H: "bulk_pipe H v" and s: "on v ep w t s" and ep: "ep \<in> {3, 4}"
  shows "\<exists>s'. USB_USBTask H A s = Some s' \<and> on v ep w t s'"
proof (cases "USB_DeviceState s = DEVICE_STATE_Unattached")
  case False
  obtain a s1 where s1: "Endpoint_GetCurrentEndpoint H s = (a, s1)" "a AND ENDPOINT_EPNUM_MASK = ep" "on v ep w t s1"
    using bulk_current [OF assms] by blast
  have "on v 0 w t (Endpoint_SelectEndpoint H ENDPOINT_CONTROLEP s1)"
    using bulk_select [OF H s1(3), of ENDPOINT_CONTROLEP] by (simp add: ENDPOINT_CONTROLEP_def)
  then obtain s2 where s2: "Endpoint_IsSETUPReceived H (Endpoint_SelectEndpoint H ENDPOINT_CONTROLEP s1) = (False, s2)" "on v 0 w t s2"
    using bulk_any(4) [OF H] by blast
  have "USB_USBTask H A s = Some (Endpoint_SelectEndpoint H a s2)"
    using False by (simp add: USB_USBTask_def USB_DeviceTask_def s1 s2)
  with bulk_select [OF H s2(2), of a] show ?thesis by (simp add: s1)
qed (use s in \<open>simp add: USB_USBTask_def USB_DeviceTask_def\<close>)

lemma bulk_wait_in:
  assumes H: "bulk_pipe H v" and s: "on v 3 w t s"
  shows "\<exists>s'. Endpoint_WaitUntilReady H s = Some (ENDPOINT_READYWAIT_NoError, s') \<and> on v 3 w t s'"
proof -
  obtain n s1 where s1: "USB_Device_GetFrameNumber H s = (n, s1)" "on v 3 w t s1" using bulk_any(1) [OF H s] by blast
  obtain s2 where s2: "Endpoint_GetEndpointDirection H s1 = (ENDPOINT_DIR_IN, s2)" "on v 3 w t s2" using bulk_in(3) [OF H s1(2)] by blast
  obtain s3 where s3: "Endpoint_IsINReady H s2 = (True, s3)" "on v 3 w t s3" using bulk_in(1) [OF H s2(2)] by blast
  have "WaitUntilReady_body H (USB_STREAM_TIMEOUT_MS, n, s1) = leave (ENDPOINT_READYWAIT_NoError, s3)"
    by (simp add: WaitUntilReady_body_def bulk_irq [OF H] s2 s3)
  with s1 s3 show ?thesis by (simp add: Endpoint_WaitUntilReady_def loop_leave)
qed

lemma bulk_wait_out:
  assumes H: "bulk_pipe H v" and s: "on v 4 w t s" and "out_rx w \<noteq> []"
  shows "\<exists>s'. Endpoint_WaitUntilReady H s = Some (ENDPOINT_READYWAIT_NoError, s') \<and> on v 4 w t s'"
proof -
  obtain n s1 where s1: "USB_Device_GetFrameNumber H s = (n, s1)" "on v 4 w t s1" using bulk_any(1) [OF H s] by blast
  obtain s2 where s2: "Endpoint_GetEndpointDirection H s1 = (ENDPOINT_DIR_OUT, s2)" "on v 4 w t s2" using bulk_out(3) [OF H s1(2)] by blast
  obtain s3 where s3: "Endpoint_IsOUTReceived H s2 = (True, s3)" "on v 4 w t s3" using bulk_out(1) [OF H s2(2)] assms(3) by auto
  have "WaitUntilReady_body H (USB_STREAM_TIMEOUT_MS, n, s1) = leave (ENDPOINT_READYWAIT_NoError, s3)"
    by (simp add: WaitUntilReady_body_def bulk_irq [OF H] s2 s3 ENDPOINT_DIR_IN_def ENDPOINT_DIR_OUT_def)
  with s1 s3 show ?thesis by (simp add: Endpoint_WaitUntilReady_def loop_leave)
qed

section \<open>Streams\<close>

text \<open>
  Writing \<open>bs\<close> behind what is in the bank: full banks are handed over, and the rest stays in the bank.
\<close>

definition packed :: "u8 list \<Rightarrow> bulk \<Rightarrow> bulk \<Rightarrow> bool" where
  "packed bs w w' \<longleftrightarrow> (\<exists>ps. w' = w\<lparr>in_bank := in_bank w', in_sent := in_sent w @ ps\<rparr> \<and>
     concat ps @ in_bank w' = in_bank w @ bs \<and> (\<forall>p \<in> set ps. length p = 64) \<and>
     length (in_bank w') \<le> 64 \<and> (ps \<noteq> [] \<longrightarrow> in_bank w' \<noteq> []))"

lemma packed_refl: "length (in_bank w) \<le> 64 \<Longrightarrow> packed [] w w"
  unfolding packed_def by (rule exI [of _ "[]"]) simp

lemma packed_write: "packed bs (w\<lparr>in_bank := in_bank w @ [b]\<rparr>) w' \<Longrightarrow> packed (b # bs) w w'"
  unfolding packed_def by simp

lemma packed_flush:
  assumes "length (in_bank w) = 64" "bs \<noteq> []" "packed bs (w\<lparr>in_bank := [], in_sent := in_sent w @ [in_bank w]\<rparr>) w'"
  shows "packed bs w w'"
proof -
  from assms(3) obtain ps where "w' = w\<lparr>in_bank := in_bank w', in_sent := in_sent w @ in_bank w # ps\<rparr>"
     "concat ps @ in_bank w' = bs" "\<forall>p \<in> set ps. length p = 64" "length (in_bank w') \<le> 64" "ps \<noteq> [] \<longrightarrow> in_bank w' \<noteq> []"
    unfolding packed_def by auto
  with assms(1,2) show ?thesis unfolding packed_def by (intro exI [of _ "in_bank w # ps"]) auto
qed

lemma bulk_write_loop:
  assumes H: "bulk_pipe H v" and "on v 3 w t s" "length (in_bank w) \<le> 64" "n < 65536"
  shows "\<exists>s' w'. loop (RW_body H A (Endpoint_ClearIN H) move_LE (xfer_write H) None) (of_nat n, of_nat k, j, buf, s) =
      Some (ENDPOINT_RWSTREAM_NoError, None, buf, s') \<and> on v 3 w' t s' \<and>
    packed (map (\<lambda>i. buf (of_nat i)) [k..<k + n]) w w'"
  using assms(2-4)
proof (induction n arbitrary: w k j s)
  case 0
  then show ?case by (auto simp: RW_body_def packed_refl intro!: exI [of _ s] exI [of _ w] loop_leave)
next
  case (Suc n)
  have "unat (of_nat (Suc n) :: u16) = Suc n" using Suc.prems(3) by (intro unat_of_nat_small) simp
  then have n: "of_nat (Suc n) \<noteq> (0 :: u16)" by (metis unat_0 nat.distinct(1))
  let ?b = "buf (of_nat k)"
  have put: "\<exists>s' w'. loop (RW_body H A (Endpoint_ClearIN H) move_LE (xfer_write H) None) (of_nat (Suc n), of_nat k, j, buf, s) =
      Some (ENDPOINT_RWSTREAM_NoError, None, buf, s') \<and> on v 3 w' t s' \<and> packed (map (\<lambda>i. buf (of_nat i)) [k..<k + Suc n]) w w'"
    if o: "on v 3 w t s" and l: "length (in_bank w) < 64" for w s
  proof -
    obtain s1 where s1: "Endpoint_IsReadWriteAllowed H s = (True, s1)" "on v 3 w t s1" using bulk_in(2) [OF H o] l by auto
    let ?s = "Endpoint_Write_8 H ?b s1"
    have "RW_body H A (Endpoint_ClearIN H) move_LE (xfer_write H) None (of_nat (Suc n), of_nat k, j, buf, s) =
        continue (of_nat n, of_nat (Suc k), j + 1, buf, ?s)"
      using n s1 by (simp add: RW_body_def xfer_write_def move_LE_def add.commute)
    moreover obtain s' w' where "loop (RW_body H A (Endpoint_ClearIN H) move_LE (xfer_write H) None)
        (of_nat n, of_nat (Suc k), j + 1, buf, ?s) = Some (ENDPOINT_RWSTREAM_NoError, None, buf, s')" "on v 3 w' t s'"
        "packed (map (\<lambda>i. buf (of_nat i)) [Suc k..<Suc k + n]) (w\<lparr>in_bank := in_bank w @ [?b]\<rparr>) w'"
      using Suc.IH [OF bulk_in(4) [OF H s1(2)], of ?b "Suc k" "j + 1"] l Suc.prems(3) by fastforce
    ultimately show ?thesis using packed_write
      by (auto simp: loop_continue upt_conv_Cons simp del: upt_Suc of_nat_Suc)
  qed
  show ?case
  proof (cases "length (in_bank w) < 64")
    case False
    obtain s1 where s1: "Endpoint_IsReadWriteAllowed H s = (False, s1)" "on v 3 w t s1" using bulk_in(2) [OF H Suc.prems(1)] False by auto
    let ?w = "w\<lparr>in_bank := [], in_sent := in_sent w @ [in_bank w]\<rparr>"
    obtain s2 where s2: "USB_USBTask H A (Endpoint_ClearIN H s1) = Some s2" "on v 3 ?w t s2"
      using bulk_task [OF H bulk_in(5) [OF H s1(2)]] by fastforce
    obtain s3 where s3: "Endpoint_WaitUntilReady H s2 = Some (ENDPOINT_READYWAIT_NoError, s3)" "on v 3 ?w t s3"
      using bulk_wait_in [OF H s2(2)] by blast
    have "RW_body H A (Endpoint_ClearIN H) move_LE (xfer_write H) None (of_nat (Suc n), of_nat k, j, buf, s) =
        continue (of_nat (Suc n), of_nat k, j, buf, s3)"
      using n by (simp add: RW_body_def s1 s2 s3 ENDPOINT_READYWAIT_NoError_def)
    moreover obtain s' w' where "loop (RW_body H A (Endpoint_ClearIN H) move_LE (xfer_write H) None) (of_nat (Suc n), of_nat k, j, buf, s3) =
      Some (ENDPOINT_RWSTREAM_NoError, None, buf, s')" "on v 3 w' t s'" "packed (map (\<lambda>i. buf (of_nat i)) [k..<k + Suc n]) ?w w'"
      using put [OF s3(2)] by auto
    ultimately show ?thesis using packed_flush [of w] False Suc.prems(2) by (auto simp: loop_continue)
  qed (rule put [OF Suc.prems(1)])
qed

lemma bulk_write:
  assumes H: "bulk_pipe H v" and "on v 3 w t s" "length (in_bank w) \<le> 64" "n \<le> length bs" "n < 65536"
  shows "\<exists>s' w'. Endpoint_Write_Stream_LE H A (mem_of bs) (of_nat n) None s =
      Some (ENDPOINT_RWSTREAM_NoError, None, mem_of bs, s') \<and> on v 3 w' t s' \<and> packed (take n bs) w w'"
proof -
  obtain s1 where s1: "Endpoint_WaitUntilReady H s = Some (ENDPOINT_READYWAIT_NoError, s1)" "on v 3 w t s1"
    using bulk_wait_in [OF H assms(2)] by blast
  have "map (\<lambda>i. mem_of bs (of_nat i)) [0..<0 + n] = take n bs"
    using assms(4,5) by (auto simp: mem_of_def unat_of_nat_small intro!: nth_equalityI)
  with bulk_write_loop [OF H s1(2) assms(3,5), of A 0 0 "mem_of bs"] s1 show ?thesis
    by (auto simp: Endpoint_Write_Stream_LE_def Template_Endpoint_RW_def offset_LE_def ENDPOINT_READYWAIT_NoError_def)
qed

text \<open>Storing bytes from an address on.\<close>

fun store_at :: "nat \<Rightarrow> u8 list \<Rightarrow> mem \<Rightarrow> mem" where
  "store_at k [] m = m"
| "store_at k (x # xs) m = store_at (Suc k) xs (m(of_nat k := x))"

lemma store_at_nth:
  "k + length xs \<le> 65536 \<Longrightarrow> i < 65536 \<Longrightarrow>
     store_at k xs m (of_nat i) = (if k \<le> i \<and> i < k + length xs then xs ! (i - k) else m (of_nat i))"
proof (induction xs arbitrary: k m)
  case (Cons x xs)
  have u: "unat (of_nat i :: u16) = i" "unat (of_nat k :: u16) = k" using Cons.prems by (simp_all add: unat_of_nat_small)
  then have k: "of_nat i = (of_nat k :: u16) \<longleftrightarrow> i = k" by (metis (no_types))
  have "store_at k (x # xs) m (of_nat i) = (if Suc k \<le> i \<and> i < Suc k + length xs then xs ! (i - Suc k) else (m(of_nat k := x)) (of_nat i))"
    unfolding store_at.simps by (rule Cons.IH) (use Cons.prems in simp_all)
  then show ?case unfolding fun_upd_apply k by (auto simp: nth_Cons')
qed auto

lemma store_at_append: "store_at k (xs @ ys) m = store_at (k + length xs) ys (store_at k xs m)"
proof (induction xs arbitrary: k m)
  case (Cons x xs)
  show ?case using Cons.IH [of "Suc k" "m(of_nat k := x)"] by (simp del: fun_upd_apply)
qed simp

lemma bulk_read_packet:
  assumes H: "bulk_pipe H v" and "on v 4 w t s" "out_rx w = (xs @ ys) # q" "length xs + n < 65536"
  shows "\<exists>s'. loop (RW_body H A (Endpoint_ClearOUT H) move_LE (xfer_read H) bp) (of_nat (length xs + n), of_nat k, j, buf, s) =
      loop (RW_body H A (Endpoint_ClearOUT H) move_LE (xfer_read H) bp)
        (of_nat n, of_nat (k + length xs), j + of_nat (length xs), store_at k xs buf, s') \<and>
    on v 4 (w\<lparr>out_rx := ys # q\<rparr>) t s'"
  using assms(2-4)
proof (induction xs arbitrary: w k j buf s)
  case Nil
  have "w\<lparr>out_rx := ys # q\<rparr> = w" using Nil.prems(2) by simp
  then have "on v 4 (w\<lparr>out_rx := ys # q\<rparr>) t s" using Nil.prems(1) by (simp only:)
  then show ?case by (intro exI [of _ s]) simp
next
  case (Cons x xs)
  let ?n = "length xs + n" and ?w = "w\<lparr>out_rx := (xs @ ys) # q\<rparr>"
  have "unat (of_nat (Suc ?n) :: u16) = Suc ?n" using Cons.prems(3) by (intro unat_of_nat_small) simp
  then have n: "of_nat (Suc ?n) \<noteq> (0 :: u16)" by (metis unat_0 nat.distinct(1))
  obtain s1 where s1: "Endpoint_IsReadWriteAllowed H s = (True, s1)" "on v 4 w t s1"
    using bulk_out(2) [OF H Cons.prems(1)] Cons.prems(2) by auto
  obtain s2 where s2: "Endpoint_Read_8 H s1 = (x, s2)" "on v 4 ?w t s2"
    using bulk_out(4) [OF H s1(2)] Cons.prems(2) by auto
  have "RW_body H A (Endpoint_ClearOUT H) move_LE (xfer_read H) bp (of_nat (Suc ?n), of_nat k, j, buf, s) =
      continue (of_nat ?n, of_nat (Suc k), j + 1, buf(of_nat k := x), s2)"
    using n s1 s2 by (simp add: RW_body_def xfer_read_def move_LE_def add.commute)
  moreover have "?w\<lparr>out_rx := ys # q\<rparr> = w\<lparr>out_rx := ys # q\<rparr>" by simp
  ultimately show ?case
    using Cons.IH [OF s2(2), of "Suc k" "j + 1" "buf(of_nat k := x)"] Cons.prems(3)
    by (simp add: loop_continue add.assoc del: of_nat_Suc fun_upd_apply) (simp add: add.assoc)
qed

text \<open>Reading whole packets leaves the emptied last one in the bank.\<close>

lemma bulk_read_packets:
  assumes H: "bulk_pipe H v" and "on v 4 w t s" "out_rx w = p # ps @ q" "\<forall>p \<in> set ps. p \<noteq> []" "length (concat (p # ps)) < 65536"
  shows "\<exists>s'. loop (RW_body H A (Endpoint_ClearOUT H) move_LE (xfer_read H) None)
        (of_nat (length (concat (p # ps))), of_nat k, j, buf, s) =
      Some (ENDPOINT_RWSTREAM_NoError, None, store_at k (concat (p # ps)) buf, s') \<and> on v 4 (w\<lparr>out_rx := [] # q\<rparr>) t s'"
  using assms(2-5)
proof (induction ps arbitrary: w p k j buf s)
  case Nil
  obtain s' where "loop (RW_body H A (Endpoint_ClearOUT H) move_LE (xfer_read H) None) (of_nat (length p), of_nat k, j, buf, s) =
      loop (RW_body H A (Endpoint_ClearOUT H) move_LE (xfer_read H) None)
        (0, of_nat (k + length p), j + of_nat (length p), store_at k p buf, s')" "on v 4 (w\<lparr>out_rx := [] # q\<rparr>) t s'"
    using bulk_read_packet [OF H Nil.prems(1), of p "[]" q 0 A None k j buf] Nil.prems(2,4) by auto
  then show ?case by (auto simp: RW_body_def loop_leave)
next
  case (Cons p' ps)
  let ?n = "length (concat (p' # ps))"
  have "unat (of_nat ?n :: u16) = ?n" using Cons.prems(4) by (intro unat_of_nat_small) simp
  moreover have "0 < ?n" using Cons.prems(3) by simp
  ultimately have n: "of_nat ?n \<noteq> (0 :: u16)" by (metis unat_0 less_irrefl)
  let ?L = "loop (RW_body H A (Endpoint_ClearOUT H) move_LE (xfer_read H) None)"
  obtain s1 where s1: "?L (of_nat (length (concat (p # p' # ps))), of_nat k, j, buf, s) =
      ?L (of_nat ?n, of_nat (k + length p), j + of_nat (length p), store_at k p buf, s1)"
      "on v 4 (w\<lparr>out_rx := [] # p' # ps @ q\<rparr>) t s1"
    using bulk_read_packet [OF H Cons.prems(1), of p "[]" "p' # ps @ q" ?n A None k j buf] Cons.prems(2,4) by auto
  obtain s2 where s2: "Endpoint_IsReadWriteAllowed H s1 = (False, s2)" "on v 4 (w\<lparr>out_rx := [] # p' # ps @ q\<rparr>) t s2"
    using bulk_out(2) [OF H s1(2)] by auto
  let ?w = "w\<lparr>out_rx := p' # ps @ q\<rparr>"
  have "on v 4 ?w t (Endpoint_ClearOUT H s2)" using bulk_out(5) [OF H s2(2)] by simp
  then obtain s3 where s3: "USB_USBTask H A (Endpoint_ClearOUT H s2) = Some s3" "on v 4 ?w t s3"
    using bulk_task [OF H] by blast
  obtain s4 where s4: "Endpoint_WaitUntilReady H s3 = Some (ENDPOINT_READYWAIT_NoError, s4)" "on v 4 ?w t s4"
    using bulk_wait_out [OF H s3(2)] by auto
  have "RW_body H A (Endpoint_ClearOUT H) move_LE (xfer_read H) None
      (of_nat ?n, of_nat (k + length p), j + of_nat (length p), store_at k p buf, s1) =
    continue (of_nat ?n, of_nat (k + length p), j + of_nat (length p), store_at k p buf, s4)"
    using n by (simp add: RW_body_def s2 s3 s4 ENDPOINT_READYWAIT_NoError_def del: concat.simps)
  then have "?L (of_nat (length (concat (p # p' # ps))), of_nat k, j, buf, s) =
      ?L (of_nat ?n, of_nat (k + length p), j + of_nat (length p), store_at k p buf, s4)"
    unfolding s1(1) by (rule loop_continue)
  moreover have "concat (p # p' # ps) = p @ concat (p' # ps)" by simp
  moreover have "\<exists>s'. ?L (of_nat ?n, of_nat (k + length p), j + of_nat (length p), store_at k p buf, s4) =
      Some (ENDPOINT_RWSTREAM_NoError, None, store_at (k + length p) (concat (p' # ps)) (store_at k p buf), s') \<and>
      on v 4 (?w\<lparr>out_rx := [] # q\<rparr>) t s'"
    by (rule Cons.IH [OF s4(2)]) (use Cons.prems(3,4) in simp_all)
  moreover have "?w\<lparr>out_rx := [] # q\<rparr> = w\<lparr>out_rx := [] # q\<rparr>" by simp
  ultimately show ?case by (simp only: store_at_append)
qed

lemma bulk_read:
  assumes H: "bulk_pipe H v" and "on v 4 w t s" "out_rx w = p # ps @ q" "\<forall>p \<in> set ps. p \<noteq> []" "length (concat (p # ps)) = n" "n < 65536"
  shows "\<exists>s'. Endpoint_Read_Stream_LE H A m (of_nat n) None s =
      Some (ENDPOINT_RWSTREAM_NoError, None, store_at 0 (concat (p # ps)) m, s') \<and> on v 4 (w\<lparr>out_rx := [] # q\<rparr>) t s'"
proof -
  obtain s1 where s1: "Endpoint_WaitUntilReady H s = Some (ENDPOINT_READYWAIT_NoError, s1)" "on v 4 w t s1"
    using bulk_wait_out [OF H assms(2)] assms(3) by auto
  with bulk_read_packets [OF H s1(2) assms(3,4), of A 0 0 m] assms(5,6) show ?thesis
    by (auto simp: Endpoint_Read_Stream_LE_def Template_Endpoint_RW_def offset_LE_def ENDPOINT_READYWAIT_NoError_def)
qed

lemma bulk_read_part:
  assumes H: "bulk_pipe H v" and "on v 4 w t s" "out_rx w = (xs @ ys) # q" "length xs = n" "n < 65536"
  shows "\<exists>s'. Endpoint_Read_Stream_LE H A m (of_nat n) (Some 0) s =
      Some (ENDPOINT_RWSTREAM_NoError, Some 0, store_at 0 xs m, s') \<and> on v 4 (w\<lparr>out_rx := ys # q\<rparr>) t s'"
proof -
  obtain s1 where s1: "Endpoint_WaitUntilReady H s = Some (ENDPOINT_READYWAIT_NoError, s1)" "on v 4 w t s1"
    using bulk_wait_out [OF H assms(2)] assms(3) by auto
  obtain s2 where "loop (RW_body H A (Endpoint_ClearOUT H) move_LE (xfer_read H) (Some 0)) (of_nat n, 0, 0, m, s1) =
      loop (RW_body H A (Endpoint_ClearOUT H) move_LE (xfer_read H) (Some 0)) (0, of_nat n, of_nat n, store_at 0 xs m, s2)"
      "on v 4 (w\<lparr>out_rx := ys # q\<rparr>) t s2"
    using bulk_read_packet [OF H s1(2) assms(3), of 0 A "Some 0" 0 0 m] assms(4,5) by auto
  with s1 show ?thesis
    by (auto simp: Endpoint_Read_Stream_LE_def Template_Endpoint_RW_def offset_LE_def move_LE_def ENDPOINT_READYWAIT_NoError_def
        RW_body_def loop_leave)
qed

lemma bulk_fill:
  assumes H: "bulk_pipe H v" and "on v 3 w t s" "length (in_bank w) + n \<le> 64"
  shows "\<exists>s'. loop (RW_body H A clr move_LE (xfer_write H) bp) (of_nat n, of_nat k, j, buf, s) =
      Some (ENDPOINT_RWSTREAM_NoError, bp, buf, s') \<and>
    on v 3 (w\<lparr>in_bank := in_bank w @ map (\<lambda>i. buf (of_nat i)) [k..<k + n]\<rparr>) t s'"
  using assms(2,3)
proof (induction n arbitrary: w k j s)
  case 0
  then show ?case by (auto simp: RW_body_def intro!: exI [of _ s] loop_leave)
next
  case (Suc n)
  have "unat (of_nat (Suc n) :: u16) = Suc n" using Suc.prems(2) by (intro unat_of_nat_small) simp
  then have n: "of_nat (Suc n) \<noteq> (0 :: u16)" by (metis unat_0 nat.distinct(1))
  obtain s1 where s1: "Endpoint_IsReadWriteAllowed H s = (True, s1)" "on v 3 w t s1"
    using bulk_in(2) [OF H Suc.prems(1)] Suc.prems(2) by auto
  let ?s = "Endpoint_Write_8 H (buf (of_nat k)) s1" and ?w = "w\<lparr>in_bank := in_bank w @ [buf (of_nat k)]\<rparr>"
  have "on v 3 ?w t ?s" by (rule bulk_in(4) [OF H s1(2)])
  moreover have "RW_body H A clr move_LE (xfer_write H) bp (of_nat (Suc n), of_nat k, j, buf, s) =
      continue (of_nat n, of_nat (Suc k), j + 1, buf, ?s)"
    using n s1 by (simp add: RW_body_def xfer_write_def move_LE_def add.commute)
  ultimately show ?case
    using Suc.IH [of ?w ?s "Suc k" "j + 1"] Suc.prems(2)
    by (auto simp: loop_continue upt_conv_Cons simp del: upt_Suc of_nat_Suc)
qed

lemma bulk_write_fits:
  assumes H: "bulk_pipe H v" and "on v 3 w t s" "in_bank w = []" "n \<le> 64" "n \<le> length bs"
  shows "\<exists>s'. Endpoint_Write_Stream_LE H A (mem_of bs) (of_nat n) None s = Some (ENDPOINT_RWSTREAM_NoError, None, mem_of bs, s') \<and>
    on v 3 (w\<lparr>in_bank := take n bs\<rparr>) t s'"
proof -
  obtain s1 where s1: "Endpoint_WaitUntilReady H s = Some (ENDPOINT_READYWAIT_NoError, s1)" "on v 3 w t s1"
    using bulk_wait_in [OF H assms(2)] by blast
  have m: "map (\<lambda>i. mem_of bs (of_nat i)) [0..<0 + n] = take n bs"
    using assms(4,5) by (auto simp: mem_of_def unat_of_nat_small intro!: nth_equalityI)
  show ?thesis
    using bulk_fill [OF H s1(2), of n A "Endpoint_ClearIN H" None 0 0 "mem_of bs"] s1 assms(3,4) unfolding m
    by (auto simp: Endpoint_Write_Stream_LE_def Template_Endpoint_RW_def offset_LE_def ENDPOINT_READYWAIT_NoError_def)
qed

lemma bulk_null_0:
  assumes H: "bulk_pipe H v" and "on v 3 w t s"
  shows "\<exists>s'. Endpoint_Null_Stream H 0 None s = Some (ENDPOINT_RWSTREAM_NoError, None, s') \<and> on v 3 w t s'"
proof -
  obtain s1 where "Endpoint_WaitUntilReady H s = Some (ENDPOINT_READYWAIT_NoError, s1)" "on v 3 w t s1"
    using bulk_wait_in [OF H assms(2)] by blast
  then show ?thesis
    by (intro exI [of _ s1]) (simp add: Endpoint_Null_Stream_def Skip_Stream_def ENDPOINT_READYWAIT_NoError_def Skip_body_def loop_leave)
qed

section \<open>A hardware with the two endpoints\<close>

definition bulk_hw :: "bulk hw" where
  "bulk_hw =
     \<lparr>pre_rd = (\<lambda>p c.
        let ep = gregs c UENUM; w = ctl.more c; q = out_rx w;
            set_ep = (\<lambda>r x. c\<lparr>eregs := (eregs c)(ep := (eregs c ep)(r := x))\<rparr>) in
        if p = E UECFG0X then set_ep UECFG0X (if ep = 3 then bv EPDIR else 0)
        else if p = E UECONX then set_ep UECONX (if stalled w ep then bv STALLRQ else 0)
        else if p = E UEINTX then set_ep UEINTX
          (if ep = 3 then bv TXINI OR (if length (in_bank w) < 64 then bv RWAL else 0)
           else if ep = 4 then (if q \<noteq> [] then bv RXOUTI else 0) OR (if q \<noteq> [] \<and> hd q \<noteq> [] then bv RWAL else 0) else 0)
        else if p = E UEDATX \<and> ep = 4 \<and> q \<noteq> [] \<and> hd q \<noteq> []
        then (set_ep UEDATX (hd (hd q)))\<lparr>ctl.more := w\<lparr>out_rx := tl (hd q) # tl q\<rparr>\<rparr>
        else c),
      post_wr = (\<lambda>p c.
        let ep = gregs c UENUM; w = ctl.more c in
        if p = E UECONX \<and> tst (eregs c ep UECONX) STALLRQ then c\<lparr>ctl.more := w\<lparr>stalled := (stalled w)(ep := True)\<rparr>\<rparr>
        else if p = E UEDATX \<and> ep = 3 then c\<lparr>ctl.more := w\<lparr>in_bank := in_bank w @ [eregs c 3 UEDATX]\<rparr>\<rparr>
        else if p = E UEINTX \<and> ep = 3 \<and> \<not> tst (eregs c 3 UEINTX) TXINI
        then c\<lparr>ctl.more := w\<lparr>in_bank := [], in_sent := in_sent w @ [in_bank w]\<rparr>\<rparr>
        else if p = E UEINTX \<and> ep = 4 \<and> \<not> tst (eregs c 4 UEINTX) RXOUTI then c\<lparr>ctl.more := w\<lparr>out_rx := tl (out_rx w)\<rparr>\<rparr>
        else c),
      irq = (\<lambda>_. False), boot_signature_byte_get = (\<lambda>_. 0), wdt_disable = id, clock_prescale_set = (\<lambda>_. id)\<rparr>"

lemma bulk_hw_pipe: "bulk_pipe bulk_hw ctl.more"
  by (auto simp: bulk_pipe_def plain_def bulk_hw_def Let_def bits bit_or_iff fun_eq_iff)

end
