(* ===== verification/Mass_Storage_Spec.thy ===== *)
theory Mass_Storage_Spec
  imports Mass_Storage Virtual_FAT_Spec Bulk_Pipe
begin

text \<open>
  What the mass storage bootloader promises to a host: commands that arrive on the bulk OUT endpoint are executed on the
  virtual disk, data and status go out on the bulk IN endpoint, refused commands say why, and an ejected disk ends the bootloader.
\<close>

section \<open>Blocks\<close>

lemma on_vars: "on v ep w t s \<Longrightarrow> s = t\<lparr>ctl := ctl s\<rparr>"
  by (cases s; cases t) (simp add: on_def vars_def)

lemma on_fields:
  assumes "on v ep w (t :: ('e, 'f) bootloader) s"
  shows "disk s = disk t" "CommandBlock s = CommandBlock t" "SenseData s = SenseData t" "CommandStatus s = CommandStatus t"
    "IsMassStoreReset s = IsMassStoreReset t" "StateClears s = StateClears t" "RunBootloader s = RunBootloader t"
    "TicksSinceLastCommand s = TicksSinceLastCommand t" "USB_DeviceState s = USB_DeviceState t"
  by (subst on_vars [OF assms], simp)+

lemma on_update:
  assumes "on v ep w (t :: ('e, 'f) bootloader) s"
  shows "on v ep w (t\<lparr>disk := d\<rparr>) (s\<lparr>disk := d\<rparr>)" "on v ep w (t\<lparr>CommandBlock := m\<rparr>) (s\<lparr>CommandBlock := m\<rparr>)"
    "on v ep w (t\<lparr>SenseData := b\<rparr>) (s\<lparr>SenseData := b\<rparr>)" "on v ep w (t\<lparr>CommandStatus := b\<rparr>) (s\<lparr>CommandStatus := b\<rparr>)"
    "on v ep w (t\<lparr>TicksSinceLastCommand := x\<rparr>) (s\<lparr>TicksSinceLastCommand := x\<rparr>)"
    "on v ep w (t\<lparr>RunBootloader := r\<rparr>) (s\<lparr>RunBootloader := r\<rparr>)"
  using assms unfolding on_def vars_def by (cases s; cases t; simp)+

lemma length_packets: "(\<forall>p \<in> set ps. length p = n) \<Longrightarrow> length (concat ps) = n * length ps"
  by (induction ps) simp_all

lemma length_block_contents:
  assumes "length (FirmwareFileEntries d) = 160"
  shows "length (block_contents B T b d) = 512"
  using assms by (auto simp: block_contents_def Let_def disk_sizes overwrite_def boot_fields UpdateFAT12ClusterChain_def
      ReadWriteFLASHFileBlock_def ReadWriteEEPROMFileBlock_def flash_read_map eeprom_read_map split: option.splits)

lemma block_read:
  assumes H: "bulk_pipe H v" and "on v 3 w t s" "in_bank w = []" "length (FirmwareFileEntries d) = 160"
  shows "\<exists>s' ps. VirtualFAT_ReadBlock H A B T b d s = Some (d, s') \<and> on v 3 (w\<lparr>in_sent := in_sent w @ ps\<rparr>) t s' \<and>
    concat ps = block_contents B T b d \<and> (\<forall>p \<in> set ps. length p = 64)"
proof -
  let ?bs = "block_contents B T b d"
  have l: "length ?bs = 512" by (rule length_block_contents [OF assms(4)])
  obtain s1 w1 where s1: "Endpoint_Write_Stream_LE H A (mem_of ?bs) (of_nat 512) None s =
      Some (ENDPOINT_RWSTREAM_NoError, None, mem_of ?bs, s1)" "on v 3 w1 t s1" "packed ?bs w w1"
    using bulk_write [OF H assms(2), of 512 ?bs A] assms(3) l by auto
  then obtain ps where ps: "w1 = w\<lparr>in_bank := in_bank w1, in_sent := in_sent w @ ps\<rparr>" "concat ps @ in_bank w1 = ?bs"
      "\<forall>p \<in> set ps. length p = 64" "length (in_bank w1) \<le> 64" "ps \<noteq> [] \<longrightarrow> in_bank w1 \<noteq> []"
    using assms(3) unfolding packed_def by auto
  have "64 * length ps + length (in_bank w1) = 512"
    using ps(2) length_packets [OF ps(3)] l by (metis length_append)
  moreover from this ps(4) have "ps \<noteq> []" by auto
  with ps(5) have "0 < length (in_bank w1)" by simp
  ultimately have "length (in_bank w1) = 64" using ps(4) by arith
  moreover have "w1\<lparr>in_bank := [], in_sent := in_sent w1 @ [in_bank w1]\<rparr> = w\<lparr>in_sent := in_sent w @ ps @ [in_bank w1]\<rparr>"
    using assms(3) by (subst (1) ps(1), subst (2) ps(1)) simp
  ultimately show ?thesis
    using bulk_in(5) [OF H s1(2)] ps(2,3) s1(1)
    by (intro exI [of _ "Endpoint_ClearIN H s1"] exI [of _ "ps @ [in_bank w1]"]) (simp add: VirtualFAT_ReadBlock_def disk_sizes)
qed

lemma blocks_read:
  assumes H: "bulk_pipe H v" and "on v 3 w t s" "in_bank w = []" "length (FirmwareFileEntries (disk t)) = 160"
  shows "\<exists>s' ps. ReadWrite_10_loop H A junk B T True a i n s = Some s' \<and> on v 3 (w\<lparr>in_sent := in_sent w @ ps\<rparr>) t s' \<and>
    concat ps = concat (map (\<lambda>j. block_contents B T (a + i + of_nat j) (disk t)) [0..<n]) \<and> (\<forall>p \<in> set ps. length p = 64)"
  using assms(2,3)
proof (induction n arbitrary: w s i)
  case 0
  then show ?case by (auto intro!: exI [of _ s] exI [of _ "[]"])
next
  case (Suc n)
  have d: "disk s = disk t" by (rule on_fields(1) [OF Suc.prems(1)])
  obtain s1 ps where s1: "VirtualFAT_ReadBlock H A B T (a + i) (disk t) s = Some (disk t, s1)"
      "on v 3 (w\<lparr>in_sent := in_sent w @ ps\<rparr>) t s1" "concat ps = block_contents B T (a + i) (disk t)" "\<forall>p \<in> set ps. length p = 64"
    using block_read [OF H Suc.prems assms(4)] by blast
  have "s1\<lparr>disk := disk t\<rparr> = s1" using on_fields(1) [OF s1(2)] by simp
  moreover obtain s2 ps2 where s2: "ReadWrite_10_loop H A junk B T True a (i + 1) n s1 = Some s2"
      "on v 3 (w\<lparr>in_sent := in_sent w @ ps, in_sent := in_sent w @ ps @ ps2\<rparr>) t s2" "\<forall>p \<in> set ps2. length p = 64"
      "concat ps2 = concat (map (\<lambda>j. block_contents B T (a + (i + 1) + of_nat j) (disk t)) [0..<n])"
    using Suc.IH [OF s1(2), of "i + 1"] Suc.prems(2) by auto
  moreover have "map (\<lambda>j. block_contents B T (a + i + of_nat j) (disk t)) [0..<Suc n] =
      block_contents B T (a + i) (disk t) # map (\<lambda>j. block_contents B T (a + (i + 1) + of_nat j) (disk t)) [0..<n]"
    by (simp add: map_upt_Suc add.assoc del: upt_Suc)
  ultimately show ?case using s1(1,3,4)
    by (intro exI [of _ s2] exI [of _ "ps @ ps2"]) (auto simp: d simp del: upt_Suc)
qed




section \<open>Command blocks\<close>

text \<open>A command block wrapper as a host sends it for a command of up to 16 bytes, and the ten-byte commands.\<close>

definition command :: "u32 \<Rightarrow> u32 \<Rightarrow> u8 \<Rightarrow> u8 list \<Rightarrow> u8 list" where
  "command tag n flags cdb =
     le32 MS_CBW_SIGNATURE @ le32 tag @ le32 n @ [flags, 0, of_nat (length cdb)] @ cdb @ replicate (16 - length cdb) 0"

definition cdb10 :: "u8 \<Rightarrow> u32 \<Rightarrow> u16 \<Rightarrow> u8 list" where
  "cdb10 op lba n = [op, 0] @ rev (le32 lba) @ [0] @ rev (le16 n) @ [0]"

definition status :: "u32 \<Rightarrow> u32 \<Rightarrow> u8 \<Rightarrow> u8 list" where
  "status tag residue st = le32 MS_CSW_SIGNATURE @ le32 tag @ le32 residue @ [st]"

lemma ucast_of_nat_8: "n < 256 \<Longrightarrow> ucast (of_nat n :: u8) = (of_nat n :: u16)"
  by (simp only: word_unat_eq_iff unsigned_ucast_eq) (simp add: unat_of_nat_small take_bit_nat_eq_self)

lemma store_at_shift:
  assumes "k + length xs < 65536"
  shows "(\<lambda>i. if i < of_nat k then m i else store_at 0 xs (\<lambda>j. m (of_nat k + j)) (i - of_nat k)) = store_at k xs m"
    (is "?f = _")
proof
  fix i :: u16
  obtain n where n: "i = of_nat n" "n < 65536" by (rule that [of "unat i"]) (simp_all add: unsigned_less [of i, simplified])
  have u: "unat (of_nat n :: u16) = n" "unat (of_nat k :: u16) = k" using n(2) assms by (simp_all add: unat_of_nat_small)
  then have less: "(of_nat n :: u16) < of_nat k \<longleftrightarrow> n < k" by (simp only: word_less_nat_alt)
  show "?f i = store_at k xs m i"
  proof (cases "n < k")
    case True
    then have "store_at k xs m (of_nat n) = m (of_nat n)" using assms n(2) by (simp add: store_at_nth)
    with True show ?thesis by (simp only: n(1) less if_True)
  next
    case False
    then have "of_nat n - of_nat k = (of_nat (n - k) :: u16)" "of_nat k + of_nat (n - k) = (of_nat n :: u16)"
      by (simp_all flip: of_nat_add)
    moreover have "store_at 0 xs (\<lambda>j. m (of_nat k + j)) (of_nat (n - k)) =
        (if n - k < length xs then xs ! (n - k) else m (of_nat k + of_nat (n - k)))"
      using store_at_nth [of 0 xs "n - k"] assms n(2) by simp
    moreover have "store_at k xs m (of_nat n) = (if n - k < length xs then xs ! (n - k) else m (of_nat n))"
      using store_at_nth [of k xs n m] assms n(2) False by auto
    ultimately show ?thesis using False by (simp only: n(1) less if_False)
  qed
qed

lemma cb_u32_le32: "m a = le32 x ! 0 \<Longrightarrow> m (a + 1) = le32 x ! 1 \<Longrightarrow> m (a + 2) = le32 x ! 2 \<Longrightarrow> m (a + 3) = le32 x ! 3 \<Longrightarrow> cb_u32 m a = x"
  by (simp add: cb_u32_def le32_def u32_of_le32)

lemma bulk_read_command:
  assumes H: "bulk_pipe H v" and "on v 4 w t s" "out_rx w = (xs @ ys) # q" "length xs = n" "k + n < 65536"
  shows "\<exists>s'. read_CommandBlock H A (of_nat k) (of_nat n) s = Some (True, s') \<and>
    on v 4 (w\<lparr>out_rx := ys # q\<rparr>) (t\<lparr>CommandBlock := store_at k xs (CommandBlock t)\<rparr>) s'"
proof -
  let ?m = "\<lambda>i. CommandBlock s (of_nat k + i)"
  obtain s1 where s1: "Endpoint_Read_Stream_LE H A ?m (of_nat n) (Some 0) s =
      Some (ENDPOINT_RWSTREAM_NoError, Some 0, store_at 0 xs ?m, s1)" "on v 4 (w\<lparr>out_rx := ys # q\<rparr>) t s1"
    using bulk_read_part [OF H assms(2-4), of A ?m] assms(5) by auto
  have f: "CommandBlock s = CommandBlock t" "StateClears s = StateClears t" "CommandBlock s1 = CommandBlock t" "StateClears s1 = StateClears t"
    using on_fields [OF assms(2)] on_fields [OF s1(2)] by simp_all
  have "read_CommandBlock H A (of_nat k) (of_nat n) s = Some (True, s1\<lparr>CommandBlock :=
      (\<lambda>i. if i < of_nat k then CommandBlock t i else store_at 0 xs (\<lambda>i. CommandBlock t (of_nat k + i)) (i - of_nat k))\<rparr>)"
    unfolding read_CommandBlock_def using s1(1) by (intro loop_leave) (simp add: f rwstream_codes cong: if_cong)
  moreover have "k + length xs < 65536" using assms(4,5) by simp
  ultimately show ?thesis using on_update(2) [OF s1(2)] by (simp only: store_at_shift) simp
qed

lemma read_in_command:
  assumes H: "bulk_pipe H v" and "on v 4 w t s" "out_rx w = command tag n flags cdb # q"
    and cdb: "cdb \<noteq> []" "length cdb \<le> 16" and flags: "flags AND 0x1F = 0"
  shows "\<exists>s' m. MS_Device_ReadInCommandBlock H A Disk_MS_Interface s = Some (True, s') \<and>
    on v 4 (w\<lparr>out_rx := q\<rparr>) (t\<lparr>CommandBlock := m\<rparr>) s' \<and> (\<forall>i < 15 + length cdb. m (of_nat i) = command tag n flags cdb ! i)"
proof -
  let ?h = "le32 MS_CBW_SIGNATURE @ le32 tag @ le32 n @ [flags, 0, of_nat (length cdb)]" and ?r = "replicate (16 - length cdb) 0"
  have c: "command tag n flags cdb = ?h @ cdb @ ?r" by (simp add: command_def)
  let ?m1 = "store_at 0 ?h (CommandBlock t)" and ?m = "store_at 15 cdb (store_at 0 ?h (CommandBlock t))"
  have lh: "length ?h = 15" by (simp add: le32_def)
  have "on v 4 w t (Endpoint_SelectEndpoint H 4 s)" using bulk_select [OF H assms(2), of 4] by simp
  then obtain s1 where s1: "read_CommandBlock H A 0 15 (Endpoint_SelectEndpoint H 4 s) = Some (True, s1)"
      "on v 4 (w\<lparr>out_rx := (cdb @ ?r) # q\<rparr>) (t\<lparr>CommandBlock := ?m1\<rparr>) s1"
    using bulk_read_command [OF H, of w t "Endpoint_SelectEndpoint H 4 s" ?h "cdb @ ?r" q 15 0 A] assms(3) lh by (auto simp: c)
  have m1: "?m1 (of_nat i) = ?h ! i" if "i < 15" for i using that lh by (simp only: store_at_nth) simp
  have b: "CommandBlock s1 = ?m1" using on_fields(2) [OF s1(2)] by simp
  have valid: "cb_Signature ?m1 = MS_CBW_SIGNATURE" "cb_LUN ?m1 = 0" "cb_Flags ?m1 = flags" "cb_SCSICommandLength ?m1 = of_nat (length cdb)"
    using m1 [of 0] m1 [of 1] m1 [of 2] m1 [of 3] m1 [of 13] m1 [of 12] m1 [of 14]
    by (intro cb_u32_le32) (simp_all add: le32_def)
  have u: "unat (of_nat (length cdb) :: u8) = length cdb" using cdb(2) by (simp add: unat_of_nat_small)
  then have "(of_nat (length cdb) :: u8) \<noteq> 0" "\<not> (of_nat (length cdb) :: u8) > 16"
    using cdb by (auto simp: word_less_nat_alt word_unat_eq_iff)
  moreover have "ucast (of_nat (length cdb) :: u8) = (of_nat (length cdb) :: u16)" using cdb(2) by (simp add: ucast_of_nat_8)
  moreover obtain s2 where s2: "read_CommandBlock H A 15 (of_nat (length cdb)) s1 = Some (True, s2)"
      "on v 4 (w\<lparr>out_rx := ?r # q\<rparr>) (t\<lparr>CommandBlock := ?m\<rparr>) s2"
    using bulk_read_command [OF H s1(2), of cdb ?r q "length cdb" 15 A] cdb(2) by auto
  ultimately have "MS_Device_ReadInCommandBlock H A Disk_MS_Interface s = Some (True, Endpoint_ClearOUT H s2)"
    using flags by (simp add: MS_Device_ReadInCommandBlock_def Disk_MS_Interface_def s1(1) b valid Let_def)
  moreover have "on v 4 (w\<lparr>out_rx := q\<rparr>) (t\<lparr>CommandBlock := ?m\<rparr>) (Endpoint_ClearOUT H s2)"
    using bulk_out(5) [OF H s2(2)] by simp
  moreover have "?m (of_nat i) = command tag n flags cdb ! i" if "i < 15 + length cdb" for i
  proof -
    have "command tag n flags cdb ! i = (if i < 15 then ?h ! i else if i - 15 < length cdb then cdb ! (i - 15) else ?r ! (i - 15 - length cdb))"
      by (simp only: c nth_append lh)
    moreover have "?m (of_nat i) = (if 15 \<le> i then cdb ! (i - 15) else ?m1 (of_nat i))"
      using that cdb(2) by (subst store_at_nth) simp_all
    ultimately show ?thesis using that m1 [of i] by auto
  qed
  ultimately show ?thesis by blast
qed

section \<open>Status\<close>

lemma bulk_write_status:
  assumes H: "bulk_pipe H v" and "on v 3 w t s" "in_bank w = []" "length (CommandStatus t) = 13"
  shows "\<exists>s'. write_CommandStatus H A s = Some (True, s') \<and> on v 3 (w\<lparr>in_bank := CommandStatus t\<rparr>) t s'"
proof -
  have st: "CommandStatus s = CommandStatus t" using on_fields(4) [OF assms(2)] .
  obtain s1 where s1: "Endpoint_WaitUntilReady H s = Some (ENDPOINT_READYWAIT_NoError, s1)" "on v 3 w t s1"
    using bulk_wait_in [OF H assms(2)] by blast
  have m: "map (\<lambda>i. mem_of (CommandStatus t) (of_nat i)) [0..<0 + 13] = CommandStatus t"
    using assms(4) by (auto simp: mem_of_def unat_of_nat_small intro!: nth_equalityI)
  obtain s2 where "loop (RW_body H A (Endpoint_ClearIN H) move_LE (xfer_write H) (Some 0)) (of_nat 13, of_nat 0, 0, mem_of (CommandStatus t), s1) =
      Some (ENDPOINT_RWSTREAM_NoError, Some 0, mem_of (CommandStatus t), s2)" "on v 3 (w\<lparr>in_bank := CommandStatus t\<rparr>) t s2"
    using bulk_fill [OF H s1(2), of 13 A "Endpoint_ClearIN H" "Some 0" 0 0 "mem_of (CommandStatus t)"] assms(3) unfolding m by auto
  moreover from this s1 have "Endpoint_Write_Stream_LE H A (mem_of (CommandStatus s)) 13 (Some 0) s =
      Some (ENDPOINT_RWSTREAM_NoError, Some 0, mem_of (CommandStatus t), s2)"
    by (simp add: Endpoint_Write_Stream_LE_def Template_Endpoint_RW_def offset_LE_def move_LE_def ENDPOINT_READYWAIT_NoError_def st)
  ultimately show ?thesis
    unfolding write_CommandStatus_def by (intro exI [of _ s2] conjI loop_leave) (simp_all add: rwstream_codes)
qed

lemma bulk_unstalled:
  assumes H: "bulk_pipe H v" and "on v ep w t s" "\<not> stalled w ep"
  shows "\<exists>s'. wait_unstalled H A s = Some (True, s') \<and> on v ep w t s'"
proof -
  obtain s1 where "Endpoint_IsStalled H s = (False, s1)" "on v ep w t s1" using bulk_any(2) [OF H assms(2)] assms(3) by auto
  then show ?thesis unfolding wait_unstalled_def
    by (intro exI [of _ s1] conjI loop_leave) (simp_all add: bulk_irq [OF H])
qed

lemma bulk_return_status:
  assumes H: "bulk_pipe H v" and "on v ep w t s" "in_bank w = []" "length (CommandStatus t) = 13" "\<not> stalled w 3" "\<not> stalled w 4"
  shows "\<exists>s'. MS_Device_ReturnCommandStatus H A Disk_MS_Interface s = Some s' \<and>
    on v 3 (w\<lparr>in_sent := in_sent w @ [CommandStatus t]\<rparr>) t s'"
proof -
  have "on v 4 w t (Endpoint_SelectEndpoint H 4 s)" using bulk_select [OF H assms(2), of 4] by simp
  then obtain s1 where s1: "wait_unstalled H A (Endpoint_SelectEndpoint H 4 s) = Some (True, s1)" "on v 4 w t s1"
    using bulk_unstalled [OF H] assms(6) by blast
  have "on v 3 w t (Endpoint_SelectEndpoint H 0x83 s1)" using bulk_select [OF H s1(2), where a = "0x83"] by simp
  then obtain s2 where s2: "wait_unstalled H A (Endpoint_SelectEndpoint H 0x83 s1) = Some (True, s2)" "on v 3 w t s2"
    using bulk_unstalled [OF H] assms(5) by blast
  obtain s3 where s3: "write_CommandStatus H A s2 = Some (True, s3)" "on v 3 (w\<lparr>in_bank := CommandStatus t\<rparr>) t s3"
    using bulk_write_status [OF H s2(2) assms(3,4)] by blast
  have "w\<lparr>in_bank := [], in_sent := in_sent w @ [CommandStatus t]\<rparr> = w\<lparr>in_sent := in_sent w @ [CommandStatus t]\<rparr>"
    using assms(3) by simp
  with bulk_in(5) [OF H s3(2)] have "on v 3 (w\<lparr>in_sent := in_sent w @ [CommandStatus t]\<rparr>) t (Endpoint_ClearIN H s3)" by simp
  then show ?thesis by (simp add: MS_Device_ReturnCommandStatus_def Disk_MS_Interface_def s1 s2 s3)
qed

lemma set_length_fields [simp]:
  "cb_DataTransferLength (CommandBlock (set_DataTransferLength n s)) = n"
  "cb_Tag (CommandBlock (set_DataTransferLength n s)) = cb_Tag (CommandBlock s)"
  "disk (set_DataTransferLength n s) = disk s" "SenseData (set_DataTransferLength n s) = SenseData s"
  "CommandBlock (SCSI_SET_SENSE k a q s) = CommandBlock s" "disk (SCSI_SET_SENSE k a q s) = disk s"
  "SenseData (SCSI_SET_SENSE k a q s) = (SenseData s)[2 := (SenseData s ! 2 AND 0xF0) OR (k AND 0x0F), 12 := a, 13 := q]"
  "IsMassStoreReset (set_DataTransferLength n s) = IsMassStoreReset s" "IsMassStoreReset (SCSI_SET_SENSE k a q s) = IsMassStoreReset s"
  by (simp_all add: set_DataTransferLength_def SCSI_SET_SENSE_def cb_u32_def u32_of_le32)

lemma on_set:
  assumes "on v ep w t s"
  shows "on v ep w (set_DataTransferLength n t) (set_DataTransferLength n s)" "on v ep w (SCSI_SET_SENSE k a q t) (SCSI_SET_SENSE k a q s)"
  using on_update(2,3) [OF assms] on_fields [OF assms] by (simp_all add: set_DataTransferLength_def SCSI_SET_SENSE_def)

lemma bulk_run:
  assumes H: "bulk_pipe H v"
    and "SCSI_DecodeSCSICommand H A junk B T (if cb_Flags (CommandBlock s) AND MS_COMMAND_DIR_DATA_IN \<noteq> 0
           then Endpoint_SelectEndpoint H 0x83 s else s) = Some (ok, s2)"
    and "on v ep w t s2" "in_bank w = []" "\<not> stalled w 3" "\<not> stalled w 4" "ok \<or> cb_DataTransferLength (CommandBlock t) = 0"
  shows "\<exists>s' r. MS_run_command H A Disk_MS_Interface junk B T s = Some s' \<and>
    r = status (cb_Tag (CommandBlock t)) (cb_DataTransferLength (CommandBlock t)) (if ok then 0 else 1) \<and>
    on v 3 (w\<lparr>in_sent := in_sent w @ [r]\<rparr>) (t\<lparr>TicksSinceLastCommand := 0, CommandStatus := r\<rparr>) s'"
proof -
  let ?r = "status (cb_Tag (CommandBlock t)) (cb_DataTransferLength (CommandBlock t)) (if ok then 0 else 1)"
  have b: "CommandBlock s2 = CommandBlock t" by (rule on_fields(2) [OF assms(3)])
  have "on v ep w (t\<lparr>TicksSinceLastCommand := 0, CommandStatus := ?r\<rparr>) (s2\<lparr>TicksSinceLastCommand := 0, CommandStatus := ?r\<rparr>)"
    by (intro on_update assms(3))
  from bulk_return_status [OF H this assms(4) _ assms(5,6), of A]
  obtain s' where "MS_Device_ReturnCommandStatus H A Disk_MS_Interface (s2\<lparr>TicksSinceLastCommand := 0, CommandStatus := ?r\<rparr>) = Some s'"
    "on v 3 (w\<lparr>in_sent := in_sent w @ [?r]\<rparr>) (t\<lparr>TicksSinceLastCommand := 0, CommandStatus := ?r\<rparr>) s'"
    by (auto simp: status_def le32_def)
  then show ?thesis using assms(2,7)
    by (intro exI [of _ s'] exI [of _ ?r])
      (auto simp: MS_run_command_def CALLBACK_MS_Device_SCSICommandReceived_def Disk_MS_Interface_def Let_def b status_def)
qed

section \<open>Commands\<close>

text \<open>One call of the task that finds a command: if decoding it succeeds, the status goes out behind what the command has sent.\<close>

definition ready :: "('e ctl_scheme \<Rightarrow> bulk) \<Rightarrow> ('e, 'f) bootloader \<Rightarrow> bool" where
  "ready v s \<longleftrightarrow> USB_DeviceState s = DEVICE_STATE_Configured \<and> \<not> IsMassStoreReset s \<and>
     in_bank (v (ctl s)) = [] \<and> \<not> stalled (v (ctl s)) 3 \<and> \<not> stalled (v (ctl s)) 4"

lemma on_self: "on v (gregs (ctl s) UENUM) (v (ctl s)) s s"
  by (simp add: on_def)

text \<open>The command has left the endpoints as \<open>w\<close> and the variables as \<open>t\<close>, and its status has been sent.\<close>

definition answered :: "('e ctl_scheme \<Rightarrow> bulk) \<Rightarrow> bulk \<Rightarrow> ('e, 'f) bootloader \<Rightarrow> bool \<Rightarrow> ('e, 'f) bootloader \<Rightarrow> bool" where
  "answered v w t ok s \<longleftrightarrow>
     (let r = status (cb_Tag (CommandBlock t)) (cb_DataTransferLength (CommandBlock t)) (if ok then 0 else 1)
      in in_bank w = [] \<and> \<not> stalled w 3 \<and> \<not> stalled w 4 \<and> \<not> IsMassStoreReset t \<and>
        on v 3 (w\<lparr>in_sent := in_sent w @ [r]\<rparr>) (t\<lparr>TicksSinceLastCommand := 0, CommandStatus := r\<rparr>) s)"

lemma answered_state:
  assumes "answered v w t ok s"
  shows "v (ctl s) = w\<lparr>in_sent := in_sent w @ [status (cb_Tag (CommandBlock t)) (cb_DataTransferLength (CommandBlock t)) (if ok then 0 else 1)]\<rparr>"
    "disk s = disk t" "SenseData s = SenseData t" "RunBootloader s = RunBootloader t" "gregs (ctl s) UENUM = 3"
    "USB_DeviceState t = DEVICE_STATE_Configured \<Longrightarrow> ready v s"
  using assms on_fields [of v 3 _ _ s] by (auto simp: answered_def Let_def ready_def on_def)

lemma task_command:
  fixes s :: "('e, 'f) bootloader"
  assumes H: "bulk_pipe H v" and r: "ready v s" and rx: "out_rx (v (ctl s)) = command tag n flags cdb # q"
    and cdb: "cdb \<noteq> []" "length cdb \<le> 16" and flags: "flags AND 0x1F = 0"
    and decode: "\<And>m s1. on v (if flags AND 0x80 \<noteq> 0 then 3 else 4) ((v (ctl s))\<lparr>out_rx := q\<rparr>) (s\<lparr>CommandBlock := m\<rparr>) s1 \<Longrightarrow>
      \<forall>i < 15 + length cdb. m (of_nat i) = command tag n flags cdb ! i \<Longrightarrow>
      \<exists>s2 ep w t. SCSI_DecodeSCSICommand H A junk B T s1 = Some (ok, s2) \<and> on v ep w t s2 \<and> in_bank w = [] \<and> \<not> stalled w 3 \<and>
        \<not> stalled w 4 \<and> (ok \<or> cb_DataTransferLength (CommandBlock t) = 0) \<and> \<not> IsMassStoreReset t \<and> P w t"
  shows "\<exists>s' w t. MS_Device_USBTask H A Disk_MS_Interface junk B T s = Some s' \<and> P w t \<and> answered v w t ok s'"
proof -
  let ?w = "v (ctl s)"
  have "on v 4 ?w s (Endpoint_SelectEndpoint H 4 s)" using bulk_select [OF H on_self, of 4 s] by simp
  then obtain s1 where s1: "Endpoint_IsOUTReceived H (Endpoint_SelectEndpoint H 4 s) = (True, s1)" "on v 4 ?w s s1"
    using bulk_out(1) [OF H] rx by fastforce
  obtain s2 m where s2: "MS_Device_ReadInCommandBlock H A Disk_MS_Interface s1 = Some (True, s2)"
      "on v 4 (?w\<lparr>out_rx := q\<rparr>) (s\<lparr>CommandBlock := m\<rparr>) s2" "\<forall>i < 15 + length cdb. m (of_nat i) = command tag n flags cdb ! i"
    using read_in_command [OF H s1(2) rx cdb flags] by blast
  have "m 12 = flags" using s2(3) [rule_format, of 12] by (simp add: command_def le32_def)
  then have fl: "cb_Flags (CommandBlock s2) = flags" using on_fields(2) [OF s2(2)] by simp
  let ?s = "if cb_Flags (CommandBlock s2) AND MS_COMMAND_DIR_DATA_IN \<noteq> 0 then Endpoint_SelectEndpoint H 0x83 s2 else s2"
  have "on v (if flags AND 0x80 \<noteq> 0 then 3 else 4) (?w\<lparr>out_rx := q\<rparr>) (s\<lparr>CommandBlock := m\<rparr>) ?s"
    using s2(2) bulk_select [OF H s2(2), of "0x83"] by (simp add: fl)
  from decode [OF this s2(3)] obtain s3 ep w t where s3: "SCSI_DecodeSCSICommand H A junk B T ?s = Some (ok, s3)" "on v ep w t s3"
      "in_bank w = []" "\<not> stalled w 3" "\<not> stalled w 4" "ok \<or> cb_DataTransferLength (CommandBlock t) = 0" "\<not> IsMassStoreReset t" "P w t" by blast
  obtain s' r where s': "MS_run_command H A Disk_MS_Interface junk B T s2 = Some s'"
      "r = status (cb_Tag (CommandBlock t)) (cb_DataTransferLength (CommandBlock t)) (if ok then 0 else 1)"
      "on v 3 (w\<lparr>in_sent := in_sent w @ [r]\<rparr>) (t\<lparr>TicksSinceLastCommand := 0, CommandStatus := r\<rparr>) s'"
    using bulk_run [OF H s3(1-6)] by blast
  have "MS_Device_USBTask H A Disk_MS_Interface junk B T s = Some s'"
    using r s1 s2(1) s'(1) s3(7) on_fields(5) [OF s'(3)]
    by (simp add: MS_Device_USBTask_def Disk_MS_Interface_def [THEN arg_cong [where f = DataOUTEndpoint]] ready_def)
  moreover have "answered v w t ok s'" using s3(3-5,7) s'(3) unfolding answered_def s'(2) by (simp add: Let_def)
  ultimately show ?thesis using s3(8) by blast
qed

lemma cdb10_fields:
  assumes "\<forall>i < 25. m (of_nat i) = command tag n flags (cdb10 op lba k) ! i"
  shows "m 15 = op" "SwapEndian_32 False (cb_u32 m 17) = lba" "SwapEndian_16 False (u16_of (m 22) (m 23)) = k"
    "cb_Tag m = tag" "cb_DataTransferLength m = n"
proof -
  note b = assms [rule_format, unfolded command_def cdb10_def]
  have l: "le32 (SwapEndian_32 False lba) = rev (le32 lba)" "le16 (SwapEndian_16 False k) = rev (le16 k)" by (simp_all add: SwapEndian_roundtrip)
  show "m 15 = op" using b [of 15] by (simp add: le32_def le16_def)
  have "cb_u32 m 17 = SwapEndian_32 False lba"
    using b [of 17] b [of 18] b [of 19] b [of 20] by (intro cb_u32_le32) (simp_all add: l, simp_all add: le32_def le16_def)
  then show "SwapEndian_32 False (cb_u32 m 17) = lba" by (simp add: SwapEndian_roundtrip)
  have "m 22 = le16 (SwapEndian_16 False k) ! 0" "m 23 = le16 (SwapEndian_16 False k) ! 1"
    using b [of 22] b [of 23] by (simp_all add: l, simp_all add: le32_def le16_def)
  then have "u16_of (m 22) (m 23) = SwapEndian_16 False k" by (simp add: le16_def u16_of_le16)
  then show "SwapEndian_16 False (u16_of (m 22) (m 23)) = k" by (simp add: SwapEndian_roundtrip)
  show "cb_Tag m = tag" "cb_DataTransferLength m = n"
    using b [of 4] b [of 5] b [of 6] b [of 7] b [of 8] b [of 9] b [of 10] b [of 11]
    by (intro cb_u32_le32; simp add: le32_def)+
qed

lemma length_cdb10: "length (cdb10 op lba k) = 10" "cdb10 op lba k \<noteq> []"
  by (simp_all add: cdb10_def le32_def le16_def)

text \<open>
  C13: the host reads the disk.  When it sends a READ(10) command for \<open>k\<close> blocks, one call of the task executes
  it and returns: the contents of the blocks go out in order in full packets, followed by a status that carries the tag of the command
  and the number of bytes not transferred.  The disk is unchanged.  Of the 32 bits of the block address the low 16 count.
\<close>

theorem read_command_delivers:
  fixes s :: "('e, 'f) bootloader"
  assumes H: "bulk_pipe H v" and r: "ready v s" and e: "length (FirmwareFileEntries (disk s)) = 160"
    and rx: "out_rx (v (ctl s)) = command tag n 0x80 (cdb10 SCSI_CMD_READ_10 lba k) # q" and a: "unat (ucast lba :: u16) < LUN_MEDIA_BLOCKS T"
  shows "\<exists>s' ps. MS_Device_USBTask H A Disk_MS_Interface junk B T s = Some s' \<and> disk s' = disk s \<and>
    v (ctl s') = (v (ctl s))\<lparr>out_rx := q, in_sent := in_sent (v (ctl s)) @ ps @ [status tag (n - 512 * ucast k) 0]\<rparr> \<and>
    concat ps = concat (map (\<lambda>i. block_contents B T (ucast lba + of_nat i) (disk s)) [0..<unat k]) \<and> (\<forall>p \<in> set ps. length p = 64)"
proof -
  let ?w = "(v (ctl s))\<lparr>out_rx := q\<rparr>"
  let ?P = "\<lambda>w t. disk t = disk s \<and> cb_Tag (CommandBlock t) = tag \<and> cb_DataTransferLength (CommandBlock t) = n - 512 * ucast k \<and>
    (\<exists>ps. w = ?w\<lparr>in_sent := in_sent ?w @ ps\<rparr> \<and> (\<forall>p \<in> set ps. length p = 64) \<and>
      concat ps = concat (map (\<lambda>i. block_contents B T (ucast lba + of_nat i) (disk s)) [0..<unat k]))"
  have "\<exists>s' w t. MS_Device_USBTask H A Disk_MS_Interface junk B T s = Some s' \<and> ?P w t \<and> answered v w t True s'"
  proof (rule task_command [OF H r rx length_cdb10(2)], goal_cases)
    case (3 m s1)
    have o: "on v 3 ?w (s\<lparr>CommandBlock := m\<rparr>) s1" using 3(1) by simp
    have m: "\<forall>i < 25. m (of_nat i) = command tag n 0x80 (cdb10 SCSI_CMD_READ_10 lba k) ! i" using 3(2) by (simp add: length_cdb10)
    note f = cdb10_fields [OF m]
    have b: "CommandBlock s1 = m" using on_fields(2) [OF o] by simp
    obtain s2 ps where s2: "ReadWrite_10_loop H A junk B T True (ucast lba) 0 (unat k) s1 = Some s2"
        "on v 3 (?w\<lparr>in_sent := in_sent ?w @ ps\<rparr>) (s\<lparr>CommandBlock := m\<rparr>) s2" "\<forall>p \<in> set ps. length p = 64"
        "concat ps = concat (map (\<lambda>i. block_contents B T (ucast lba + of_nat i) (disk s)) [0..<unat k])"
      using blocks_read [OF H o, of A junk B T "ucast lba" 0 "unat k"] r e by (auto simp: ready_def)
    let ?t = "SCSI_SET_SENSE 0 0 0 (transferred (ucast k * 512) (s\<lparr>CommandBlock := m\<rparr>))"
    have b2: "CommandBlock s2 = m" using on_fields(2) [OF s2(2)] by simp
    have "SCSI_DecodeSCSICommand H A junk B T s1 = Some (True, SCSI_SET_SENSE 0 0 0 (transferred (ucast k * 512) s2))"
      using f a by (simp add: SCSI_DecodeSCSICommand_def SCSI_Command_ReadWrite_10_def b b2 s2(1) Let_def disk_sizes)
    moreover have "on v 3 (?w\<lparr>in_sent := in_sent ?w @ ps\<rparr>) ?t (SCSI_SET_SENSE 0 0 0 (transferred (ucast k * 512) s2))"
      unfolding b2 using on_set(2) [OF on_set(1) [OF s2(2)]] by simp
    ultimately show ?case using r s2(3,4) f(4,5)
      by (intro exI [of _ "SCSI_SET_SENSE 0 0 0 (transferred (ucast k * 512) s2)"] exI [of _ "3 :: u8"]
          exI [of _ "?w\<lparr>in_sent := in_sent ?w @ ps\<rparr>"] exI [of _ ?t]) (auto simp: ready_def mult.commute)
  qed (simp_all add: length_cdb10)
  then obtain s' w t where *: "MS_Device_USBTask H A Disk_MS_Interface junk B T s = Some s'" "?P w t" "answered v w t True s'" by blast
  then obtain ps where ps: "w = ?w\<lparr>in_sent := in_sent ?w @ ps\<rparr>" "\<forall>p \<in> set ps. length p = 64"
      "concat ps = concat (map (\<lambda>i. block_contents B T (ucast lba + of_nat i) (disk s)) [0..<unat k])" by blast
  have "v (ctl s') = (v (ctl s))\<lparr>out_rx := q, in_sent := in_sent (v (ctl s)) @ ps @ [status tag (n - 512 * ucast k) 0]\<rparr>"
    using answered_state(1) [OF *(3)] *(2) by (simp add: ps(1))
  with *(1,2) answered_state(2) [OF *(3)] ps(2,3) show ?thesis by auto
qed



subsection \<open>Refused commands\<close>




lemma command_nth: "i < length cdb \<Longrightarrow> command tag n flags cdb ! (15 + i) = cdb ! i"
  by (simp add: command_def le32_def nth_append)

lemma cdb_bytes:
  assumes "\<forall>i < 15 + length cdb. m (of_nat i) = command tag n flags cdb ! i" "6 \<le> length cdb"
  shows "m 15 = cdb ! 0" "m 16 = cdb ! 1" "m 17 = cdb ! 2" "m 18 = cdb ! 3" "m 19 = cdb ! 4" "m 20 = cdb ! 5"
    "cb_Tag m = tag" "cb_DataTransferLength m = n"
proof -
  have c: "m (of_nat (15 + i)) = cdb ! i" if "i < 6" for i using that assms by (simp only: command_nth)
  show "m 15 = cdb ! 0" "m 16 = cdb ! 1" "m 17 = cdb ! 2" "m 18 = cdb ! 3" "m 19 = cdb ! 4" "m 20 = cdb ! 5"
    using c [of 0] c [of 1] c [of 2] c [of 3] c [of 4] c [of 5] by simp_all
  note b = assms(1) [rule_format, unfolded command_def]
  show "cb_Tag m = tag" "cb_DataTransferLength m = n"
    using b [of 4] b [of 5] b [of 6] b [of 7] b [of 8] b [of 9] b [of 10] b [of 11]
    by (intro cb_u32_le32; simp add: le32_def)+
qed



text \<open>A REQUEST SENSE for all 18 bytes delivers the sense data.\<close>

abbreviation (input) "request_sense \<equiv> [SCSI_CMD_REQUEST_SENSE, 0, 0, 0, 18, 0]"



definition sense_bytes :: "u8 \<Rightarrow> u8 \<Rightarrow> u8 \<Rightarrow> u8 list" where
  "sense_bytes k a q = [0x70, 0, k, 0, 0, 0, 0, 0x0A, 0, 0, 0, 0, a, q, 0, 0, 0, 0]"



subsection \<open>Ejecting\<close>

abbreviation (input) "eject \<equiv> [SCSI_CMD_START_STOP_UNIT, 0, 0, 0, 2, 0]"

lemma eject_command:
  fixes s :: "('e, 'f) bootloader"
  assumes H: "bulk_pipe H v" and r: "ready v s" and rx: "out_rx (v (ctl s)) = command tag 0 0 eject # q"
  shows "\<exists>s'. MS_Device_USBTask H A Disk_MS_Interface junk B T s = Some s' \<and> ready v s' \<and> disk s' = disk s \<and> \<not> RunBootloader s' \<and>
    gregs (ctl s') UENUM = 3 \<and> v (ctl s') = (v (ctl s))\<lparr>out_rx := q, in_sent := in_sent (v (ctl s)) @ [status tag 0 0]\<rparr>"
proof -
  let ?w = "(v (ctl s))\<lparr>out_rx := q\<rparr>"
  let ?P = "\<lambda>w t. w = ?w \<and> disk t = disk s \<and> cb_Tag (CommandBlock t) = tag \<and> cb_DataTransferLength (CommandBlock t) = 0 \<and>
    \<not> RunBootloader t \<and> USB_DeviceState t = DEVICE_STATE_Configured"
  have "\<exists>s' w t. MS_Device_USBTask H A Disk_MS_Interface junk B T s = Some s' \<and> ?P w t \<and> answered v w t True s'"
  proof (rule task_command [OF H r rx], goal_cases)
    case (4 m s1)
    have o: "on v 4 ?w (s\<lparr>CommandBlock := m\<rparr>) s1" using 4(1) by simp
    have f: "m 15 = SCSI_CMD_START_STOP_UNIT" "m 19 = 2" "cb_Tag m = tag" using cdb_bytes [OF 4(2)] by simp_all
    have b: "CommandBlock s1 = m" using on_fields(2) [OF o] by simp
    let ?t = "SCSI_SET_SENSE 0 0 0 (set_DataTransferLength 0 (s\<lparr>CommandBlock := m, RunBootloader := False\<rparr>))"
    let ?s = "SCSI_SET_SENSE 0 0 0 (set_DataTransferLength 0 (s1\<lparr>RunBootloader := False\<rparr>))"
    have "SCSI_DecodeSCSICommand H A junk B T s1 = Some (True, ?s)" using f by (simp add: SCSI_DecodeSCSICommand_def b Let_def)
    moreover have "on v 4 ?w ?t ?s" by (intro on_set) (use on_update(6) [OF o] in simp)
    moreover have "USB_DeviceState ?t = USB_DeviceState s" "RunBootloader ?t = False"
      by (simp_all add: SCSI_SET_SENSE_def set_DataTransferLength_def)
    ultimately show ?case using r f
      by (intro exI [of _ ?s] exI [of _ "4 :: u8"] exI [of _ ?w] exI [of _ ?t]) (simp only: set_length_fields, simp add: ready_def)
  qed simp_all
  then obtain s' w t where *: "MS_Device_USBTask H A Disk_MS_Interface junk B T s = Some s'" "?P w t" "answered v w t True s'" by blast
  with answered_state [OF *(3)] show ?thesis by simp
qed

lemma idle_task:
  assumes H: "bulk_pipe H v" and r: "ready v s" and "out_rx (v (ctl s)) = []"
  shows "\<exists>s'. MS_Device_USBTask H A Disk_MS_Interface junk B T s = Some s' \<and> on v 4 (v (ctl s)) s s'"
proof -
  have "on v 4 (v (ctl s)) s (Endpoint_SelectEndpoint H 4 s)" using bulk_select [OF H on_self, of 4 s] by simp
  then obtain s1 where s1: "Endpoint_IsOUTReceived H (Endpoint_SelectEndpoint H 4 s) = (False, s1)" "on v 4 (v (ctl s)) s s1"
    using bulk_out(1) [OF H] assms(3) by fastforce
  then show ?thesis using r on_fields(5) [OF s1(2)]
    by (simp add: MS_Device_USBTask_def Disk_MS_Interface_def ready_def)
qed

lemma on_ready: "on v ep w t s \<Longrightarrow> ready v t \<Longrightarrow> v (ctl t) = w \<Longrightarrow> ready v s"
  using on_fields [of v ep w t s] by (auto simp: ready_def on_def)

text \<open>Once the disk is ejected and the host is silent the loop ends.\<close>

lemma bootloader_counts_down:
  assumes H: "bulk_pipe H v" and s: "ready v s" "\<not> RunBootloader s" "out_rx (v (ctl s)) = []"
  shows "\<exists>s'. bootloader_loop H A junk B T s = Some s' \<and> \<not> RunBootloader s' \<and> disk s' = disk s \<and> v (ctl s') = v (ctl s)"
  unfolding bootloader_loop_def
proof (rule loop_total [where I = "\<lambda>t. ready v t \<and> \<not> RunBootloader t \<and> disk t = disk s \<and> v (ctl t) = v (ctl s)"
      and m = "\<lambda>t. 255 - unat (TicksSinceLastCommand t)"], goal_cases)
  case (2 t)
  let ?t = "t\<lparr>TicksSinceLastCommand := TicksSinceLastCommand t + 1\<rparr>"
  show ?case
  proof (cases "TicksSinceLastCommand t < 0xFF")
    case True
    have r: "ready v ?t" using 2 by (auto simp: ready_def)
    obtain s1 where s1: "MS_Device_USBTask H A Disk_MS_Interface junk B T ?t = Some s1" "on v 4 (v (ctl s)) ?t s1"
      using idle_task [OF H r, of A junk B T] 2 s(3) by auto
    obtain s2 where s2: "USB_USBTask H A s1 = Some s2" "on v 4 (v (ctl s)) ?t s2" using bulk_task [OF H s1(2)] by blast
    have "unat (TicksSinceLastCommand t + 1) = Suc (unat (TicksSinceLastCommand t))"
      using True by (simp add: unat_word_ariths word_less_nat_alt)
    then have "255 - unat (TicksSinceLastCommand t + 1) < 255 - unat (TicksSinceLastCommand t)"
      using True by (simp add: word_less_nat_alt)
    moreover have "ready v s2" "v (ctl s2) = v (ctl s)" using on_ready [OF s2(2) r] s2(2) 2 by (simp_all add: on_def)
    ultimately show ?thesis using True 2 s1(1) s2(1) on_fields [OF s2(2)] by (simp add: bootloader_round_def bulk_irq [OF H] Let_def)
  next
    case False
    then show ?thesis using 2 by (simp add: bootloader_round_def Let_def)
  qed
qed (use s in simp)

lemma eject_loop:
  assumes H: "bulk_pipe H v" and s: "ready v s" "RunBootloader s" "out_rx (v (ctl s)) = [command tag 0 0 eject]"
  shows "\<exists>s'. bootloader_loop H A junk B T s = Some s' \<and> \<not> RunBootloader s' \<and> disk s' = disk s \<and>
    in_sent (v (ctl s')) = in_sent (v (ctl s)) @ [status tag 0 0]"
proof -
  let ?w = "(v (ctl s))\<lparr>out_rx := [], in_sent := in_sent (v (ctl s)) @ [status tag 0 0]\<rparr>"
  obtain s1 where s1: "MS_Device_USBTask H A Disk_MS_Interface junk B T s = Some s1" "ready v s1" "disk s1 = disk s" "\<not> RunBootloader s1"
      "gregs (ctl s1) UENUM = 3" "v (ctl s1) = ?w"
    using eject_command [OF H s(1,3)] by blast
  obtain s2 where s2: "USB_USBTask H A s1 = Some s2" "on v 3 ?w s1 s2"
    using bulk_task [OF H, of 3 ?w s1 s1] s1(5,6) by (auto simp: on_def)
  have f: "ready v s2" "\<not> RunBootloader s2" "disk s2 = disk s" "v (ctl s2) = ?w"
    using on_ready [OF s2(2) s1(2,6)] on_fields [OF s2(2)] s1 s2(2) by (simp_all add: on_def)
  have "bootloader_loop H A junk B T s = bootloader_loop H A junk B T s2"
    unfolding bootloader_loop_def using s(2) s1(1) s2(1) by (intro loop_continue) (simp add: bootloader_round_def bulk_irq [OF H] Let_def)
  with bootloader_counts_down [OF H f(1,2), of A junk B T] f show ?thesis by auto
qed

text \<open>
  C16: ejecting the disk ends the bootloader.  With an eject command in the OUT endpoint the main loop executes it, reports
  success, and returns once the host has been silent for long enough; the disk is unchanged.
\<close>

theorem eject_ends_bootloader:
  assumes H: "bulk_pipe H v" and s: "ready v s" "RunBootloader s" "out_rx (v (ctl s)) = [command tag 0 0 eject]"
  shows "\<exists>s'. bootloader_loop H A junk B T s = Some s' \<and> \<not> RunBootloader s' \<and> disk s' = disk s \<and>
    in_sent (v (ctl s')) = in_sent (v (ctl s)) @ [status tag 0 0]"
  using assms by (rule eject_loop)


subsection \<open>Invalid command blocks\<close>



section \<open>Runs of the bootloader\<close>

text \<open>The bootloader on the default target, configured, with the packets \<open>q\<close> waiting.\<close>

definition bl_with :: "u8 list list \<Rightarrow> (bulk, (nat \<Rightarrow> u8) \<times> (nat \<Rightarrow> u8) \<times> (u16 \<Rightarrow> u8)) bootloader" where
  "bl_with q =
     \<lparr>ctl = \<lparr>gregs = \<lambda>_. 0, eregs = \<lambda>_ _. 0, \<dots> = \<lparr>in_bank = [], in_sent = [], out_rx = q, stalled = \<lambda>_. False\<rparr>\<rparr>,
      USB_IsInitialized = True, USB_ControlRequest = \<lparr>bmRequestType = 0, bRequest = 0, wValue = 0, wIndex = 0, wLength = 0\<rparr>,
      USB_DeviceState = DEVICE_STATE_Configured, USB_Device_ConfigurationNumber = 1,
      USB_Device_CurrentlySelfPowered = False, USB_Device_RemoteWakeupEnabled = False,
      CommandBlock = (\<lambda>_. 0), CommandStatus = replicate 13 0, IsMassStoreReset = False, StateClears = 1, SenseData = SenseData_init,
      RunBootloader = True, TicksSinceLastCommand = 0, disk = fat_init at90usb1287 (\<lambda>x. of_nat x, \<lambda>_. 0xFF, \<lambda>_. 0)\<rparr>"

abbreviation (input) "bl_task \<equiv> MS_Device_USBTask bulk_hw (ms_app bulk_hw (\<lambda>_ _. (0, \<lambda>_. 0))) Disk_MS_Interface (\<lambda>_. 0) (mem_boot 8) at90usb1287"

lemma bl_with_ready: "ready ctl.more (bl_with q)" "out_rx (ctl.more (ctl (bl_with q))) = q" "in_sent (ctl.more (ctl (bl_with q))) = []"
  "length (FirmwareFileEntries (disk (bl_with q))) = 160" "RunBootloader (bl_with q)" "SenseData (bl_with q) = sense_bytes 0 0 0"
  by (simp_all add: bl_with_def ready_def length_entries SenseData_init_def sense_bytes_def)

lemma bl_with_disk: "disk (bl_with q) = disk (bl_with [])"
  by (simp add: bl_with_def)


lemma at90usb1287_blocks: "LUN_MEDIA_BLOCKS at90usb1287 = 280"
  by (simp add: LUN_MEDIA_BLOCKS_def FILE_SECTORS_def at90usb1287_sizes disk_sizes)

theorem read_command_delivers_witness:
  "\<exists>s' ps. bl_task (bl_with [command 9 512 0x80 (cdb10 0x28 4 1)]) = Some s' \<and>
     in_sent (ctl.more (ctl s')) = ps @ [status 9 0 0] \<and>
     concat ps = block_contents (mem_boot 8) at90usb1287 4 (disk (bl_with []))"
  using read_command_delivers [OF bulk_hw_pipe bl_with_ready(1,4), of "[command 9 512 0x80 (cdb10 0x28 4 1)]" 9 512 4 1 "[]"
      at90usb1287 "ms_app bulk_hw (\<lambda>_ _. (0, \<lambda>_. 0))" "\<lambda>_. 0" "mem_boot 8"]
  by (auto simp: bl_with_ready at90usb1287_blocks bl_with_disk [of "[_]"])



theorem eject_ends_bootloader_witness:
  "\<exists>s'. bootloader_loop bulk_hw (ms_app bulk_hw (\<lambda>_ _. (0, \<lambda>_. 0))) (\<lambda>_. 0) (mem_boot 8) at90usb1287 (bl_with [command 7 0 0 eject]) = Some s' \<and>
     \<not> RunBootloader s' \<and> in_sent (ctl.more (ctl s')) = [status 7 0 0]"
  using eject_ends_bootloader [OF bulk_hw_pipe bl_with_ready(1,5), of "[command 7 0 0 eject]" 7
      "ms_app bulk_hw (\<lambda>_ _. (0, \<lambda>_. 0))" "\<lambda>_. 0" "mem_boot 8" at90usb1287]
  by (auto simp: bl_with_ready)


end
