(* ===== verification/Bootloader_Safety.thy ===== *)
theory Bootloader_Safety
  imports Mass_Storage_Spec Joystick_Spec
begin

text \<open>
  What the mass storage bootloader keeps whatever the hardware and the host do: a contract for invariants of its main loop,
  in the style of the one for the firmware, and the protection of the boot section of the flash as an instance of it.
\<close>

section \<open>Invariants of the main loop\<close>

text \<open>
  The contract: an invariant of the device library that the class driver's own variables do not break, that survives a new
  sense code, and that storing any block keeps.
\<close>

locale bootloader_invariant = data_invariant H I
  for H :: "'e hw" and I :: "('e, 'f) bootloader \<Rightarrow> bool" +
  fixes desc :: "u16 \<Rightarrow> u16 \<Rightarrow> u16 \<times> mem" and B :: "'f boot" and T :: target
  assumes I_CommandBlock [simp]: "I s \<Longrightarrow> I (s\<lparr>CommandBlock := m\<rparr>)"
    and I_CommandStatus [simp]: "I s \<Longrightarrow> length bs = 13 \<Longrightarrow> I (s\<lparr>CommandStatus := bs\<rparr>)"
    and I_IsMassStoreReset [simp]: "I s \<Longrightarrow> I (s\<lparr>IsMassStoreReset := b\<rparr>)"
    and I_StateClears [simp]: "I s \<Longrightarrow> I (s\<lparr>StateClears := n\<rparr>)"
    and I_RunBootloader [simp]: "I s \<Longrightarrow> I (s\<lparr>RunBootloader := b\<rparr>)"
    and I_TicksSinceLastCommand [simp]: "I s \<Longrightarrow> I (s\<lparr>TicksSinceLastCommand := k\<rparr>)"
    and I_SET_SENSE [simp]: "I s \<Longrightarrow> I (SCSI_SET_SENSE key code qual s)"
    and I_same_disk [simp]: "I s \<Longrightarrow> I t \<Longrightarrow> I (t\<lparr>disk := disk s\<rparr>)"
    and I_store_block: "I s \<Longrightarrow> length data = 512 \<Longrightarrow> I (s\<lparr>disk := store_block B T a data (disk s)\<rparr>)"
begin

abbreviation (input) "A \<equiv> ms_app H desc"

lemma I_MS_ConfigureEndpoints: "I s \<Longrightarrow> returns (MS_Device_ConfigureEndpoints H C s) (\<lambda>r. I (snd r))"
  by (auto simp: MS_Device_ConfigureEndpoints_def Let_def
      intro!: returns_bind [where Q = "\<lambda>r. I (snd r)"] I_ConfigureEndpoint)

lemma I_MS_ProcessControlRequest: "I s \<Longrightarrow> returns (MS_Device_ProcessControlRequest H C s) I"
  by (auto simp: MS_Device_ProcessControlRequest_def Let_def pair_simps
      intro!: returns_bind [where Q = I] I_ClearStatusStage I_wait_irq)

end

sublocale bootloader_invariant \<subseteq> app_invariant H I "ms_app H desc"
  by unfold_locales (simp_all add: ms_app_def I_MS_ProcessControlRequest I_MS_ConfigureEndpoints)

context bootloader_invariant
begin

lemma I_Skip_body:
  assumes "\<And>t. I t \<Longrightarrow> I (clear t)" "\<And>t. I t \<Longrightarrow> I (xfer t)" "I s"
  shows "returns (Skip_body H clear xfer bp (n, k, s)) (\<lambda>x. case x of Inl (n, k, s') \<Rightarrow> I s' | Inr r \<Rightarrow> I (snd (snd r)))"
  using assms
  by (auto simp: Skip_body_def pair_simps split: option.split
      intro!: returns_bind [where Q = "\<lambda>r. I (snd r)"] I_WaitUntilReady)

lemma I_Skip:
  assumes "\<And>t. I t \<Longrightarrow> I (clear t)" "\<And>t. I t \<Longrightarrow> I (xfer t)" "I s"
  shows "returns (Skip_Stream H clear xfer n bp s) (\<lambda>r. I (snd (snd r)))"
proof -
  have "returns (loop (Skip_body H clear xfer bp) (n', k, s')) (\<lambda>r. I (snd (snd r)))" if "I s'" for n' k s'
  proof (rule loop_inv [where I = "\<lambda>(n, k, s). I s"])
    fix x :: "u16 \<times> u16 \<times> ('e, 'f) bootloader" assume "case x of (n, k, s) \<Rightarrow> I s"
    then show "returns (Skip_body H clear xfer bp x) (\<lambda>x. case x of Inl (n, k, s') \<Rightarrow> I s' | Inr r \<Rightarrow> I (snd (snd r)))"
      by (cases x) (simp add: I_Skip_body assms(1,2))
  qed (simp add: that)
  with assms(3) show ?thesis
    by (auto simp: Skip_Stream_def intro!: returns_bind [where Q = "\<lambda>r. I (snd r)"] I_WaitUntilReady)
qed

lemma I_Null_Stream: "I s \<Longrightarrow> returns (Endpoint_Null_Stream H n bp s) (\<lambda>r. I (snd (snd r)))"
  by (simp add: Endpoint_Null_Stream_def I_Skip)

lemma I_wide_writes [simp]:
  "I s \<Longrightarrow> I (Endpoint_Write_32_BE H w s)" "I s \<Longrightarrow> I (Endpoint_Write_32_LE H w s)"
  by (simp_all add: Endpoint_Write_32_BE_def Endpoint_Write_32_LE_def)

lemma I_set_length [simp]: "I s \<Longrightarrow> I (set_DataTransferLength n s)"
  by (simp add: set_DataTransferLength_def)

lemma I_ReadBlock:
  "I s \<Longrightarrow> returns (VirtualFAT_ReadBlock H A B T b (disk s) s) (\<lambda>(d, t). I (t\<lparr>disk := d\<rparr>))"
  by (auto simp: VirtualFAT_ReadBlock_def intro!: returns_bind [OF I_Streams(1)])

lemma I_store: "I s \<Longrightarrow> I t \<Longrightarrow> length data = 512 \<Longrightarrow> I (t\<lparr>disk := store_block B T b data (disk s)\<rparr>)"
  using I_store_block [of "t\<lparr>disk := disk s\<rparr>" data b] by simp

lemma I_WriteBlock:
  "I s \<Longrightarrow> returns (VirtualFAT_WriteBlock H A junk B T b (disk s) s) (\<lambda>(d, t). I (t\<lparr>disk := d\<rparr>))"
  by (auto simp: VirtualFAT_WriteBlock_def disk_sizes intro!: returns_bind [OF I_Streams(2)] I_store)

lemma I_ReadWrite_10_loop: "I s \<Longrightarrow> returns (ReadWrite_10_loop H A junk B T r a i n s) I"
  by (induction n arbitrary: i s)
    (auto intro!: returns_bind [where Q = "\<lambda>(d, t). I (t\<lparr>disk := d\<rparr>)"] I_ReadBlock I_WriteBlock)

lemma I_commands:
  assumes "I s"
  shows "returns (SCSI_Command_Inquiry H A s) (\<lambda>r. I (snd r))" "returns (SCSI_Command_Request_Sense H A s) (\<lambda>r. I (snd r))"
    "returns (SCSI_Command_Read_Capacity_10 H T s) (\<lambda>r. I (snd r))" "returns (SCSI_Command_ModeSense_6 H s) (\<lambda>r. I (snd r))"
    "returns (SCSI_Command_ReadWrite_10 H A junk B T IsDataRead s) (\<lambda>r. I (snd r))"
  using assms
  by (auto simp: SCSI_Command_Inquiry_def SCSI_Command_Request_Sense_def SCSI_Command_Read_Capacity_10_def
      SCSI_Command_ModeSense_6_def SCSI_Command_ReadWrite_10_def Let_def
      intro!: returns_bind [OF I_Streams(1)] returns_bind [OF I_Null_Stream] returns_bind [OF I_ReadWrite_10_loop])

lemma I_Decode: "I s \<Longrightarrow> returns (SCSI_DecodeSCSICommand H A junk B T s) (\<lambda>r. I (snd r))"
  unfolding SCSI_DecodeSCSICommand_def Let_def
  by (rule returns_bind [where Q = "\<lambda>r. I (snd r)"]) (auto simp: I_commands)

lemma I_Callback: "I s \<Longrightarrow> returns (CALLBACK_MS_Device_SCSICommandReceived H A junk B T s) (\<lambda>r. I (snd r))"
  by (auto simp: CALLBACK_MS_Device_SCSICommandReceived_def intro!: returns_bind [OF I_Decode])

lemma I_read_CommandBlock: "I s \<Longrightarrow> returns (read_CommandBlock H A ofs n s) (\<lambda>r. I (snd r))"
  unfolding read_CommandBlock_def
  by (rule loop_inv [where I = "\<lambda>(n, s). I s"]) (auto simp: Let_def intro!: returns_bind [OF I_Streams(2)])

lemma I_write_CommandStatus: "I s \<Longrightarrow> returns (write_CommandStatus H A s) (\<lambda>r. I (snd r))"
  unfolding write_CommandStatus_def
  by (rule loop_inv [where I = "\<lambda>(n, s). I s"]) (auto intro!: returns_bind [OF I_Streams(1)])

lemma I_wait_unstalled: "I s \<Longrightarrow> returns (wait_unstalled H A s) (\<lambda>r. I (snd r))"
  unfolding wait_unstalled_def
  by (rule loop_inv [where I = I]) (auto simp: pair_simps intro!: returns_bind [where Q = I] I_irq_poll I_USBTask)

lemma I_ReadInCommandBlock: "I s \<Longrightarrow> returns (MS_Device_ReadInCommandBlock H A C s) (\<lambda>r. I (snd r))"
  by (auto simp: MS_Device_ReadInCommandBlock_def Let_def intro!: returns_bind [OF I_read_CommandBlock])

lemma I_ReturnCommandStatus: "I s \<Longrightarrow> returns (MS_Device_ReturnCommandStatus H A C s) I"
  by (auto simp: MS_Device_ReturnCommandStatus_def
      intro!: returns_bind [OF I_wait_unstalled] returns_bind [OF I_write_CommandStatus])

lemma I_run_command: "I s \<Longrightarrow> returns (MS_run_command H A C junk B T s) I"
  by (auto simp: MS_run_command_def Let_def le32_def intro!: returns_bind [OF I_Callback] I_ReturnCommandStatus)

lemma I_MS_USBTask: "I s \<Longrightarrow> returns (MS_Device_USBTask H A C junk B T s) I"
  by (auto simp: MS_Device_USBTask_def MS_reset_endpoints_def Let_def pair_simps
      intro!: returns_bind [where Q = I] returns_bind [OF I_ReadInCommandBlock] I_run_command)

lemma I_bootloader_round: "I s \<Longrightarrow> returns (bootloader_round H A junk B T s) (\<lambda>x. case x of Inl t \<Rightarrow> I t | Inr t \<Rightarrow> I t)"
  by (auto simp: bootloader_round_def Let_def intro!: returns_bind [where Q = I] I_irq_poll I_MS_USBTask I_USBTask)

end

section \<open>The boot section\<close>

text \<open>The sectors of a file: whatever start cluster the host has written into the directory, no other sector is addressed.\<close>

lemma file_range_bound:
  assumes "file_range c sz b = Some n" "0 < FILE_SECTORS sz" "FILE_SECTORS sz < 65536"
  shows "unat n < FILE_SECTORS sz"
proof -
  define st where "st = (DISK_BLOCK_DataStartBlock + (c - 2) * of_nat SECTOR_PER_CLUSTER :: u16)"
  define l where "l = (of_nat (FILE_SECTORS sz) - 1 :: u16)"
  have l: "unat l = FILE_SECTORS sz - 1"
  proof -
    have "l = of_nat (FILE_SECTORS sz - 1)" using assms(2) by (simp add: l_def of_nat_diff)
    then show ?thesis using assms(3) by (simp add: unat_of_nat_small)
  qed
  have b: "st \<le> b" "b \<le> st + l" and n: "n = b - st"
    using assms(1) by (auto simp: file_range_def Let_def st_def l_def split: if_splits)
  have "unat (st + l) \<le> unat st + unat l" by (simp add: unat_word_ariths)
  then have "unat n \<le> unat l" using b by (simp add: n unat_sub word_le_nat_alt)
  with l assms(2) show ?thesis by simp
qed

text \<open>The EEPROM is a memory of its own: writing it changes neither the flash nor the page buffer.\<close>

definition eeprom_apart :: "'f boot \<Rightarrow> ('f \<Rightarrow> nat \<Rightarrow> u8) \<Rightarrow> ('f \<Rightarrow> nat \<Rightarrow> u8) \<Rightarrow> bool" where
  "eeprom_apart B flash buf \<longleftrightarrow>
     (\<forall>a v m. flash (eeprom_update_byte B a v m) = flash m \<and> buf (eeprom_update_byte B a v m) = buf m)"

lemma eeprom_apart_mem: "eeprom_apart (mem_boot k) fst (\<lambda>s. fst (snd s))"
  by (simp add: eeprom_apart_def mem_boot_def case_prod_beta')

lemma eeprom_write_apart:
  assumes "eeprom_apart B flash buf"
  shows "flash (eeprom_write_loop B bs a m) = flash m" "buf (eeprom_write_loop B bs a m) = buf m"
  using assms by (induction bs arbitrary: a m) (simp_all add: WriteEEPROMByte_def eeprom_apart_def)

text \<open>The part of a target's layout that protects the boot section: whole sectors, and pages that divide a sector.\<close>

definition boot_target :: "target \<Rightarrow> nat \<Rightarrow> bool" where
  "boot_target T k \<longleftrightarrow> target_ok T \<and> 1 \<le> k \<and> k \<le> 9 \<and> SPM_PAGESIZE T = 2 ^ k \<and> FLASH_FILE_SIZE_BYTES T mod 512 = 0"

text \<open>The state of the disk: the page buffer is empty between two blocks and the boot section is still \<open>g\<close>.\<close>

definition disk_ok :: "('f \<Rightarrow> nat \<Rightarrow> u8) \<Rightarrow> ('f \<Rightarrow> nat \<Rightarrow> u8) \<Rightarrow> target \<Rightarrow> (nat \<Rightarrow> u8) \<Rightarrow> 'f fat \<Rightarrow> bool" where
  "disk_ok flash buf T g d \<longleftrightarrow> length (FirmwareFileEntries d) = 160 \<and> buf (fat_mem d) = (\<lambda>_. 0xFF) \<and>
     (\<forall>x \<ge> FLASH_FILE_SIZE_BYTES T. flash (fat_mem d) x = g x)"

lemma flash_block_ok:
  assumes f: "spm_flash B k flash buf" and T: "boot_target T k" and d: "length data = 512" "disk_ok flash buf T g d"
    and n: "file_range c (FLASH_FILE_SIZE_BYTES T) b = Some n"
  shows "disk_ok flash buf T g (d\<lparr>fat_mem := flash_write_loop B T data (flash_address T n) (fat_mem d)\<rparr>)"
proof -
  have t: "target_ok T" "FLASH_FILE_SIZE_BYTES T = 512 * FILE_SECTORS (FLASH_FILE_SIZE_BYTES T)"
    using T by (auto simp: boot_target_def FILE_SECTORS_def disk_sizes)
  have q: "unat n < FILE_SECTORS (FLASH_FILE_SIZE_BYTES T)"
    by (rule file_range_bound [OF n]) (use target_sectors [OF t(1)] in simp_all)
  have "buf (fat_mem d) = (\<lambda>_. 0xFF)" using d(2) by (simp add: disk_ok_def)
  from flash_write_block [OF f _ _ _ t(1) q d(1) this] T t(2) q d(2) show ?thesis
    by (auto simp: boot_target_def disk_ok_def)
qed

lemma store_block_ok:
  assumes "spm_flash B k flash buf" "eeprom_apart B flash buf" "boot_target T k" "length data = 512" "disk_ok flash buf T g d"
  shows "disk_ok flash buf T g (store_block B T b data d)"
  using flash_block_ok [OF assms(1,3,4,5)] assms(4,5)
  by (auto simp: store_block_def ReadWriteFLASHFileBlock_def ReadWriteEEPROMFileBlock_def Let_def
      disk_ok_def eeprom_write_apart [OF assms(2)] split: option.split)

text \<open>The invariant.\<close>

definition bl_ok :: "('f \<Rightarrow> nat \<Rightarrow> u8) \<Rightarrow> ('f \<Rightarrow> nat \<Rightarrow> u8) \<Rightarrow> target \<Rightarrow> (nat \<Rightarrow> u8) \<Rightarrow> ('e, 'f) bootloader \<Rightarrow> bool" where
  "bl_ok flash buf T g s \<longleftrightarrow> device_ok s \<and> disk_ok flash buf T g (disk s) \<and> length (SenseData s) = 18 \<and> length (CommandStatus s) = 13"

lemma access_bootloader:
  "disk (snd (rd H r s)) = disk s" "disk (wr H r v s) = disk s" "disk (snd (erd H q s)) = disk s" "disk (ewr H q v s) = disk s"
  "SenseData (snd (rd H r s)) = SenseData s" "SenseData (wr H r v s) = SenseData s"
  "SenseData (snd (erd H q s)) = SenseData s" "SenseData (ewr H q v s) = SenseData s"
  "CommandStatus (snd (rd H r s)) = CommandStatus s" "CommandStatus (wr H r v s) = CommandStatus s"
  "CommandStatus (snd (erd H q s)) = CommandStatus s" "CommandStatus (ewr H q v s) = CommandStatus s"
  by (simp_all add: reg_access_defs Let_def)

text \<open>The memories as documented, and a target with that layout.\<close>

definition boot_memory :: "'f boot \<Rightarrow> nat \<Rightarrow> ('f \<Rightarrow> nat \<Rightarrow> u8) \<Rightarrow> ('f \<Rightarrow> nat \<Rightarrow> u8) \<Rightarrow> target \<Rightarrow> bool" where
  "boot_memory B k flash buf T \<longleftrightarrow> spm_flash B k flash buf \<and> eeprom_apart B flash buf \<and> boot_target T k"

interpretation bl: bootloader_invariant H "\<lambda>s. boot_memory B k flash buf T \<longrightarrow> bl_ok flash buf T g s" desc B T
  for H :: "'e hw" and B :: "'f boot" and k flash buf T g desc
  by unfold_locales
    (auto simp: bl_ok_def device_ok_def access_fields access_bootloader set_I_def SCSI_SET_SENSE_def
      FIXED_NUM_CONFIGURATIONS_def boot_memory_def intro: store_block_ok)

text \<open>The states at the head of the main loop.\<close>

inductive bootloader_reaches ::
  "'e hw \<Rightarrow> ('e, 'f) bl_app \<Rightarrow> 'f boot \<Rightarrow> target \<Rightarrow> ('e, 'f) bootloader \<Rightarrow> ('e, 'f) bootloader \<Rightarrow> bool" for H A B T s0 where
  start: "bootloader_reaches H A B T s0 s0"
| round: "bootloader_reaches H A B T s0 s \<Longrightarrow> bootloader_round H A junk B T s = Some (Inl s') \<Longrightarrow> bootloader_reaches H A B T s0 s'"

text \<open>
  C12: the host cannot overwrite the bootloader.  Whatever the hardware does, whatever commands, blocks and directory entries
  the host sends and whatever the stack holds, in every state that the main loop reaches the flash from the end of the
  \<open>FLASH.BIN\<close> file on is what it was at the start, the page buffer is empty, and the buffers of the driver
  and the device state keep their shape.
\<close>

theorem boot_section_safe:
  assumes "boot_memory B k flash buf T" and "bl_ok flash buf T (flash (fat_mem (disk s0))) s0"
    and "bootloader_reaches H (ms_app H desc) B T s0 s"
  shows "(\<forall>x \<ge> FLASH_FILE_SIZE_BYTES T. flash (fat_mem (disk s)) x = flash (fat_mem (disk s0)) x) \<and>
    bl_ok flash buf T (flash (fat_mem (disk s0))) s"
proof -
  have "bl_ok flash buf T (flash (fat_mem (disk s0))) s"
    using assms(3)
  proof induction
    case (round s junk s')
    with assms(1) show ?case
      using returnsD [OF bl.I_bootloader_round [of B k flash buf T "flash (fat_mem (disk s0))" s H desc junk] round.hyps(2)] by simp
  qed (rule assms(2))
  then show ?thesis by (simp add: bl_ok_def disk_ok_def)
qed

text \<open>Witness: a round of the main loop with an eject command on the default target.\<close>

lemma eject_round:
  assumes H: "bulk_pipe H v" and s: "ready v s" "RunBootloader s" "out_rx (v (ctl s)) = [command tag 0 0 eject]"
  shows "\<exists>s'. bootloader_round H A junk B T s = Some (Inl s') \<and> \<not> RunBootloader s'"
proof -
  obtain s1 w where s1: "MS_Device_USBTask H A Disk_MS_Interface junk B T s = Some s1" "\<not> RunBootloader s1"
      "gregs (ctl s1) UENUM = 3" "v (ctl s1) = w"
    using eject_command [OF H s(1,3)] by blast
  obtain s2 where s2: "USB_USBTask H A s1 = Some s2" "on v 3 w s1 s2"
    using bulk_task [OF H, of 3 w s1 s1] s1(3,4) by (auto simp: on_def)
  then show ?thesis using s(2) s1(1,2) on_fields [OF s2(2)] by (simp add: bootloader_round_def bulk_irq [OF H] Let_def)
qed

lemma bl_with_ok:
  "boot_memory (mem_boot 8) 8 fst (\<lambda>s. fst (snd s)) at90usb1287"
  "bl_ok fst (\<lambda>s. fst (snd s)) at90usb1287 (fst (fat_mem (disk (bl_with q)))) (bl_with q)"
  by (simp_all add: boot_memory_def spm_flash_mem eeprom_apart_mem boot_target_def at90usb1287_sizes bl_ok_def disk_ok_def
      bl_with_ready, simp_all add: bl_with_def device_ok_def sense_bytes_def FIXED_NUM_CONFIGURATIONS_def SenseData_init_def device_states)

theorem boot_section_safe_witness:
  "\<exists>s. bootloader_reaches bulk_hw (ms_app bulk_hw (\<lambda>_ _. (0, \<lambda>_. 0))) (mem_boot 8) at90usb1287 (bl_with [command 7 0 0 eject]) s \<and>
     \<not> RunBootloader s \<and> fst (fat_mem (disk s)) 0x1E000 = of_nat 0x1E000"
proof -
  let ?A = "ms_app bulk_hw (\<lambda>_ _. (0, \<lambda>_. 0))" and ?s0 = "bl_with [command 7 0 0 eject]"
  obtain s where s: "bootloader_round bulk_hw ?A (\<lambda>_. 0) (mem_boot 8) at90usb1287 ?s0 = Some (Inl s)" "\<not> RunBootloader s"
    using eject_round [OF bulk_hw_pipe bl_with_ready(1,5,2)] by blast
  note r = bootloader_reaches.round [OF bootloader_reaches.start s(1)]
  have "fst (fat_mem (disk s)) 0x1E000 = fst (fat_mem (disk ?s0)) 0x1E000"
    using boot_section_safe [OF bl_with_ok r] by (simp add: at90usb1287_sizes)
  then show ?thesis using r s(2) by (auto simp: bl_with_def)
qed

end
