(* ===== verification/Spec2Isabelle.thy ===== *)
theory Spec2Isabelle
  imports EasyCon Interrupt_Spec Report_Spec Byte_Order Ring_Buffer HID_Parser_Spec Intel_Hex Bootloader_Safety
begin

text \<open>
  \<^bold>\<open>Verification of PGCon: controller firmware, USB library, host program, bootloaders.\<close>

  PGCon drives a Nintendo Switch from a PC.  The host program (\<open>src/main/java/com/duanxr/pgcon\<close>) keeps
  buttons and sticks held for a time (\<open>output/ControllerService.java\<close>) and sends what changes over a serial
  line, either as one-byte commands to the PGCon board (\<open>output/impl/pgcon\<close>) or as packets to an EasyCon board
  (\<open>output/impl/easycon\<close>).  The firmware of the PGCon board, an ATmega32U4 (\<open>firmware/Joystick.c\<close>,
  \<open>firmware/Descriptors.c\<close>), executes the commands on a virtual controller and presents it to the console as a
  USB HID joystick, on top of the LUFA library (\<open>firmware/lufa/LUFA\<close>), which also holds a parser for HID report
  descriptors, one for configuration descriptors and a ring buffer; beside it stand bootloaders
  (\<open>firmware/lufa/Bootloaders\<close>) that put a program into the flash.

  \<^bold>\<open>Correspondence.\<close>  Definitions keep the names of the C functions, macros, structure fields, and of the Java
  methods.  C integers are machine words of their width, so arithmetic wraps where it does in C.  Fallible or
  possibly endless code returns an option.

  \<^item> \<open>PGCon_Prelude\<close>: integer types, single bits, little-endian encodings, the \<open>loop\<close> combinator.
  \<^item> \<open>Avr_Hw\<close>: registers, the hardware parameter, the library's global variables, \<open>USB_Request_Header_t\<close>.
  \<^item> \<open>Usb_Controller\<close>: \<open>USBInterrupt_AVR8.h\<close>, \<open>USBController_AVR8.h\<close>, \<open>Device_AVR8.h\<close>.
  \<^item> \<open>Usb_Device\<close>: \<open>USBController_AVR8.c\<close> (initialisation, reset), \<open>USBInterrupt_AVR8.c\<close> (\<open>USB_GEN_vect\<close>),
    and the two wait loops of \<open>Endpoint_AVR8.c\<close>.
  \<^item> \<open>Endpoint\<close>: \<open>Endpoint_AVR8.h\<close> and \<open>Endpoint_AVR8.c\<close>.
  \<^item> \<open>Control_Stream\<close> and \<open>Endpoint_Stream\<close>: the stream templates under \<open>Core/AVR8/Template\<close> and their
    instances in \<open>EndpointStream_AVR8.c\<close>.
  \<^item> \<open>Device_Std_Req\<close>: \<open>DeviceStandardReq.c\<close>, the internal serial number, \<open>USBTask.c\<close>.
  \<^item> \<open>Serial\<close>: the USART driver \<open>Serial_AVR8.h\<close>, \<open>Serial_AVR8.c\<close>.
  \<^item> \<open>Descriptors\<close> and \<open>Joystick\<close>: the files of the same names under \<open>firmware\<close>; \<open>main_reaches\<close> is the main loop
    as a step relation.
  \<^item> \<open>Byte_Order\<close>, \<open>Ring_Buffer\<close>, \<open>Config_Descriptors\<close>, \<open>HID_Parser\<close>: \<open>Common/Endianness.h\<close>,
    \<open>Drivers/Misc/RingBuffer.h\<close>, \<open>Core/ConfigDescriptors.c\<close>, \<open>Class/Common/HIDParser.c\<close> with the item macros
    of \<open>HIDReportData.h\<close>.
  \<^item> \<open>Host_Protocol\<close>: the button and stick enumerations under \<open>output/action\<close> and \<open>PGConProtocol.java\<close>.
  \<^item> \<open>Controller_Service\<close>: \<open>ControllerService.java\<close> over an arbitrary protocol; \<open>service_reaches\<close> runs its
    methods, connections and passes of the release thread in any order.
  \<^item> \<open>EasyCon\<close>: \<open>EasyConProtocolV140.java\<close> (\<open>V147\<close> differs in the baud rate only) and the framing of
    \<open>EasyConSerialPort.java\<close>.
  \<^item> \<open>Boot_Flash\<close>, \<open>Intel_Hex\<close>, \<open>Virtual_FAT\<close>: \<open>MassStorage/BootloaderAPI.c\<close>, the HEX parser of
    \<open>Printer/BootloaderPrinter.c\<close>, \<open>MassStorage/Lib/VirtualFAT.c\<close> and \<open>VirtualFAT.h\<close>.
  \<^item> \<open>Mass_Storage\<close>: the rest of the mass storage bootloader, that is the device-side class driver
    \<open>Class/Device/MassStorageClassDevice.c\<close>, the SCSI commands (\<open>MassStorage/Lib/SCSI.c\<close>), and callback, events and main loop
    of \<open>BootloaderMassStorage.c\<close>; \<open>bootloader_reaches\<close> is the main loop as a step relation.

  \<^bold>\<open>Parameters.\<close>  The hardware is the parameter \<open>H :: 'e hw\<close>: what it does before a register is read and after
  one is written, and when it requests an interrupt, over a register file with hidden state of any type.  What a
  property relies on is a named predicate on \<open>H\<close> that states documented behaviour of a peripheral:
  \<open>plain\<close> and \<open>plain_config\<close> (registers that only store), \<open>usart\<close>, \<open>setup_pipe\<close>, \<open>report_pipe\<close>, \<open>bulk_pipe\<close> (the
  two bulk endpoints of a disk, in \<open>Bulk_Pipe\<close>) and the host of a control transfer in \<open>Control_Stream_Spec\<close>.  Each is shown to hold of a concrete hardware (\<open>memory_hw\<close>,
  \<open>usart_hw\<close>, \<open>fifo_hw\<close>, \<open>host_hw\<close>, \<open>console_hw\<close>, \<open>bulk_hw\<close>), on which the witnesses run.  In the same way the
  self-programming functions of avr-libc are the record \<open>'f boot\<close> with the predicates \<open>spm_flash\<close> and \<open>eeprom_apart\<close> and the
  instance \<open>mem_boot\<close>; the descriptors of the mass storage bootloader are the parameter \<open>desc\<close> of its application record; the protocol of the controller service is the record \<open>'p Protocol\<close>.

  \<^bold>\<open>Interrupts.\<close>  Code is sequential.  A pending USB interrupt is taken at the head of every iteration of a polling
  loop and between the calls of the main loop; straight-line code between these points runs without interruption.
  The properties about \<open>USB_GEN_vect\<close> say what an interrupt may change at any point.  Methods of the controller service are
  atomic, as \<open>synchronized\<close> makes them; \<open>clear\<close> is not synchronized in the source and is atomic in the model.

  \<^bold>\<open>Termination.\<close>  Loops with a counter are recursive functions.  Loops that wait for the hardware are
  \<open>loop\<close>, a partial function whose value \<open>None\<close> means that it does not return; there is no fuel.  That they return is part
  of the properties (\<open>returns\<close>, or an existential), from a measure that the predicates on the hardware supply, such as a
  bound on how long a peripheral stays busy; \<open>loop_diverges\<close> shows the opposite.

  \<^bold>\<open>What the lemmas show.\<close>

  \<^item> Locales \<open>reg_invariant\<close>, \<open>dev_invariant\<close>, \<open>data_invariant\<close>, \<open>app_invariant\<close>, \<open>joystick_invariant\<close>, each
    extending the one before: a predicate that survives the register writes and variable updates of a layer survives every
    operation of that layer, interrupts included.  Their interpretations give \<open>firmware_invariant\<close> for every hardware.
  \<^item> \<open>Joystick_Spec\<close>, \<open>Command_Channel\<close>, \<open>Report_Spec\<close>, and this theory: the interpreter refines an abstract controller, all
    received bytes are executed in order, and the report sent shows the result.
  \<^item> \<open>Control_Stream_Spec\<close>, \<open>Request_Spec\<close>, \<open>Firmware_Requests\<close>, \<open>Interrupt_Spec\<close>: control transfers deliver
    the requested bytes, refused requests stall, address and configuration requests, allowed state changes of an interrupt.
  \<^item> \<open>Host_Protocol\<close>, \<open>Controller_Service\<close>, \<open>EasyCon\<close>: the command tables agree with the firmware, except for
    the vertical axis of the right stick; locales \<open>button_protocol\<close> and \<open>stick_protocol\<close> state what the service needs of
    a protocol, and both protocols provide it, so the receiver shows what the service remembers.
  \<^item> \<open>Ring_Buffer\<close> (locale \<open>bounded_queue\<close>), \<open>Config_Descriptors\<close>, \<open>HID_Parser_Spec\<close>: the queue contract, the searches
    and the report parser on all inputs, and on the firmware's own descriptors.
  \<^item> \<open>Bulk_Pipe\<close>, \<open>Mass_Storage_Spec\<close>: what one call of the mass storage task does with a command in the OUT endpoint. Reads
    deliver the blocks of the virtual disk and writes store them, so they compose with the results on the disk; a refused
    command is explained by its sense data, an invalid wrapper stalls, an eject ends the main loop.
  \<^item> \<open>Bootloader_Safety\<close> (locale \<open>bootloader_invariant\<close>, which gives \<open>app_invariant\<close> for the bootloader): for every hardware and
    every host the bootloader leaves its own section of the flash alone.
  \<^item> \<open>Intel_Hex\<close>, \<open>Virtual_FAT_Spec\<close>: a HEX file ends up in the flash; a host that follows the FAT12 structures reads the
    memories; a written block is in the flash.  Sizes are constrained by hypotheses that the supported
    devices meet, with an AT90USB1287 as the instance.

  Some theorems describe defects: \<open>host_right_stick_moves_left\<close>, \<open>push_overlaps\<close>, \<open>zero_size_hangs\<close>,
  \<open>hex_file_overwrites_bootloader\<close>, and parts of \<open>SetConfiguration_correct\<close>, \<open>hex_file_programmed\<close>,
  \<open>JoystickReport_parsed\<close> and \<open>read_command_delivers\<close>.

  \<^bold>\<open>Not modelled.\<close>  USB host mode, pipes, the XMEGA and UC3 ports and the other class drivers are not compiled into
  these programs.  Other board and peripheral drivers, the demos, projects and build tests are not used by them.  Of the
  bootloaders, the CDC, DFU and HID ones are separate programs that PGCon does not use.  Of the mass storage bootloader, the jump
  to the application, the hardware set-up and the watchdog reset leave the C program, and the LEDs are only written; its
  control endpoint is polled in the model, as in the firmware, where its own configuration serves it by an interrupt.
  Of the printer bootloader only the HEX parser is modelled: its task hands every received byte to it.  The stdio adapters
  of the USART store function pointers in C library objects.  On the host, image recognition, video input, user
  interface, notification, class loading of scripts and serial port input and output rest on external libraries; a
  script is covered as an arbitrary sequence of calls of the controller service.  The direction helper of EasyCon
  that computes with floating point is left out.  Timing (delays, baud rate accuracy) is not modelled.
\<close>

section \<open>From the serial line to the console\<close>

text \<open>
  C1: the commands reach the console.  With a USART and a console that behave as documented and
  do not interfere with each other, \<open>receiveCommand\<close> and \<open>HID_Task\<close> in the order of
  the main loop return, and the report that goes out shows the controller after all the
  command bytes that had arrived.
\<close>

theorem commands_reach_console:
  assumes "usart H rx tx busy" "report_pipe H bank sent"
    and "\<And>p c. p \<in> {G UCSR1A, G UDR1} \<Longrightarrow> bank (pre_rd H p c) = bank c \<and> sent (pre_rd H p c) = sent c"
    and "\<And>c. bank (post_wr H (G UDR1) c) = bank c \<and> sent (post_wr H (G UDR1) c) = sent c"
    and "bank (ctl s) = []" "USB_DeviceState s = DEVICE_STATE_Configured"
  shows "\<exists>s1 s2. receiveCommand H s = Some s1 \<and> HID_Task H s1 = Some s2 \<and>
    sent (ctl s2) = sent (ctl s) @ [bytes_Virtual_Controller (vp_bytes (rx (ctl s)) (virtual_controller s))]"
proof -
  let ?J = "\<lambda>t. bank (ctl t) = [] \<and> sent (ctl t) = sent (ctl s) \<and> USB_DeviceState t = DEVICE_STATE_Configured"
  obtain s1 where s1: "receiveCommand H s = Some s1" "virtual_controller s1 = vp_bytes (rx (ctl s)) (virtual_controller s)"
    using usart_receiveCommand [OF assms(1)] by blast
  have "returns (receiveCommand H s) ?J"
    by (rule receiveCommand_frame)
      (use assms in \<open>auto simp: report_pipe_def rd_def wr_def Let_def\<close>)
  with s1 have "?J s1" by (simp add: returnsD)
  then obtain s2 where "HID_Task H s1 = Some s2"
    "sent (ctl s2) = sent (ctl s1) @ [bytes_Virtual_Controller (virtual_controller s1)]"
    using report_task [OF assms(2)] by blast
  with s1 \<open>?J s1\<close> show ?thesis by auto
qed

theorem commands_reach_console_witness:
  "\<exists>s1 s2. receiveCommand console_hw
      ((firmware_with \<lparr>gregs = \<lambda>_. 0, eregs = \<lambda>_ _. 0, \<dots> = ([49, 1, 38], [], [], [])\<rparr> zero_vp)
        \<lparr>USB_DeviceState := DEVICE_STATE_Configured\<rparr>) = Some s1 \<and> HID_Task console_hw s1 = Some s2 \<and>
    console_sent (ctl s2) = [[4, 0, 8, 255, 128, 128, 128, 0]]"
  using commands_reach_console [OF console_hw_usart console_hw_report_pipe console_hw_serial,
      of "(firmware_with \<lparr>gregs = \<lambda>_. 0, eregs = \<lambda>_ _. 0, \<dots> = ([49, 1, 38], [], [], [])\<rparr> zero_vp)
        \<lparr>USB_DeviceState := DEVICE_STATE_Configured\<rparr>"]
  by (auto simp: firmware_with_def zero_vp_def vp_bytes_def vp_byte_def pad_command_def
      action_of_def command_table_def reset_vp_def hat_stick_defs switch_defs bytes_Virtual_Controller_def le16_def bv_eval)

end
